(* ===== verification/Base.thy ===== *)
theory Base
  imports Complex_Main "HOL-Library.Char_ord" "HOL-Library.List_Lexorder"
begin

text \<open>
  Prelude of the development: the values every component shares.

  \<^item> errors: the NestJS exceptions the services throw, with their message (accents removed,
    since the theories are ASCII), and the result type \<open>http_error + 'a\<close>;
  \<^item> the JavaScript string operations the code uses (\<open>trim\<close>, \<open>toLowerCase\<close>, \<open>split\<close>,
    \<open>padStart\<close>, \<open>slice\<close>) on ASCII text, and reading and printing of decimal numbers;
  \<^item> \<open>Math.round\<close> on exact rationals;
  \<^item> database tables: a list of rows in insertion order and the next value of the id sequence,
    with the Prisma operations the services call (\<open>findFirst\<close>, \<open>count\<close>, \<open>updateMany\<close>,
    \<open>deleteMany\<close>, \<open>create\<close>), and the locale \<open>row_table\<close> with the laws a table obeys.
\<close>

named_theorems table_simps "rewriting of the table operations"
named_theorems access_simps "unfolding of the access checks"

section \<open>Errors\<close>

datatype http_error =
    BadRequest string
  | Unauthorized string
  | Forbidden string
  | NotFound string
  | Conflict string
  | TooManyRequests string
  | ServiceUnavailable string
  | PlainError string

type_synonym 'a result = "http_error + 'a"

definition bindE :: "'e + 'a \<Rightarrow> ('a \<Rightarrow> 'e + 'b) \<Rightarrow> 'e + 'b" where
  "bindE r f = (case r of Inl e \<Rightarrow> Inl e | Inr x \<Rightarrow> f x)"

definition throwIf :: "bool \<Rightarrow> 'e \<Rightarrow> 'e + unit" where
  "throwIf b e = (if b then Inl e else Inr ())"

lemma bindE_Inl [simp]: "bindE (Inl e) f = Inl e"
  by (simp add: bindE_def)

lemma bindE_Inr [simp]: "bindE (Inr x) f = f x"
  by (simp add: bindE_def)

lemma throwIf_False [simp]: "throwIf False e = Inr ()"
  by (simp add: throwIf_def)

lemma throwIf_True [simp]: "throwIf True e = Inl e"
  by (simp add: throwIf_def)

lemma bindE_eq_Inr: "bindE r f = Inr y \<longleftrightarrow> (\<exists>x. r = Inr x \<and> f x = Inr y)"
  by (cases r) auto

lemma bindE_eq_Inl: "bindE r f = Inl e \<longleftrightarrow> r = Inl e \<or> (\<exists>x. r = Inr x \<and> f x = Inl e)"
  by (cases r) auto

lemma throwIf_eq_Inr [simp]: "throwIf b e = Inr u \<longleftrightarrow> \<not> b"
  by (simp add: throwIf_def)

lemma throwIf_eq_Inl [simp]: "throwIf b e = Inl e' \<longleftrightarrow> b \<and> e' = e"
  by (auto simp: throwIf_def)

lemma bindE_throwIf: "bindE (throwIf b e) f = (if b then Inl e else f ())"
  by (simp add: throwIf_def)

definition is_ok :: "'e + 'a \<Rightarrow> bool" where
  "is_ok r = (case r of Inl _ \<Rightarrow> False | Inr _ \<Rightarrow> True)"

lemma is_okE: "is_ok r \<Longrightarrow> (\<And>x. r = Inr x \<Longrightarrow> P) \<Longrightarrow> P"
  by (cases r) (simp_all add: is_ok_def)

lemma is_ok_unit: "is_ok r \<longleftrightarrow> r = Inr ()"
  by (cases r) (simp_all add: is_ok_def)

section \<open>Strings\<close>

definition is_digit :: "char \<Rightarrow> bool" where
  "is_digit c \<longleftrightarrow> 48 \<le> (of_char c :: nat) \<and> (of_char c :: nat) \<le> 57"

definition digit_val :: "char \<Rightarrow> int" where
  "digit_val c = int (of_char c) - 48"

definition is_letter :: "char \<Rightarrow> bool" where
  "is_letter c \<longleftrightarrow> (65 \<le> (of_char c :: nat) \<and> (of_char c :: nat) \<le> 90)
     \<or> (97 \<le> (of_char c :: nat) \<and> (of_char c :: nat) \<le> 122)"

text \<open>The white space that \<open>trim\<close> and the regular expression class \<open>\s\<close> recognise.\<close>

definition is_space :: "char \<Rightarrow> bool" where
  "is_space c \<longleftrightarrow> (of_char c :: nat) \<in> {9, 10, 11, 12, 13, 32, 160}"

definition js_trim :: "string \<Rightarrow> string" where
  "js_trim s = rev (dropWhile is_space (rev (dropWhile is_space s)))"

definition char_lower :: "char \<Rightarrow> char" where
  "char_lower c = (if 65 \<le> (of_char c :: nat) \<and> (of_char c :: nat) \<le> 90
     then char_of ((of_char c :: nat) + 32) else c)"

definition char_upper :: "char \<Rightarrow> char" where
  "char_upper c = (if 97 \<le> (of_char c :: nat) \<and> (of_char c :: nat) \<le> 122
     then char_of ((of_char c :: nat) - 32) else c)"

definition js_lower :: "string \<Rightarrow> string" where
  "js_lower s = map char_lower s"

definition js_upper :: "string \<Rightarrow> string" where
  "js_upper s = map char_upper s"

text \<open>\<open>s.split(c)\<close> for a one-character separator.\<close>

fun js_split :: "char \<Rightarrow> string \<Rightarrow> string list" where
  "js_split sep [] = [[]]"
| "js_split sep (c # cs) =
     (if c = sep then [] # js_split sep cs
      else (case js_split sep cs of [] \<Rightarrow> [[c]] | w # ws \<Rightarrow> (c # w) # ws))"

text \<open>
  \<open>Number(s)\<close> on digit strings: the decimal value; the empty string is 0, and anything
  else is \<open>None\<close> (NaN). The other numeric literals of JavaScript (sign, fraction, exponent,
  hexadecimal) never reach the code modelled here: dates and times are checked by a pattern
  of digits before they are stored.
\<close>

definition js_number :: "string \<Rightarrow> int option" where
  "js_number s = (if list_all is_digit s
     then Some (foldl (\<lambda>n c. 10 * n + digit_val c) 0 s) else None)"

lemma zero_char: "CHR ''0'' = char_of (48 :: nat)"
  by (simp add: char_of_def bit_iff_odd)

definition digit_char :: "nat \<Rightarrow> char" where
  "digit_char d = char_of (48 + d)"

fun show_nat :: "nat \<Rightarrow> string" where
  "show_nat n = (if n < 10 then [digit_char n] else show_nat (n div 10) @ [digit_char (n mod 10)])"

declare show_nat.simps [simp del]

definition show_int :: "int \<Rightarrow> string" where
  "show_int i = (if i < 0 then CHR ''-'' # show_nat (nat (- i)) else show_nat (nat i))"

text \<open>\<open>s.padStart(n, '0')\<close>\<close>

definition pad_start :: "nat \<Rightarrow> string \<Rightarrow> string" where
  "pad_start n s = replicate (n - length s) (CHR ''0'') @ s"

lemma digit_char_facts:
  assumes "d < 10"
  shows "is_digit (digit_char d)" and "digit_val (digit_char d) = int d"
  using assms by (simp_all add: is_digit_def digit_val_def digit_char_def)

lemma js_split_nonempty: "js_split sep s \<noteq> []"
  by (induction s) (auto split: list.splits)

lemma js_split_no_sep: "sep \<notin> set s \<Longrightarrow> js_split sep s = [s]"
  by (induction s) auto

lemma js_split_sep: "sep \<notin> set a \<Longrightarrow> js_split sep (a @ sep # b) = a # js_split sep b"
  by (induction a) auto

lemma digits_no_sep: "list_all is_digit s \<Longrightarrow> \<not> is_digit sep \<Longrightarrow> sep \<notin> set s"
  by (auto simp: list_all_iff)

lemma show_nat_digits: "list_all is_digit (show_nat n)"
proof (induction n rule: show_nat.induct)
  case (1 n)
  then show ?case
    by (subst show_nat.simps) (auto simp: digit_char_facts)
qed

lemma show_nat_nonempty: "show_nat n \<noteq> []"
  by (subst show_nat.simps) simp

definition digits_value :: "int \<Rightarrow> string \<Rightarrow> int" where
  "digits_value n s = foldl (\<lambda>n c. 10 * n + digit_val c) n s"

lemma digits_value_simps [simp]:
  "digits_value n [] = n"
  "digits_value n (c # s) = digits_value (10 * n + digit_val c) s"
  "digits_value n (s @ t) = digits_value (digits_value n s) t"
  by (simp_all add: digits_value_def)

lemma js_number_alt: "js_number s = (if list_all is_digit s then Some (digits_value 0 s) else None)"
  by (simp add: js_number_def digits_value_def)

lemma digits_value_show: "digits_value 0 (show_nat n) = int n"
proof (induction n rule: show_nat.induct)
  case (1 n)
  show ?case
  proof (cases "n < 10")
    case True
    then show ?thesis by (subst show_nat.simps) (simp add: digit_char_facts)
  next
    case False
    with 1 have "digits_value 0 (show_nat n) = 10 * int (n div 10) + int (n mod 10)"
      by (subst show_nat.simps) (simp add: digit_char_facts)
    then show ?thesis by presburger
  qed
qed

lemma digits_value_zeros: "digits_value 0 (replicate k (CHR ''0'')) = 0"
  by (induction k) (simp_all add: digit_val_def)

lemma js_number_show [simp]: "js_number (show_nat n) = Some (int n)"
  by (simp add: js_number_alt show_nat_digits digits_value_show)

lemma pad_start_digits: "list_all is_digit s \<Longrightarrow> list_all is_digit (pad_start n s)"
  by (auto simp: pad_start_def list_all_iff is_digit_def)

lemma js_number_pad [simp]: "js_number (pad_start k (show_nat n)) = Some (int n)"
proof -
  have "digits_value 0 (pad_start k (show_nat n)) = int n"
    by (simp add: pad_start_def digits_value_zeros digits_value_show)
  then show ?thesis
    by (simp add: js_number_alt pad_start_digits show_nat_digits)
qed

lemma show_nat_two: "n < 100 \<Longrightarrow> pad_start 2 (show_nat n) = [digit_char (n div 10), digit_char (n mod 10)]"
  by (cases "n < 10") (auto simp: show_nat.simps [of n] show_nat.simps [of "n div 10"]
      pad_start_def digit_char_def numeral_2_eq_2 zero_char)

section \<open>Rounding\<close>

text \<open>
  \<open>Math.round\<close> rounds half up. Money is an exact rational in the model: the rounding of
  binary doubles below the last printed digit is not represented.
\<close>

definition js_round :: "rat \<Rightarrow> int" where
  "js_round x = \<lfloor>x + 1 / 2\<rfloor>"

lemma js_round_of_int [simp]: "js_round (of_int n) = n"
  unfolding js_round_def by (rule floor_unique) simp_all

lemma js_round_mono: "x \<le> y \<Longrightarrow> js_round x \<le> js_round y"
  unfolding js_round_def by (rule floor_mono) simp

lemma js_round_error: "\<bar>of_int (js_round x) - x\<bar> \<le> 1 / 2"
  unfolding js_round_def by linarith

section \<open>Database tables\<close>

text \<open>
  A table holds its rows in insertion order and the next value of its id sequence, which is
  never reused. \<open>mk\<close> builds the row from the id the database gives it.
\<close>

record 'r table =
  rows :: "'r list"
  seq :: int

definition empty_table :: "'r table" where
  "empty_table = \<lparr>rows = [], seq = 1\<rparr>"

definition find_first :: "('r \<Rightarrow> bool) \<Rightarrow> 'r table \<Rightarrow> 'r option" where
  "find_first p t = find p (rows t)"

definition find_many :: "('r \<Rightarrow> bool) \<Rightarrow> 'r table \<Rightarrow> 'r list" where
  "find_many p t = filter p (rows t)"

definition count_where :: "('r \<Rightarrow> bool) \<Rightarrow> 'r table \<Rightarrow> int" where
  "count_where p t = int (length (filter p (rows t)))"

definition update_many :: "('r \<Rightarrow> bool) \<Rightarrow> ('r \<Rightarrow> 'r) \<Rightarrow> 'r table \<Rightarrow> 'r table" where
  "update_many p f t = t\<lparr>rows := map (\<lambda>r. if p r then f r else r) (rows t)\<rparr>"

definition delete_many :: "('r \<Rightarrow> bool) \<Rightarrow> 'r table \<Rightarrow> 'r table" where
  "delete_many p t = t\<lparr>rows := filter (\<lambda>r. \<not> p r) (rows t)\<rparr>"

definition create_row :: "(int \<Rightarrow> 'r) \<Rightarrow> 'r table \<Rightarrow> 'r table" where
  "create_row mk t = t\<lparr>rows := rows t @ [mk (seq t)], seq := seq t + 1\<rparr>"

lemma find_first_Some: "find_first p t = Some r \<Longrightarrow> r \<in> set (rows t) \<and> p r"
  by (auto simp: find_first_def find_Some_iff)

lemma find_first_None: "find_first p t = None \<longleftrightarrow> (\<forall>r \<in> set (rows t). \<not> p r)"
  by (auto simp: find_first_def find_None_iff)

lemma find_many_set [simp]: "set (find_many p t) = {r \<in> set (rows t). p r}"
  by (auto simp: find_many_def)

lemma rows_simps [table_simps, simp]:
  "rows empty_table = []"
  "rows (update_many p f t) = map (\<lambda>r. if p r then f r else r) (rows t)"
  "rows (delete_many p t) = filter (\<lambda>r. \<not> p r) (rows t)"
  "rows (create_row mk t) = rows t @ [mk (seq t)]"
  by (simp_all add: empty_table_def update_many_def delete_many_def create_row_def)

lemma seq_simps [table_simps, simp]:
  "seq empty_table = 1"
  "seq (update_many p f t) = seq t"
  "seq (delete_many p t) = seq t"
  "seq (create_row mk t) = seq t + 1"
  by (simp_all add: empty_table_def update_many_def delete_many_def create_row_def)

lemma count_where_nonneg: "0 \<le> count_where p t"
  by (simp add: count_where_def)

lemma count_where_zero: "count_where p t = 0 \<longleftrightarrow> (\<forall>r \<in> set (rows t). \<not> p r)"
  by (auto simp: count_where_def filter_empty_conv)

lemma count_where_sum: "count_where p t = sum_list (map (\<lambda>r. if p r then 1 else 0) (rows t))"
proof -
  have "int (length (filter p xs)) = sum_list (map (\<lambda>r. if p r then 1 else 0) xs)" for xs by (induction xs) simp_all
  then show ?thesis by (simp add: count_where_def)
qed

definition table_ok :: "('r \<Rightarrow> int) \<Rightarrow> 'r table \<Rightarrow> bool" where
  "table_ok key t \<longleftrightarrow> distinct (map key (rows t)) \<and> (\<forall>r \<in> set (rows t). key r < seq t)"

lemma table_ok_keys:
  assumes "table_ok key t" and "map key (rows t') = map key (rows t)" and "seq t' = seq t"
  shows "table_ok key t'"
proof -
  have "key ` set (rows t') = key ` set (rows t)" using assms(2) by (metis list.set_map)
  then have "\<exists>s \<in> set (rows t). key s = key r" if "r \<in> set (rows t')" for r using that by (metis imageE imageI)
  with assms show ?thesis unfolding table_ok_def by metis
qed

text \<open>
  The interface of a table with a serial primary key. \<open>key\<close> reads the key of a row and
  \<open>ok\<close> is the integrity constraint of the database: keys are unique and below the sequence.
\<close>

locale row_table =
  fixes key :: "'r \<Rightarrow> int"
    and ok :: "'r table \<Rightarrow> bool"
  assumes ok_def: "ok t \<longleftrightarrow> distinct (map key (rows t)) \<and> (\<forall>r \<in> set (rows t). key r < seq t)"
begin

lemma ok_empty: "ok empty_table"
  by (simp add: ok_def)

lemma ok_create:
  assumes "ok t" and "key (mk (seq t)) = seq t"
  shows "ok (create_row mk t)"
  using assms by (auto simp: ok_def)

lemma ok_update:
  assumes "ok t" and "\<And>r. r \<in> set (rows t) \<Longrightarrow> p r \<Longrightarrow> key (f r) = key r"
  shows "ok (update_many p f t)"
proof -
  have "map key (rows (update_many p f t)) = map key (rows t)"
    using assms(2) by auto
  moreover have "\<forall>k \<in> set (map key (rows t)). k < seq t"
    using assms(1) by (auto simp: ok_def)
  ultimately show ?thesis
    using assms(1) unfolding ok_def seq_simps by (metis (no_types, lifting) imageI set_map)
qed

lemma ok_delete: "ok t \<Longrightarrow> ok (delete_many p t)"
  by (auto simp: ok_def distinct_map inj_on_def)

lemma key_inj: "ok t \<Longrightarrow> r \<in> set (rows t) \<Longrightarrow> s \<in> set (rows t) \<Longrightarrow> key r = key s \<Longrightarrow> r = s"
  by (auto simp: ok_def distinct_map inj_on_def)

lemma find_by_key:
  assumes "ok t" and "r \<in> set (rows t)"
  shows "find_first (\<lambda>x. key x = key r) t = Some r"
proof (cases "find_first (\<lambda>x. key x = key r) t")
  case None
  with assms(2) show ?thesis by (auto simp: find_first_None)
next
  case (Some s)
  with find_first_Some [OF Some] key_inj [OF assms(1)] assms(2) show ?thesis by auto
qed

lemma count_by_key_le: "ok t \<Longrightarrow> count_where (\<lambda>x. key x = k \<and> p x) t \<le> 1"
proof -
  assume "ok t"
  then have "distinct (map key (rows t))" by (simp add: ok_def)
  moreover have "distinct (map key xs) \<Longrightarrow> length (filter (\<lambda>x. key x = k \<and> p x) xs) \<le> 1" for xs
    by (induction xs) (auto simp: filter_empty_conv image_iff)
  ultimately have "length (filter (\<lambda>x. key x = k \<and> p x) (rows t)) \<le> 1" by blast
  then show ?thesis by (simp add: count_where_def)
qed

lemma sum_update_one:
  fixes g :: "'r \<Rightarrow> 'n::ab_group_add"
  assumes "ok t" and "u \<in> set (rows t)"
  shows "sum_list (map g (rows (update_many (\<lambda>r. key r = key u) f t))) = sum_list (map g (rows t)) - g u + g (f u)"
proof -
  have dist: "distinct (map key (rows t))" using assms(1) by (simp add: ok_def)
  have same: "sum_list (map (\<lambda>r. g (if key r = key u then f r else r)) xs) = sum_list (map g xs)" if "key u \<notin> key ` set xs" for xs
    using that by (induction xs) auto
  have "sum_list (map g (map (\<lambda>r. if key r = key u then f r else r) xs)) = sum_list (map g xs) - g u + g (f u)"
    if "u \<in> set xs" "distinct (map key xs)" for xs
    using that
  proof (induction xs)
    case (Cons x xs)
    then show ?case using same [of xs] by (cases "x = u") (auto simp: algebra_simps o_def)
  qed simp
  with dist assms(2) show ?thesis by simp
qed

lemma count_update_one:
  assumes "ok t" and "u \<in> set (rows t)"
  shows "count_where p (update_many (\<lambda>r. key r = key u) f t)
    = count_where p t - (if p u then 1 else 0) + (if p (f u) then 1 else 0)"
  using sum_update_one [OF assms, of "\<lambda>r. if p r then (1 :: int) else 0" f] by (simp add: count_where_sum)

end

section \<open>Evaluation\<close>

text \<open>Evaluation of the bodies only once what they bind is a value.\<close>

lemma case_prod_let [code_unfold]: "case_prod f p = (let q = p in f (fst q) (snd q))"
  by (simp add: case_prod_beta)

lemma map_option_case [code_unfold]: "map_option f r = (case r of None \<Rightarrow> None | Some x \<Rightarrow> Some (f x))"
  by (cases r) simp_all

lemma bindE_case [code_unfold]: "bindE r f = (case r of Inl e \<Rightarrow> Inl e | Inr x \<Rightarrow> f x)"
  by (cases r) simp_all

lemma bind_case [code_unfold]: "Option.bind r f = (case r of None \<Rightarrow> None | Some x \<Rightarrow> f x)"
  by (cases r) simp_all

end
