(* ===== verification/Civil_Time.thy ===== *)
theory Civil_Time
  imports Base
begin

text \<open>
  Calendar days and time zones: \<open>src/common/timezone.util.ts\<close>.

  Instants are milliseconds since 1970 (\<open>Date.getTime()\<close>). The first section models what the
  code uses of the JavaScript \<open>Date\<close> (\<open>Date.UTC\<close>, \<open>getUTCDay\<close>, \<open>toISOString\<close>), following
  ECMAScript's \<open>DayFromYear\<close>, \<open>YearFromTime\<close> and \<open>MakeDay\<close>. The second section models the
  functions of the file on date strings "YYYY-MM-DD". The last one relates them to day
  numbers: the other theories compute with the number of the day (days since 1970-01-01), and the
  lemmas there show that every string function agrees with arithmetic on day numbers.

  The time-zone database is not in the sources: it is the parameter \<open>intl\<close>, with
  \<open>zoneKnown\<close> (does \<open>Intl.DateTimeFormat\<close> accept the name) and \<open>zoneOffset\<close> (local time minus
  UTC at an instant, in milliseconds).
\<close>

section \<open>JavaScript dates\<close>

abbreviation day_ms :: int where
  "day_ms \<equiv> 86400000"

definition day_from_year :: "int \<Rightarrow> int" where
  "day_from_year y = 365 * (y - 1970) + (y - 1969) div 4 - (y - 1901) div 100 + (y - 1601) div 400"

definition is_leap :: "int \<Rightarrow> bool" where
  "is_leap y \<longleftrightarrow> 4 dvd y \<and> (\<not> 100 dvd y \<or> 400 dvd y)"

definition year_from_day :: "int \<Rightarrow> int" where
  "year_from_day d = (let y = 400 * d div 146097 + 1970 in
     if d < day_from_year y then y - 1
     else if day_from_year (y + 1) \<le> d then y + 1 else y)"

text \<open>First day of each month within its year (January is 0).\<close>

definition month_starts :: "bool \<Rightarrow> int list" where
  "month_starts leap = (let l = (if leap then 1 else 0) in
     [0, 31, 59 + l, 90 + l, 120 + l, 151 + l, 181 + l, 212 + l, 243 + l, 273 + l, 304 + l, 334 + l])"

definition month_from_day :: "bool \<Rightarrow> int \<Rightarrow> nat" where
  "month_from_day leap n = length (filter (\<lambda>s. s \<le> n) (month_starts leap))"

text \<open>\<open>MakeDay\<close>: months and days out of range carry over.\<close>

definition make_day :: "int \<Rightarrow> int \<Rightarrow> int \<Rightarrow> int" where
  "make_day y m d = (let ym = y + (m - 1) div 12; mn = (m - 1) mod 12 in
     day_from_year ym + month_starts (is_leap ym) ! nat mn + d - 1)"

text \<open>\<open>Date.UTC\<close> reads the years 0 to 99 as 1900 to 1999.\<close>

definition utc_day :: "int \<Rightarrow> int \<Rightarrow> int \<Rightarrow> int" where
  "utc_day y m d = make_day (if 0 \<le> y \<and> y \<le> 99 then 1900 + y else y) m d"

definition civil_of_day :: "int \<Rightarrow> int \<times> int \<times> int" where
  "civil_of_day d = (let y = year_from_day d; n = d - day_from_year y;
       m = month_from_day (is_leap y) n in
     (y, int m, n - month_starts (is_leap y) ! (m - 1) + 1))"

definition week_day :: "int \<Rightarrow> int" where
  "week_day d = (d + 4) mod 7"

definition month_len :: "int \<Rightarrow> int \<Rightarrow> int" where
  "month_len y m = (if m = 2 then if is_leap y then 29 else 28
     else if m \<in> {4, 6, 9, 11} then 30 else 31)"

definition valid_civil :: "int \<Rightarrow> int \<Rightarrow> int \<Rightarrow> bool" where
  "valid_civil y m d \<longleftrightarrow> 1 \<le> m \<and> m \<le> 12 \<and> 1 \<le> d \<and> d \<le> month_len y m"

lemma div_succ:
  assumes "1 < (k :: int)"
  shows "(x + 1) div k = x div k + (if k dvd x + 1 then 1 else 0)"
proof -
  have m: "0 \<le> x mod k" "x mod k < k" using assms by simp_all
  have e: "(x + 1) div k = x div k + (x mod k + 1) div k"
    using assms by (simp add: div_add1_eq [of x 1 k])
  have dvd: "k dvd x + 1 \<longleftrightarrow> k dvd x mod k + 1"
    by (simp add: dvd_eq_mod_eq_0 mod_add_left_eq)
  show ?thesis
  proof (cases "x mod k + 1 = k")
    case True
    with assms show ?thesis by (simp add: e dvd)
  next
    case False
    with m have "x mod k + 1 < k" "0 < x mod k + 1" by linarith+
    then show ?thesis by (simp add: e dvd zdvd_not_zless)
  qed
qed

lemma div_bounds:
  assumes "0 < (k :: int)"
  obtains q where "x div k = q" "k * q \<le> x" "x < k * q + k"
proof
  show "x div k = x div k" ..
  show "k * (x div k) \<le> x" "x < k * (x div k) + k"
    using assms mult_div_mod_eq [of k x] pos_mod_sign [of k x] pos_mod_bound [of k x]
    by linarith+
qed

lemma year_length: "day_from_year (y + 1) = day_from_year y + (if is_leap y then 366 else 365)"
proof -
  have d: "(y + 1 - 1969) div 4 = (y - 1969) div 4 + (if 4 dvd y then 1 else 0)"
    using div_succ [of 4 "y - 1969"] dvd_add_right_iff [of 4 "-1968" y]
    by (simp add: algebra_simps)
  have c: "(y + 1 - 1901) div 100 = (y - 1901) div 100 + (if 100 dvd y then 1 else 0)"
    using div_succ [of 100 "y - 1901"] dvd_add_right_iff [of 100 "-1900" y]
    by (simp add: algebra_simps)
  have e: "(y + 1 - 1601) div 400 = (y - 1601) div 400 + (if 400 dvd y then 1 else 0)"
    using div_succ [of 400 "y - 1601"] dvd_add_right_iff [of 400 "-1600" y]
    by (simp add: algebra_simps)
  have "400 dvd y \<Longrightarrow> 100 dvd y" by (rule dvd_trans [of 100 400]) simp_all
  moreover have "100 dvd y \<Longrightarrow> 4 dvd y" by (rule dvd_trans [of 4 100]) simp_all
  ultimately show ?thesis
    unfolding day_from_year_def is_leap_def d c e
    by (cases "4 dvd y"; cases "100 dvd y"; cases "400 dvd y"; simp)
qed

lemma year_step_bounds: "day_from_year y + 365 \<le> day_from_year (y + 1)"
  "day_from_year (y + 1) \<le> day_from_year y + 366"
  by (simp_all add: year_length)

lemma day_from_year_mono: "y \<le> z \<Longrightarrow> day_from_year y \<le> day_from_year z"
proof (induction z rule: int_ge_induct)
  case base
  show ?case by simp
next
  case (step i)
  then show ?case using year_step_bounds(1) [of i] by linarith
qed

lemma day_from_year_estimate:
  "400 * day_from_year y \<le> 146097 * (y - 1970) + 589"
  "146097 * (y - 1970) - 536 \<le> 400 * day_from_year y"
proof -
  obtain a where a: "(y - 1969) div 4 = a" "4 * a \<le> y - 1969" "y - 1969 < 4 * a + 4"
    by (rule div_bounds [of 4 "y - 1969"]) auto
  obtain b where b: "(y - 1901) div 100 = b" "100 * b \<le> y - 1901" "y - 1901 < 100 * b + 100"
    by (rule div_bounds [of 100 "y - 1901"]) auto
  obtain c where c: "(y - 1601) div 400 = c" "400 * c \<le> y - 1601" "y - 1601 < 400 * c + 400"
    by (rule div_bounds [of 400 "y - 1601"]) auto
  show "400 * day_from_year y \<le> 146097 * (y - 1970) + 589"
    "146097 * (y - 1970) - 536 \<le> 400 * day_from_year y"
    using a(2,3) b(2,3) c(2,3) unfolding day_from_year_def a(1) b(1) c(1)
    by (simp_all add: algebra_simps)
qed

lemma year_estimate:
  obtains q where "400 * d div 146097 = q" "day_from_year (q + 1969) \<le> d" "d < day_from_year (q + 1972)"
proof -
  obtain q where q: "400 * d div 146097 = q" "146097 * q \<le> 400 * d" "400 * d < 146097 * q + 146097"
    by (rule div_bounds [of 146097 "400 * d"]) auto
  have "day_from_year (q + 1969) \<le> d"
    using day_from_year_estimate(1) [of "q + 1969"] q(2) by (simp add: algebra_simps)
  moreover have "d < day_from_year (q + 1972)"
    using day_from_year_estimate(2) [of "q + 1972"] q(3) by (simp add: algebra_simps)
  ultimately show thesis using that q(1) by blast
qed

lemma year_from_day_bounds:
  "day_from_year (year_from_day d) \<le> d" "d < day_from_year (year_from_day d + 1)"
proof -
  obtain q where q: "400 * d div 146097 = q" "day_from_year (q + 1969) \<le> d"
    "d < day_from_year (q + 1972)" by (rule year_estimate)
  from q(2,3) show "day_from_year (year_from_day d) \<le> d" "d < day_from_year (year_from_day d + 1)"
    unfolding year_from_day_def q(1) by (simp_all add: Let_def algebra_simps)
qed

lemma year_from_day_unique:
  assumes "day_from_year y \<le> d" and "d < day_from_year (y + 1)"
  shows "year_from_day d = y"
proof (rule ccontr)
  assume "year_from_day d \<noteq> y"
  then consider "year_from_day d + 1 \<le> y" | "y + 1 \<le> year_from_day d" by linarith
  then show False
    using day_from_year_mono [of "year_from_day d + 1" y] day_from_year_mono [of "y + 1" "year_from_day d"]
      year_from_day_bounds [of d] assms by cases linarith+
qed

lemma month_range_cases:
  fixes m :: int
  assumes "1 \<le> m" and "m \<le> 12"
  obtains "m = 1" | "m = 2" | "m = 3" | "m = 4" | "m = 5" | "m = 6" | "m = 7" | "m = 8"
    | "m = 9" | "m = 10" | "m = 11" | "m = 12"
proof -
  from assms have "m = 1 \<or> m = 2 \<or> m = 3 \<or> m = 4 \<or> m = 5 \<or> m = 6 \<or> m = 7 \<or> m = 8
    \<or> m = 9 \<or> m = 10 \<or> m = 11 \<or> m = 12" by arith
  then show ?thesis using that by blast
qed

lemma make_day_civil:
  assumes "valid_civil y m d"
  shows "make_day y m d = day_from_year y + month_starts (is_leap y) ! nat (m - 1) + d - 1"
proof -
  have "(m - 1) div 12 = 0" "(m - 1) mod 12 = m - 1"
    using assms by (simp_all add: valid_civil_def div_pos_pos_trivial mod_pos_pos_trivial)
  then show ?thesis by (simp add: make_day_def Let_def)
qed

lemma month_of_valid:
  assumes "valid_civil y m d"
  defines "n \<equiv> month_starts (is_leap y) ! nat (m - 1) + d - 1"
  shows "month_from_day (is_leap y) n = nat m" and "0 \<le> n" and "n < (if is_leap y then 366 else 365)"
proof -
  from assms(1) have m: "1 \<le> m" "m \<le> 12" and d: "1 \<le> d" "d \<le> month_len y m"
    by (simp_all add: valid_civil_def)
  from m have "month_from_day (is_leap y) n = nat m \<and> 0 \<le> n \<and> n < (if is_leap y then 366 else 365)"
    using d unfolding n_def
    by (cases rule: month_range_cases; cases "is_leap y";
        simp add: month_from_day_def month_starts_def month_len_def)
  then show "month_from_day (is_leap y) n = nat m" "0 \<le> n" "n < (if is_leap y then 366 else 365)"
    by blast+
qed

lemma civil_of_make_day:
  assumes "valid_civil y m d"
  shows "civil_of_day (make_day y m d) = (y, m, d)"
proof -
  define n where "n = month_starts (is_leap y) ! nat (m - 1) + d - 1"
  note n = month_of_valid [OF assms, folded n_def]
  have md: "make_day y m d = day_from_year y + n"
    by (simp add: make_day_civil [OF assms] n_def)
  have "year_from_day (day_from_year y + n) = y"
    using n(2,3) by (intro year_from_day_unique) (auto simp: year_length split: if_splits)
  moreover have "nat m - 1 = nat (m - 1)" "int (nat m) = m" using assms by (auto simp: valid_civil_def)
  ultimately show ?thesis
    by (simp add: civil_of_day_def md n(1) Let_def) (simp add: n_def)
qed

text \<open>Counting the entries of a sorted list that are at most \<open>n\<close> finds the place of \<open>n\<close>.\<close>

lemma count_sorted_le:
  fixes n :: int
  assumes "sorted xs"
  defines "k \<equiv> length (filter (\<lambda>s. s \<le> n) xs)"
  shows "i < k \<Longrightarrow> xs ! i \<le> n" and "k < length xs \<Longrightarrow> n < xs ! k" and "k \<le> length xs"
proof -
  have f: "filter (\<lambda>s. s \<le> n) xs = takeWhile (\<lambda>s. s \<le> n) xs"
    using assms(1)
  proof (induction xs)
    case (Cons x xs)
    show ?case
    proof (cases "x \<le> n")
      case False
      with Cons.prems have "\<forall>s \<in> set (x # xs). \<not> s \<le> n" by auto
      with False show ?thesis by (simp add: filter_empty_conv)
    qed (use Cons in simp)
  qed simp
  show "i < k \<Longrightarrow> xs ! i \<le> n"
    unfolding k_def f by (metis nth_mem set_takeWhileD takeWhile_nth)
  show "k < length xs \<Longrightarrow> n < xs ! k"
    unfolding k_def f using nth_length_takeWhile [of "\<lambda>s. s \<le> n" xs] by simp
  show "k \<le> length xs" by (simp add: k_def)
qed

lemma month_starts_facts: "sorted (month_starts l)" "length (month_starts l) = 12"
  "month_starts l ! 0 = 0"
  by (simp_all add: month_starts_def Let_def)

lemma month_gap:
  assumes "m < 12"
  shows "month_starts l ! m \<le> month_starts l ! (m - 1) + (if m = 2 then if l then 29 else 28
      else if m \<in> {4, 6, 9, 11} then 30 else 31)"
proof -
  from assms have "m = 0 \<or> m = 1 \<or> m = 2 \<or> m = 3 \<or> m = 4 \<or> m = 5 \<or> m = 6 \<or> m = 7 \<or> m = 8
    \<or> m = 9 \<or> m = 10 \<or> m = 11" by arith
  then show ?thesis by (auto simp: month_starts_def Let_def)
qed

lemma month_from_day_start:
  assumes "0 \<le> n" and "n < (if l then 366 else 365)"
  defines "m \<equiv> month_from_day l n"
  shows "1 \<le> m" "m \<le> 12" "month_starts l ! (m - 1) \<le> n"
    "n < month_starts l ! (m - 1) + (if m = 2 then if l then 29 else 28
      else if m \<in> {4, 6, 9, 11} then 30 else 31)"
proof -
  note c = count_sorted_le [OF month_starts_facts(1) [of l], where n = n,
      folded month_from_day_def m_def, unfolded month_starts_facts(2)]
  show le: "m \<le> 12" using c(3) .
  show ge: "1 \<le> m"
  proof (rule ccontr)
    assume "\<not> 1 \<le> m"
    then have "m = 0" by simp
    with c(2) month_starts_facts(3) [of l] assms(1) show False by simp
  qed
  show "month_starts l ! (m - 1) \<le> n" using c(1) [of "m - 1"] ge by simp
  show "n < month_starts l ! (m - 1) + (if m = 2 then if l then 29 else 28
      else if m \<in> {4, 6, 9, 11} then 30 else 31)"
  proof (cases "m = 12")
    case True
    have "month_starts l ! 11 = 334 + (if l then 1 else 0)"
      by (simp add: month_starts_def Let_def)
    with True assms(2) show ?thesis by (simp split: if_splits)
  next
    case False
    with le have "m < 12" by simp
    then show ?thesis using c(2) month_gap [of m l] by linarith
  qed
qed

text \<open>Every day number is the day of a valid date, and of one only.\<close>

lemma civil_of_day_valid:
  assumes "civil_of_day n = (y, m, d)"
  shows "valid_civil y m d" and "make_day y m d = n"
proof -
  define k where "k = n - day_from_year y"
  have y: "y = year_from_day n" and m: "m = int (month_from_day (is_leap y) k)"
    and d: "d = k - month_starts (is_leap y) ! (nat m - 1) + 1"
    using assms by (auto simp: civil_of_day_def Let_def k_def)
  have k: "0 \<le> k" "k < (if is_leap y then 366 else 365)"
    using year_from_day_bounds [of n] by (auto simp: y k_def year_length split: if_splits)
  note s = month_from_day_start [OF k]
  have "month_len y m = (if month_from_day (is_leap y) k = 2 then if is_leap y then 29 else 28
      else if month_from_day (is_leap y) k \<in> {4, 6, 9, 11} then 30 else 31)"
    by (auto simp: month_len_def m)
  with s show v: "valid_civil y m d" by (auto simp: valid_civil_def m d)
  have "nat (m - 1) = nat m - 1" by (simp add: nat_diff_distrib)
  then have "make_day y m d = day_from_year y + k"
    using make_day_civil [OF v] d by simp
  then show "make_day y m d = n" by (simp add: k_def)
qed

section \<open>Date strings\<close>

text \<open>
  \<open>dateStr.split('-').map(Number)\<close>: \<open>None\<close> when one of the three numbers is NaN or missing, which
  makes the date invalid. Parts after the third are ignored, as in the destructuring.
\<close>

definition parse_ymd :: "string \<Rightarrow> (int \<times> int \<times> int) option" where
  "parse_ymd s = (case map js_number (js_split (CHR ''-'') s) of
       Some y # Some m # Some d # _ \<Rightarrow> Some (y, m, d)
     | _ \<Rightarrow> None)"

text \<open>\<open>new Date(...).toISOString().slice(0, 10)\<close>\<close>

definition iso_date :: "int \<Rightarrow> string" where
  "iso_date n = (case civil_of_day n of (y, m, d) \<Rightarrow>
     if 0 \<le> y \<and> y \<le> 9999
     then pad_start 4 (show_nat (nat y)) @ ''-'' @ pad_start 2 (show_nat (nat m))
       @ ''-'' @ pad_start 2 (show_nat (nat d))
     else take 10 ((if y < 0 then ''-'' else ''+'') @ pad_start 6 (show_nat (nat \<bar>y\<bar>)) @ ''-''
       @ pad_start 2 (show_nat (nat m)) @ ''-'' @ pad_start 2 (show_nat (nat d))))"

definition day_of_str :: "string \<Rightarrow> int option" where
  "day_of_str s = map_option (\<lambda>(y, m, d). utc_day y m d) (parse_ymd s)"

text \<open>\<open>None\<close>: NaN.\<close>

definition dayOfWeekOf :: "string \<Rightarrow> int option" where
  "dayOfWeekOf dateStr = map_option (\<lambda>(y, m, d). week_day (utc_day y m d)) (parse_ymd dateStr)"

text \<open>\<open>None\<close>: \<open>toISOString\<close> of an invalid date raises a RangeError.\<close>

definition nextDateStr :: "string \<Rightarrow> string option" where
  "nextDateStr dateStr = map_option (\<lambda>(y, m, d). iso_date (utc_day y m (d + 1))) (parse_ymd dateStr)"

definition addDaysStr :: "string \<Rightarrow> int \<Rightarrow> string option" where
  "addDaysStr dateStr days =
     map_option (\<lambda>(y, m, d). iso_date (utc_day y m (d + days))) (parse_ymd dateStr)"

section \<open>Time zones\<close>

record intl =
  zoneKnown :: "string \<Rightarrow> bool"
  zoneOffset :: "string \<Rightarrow> int \<Rightarrow> int"

definition DEFAULT_TIMEZONE :: string where
  "DEFAULT_TIMEZONE = ''America/Sao_Paulo''"

definition safeTimeZone :: "intl \<Rightarrow> string option \<Rightarrow> string" where
  "safeTimeZone I timeZone = (case timeZone of
       None \<Rightarrow> DEFAULT_TIMEZONE
     | Some z \<Rightarrow> if z = [] then DEFAULT_TIMEZONE
         else if zoneKnown I z then z else DEFAULT_TIMEZONE)"

record zoned =
  z_dateStr :: string
  z_dayOfWeek :: "int option"
  z_minutesOfDay :: int

text \<open>
  The numbers \<open>formatToParts\<close> gives for an instant: year, month, day, hour, minute, second of
  the local time, whole seconds.
\<close>

definition format_parts :: "intl \<Rightarrow> int \<Rightarrow> string \<Rightarrow> int \<times> int \<times> int \<times> int \<times> int \<times> int" where
  "format_parts I inst timeZone = (let
       loc = (inst div 1000) + zoneOffset I timeZone inst div 1000;
       (y, m, d) = civil_of_day (loc div 86400);
       sec = loc mod 86400
     in (y, m, d, sec div 3600, sec div 60 mod 60, sec mod 60))"

definition toZonedParts :: "intl \<Rightarrow> int \<Rightarrow> string \<Rightarrow> zoned" where
  "toZonedParts I inst timeZone = (case format_parts I inst timeZone of
     (year, month, day, hour, minute, second) \<Rightarrow>
       let ds = show_int year @ ''-'' @ pad_start 2 (show_int month) @ ''-'' @ pad_start 2 (show_int day)
       in \<lparr>z_dateStr = ds, z_dayOfWeek = dayOfWeekOf ds, z_minutesOfDay = hour * 60 + minute\<rparr>)"

definition offsetMs :: "intl \<Rightarrow> int \<Rightarrow> string \<Rightarrow> int" where
  "offsetMs I inst timeZone = (case format_parts I inst timeZone of
     (year, month, day, hour, minute, second) \<Rightarrow>
       utc_day year month day * day_ms + hour * 3600000 + minute * 60000 + second * 1000
         - inst div 1000 * 1000)"

text \<open>\<open>None\<close>: an invalid date, on which \<open>formatToParts\<close> raises a RangeError.\<close>

definition zonedTimeToUtc :: "intl \<Rightarrow> string \<Rightarrow> int \<Rightarrow> string \<Rightarrow> int option" where
  "zonedTimeToUtc I dateStr minutesOfDay timeZone =
     map_option (\<lambda>(y, m, d). let
         wallAsUtc = utc_day y m d * day_ms + minutesOfDay * 60000;
         guess = wallAsUtc - offsetMs I wallAsUtc timeZone
       in wallAsUtc - offsetMs I guess timeZone) (parse_ymd dateStr)"

definition monthRangeUtc :: "intl \<Rightarrow> int \<Rightarrow> int \<Rightarrow> string \<Rightarrow> (int \<times> int) option" where
  "monthRangeUtc I year month timeZone = (let
       first = (\<lambda>y m. iso_date (utc_day y m 1))
     in case (zonedTimeToUtc I (first year month) 0 timeZone,
              zonedTimeToUtc I (first year (month + 1)) 0 timeZone) of
       (Some s, Some e) \<Rightarrow> Some (s, e) | _ \<Rightarrow> None)"

text \<open>
  The pattern \<open>/^\d{4}-\d{2}-\d{2}$/\<close>, and \<open>new Date(v + 'T00:00:00Z')\<close> on a text of this form, as
  a number of days: the runtime accepts the months 1 to 12 and the days 1 to 31 and rolls a day the
  month does not have over to the next month; the rest is an invalid date (\<open>None\<close>).
\<close>

fun DATE_ONLY :: "string \<Rightarrow> bool" where
  "DATE_ONLY [y1, y2, y3, y4, s, m1, m2, t, d1, d2] \<longleftrightarrow>
     list_all is_digit [y1, y2, y3, y4, m1, m2, d1, d2] \<and> s = CHR ''-'' \<and> t = CHR ''-''"
| "DATE_ONLY _ \<longleftrightarrow> False"

definition parse_iso_day :: "string \<Rightarrow> int option" where
  "parse_iso_day v = (if \<not> DATE_ONLY v then None
     else (case parse_ymd v of
         Some (y, m, d) \<Rightarrow> if 1 \<le> m \<and> m \<le> 12 \<and> 1 \<le> d \<and> d \<le> 31 then Some (utc_day y m d) else None
       | None \<Rightarrow> None))"

text \<open>\<open>None\<close>: \<open>toISOString\<close> raises a RangeError.\<close>

definition isCalendarDay :: "string \<Rightarrow> bool option" where
  "isCalendarDay v = (if \<not> DATE_ONLY v then Some False
     else map_option (\<lambda>n. iso_date n = v) (parse_iso_day v))"

text \<open>
  \<open>reportPeriod\<close>: \<open>parse\<close> is \<open>new Date(v)\<close> on a text that is not a bare date. The error of a
  bare date that does not exist is the RangeError of \<open>zonedTimeToUtc\<close>.
\<close>

definition report_bound :: "intl \<Rightarrow> string \<Rightarrow> (string \<Rightarrow> int option) \<Rightarrow> string \<Rightarrow> bool \<Rightarrow> int result" where
  "report_bound I timeZone parse v end' =
     (if DATE_ONLY v then
        (case (if end' then map_option (\<lambda>t. t - 1) (Option.bind (nextDateStr v) (\<lambda>n. zonedTimeToUtc I n 0 timeZone))
               else zonedTimeToUtc I v 0 timeZone) of
           None \<Rightarrow> Inl (PlainError ''RangeError'')
         | Some t \<Rightarrow> Inr t)
      else (case parse v of
           None \<Rightarrow> Inl (BadRequest ''Periodo invalido'')
         | Some t \<Rightarrow> Inr t))"

definition reportPeriod :: "intl \<Rightarrow> string \<Rightarrow> (string \<Rightarrow> int option) \<Rightarrow> string option \<Rightarrow> string option
    \<Rightarrow> (int option \<times> int option) result" where
  "reportPeriod I timeZone parse from' to' = (let
       bound = (\<lambda>v end'. case v of None \<Rightarrow> Inr None
         | Some s \<Rightarrow> if s = [] then Inr None
             else bindE (report_bound I timeZone parse s end') (\<lambda>t. Inr (Some t)))
     in bindE (bound from' False) (\<lambda>g. bindE (bound to' True) (\<lambda>l. Inr (g, l))))"

section \<open>Round trips\<close>

text \<open>Instants whose year has four digits, where every printed date is read back.\<close>

definition plain_day :: "int \<Rightarrow> bool" where
  "plain_day n \<longleftrightarrow> 1000 \<le> year_from_day n \<and> year_from_day n \<le> 9999"

lemma minus_not_digit: "\<not> is_digit (CHR ''-'')"
  by (simp add: is_digit_def)

lemma parse_ymd_print:
  assumes "list_all is_digit ys" and "list_all is_digit ms" and "list_all is_digit ds"
  shows "parse_ymd (ys @ ''-'' @ ms @ ''-'' @ ds)
    = Some (digits_value 0 ys, digits_value 0 ms, digits_value 0 ds)"
proof -
  have "js_split (CHR ''-'') (ys @ ''-'' @ ms @ ''-'' @ ds) = [ys, ms, ds]"
    using assms [THEN digits_no_sep, OF minus_not_digit]
    by (simp add: js_split_sep js_split_no_sep)
  then show ?thesis using assms by (simp add: parse_ymd_def js_number_alt)
qed

lemma digits_value_pad: "digits_value 0 (pad_start k (show_nat n)) = int n"
  by (simp add: pad_start_def digits_value_zeros digits_value_show)

lemma pad_show_digits: "list_all is_digit (pad_start k (show_nat n))"
  by (simp add: pad_start_digits show_nat_digits)

lemma civil_of_plain_day:
  assumes "plain_day n"
  obtains y m d where "civil_of_day n = (y, m, d)" "valid_civil y m d" "make_day y m d = n"
    "1000 \<le> y" "y \<le> 9999"
proof -
  obtain y m d where c: "civil_of_day n = (y, m, d)" by (cases "civil_of_day n") auto
  moreover from c have "y = year_from_day n" by (simp add: civil_of_day_def Let_def)
  ultimately show thesis
    using that civil_of_day_valid [OF c] assms by (simp add: plain_day_def)
qed

lemma parse_iso_date:
  assumes "plain_day n"
  shows "parse_ymd (iso_date n) = Some (civil_of_day n)"
proof -
  obtain y m d where c: "civil_of_day n = (y, m, d)" "valid_civil y m d" "1000 \<le> y" "y \<le> 9999"
    using assms by (rule civil_of_plain_day)
  then have "1 \<le> m" "1 \<le> d" by (simp_all add: valid_civil_def)
  with c show ?thesis
    using parse_ymd_print [OF pad_show_digits pad_show_digits pad_show_digits,
        of 4 "nat y" 2 "nat m" 2 "nat d"]
    by (simp add: iso_date_def digits_value_pad)
qed

lemma utc_day_civil:
  assumes "plain_day n" and "civil_of_day n = (y, m, d)"
  shows "utc_day y m (d + k) = n + k"
proof -
  have "1000 \<le> y"
    using assms by (simp add: plain_day_def civil_of_day_def Let_def)
  then have "utc_day y m (d + k) = make_day y m (d + k)" by (simp add: utc_day_def)
  also have "\<dots> = make_day y m d + k" by (simp add: make_day_def Let_def)
  also have "\<dots> = n + k" using civil_of_day_valid(2) [OF assms(2)] by simp
  finally show ?thesis .
qed

lemma day_of_iso: "plain_day n \<Longrightarrow> day_of_str (iso_date n) = Some n"
  using utc_day_civil [of n _ _ _ 0]
  by (cases "civil_of_day n") (simp add: day_of_str_def parse_iso_date)

lemma dayOfWeekOf_iso: "plain_day n \<Longrightarrow> dayOfWeekOf (iso_date n) = Some ((n + 4) mod 7)"
  using utc_day_civil [of n _ _ _ 0]
  by (cases "civil_of_day n") (simp add: dayOfWeekOf_def parse_iso_date week_day_def)

lemma addDaysStr_iso: "plain_day n \<Longrightarrow> addDaysStr (iso_date n) k = Some (iso_date (n + k))"
  using utc_day_civil [of n _ _ _ k]
  by (cases "civil_of_day n") (simp add: addDaysStr_def parse_iso_date)

lemma nextDateStr_iso: "plain_day n \<Longrightarrow> nextDateStr (iso_date n) = Some (iso_date (n + 1))"
  using utc_day_civil [of n _ _ _ 1]
  by (cases "civil_of_day n") (simp add: nextDateStr_def parse_iso_date)

text \<open>
  The local clock of an instant: \<open>local_ms\<close> is what the wall clock shows, as milliseconds since
  1970. \<open>zone_ok\<close> states what \<open>Intl\<close> documents of an offset: whole seconds.
\<close>

definition zone_ok :: "intl \<Rightarrow> string \<Rightarrow> bool" where
  "zone_ok I z \<longleftrightarrow> (\<forall>t. 1000 dvd zoneOffset I z t)"

definition local_ms :: "intl \<Rightarrow> string \<Rightarrow> int \<Rightarrow> int" where
  "local_ms I z t = t div 1000 * 1000 + zoneOffset I z t"

lemma local_parts:
  assumes "zone_ok I z"
  shows "t div 1000 + zoneOffset I z t div 1000 = local_ms I z t div 1000"
proof -
  obtain o' where "zoneOffset I z t = 1000 * o'" using assms by (auto simp: zone_ok_def dvd_def)
  then show ?thesis by (simp add: local_ms_def)
qed

lemma local_day: "x div 1000 div 86400 = x div day_ms" for x :: int
  by (simp add: zdiv_zmult2_eq [symmetric])

lemma time_of_day_parts:
  fixes s :: int
  assumes "0 \<le> s" and "s < 86400"
  shows "s div 3600 * 3600000 + s div 60 mod 60 * 60000 + s mod 60 * 1000 = s * 1000"
    and "s div 3600 * 60 + s div 60 mod 60 = s div 60"
proof -
  have h: "s div 3600 = s div 60 div 60" by (simp add: zdiv_zmult2_eq [symmetric])
  have q: "s div 60 div 60 * 60 + s div 60 mod 60 = s div 60" by simp
  then show "s div 3600 * 60 + s div 60 mod 60 = s div 60" by (simp add: h)
  have "s div 60 * 60 + s mod 60 = s" by simp
  with q show "s div 3600 * 3600000 + s div 60 mod 60 * 60000 + s mod 60 * 1000 = s * 1000"
    unfolding h by linarith
qed

lemma offsetMs_eq:
  assumes z: "zone_ok I z" and "plain_day (local_ms I z t div day_ms)"
  shows "offsetMs I t z = zoneOffset I z t"
proof -
  define L where "L = local_ms I z t"
  obtain y m d where c: "civil_of_day (L div day_ms) = (y, m, d)" by (cases "civil_of_day (L div day_ms)") auto
  have u: "utc_day y m d = L div day_ms"
    using utc_day_civil [OF _ c, of 0] assms(2) by (simp add: L_def)
  have "1000 dvd L" using z by (simp add: L_def local_ms_def zone_ok_def)
  then have L: "L = L div 1000 * 1000" by simp
  define s where "s = L div 1000 mod 86400"
  have s: "0 \<le> s" "s < 86400" by (simp_all add: s_def)
  have day: "L div 1000 div 86400 = L div day_ms" by (rule local_day)
  have "L div 1000 = L div day_ms * 86400 + s"
    unfolding s_def day [symmetric] by simp
  then have "L div day_ms * day_ms + s * 1000 = L" using L by linarith
  moreover have "format_parts I t z = (y, m, d, s div 3600, s div 60 mod 60, s mod 60)"
    by (simp add: format_parts_def local_parts [OF z] L_def [symmetric] day c s_def [symmetric] Let_def)
  then have "offsetMs I t z = L div day_ms * day_ms + s * 1000 - t div 1000 * 1000"
    unfolding offsetMs_def using time_of_day_parts(1) [OF s] by (simp only: prod.case u)
  ultimately show ?thesis by (simp add: L_def local_ms_def)
qed

lemma show_nat_four:
  assumes "1000 \<le> n" and "n \<le> 9999"
  shows "length (show_nat n) = 4"
proof -
  have "n div 10 div 10 div 10 < 10" "\<not> n div 10 div 10 < 10" "\<not> n div 10 < 10" "\<not> n < 10"
    using assms by (simp_all add: div_mult2_eq [symmetric] not_less less_mult_imp_div_less div_le_mono
        le_div_geq less_eq_div_iff_mult_less_eq)
  then show ?thesis
    by (simp add: show_nat.simps [of n] show_nat.simps [of "n div 10"] show_nat.simps [of "n div 10 div 10"]
        show_nat.simps [of "n div 10 div 10 div 10"])
qed

lemma toZonedParts_eq:
  assumes z: "zone_ok I z" and p: "plain_day (local_ms I z t div day_ms)"
  shows "toZonedParts I t z = \<lparr>z_dateStr = iso_date (local_ms I z t div day_ms),
    z_dayOfWeek = Some ((local_ms I z t div day_ms + 4) mod 7),
    z_minutesOfDay = local_ms I z t mod day_ms div 60000\<rparr>"
proof -
  define L where "L = local_ms I z t"
  obtain y m d where c: "civil_of_day (L div day_ms) = (y, m, d)" "valid_civil y m d"
    "1000 \<le> y" "y \<le> 9999"
    using p unfolding L_def by (rule civil_of_plain_day)
  define s where "s = L div 1000 mod 86400"
  have s: "0 \<le> s" "s < 86400" by (simp_all add: s_def)
  have day: "L div 1000 div 86400 = L div day_ms" by (rule local_day)
  have len: "length (show_nat (nat y)) = 4" using c(3,4) by (intro show_nat_four) auto
  have print: "show_int y @ ''-'' @ pad_start 2 (show_int m) @ ''-'' @ pad_start 2 (show_int d)
      = iso_date (L div day_ms)"
    using c len by (simp add: iso_date_def show_int_def pad_start_def valid_civil_def)
  have "L mod day_ms div 60000 = s div 60"
  proof -
    have "L mod day_ms = 1000 * s + L mod 1000"
      using zmod_zmult2_eq [of 86400 L 1000] by (simp add: s_def)
    then have "L mod day_ms div 1000 = s"
      by (metis add_0 div_mult_self4 mod_div_trivial zero_neq_numeral add.commute)
    then show ?thesis using zdiv_zmult2_eq [of 60 "L mod day_ms" 1000] by simp
  qed
  moreover have "format_parts I t z = (y, m, d, s div 3600, s div 60 mod 60, s mod 60)"
    by (simp add: format_parts_def local_parts [OF z] L_def [symmetric] day c(1) s_def [symmetric] Let_def)
  moreover have "dayOfWeekOf (iso_date (L div day_ms)) = Some ((L div day_ms + 4) mod 7)"
    using dayOfWeekOf_iso [OF p] by (simp add: L_def)
  ultimately show ?thesis
    unfolding toZonedParts_def L_def [symmetric] by (simp only: prod.case Let_def print time_of_day_parts(2) [OF s])
qed

text \<open>
  Reading a wall-clock time back. \<open>wall_exists\<close>: under the offset in force at the instant the
  two passes settle on, the clock shows the requested time, i.e. the time was not skipped by a
  change to daylight saving time.
\<close>

definition settled_offset :: "intl \<Rightarrow> string \<Rightarrow> int \<Rightarrow> int" where
  "settled_offset I z w = zoneOffset I z (w - zoneOffset I z w)"

definition wall_exists :: "intl \<Rightarrow> string \<Rightarrow> int \<Rightarrow> bool" where
  "wall_exists I z w \<longleftrightarrow> zoneOffset I z (w - settled_offset I z w) = settled_offset I z w"

text \<open>A day whose neighbours are also plain, and a zone within two days of UTC.\<close>

definition zone_near :: "intl \<Rightarrow> string \<Rightarrow> bool" where
  "zone_near I z \<longleftrightarrow> zone_ok I z \<and> (\<forall>t. \<bar>zoneOffset I z t\<bar> \<le> day_ms)"

definition inner_day :: "int \<Rightarrow> bool" where
  "inner_day n \<longleftrightarrow> 1001 \<le> year_from_day n \<and> year_from_day n \<le> 9998"

lemma year_from_day_mono: "a \<le> b \<Longrightarrow> year_from_day a \<le> year_from_day b"
proof (rule ccontr)
  assume "a \<le> b" and "\<not> year_from_day a \<le> year_from_day b"
  then have "day_from_year (year_from_day b + 1) \<le> day_from_year (year_from_day a)"
    by (intro day_from_year_mono) simp
  with \<open>a \<le> b\<close> year_from_day_bounds [of a] year_from_day_bounds [of b] show False by linarith
qed

lemma inner_day_near:
  assumes "inner_day n" and "\<bar>k - n\<bar> \<le> 365"
  shows "plain_day k"
proof -
  have "day_from_year (1001 :: int) \<le> n"
    using assms(1) year_from_day_bounds(1) [of n] day_from_year_mono [of 1001 "year_from_day n"]
    by (simp add: inner_day_def)
  moreover have "n < day_from_year 9999"
    using assms(1) year_from_day_bounds(2) [of n] day_from_year_mono [of "year_from_day n + 1" 9999]
    by (simp add: inner_day_def)
  moreover have "day_from_year 1000 + 365 \<le> day_from_year 1001" "day_from_year 9999 + 365 \<le> day_from_year 10000"
    using year_step_bounds(1) [of 1000] year_step_bounds(1) [of 9999] by simp_all
  ultimately have k: "day_from_year 1000 \<le> k" "k < day_from_year 10000" using assms(2) by linarith+
  have "1000 \<le> year_from_day k" "year_from_day k \<le> 9999"
  proof -
    show "1000 \<le> year_from_day k"
      using year_from_day_mono [OF k(1)] year_from_day_unique [of 1000 "day_from_year 1000"]
        year_step_bounds(1) [of 1000] by simp
    have "k \<le> day_from_year 10000 - 1" using k(2) by simp
    then show "year_from_day k \<le> 9999"
      using year_from_day_mono [of k "day_from_year 10000 - 1"]
        year_from_day_unique [of 9999 "day_from_year 10000 - 1"] year_step_bounds(1) [of 9999] by simp
  qed
  then show ?thesis by (simp add: plain_day_def)
qed

lemma day_div_near:
  fixes x :: int
  assumes "\<bar>x - n * day_ms\<bar> \<le> 5 * day_ms"
  shows "\<bar>x div day_ms - n\<bar> \<le> 365"
proof -
  obtain q where q: "x div day_ms = q" "day_ms * q \<le> x" "x < day_ms * q + day_ms"
    by (rule div_bounds [of day_ms x]) auto
  show ?thesis using assms q(2,3) unfolding q(1) abs_le_iff by auto
qed

lemma zonedTimeToUtc_eq:
  assumes z: "zone_near I z" and n: "inner_day n" and m: "0 \<le> m" "m \<le> 1440"
  shows "zonedTimeToUtc I (iso_date n) m z
    = Some (n * day_ms + m * 60000 - settled_offset I z (n * day_ms + m * 60000))"
proof -
  define w where "w = n * day_ms + m * 60000"
  have zo: "zone_ok I z" and small: "\<bar>zoneOffset I z t\<bar> \<le> day_ms" for t
    using z by (simp_all add: zone_near_def)
  have p: "plain_day n" using inner_day_near [OF n, of n] by simp
  have near: "offsetMs I t z = zoneOffset I z t" if t: "\<bar>t - w\<bar> \<le> day_ms" for t
  proof (rule offsetMs_eq [OF zo], rule inner_day_near [OF n], rule day_div_near)
    have "t - 1000 < t div 1000 * 1000" "t div 1000 * 1000 \<le> t"
      using div_bounds [of 1000 t] by (auto simp: mult.commute)
    then show "\<bar>local_ms I z t - n * day_ms\<bar> \<le> 5 * day_ms"
      using t small [of t] m unfolding local_ms_def w_def abs_le_iff by linarith
  qed
  have "offsetMs I w z = zoneOffset I z w" by (rule near) simp
  moreover have "offsetMs I (w - zoneOffset I z w) z = zoneOffset I z (w - zoneOffset I z w)"
    by (rule near) (use small [of w] in simp)
  moreover have "utc_day (fst (civil_of_day n)) (fst (snd (civil_of_day n))) (snd (snd (civil_of_day n))) = n"
    using utc_day_civil [OF p, of _ _ _ 0] by (cases "civil_of_day n") simp
  ultimately show ?thesis
    by (simp add: zonedTimeToUtc_def parse_iso_date [OF p] split_def Let_def w_def [symmetric]
        settled_offset_def)
qed

lemma zoned_round_trip_settled:
  assumes "zone_near I z" and "inner_day n" and "0 \<le> m" and "m < 1440"
    and "wall_exists I z (n * day_ms + m * 60000)"
  shows "\<exists>t. zonedTimeToUtc I (iso_date n) m z = Some t
    \<and> toZonedParts I t z = \<lparr>z_dateStr = iso_date n, z_dayOfWeek = Some ((n + 4) mod 7), z_minutesOfDay = m\<rparr>"
proof -
  define w where "w = n * day_ms + m * 60000"
  define o' where "o' = settled_offset I z w"
  have zo: "zone_ok I z" using assms(1) by (simp add: zone_near_def)
  have e: "zoneOffset I z (w - o') = o'" using assms(5) by (simp add: wall_exists_def w_def o'_def)
  have "1000 dvd w" "1000 dvd o'"
    using zo by (simp_all add: w_def o'_def settled_offset_def zone_ok_def)
  then have "(w - o') div 1000 * 1000 = w - o'" by simp
  then have "local_ms I z (w - o') = w" by (simp add: local_ms_def e)
  moreover have "w div day_ms = n" "w mod day_ms div 60000 = m"
    using assms(3,4) by (simp_all add: w_def)
  moreover have "plain_day n" using inner_day_near [OF assms(2), of n] by simp
  ultimately have "toZonedParts I (w - o') z
      = \<lparr>z_dateStr = iso_date n, z_dayOfWeek = Some ((n + 4) mod 7), z_minutesOfDay = m\<rparr>"
    using toZonedParts_eq [OF zo, of "w - o'"] by simp
  then show ?thesis using zonedTimeToUtc_eq [OF assms(1,2,3)] assms(4) by (simp add: w_def o'_def)
qed

text \<open>
  The zone around the wall-clock time \<open>w\<close>: one change of offset at most within two days, as in
  every real zone.
\<close>

definition one_change :: "intl \<Rightarrow> string \<Rightarrow> int \<Rightarrow> bool" where
  "one_change I z w \<longleftrightarrow> (\<exists>T a b. \<forall>t. \<bar>t - w\<bar> \<le> 2 * day_ms \<longrightarrow>
     zoneOffset I z t = (if t < T then a else b))"

lemma one_change_wall_exists:
  assumes "zone_near I z" and "one_change I z w" and "\<exists>t. t + zoneOffset I z t = w"
  shows "wall_exists I z w"
proof -
  obtain T a b where off: "\<And>t. \<bar>t - w\<bar> \<le> 2 * day_ms \<Longrightarrow> zoneOffset I z t = (if t < T then a else b)"
    using assms(2) by (auto simp: one_change_def)
  have small: "\<bar>zoneOffset I z t\<bar> \<le> day_ms" for t using assms(1) by (simp add: zone_near_def)
  have day: "0 \<le> day_ms" by simp
  have near: "zoneOffset I z (w - zoneOffset I z s) = (if w - zoneOffset I z s < T then a else b)" for s
    using small [of s] day by (intro off) linarith
  have at: "zoneOffset I z w = (if w < T then a else b)" using off [of w] day by simp
  obtain t where t: "t = w - zoneOffset I z t" using assms(3) by (metis add_diff_cancel_right')
  have zt: "zoneOffset I z t = (if t < T then a else b)" using near [of t] t by simp
  show ?thesis
    using near [of w] near [of "w - zoneOffset I z w"] at zt t
    unfolding wall_exists_def settled_offset_def by (auto split: if_splits)
qed

text \<open>
  C1. The two-pass conversion of \<open>zonedTimeToUtc\<close> is inverted by \<open>toZonedParts\<close>: for every date of
  the years 1001 to 9998 and every minute of the day that the wall clock of the zone shows at some
  instant (it is not skipped by a change to daylight saving time), the instant computed reads back
  as the same date, the same minute and the weekday of that date, on both sides of a change of
  the offset.
\<close>

theorem zoned_round_trip:
  assumes "zone_near I z" and "inner_day n" and "0 \<le> m" and "m < 1440"
    and "one_change I z (n * day_ms + m * 60000)"
    and "\<exists>t. t + zoneOffset I z t = n * day_ms + m * 60000"
  shows "\<exists>t. zonedTimeToUtc I (iso_date n) m z = Some t
    \<and> toZonedParts I t z = \<lparr>z_dateStr = iso_date n, z_dayOfWeek = Some ((n + 4) mod 7), z_minutesOfDay = m\<rparr>"
  using assms by (intro zoned_round_trip_settled one_change_wall_exists)

definition spring_zone :: intl where
  "spring_zone = \<lparr>zoneKnown = (\<lambda>z. True),
     zoneOffset = (\<lambda>z t. if t < 1774746000000 then 3600000 else 7200000)\<rparr>"

lemma zoned_round_trip_witness:
  "\<exists>t. zonedTimeToUtc spring_zone (iso_date 20541) 240 ''Europe/Madrid'' = Some t
    \<and> toZonedParts spring_zone t ''Europe/Madrid''
      = \<lparr>z_dateStr = iso_date 20541, z_dayOfWeek = Some ((20541 + 4) mod 7), z_minutesOfDay = 240\<rparr>"
proof (rule zoned_round_trip)
  show "zone_near spring_zone ''Europe/Madrid''"
    by (simp add: zone_near_def zone_ok_def spring_zone_def)
  show "inner_day 20541" unfolding inner_day_def by code_simp
  show "one_change spring_zone ''Europe/Madrid'' (20541 * day_ms + 240 * 60000)"
    unfolding one_change_def spring_zone_def by auto
  show "\<exists>t. t + zoneOffset spring_zone ''Europe/Madrid'' t = 20541 * day_ms + 240 * 60000"
    by (rule exI [of _ 1774749600000]) (simp add: spring_zone_def)
qed simp_all

end
