(* ===== verification/Working_Hours.thy ===== *)
theory Working_Hours
  imports Civil_Time
begin

text \<open>
  Opening hours: \<open>src/barbershop/working-hours.ts\<close>, and the shift rules that use the same times
  (\<open>checkShift\<close> of \<open>barbershop.service.ts\<close>, \<open>shiftsOverlap\<close> of \<open>professional.ts\<close>, \<open>fitsWindow\<close> and
  \<open>checkRange\<close> of \<open>schedule.service.ts\<close>).

  Times of day are the strings "HH:MM" the code stores and compares as strings; the lemmas show
  that on valid times the comparison of the strings is the comparison of the minutes. A JSON text
  is represented by the outcome of \<open>JSON.parse\<close> on it: \<open>None\<close> when it throws, and otherwise
  the value, an object being the list of its properties.
\<close>

section \<open>JSON values\<close>

datatype json =
    JNull
  | JBool bool
  | JNum rat
  | JStr string
  | JArr "json list"
  | JObj "(string \<times> json) list"

type_synonym json_text = "json option"

text \<open>\<open>v?.[key]\<close>: \<open>None\<close> is undefined. Only objects have the named properties used here.\<close>

definition jprop :: "json \<Rightarrow> string \<Rightarrow> json option" where
  "jprop v k = (case v of JObj ps \<Rightarrow> map_of ps k | _ \<Rightarrow> None)"

definition jtruthy :: "json option \<Rightarrow> bool" where
  "jtruthy v = (case v of None \<Rightarrow> False | Some JNull \<Rightarrow> False | Some (JBool b) \<Rightarrow> b
     | Some (JNum n) \<Rightarrow> n \<noteq> 0 | Some (JStr s) \<Rightarrow> s \<noteq> [] | Some _ \<Rightarrow> True)"

section \<open>Times of day\<close>

record day_hours =
  dh_start :: string
  dh_end :: string

text \<open>The pattern \<open>TIME\<close>: \<open>/^([01]\d|2[0-3]):[0-5]\d$/\<close>.\<close>

fun TIME :: "string \<Rightarrow> bool" where
  "TIME [a, b, c, d, e] \<longleftrightarrow>
     ((a = CHR ''0'' \<or> a = CHR ''1'') \<and> is_digit b
       \<or> a = CHR ''2'' \<and> is_digit b \<and> digit_val b \<le> 3)
     \<and> c = CHR '':'' \<and> is_digit d \<and> digit_val d \<le> 5 \<and> is_digit e"
| "TIME _ \<longleftrightarrow> False"

definition validRange :: "json option \<Rightarrow> json option \<Rightarrow> day_hours option" where
  "validRange start end' = (case (start, end') of
       (Some (JStr s), Some (JStr e)) \<Rightarrow>
         if \<not> TIME s \<or> \<not> TIME e \<or> s \<ge> e then None else Some \<lparr>dh_start = s, dh_end = e\<rparr>
     | _ \<Rightarrow> None)"

definition num_or_zero :: "int option \<Rightarrow> int" where
  "num_or_zero n = (case n of None \<Rightarrow> 0 | Some k \<Rightarrow> k)"

definition minutesOfTime :: "string \<Rightarrow> int" where
  "minutesOfTime time = (case map js_number (js_split (CHR '':'') time) of
       [] \<Rightarrow> 0
     | [h] \<Rightarrow> num_or_zero h * 60
     | h # m # _ \<Rightarrow> num_or_zero h * 60 + num_or_zero m)"

definition hhmm :: "int \<Rightarrow> string" where
  "hhmm minutes = pad_start 2 (show_int (minutes div 60)) @ '':'' @ pad_start 2 (show_int (minutes mod 60))"

text \<open>A working window, with the break of the shift when there is one.\<close>

record window =
  w_start :: string
  w_end :: string
  w_breakStart :: "string option"
  w_breakEnd :: "string option"

definition fitsShopHours :: "string \<Rightarrow> string \<Rightarrow> day_hours option \<Rightarrow> bool" where
  "fitsShopHours start end' shop = (case shop of
       None \<Rightarrow> False
     | Some sh \<Rightarrow>
         (let a = minutesOfTime start; b = minutesOfTime end' in
          a < b \<and> a \<ge> minutesOfTime (dh_start sh) \<and> b \<le> minutesOfTime (dh_end sh)))"

definition clipToShopHours :: "window \<Rightarrow> day_hours option \<Rightarrow> window option" where
  "clipToShopHours window shop = (case shop of
       None \<Rightarrow> None
     | Some sh \<Rightarrow>
         (let start = max (minutesOfTime (w_start window)) (minutesOfTime (dh_start sh));
              end' = min (minutesOfTime (w_end window)) (minutesOfTime (dh_end sh))
          in if start \<ge> end' then None
             else Some (window\<lparr>w_start := hhmm start, w_end := hhmm end'\<rparr>)))"

section \<open>Opening hours of the shop\<close>

definition DEFAULT_WORKING_HOURS :: "day_hours option list" where
  "DEFAULT_WORKING_HOURS =
     None # replicate 5 (Some \<lparr>dh_start = ''09:00'', dh_end = ''18:00''\<rparr>)
     @ [Some \<lparr>dh_start = ''09:00'', dh_end = ''17:00''\<rparr>]"

definition WEEKDAY_KEYS :: "string list" where
  "WEEKDAY_KEYS = [''sunday'', ''monday'', ''tuesday'', ''wednesday'', ''thursday'', ''friday'', ''saturday'']"

definition parse_day_hours :: "json option \<Rightarrow> day_hours option" where
  "parse_day_hours day = (if \<not> jtruthy day then None
     else (case day of None \<Rightarrow> None | Some v \<Rightarrow> validRange (jprop v ''start'') (jprop v ''end'')))"

definition parseBusinessHours :: "json_text option \<Rightarrow> day_hours option list option" where
  "parseBusinessHours json = (case json of
       None \<Rightarrow> None
     | Some None \<Rightarrow> None
     | Some (Some parsed) \<Rightarrow> Some (map (\<lambda>key. parse_day_hours (jprop parsed key)) WEEKDAY_KEYS))"

definition HOURS_INVALID :: string where
  "HOURS_INVALID = ''horario invalido (use HH:MM, inicio antes do fim)''"

definition day_hours_json :: "day_hours option \<Rightarrow> json" where
  "day_hours_json d = (case d of None \<Rightarrow> JNull
     | Some r \<Rightarrow> JObj [(''start'', JStr (dh_start r)), (''end'', JStr (dh_end r))])"

text \<open>One day of the object: \<open>null\<close>, or an object with a valid range.\<close>

definition normalize_day :: "string \<Rightarrow> json option \<Rightarrow> (day_hours option) result" where
  "normalize_day key day = (case day of
       None \<Rightarrow> Inl (BadRequest ''Informe os 7 dias da semana'')
     | Some JNull \<Rightarrow> Inr None
     | Some (JObj ps) \<Rightarrow>
         (case validRange (map_of ps ''start'') (map_of ps ''end'') of
            None \<Rightarrow> Inl (BadRequest (key @ '': '' @ HOURS_INVALID))
          | Some r \<Rightarrow> Inr (Some r))
     | Some _ \<Rightarrow> Inl (BadRequest (key @ '': '' @ HOURS_INVALID)))"

fun normalize_days :: "(string \<times> json) list \<Rightarrow> string list \<Rightarrow> ((string \<times> json) list) result" where
  "normalize_days ps [] = Inr []"
| "normalize_days ps (key # keys) =
     bindE (normalize_day key (map_of ps key)) (\<lambda>d.
     bindE (normalize_days ps keys) (\<lambda>out. Inr ((key, day_hours_json d) # out)))"

definition normalizeBusinessHours :: "json_text \<Rightarrow> json_text result" where
  "normalizeBusinessHours json = (case json of
       Some (JObj src) \<Rightarrow>
         bindE (normalize_days src WEEKDAY_KEYS) (\<lambda>out. Inr (Some (JObj out)))
     | _ \<Rightarrow> Inl (BadRequest ''Informe os 7 dias da semana''))"

section \<open>Shifts\<close>

definition SHIFT_INVALID_MESSAGE :: string where
  "SHIFT_INVALID_MESSAGE =
     ''Horario da escala invalido (HH:MM, inicio antes do fim, intervalo dentro do expediente)''"

text \<open>\<open>!!t\<close> for an optional text: missing and empty are false.\<close>

definition given :: "string option \<Rightarrow> bool" where
  "given t \<longleftrightarrow> t \<noteq> None \<and> t \<noteq> Some []"

definition time_given :: "string option \<Rightarrow> bool" where
  "time_given t \<longleftrightarrow> (case t of None \<Rightarrow> False | Some s \<Rightarrow> s \<noteq> [] \<and> TIME s)"

definition checkShift :: "string \<Rightarrow> string \<Rightarrow> string option \<Rightarrow> string option \<Rightarrow> unit result" where
  "checkShift start end' breakStart breakEnd =
     (if \<not> TIME start \<or> \<not> TIME end' \<or> start \<ge> end' \<or> given breakStart \<noteq> given breakEnd
      then Inl (BadRequest SHIFT_INVALID_MESSAGE)
      else if \<not> given breakStart \<or> \<not> given breakEnd then Inr ()
      else if \<not> time_given breakStart \<or> \<not> time_given breakEnd
        \<or> the breakStart \<ge> the breakEnd \<or> the breakStart \<le> start \<or> the breakEnd \<ge> end'
      then Inl (BadRequest SHIFT_INVALID_MESSAGE)
      else Inr ())"

text \<open>
  The other two readings of a time in the code: \<open>minutesOfDay\<close> of \<open>professional.ts\<close> and
  \<open>toMinutes\<close> of the agenda, which answer NaN (\<open>None\<close>) for a text that is not a time.
  A comparison with NaN is false.
\<close>

definition minutesOfDay :: "string \<Rightarrow> int option" where
  "minutesOfDay time = (case map js_number (js_split (CHR '':'') time) of
       Some h # ms \<Rightarrow> Some (h * 60 + (case ms of [] \<Rightarrow> 0 | m # _ \<Rightarrow> num_or_zero m))
     | _ \<Rightarrow> None)"

definition toMinutes :: "string \<Rightarrow> int option" where
  "toMinutes time = (case map js_number (js_split (CHR '':'') time) of
       Some h # Some m # _ \<Rightarrow> Some (h * 60 + m)
     | _ \<Rightarrow> None)"

definition nan_less :: "int option \<Rightarrow> int option \<Rightarrow> bool" where
  "nan_less a b \<longleftrightarrow> (case (a, b) of (Some x, Some y) \<Rightarrow> x < y | _ \<Rightarrow> False)"

lemma nan_less_Some [simp]: "nan_less (Some x) (Some y) \<longleftrightarrow> x < y"
  by (simp add: nan_less_def)

definition shiftsOverlap :: "string \<Rightarrow> string \<Rightarrow> string \<Rightarrow> string \<Rightarrow> bool" where
  "shiftsOverlap aStart aEnd bStart bEnd \<longleftrightarrow>
     nan_less (minutesOfDay aStart) (minutesOfDay bEnd) \<and> nan_less (minutesOfDay bStart) (minutesOfDay aEnd)"

definition checkRange :: "string option \<Rightarrow> string option \<Rightarrow> string \<Rightarrow> day_hours result" where
  "checkRange start end' label =
     (if \<not> time_given start \<or> \<not> time_given end' \<or> the start \<ge> the end'
      then Inl (BadRequest (label @ '': horario invalido (use HH:MM, inicio antes do fim)''))
      else Inr \<lparr>dh_start = the start, dh_end = the end'\<rparr>)"

text \<open>\<open>fitsWindow\<close>: the appointment, in minutes of the day, lies in the window and misses its break.\<close>

definition fitsWindow :: "window option \<Rightarrow> int \<Rightarrow> int \<Rightarrow> bool" where
  "fitsWindow window start end' = (case window of
       None \<Rightarrow> False
     | Some w \<Rightarrow>
         if nan_less (Some start) (toMinutes (w_start w)) \<or> nan_less (toMinutes (w_end w)) (Some end')
         then False
         else if given (w_breakStart w) \<and> given (w_breakEnd w) then
           \<not> (nan_less (Some start) (toMinutes (the (w_breakEnd w)))
              \<and> nan_less (toMinutes (the (w_breakStart w))) (Some end'))
         else True)"

section \<open>Times as strings and as minutes\<close>

lemma TIME_cases:
  assumes "TIME s"
  obtains a b d e where "s = [a, b, CHR '':'', d, e]" "is_digit a" "is_digit b" "is_digit d" "is_digit e"
    "digit_val a * 10 + digit_val b \<le> 23" "digit_val d \<le> 5"
  using assms
  by (cases s rule: TIME.cases) (auto simp: is_digit_def digit_val_def)

lemma digit_val_bounds: "is_digit c \<Longrightarrow> 0 \<le> digit_val c \<and> digit_val c \<le> 9"
  by (auto simp: is_digit_def digit_val_def)

lemma colon_not_digit: "\<not> is_digit (CHR '':'')"
  by (simp add: is_digit_def)

lemma minutesOfTime_colon:
  assumes "list_all is_digit hs" and "list_all is_digit ms"
  shows "minutesOfTime (hs @ '':'' @ ms) = digits_value 0 hs * 60 + digits_value 0 ms"
proof -
  have "js_split (CHR '':'') (hs @ '':'' @ ms) = [hs, ms]"
    using assms [THEN digits_no_sep, OF colon_not_digit]
    by (simp add: js_split_sep js_split_no_sep)
  then show ?thesis using assms by (simp add: minutesOfTime_def js_number_alt num_or_zero_def)
qed

lemma minutes_of_TIME:
  assumes "s = [a, b, CHR '':'', d, e]" "is_digit a" "is_digit b" "is_digit d" "is_digit e"
  shows "minutesOfTime s = (digit_val a * 10 + digit_val b) * 60 + digit_val d * 10 + digit_val e"
  using minutesOfTime_colon [of "[a, b]" "[d, e]"] assms by simp

lemma TIME_minutes_range: "TIME s \<Longrightarrow> 0 \<le> minutesOfTime s \<and> minutesOfTime s < 1440"
  by (erule TIME_cases) (auto simp: minutes_of_TIME dest!: digit_val_bounds)

lemma digit_less: "is_digit c \<Longrightarrow> is_digit c' \<Longrightarrow> c < c' \<longleftrightarrow> digit_val c < digit_val c'"
  by (auto simp: less_char_def digit_val_def)

lemma digit_eq: "is_digit c \<Longrightarrow> is_digit c' \<Longrightarrow> c = c' \<longleftrightarrow> digit_val c = digit_val c'"
  by (auto simp: digit_val_def)

lemma TIME_minutes:
  assumes "TIME s"
  shows "toMinutes s = Some (minutesOfTime s)" and "minutesOfDay s = Some (minutesOfTime s)"
proof -
  obtain a b d e where s: "s = [a, b, CHR '':'', d, e]" "is_digit a" "is_digit b" "is_digit d" "is_digit e"
    using assms by (rule TIME_cases)
  have "CHR '':'' \<notin> set [a, b]" "CHR '':'' \<notin> set [d, e]"
    using s by (auto simp: is_digit_def)
  then have "js_split (CHR '':'') s = [[a, b], [d, e]]"
    using js_split_sep [of "CHR '':''" "[a, b]" "[d, e]"] js_split_no_sep [of "CHR '':''" "[d, e]"]
    by (simp add: s(1))
  then show "toMinutes s = Some (minutesOfTime s)" "minutesOfDay s = Some (minutesOfTime s)"
    using s(2-5) by (simp_all add: toMinutes_def minutesOfDay_def minutesOfTime_def js_number_def num_or_zero_def)
qed

lemma TIME_less_iff:
  assumes "TIME s" and "TIME t"
  shows "s < t \<longleftrightarrow> minutesOfTime s < minutesOfTime t"
proof -
  obtain a b d e where s: "s = [a, b, CHR '':'', d, e]" "is_digit a" "is_digit b" "is_digit d" "is_digit e"
    "digit_val d \<le> 5" using assms(1) by (rule TIME_cases)
  obtain a' b' d' e' where t: "t = [a', b', CHR '':'', d', e']" "is_digit a'" "is_digit b'"
    "is_digit d'" "is_digit e'" "digit_val d' \<le> 5" using assms(2) by (rule TIME_cases)
  note bounds = s(2-5) [THEN digit_val_bounds] t(2-5) [THEN digit_val_bounds]
  have "s < t \<longleftrightarrow> digit_val a < digit_val a' \<or> digit_val a = digit_val a' \<and> (digit_val b < digit_val b'
      \<or> digit_val b = digit_val b' \<and> (digit_val d < digit_val d'
      \<or> digit_val d = digit_val d' \<and> digit_val e < digit_val e'))"
    unfolding s(1) t(1) using s(2-5) t(2-5) by (simp add: digit_less digit_eq)
  also have "\<dots> \<longleftrightarrow> minutesOfTime s < minutesOfTime t"
    using bounds s(6) t(6) by (simp add: minutes_of_TIME [OF s(1-5)] minutes_of_TIME [OF t(1-5)]) linarith
  finally show ?thesis .
qed

lemma TIME_le_iff: "TIME s \<Longrightarrow> TIME t \<Longrightarrow> s \<le> t \<longleftrightarrow> minutesOfTime s \<le> minutesOfTime t"
  using TIME_less_iff [of t s] by (auto simp: not_less [symmetric])

lemma hhmm_parts:
  assumes "0 \<le> m" and "m < 1440"
  shows "hhmm m = [digit_char (nat (m div 60) div 10), digit_char (nat (m div 60) mod 10), CHR '':'',
    digit_char (nat (m mod 60) div 10), digit_char (nat (m mod 60) mod 10)]"
proof -
  have "m div 60 < 24" "0 \<le> m div 60" "m mod 60 < 60" "0 \<le> m mod 60" using assms by simp_all
  then have "show_int (m div 60) = show_nat (nat (m div 60))" "show_int (m mod 60) = show_nat (nat (m mod 60))"
    "nat (m div 60) < 100" "nat (m mod 60) < 100"
    by (simp_all add: show_int_def)
  then show ?thesis by (simp add: hhmm_def show_nat_two)
qed

lemma minutesOfTime_hhmm:
  assumes "0 \<le> m"
  shows "minutesOfTime (hhmm m) = m"
proof -
  have "show_int (m div 60) = show_nat (nat (m div 60))" "show_int (m mod 60) = show_nat (nat (m mod 60))"
    using assms by (simp_all add: show_int_def)
  then have "minutesOfTime (hhmm m) = int (nat (m div 60)) * 60 + int (nat (m mod 60))"
    using minutesOfTime_colon [OF pad_show_digits pad_show_digits] by (simp add: hhmm_def digits_value_pad)
  moreover have "0 \<le> m div 60" "0 \<le> m mod 60" using assms by (simp_all add: pos_imp_zdiv_nonneg_iff)
  ultimately show ?thesis by simp
qed

lemma digit_char_small:
  "digit_char 0 = CHR ''0''" "digit_char 1 = CHR ''1''" "digit_char (Suc 0) = CHR ''1''"
  "digit_char 2 = CHR ''2''"
  by (simp_all add: digit_char_def char_of_def bit_iff_odd)

lemma TIME_hhmm:
  assumes "0 \<le> m" and "m < 1440"
  shows "TIME (hhmm m)"
proof -
  define h where "h = nat (m div 60)"
  define k where "k = nat (m mod 60)"
  have h: "h < 24" and k: "k < 60" using assms by (simp_all add: h_def k_def nat_less_iff)
  have d: "h div 10 < 10" "h mod 10 < 10" "k div 10 < 10" "k mod 10 < 10" "k div 10 \<le> 5"
    using h k by simp_all
  have "h div 10 = 0 \<or> h div 10 = 1 \<or> h div 10 = 2 \<and> h mod 10 \<le> 3"
  proof -
    have "h = 10 * (h div 10) + h mod 10" by simp
    moreover have "h div 10 \<le> 2" using h by simp
    ultimately show ?thesis using h by linarith
  qed
  then have "digit_char (h div 10) = CHR ''0'' \<or> digit_char (h div 10) = CHR ''1''
    \<or> digit_char (h div 10) = CHR ''2'' \<and> int (h mod 10) \<le> 3"
    by (elim disjE conjE) (simp_all add: digit_char_small)
  then show ?thesis
    unfolding hhmm_parts [OF assms] h_def [symmetric] k_def [symmetric] TIME.simps
    using d(2-5) digit_char_facts [OF d(2)] digit_char_facts [OF d(3)] digit_char_facts [OF d(4)]
    by auto
qed

text \<open>The ranges the shop's hours can hold.\<close>

definition valid_hours :: "day_hours \<Rightarrow> bool" where
  "valid_hours r \<longleftrightarrow> TIME (dh_start r) \<and> TIME (dh_end r)
     \<and> minutesOfTime (dh_start r) < minutesOfTime (dh_end r)"

definition valid_window :: "window \<Rightarrow> bool" where
  "valid_window w \<longleftrightarrow> TIME (w_start w) \<and> TIME (w_end w)
     \<and> minutesOfTime (w_start w) < minutesOfTime (w_end w)"

lemma validRange_valid: "validRange s e = Some r \<Longrightarrow> valid_hours r"
  by (auto simp: validRange_def valid_hours_def TIME_less_iff [symmetric]
      split: option.splits json.splits if_splits)

lemma validRange_print:
  assumes "valid_hours r"
  shows "validRange (Some (JStr (dh_start r))) (Some (JStr (dh_end r))) = Some r"
  using assms by (auto simp: validRange_def valid_hours_def not_le [symmetric] TIME_le_iff)

lemma parse_day_hours_valid: "parse_day_hours d = Some r \<Longrightarrow> valid_hours r"
  by (auto simp: parse_day_hours_def dest: validRange_valid split: option.splits if_splits)


lemma normalize_day_parse:
  assumes "normalize_day key v = Inr d"
  shows "parse_day_hours v = d" and "parse_day_hours (Some (day_hours_json d)) = d"
proof -
  show p: "parse_day_hours v = d"
    using assms
    by (auto simp: normalize_day_def parse_day_hours_def jtruthy_def jprop_def validRange_def
        split: option.splits json.splits)
  show "parse_day_hours (Some (day_hours_json d)) = d"
  proof (cases d)
    case (Some r)
    with p have "valid_hours r" by (auto dest: parse_day_hours_valid)
    from validRange_print [OF this] Some show ?thesis
      by (simp add: parse_day_hours_def day_hours_json_def jtruthy_def jprop_def)
  qed (simp add: parse_day_hours_def day_hours_json_def jtruthy_def)
qed

lemma normalize_days_parse:
  assumes "normalize_days ps keys = Inr out" and "distinct keys"
  shows "map fst out = keys"
    and "\<forall>k \<in> set keys. parse_day_hours (map_of out k) = parse_day_hours (map_of ps k)"
  using assms
proof (induction keys arbitrary: out)
  case (Cons k keys)
  {
    case 1
    with Cons show ?case by (auto simp: bindE_eq_Inr)
  next
    case 2
    then obtain d rest where d: "normalize_day k (map_of ps k) = Inr d"
      and rest: "normalize_days ps keys = Inr rest" and out: "out = (k, day_hours_json d) # rest"
      by (auto simp: bindE_eq_Inr)
    from 2(2) Cons.IH(2) [OF rest] normalize_day_parse [OF d] show ?case
      by (auto simp: out)
  }
qed simp_all

text \<open>
  C3. Round trip of the shop's hours: the text \<open>normalizeBusinessHours\<close> accepts and stores is read
  back by \<open>parseBusinessHours\<close> as the same seven days the original text meant.
\<close>

theorem normalizeBusinessHours_round_trip:
  assumes "normalizeBusinessHours json = Inr stored"
  shows "parseBusinessHours (Some stored) = parseBusinessHours (Some json)
    \<and> parseBusinessHours (Some stored) \<noteq> None"
proof -
  obtain src out where j: "json = Some (JObj src)" and o: "normalize_days src WEEKDAY_KEYS = Inr out"
    and s: "stored = Some (JObj out)"
    using assms by (auto simp: normalizeBusinessHours_def bindE_eq_Inr split: option.splits json.splits)
  have "distinct WEEKDAY_KEYS" by (simp add: WEEKDAY_KEYS_def)
  from normalize_days_parse(2) [OF o this]
  have "map (\<lambda>key. parse_day_hours (map_of out key)) WEEKDAY_KEYS
      = map (\<lambda>key. parse_day_hours (map_of src key)) WEEKDAY_KEYS" by simp
  then show ?thesis by (simp add: parseBusinessHours_def j s jprop_def)
qed


text \<open>
  C5. Two shifts of valid times overlap, for \<open>shiftsOverlap\<close>, exactly when some minute of the day
  belongs to both.
\<close>

theorem shiftsOverlap_shared_minute:
  assumes "valid_hours \<lparr>dh_start = a, dh_end = b\<rparr>" and "valid_hours \<lparr>dh_start = c, dh_end = d\<rparr>"
  shows "shiftsOverlap a b c d \<longleftrightarrow>
    (\<exists>m. minutesOfTime a \<le> m \<and> m < minutesOfTime b \<and> minutesOfTime c \<le> m \<and> m < minutesOfTime d)"
proof -
  have t: "TIME a" "TIME b" "TIME c" "TIME d" and lt: "minutesOfTime a < minutesOfTime b"
    "minutesOfTime c < minutesOfTime d"
    using assms by (auto simp: valid_hours_def TIME_less_iff)
  have "shiftsOverlap a b c d \<longleftrightarrow> minutesOfTime a < minutesOfTime d \<and> minutesOfTime c < minutesOfTime b"
    by (simp add: shiftsOverlap_def t TIME_minutes)
  also have "\<dots> \<longleftrightarrow> (\<exists>m. minutesOfTime a \<le> m \<and> m < minutesOfTime b \<and> minutesOfTime c \<le> m \<and> m < minutesOfTime d)"
    using lt by (auto intro: exI [of _ "max (minutesOfTime a) (minutesOfTime c)"])
  finally show ?thesis .
qed

section \<open>The properties at concrete inputs\<close>

text \<open>A week the owner sends: open on Monday, closed otherwise, with a stray key.\<close>

definition sample_week :: json where
  "sample_week = JObj ((''monday'', JObj [(''end'', JStr ''18:30''), (''start'', JStr ''09:05'')])
     # (''holiday'', JNum 3) # map (\<lambda>k. (k, JNull)) WEEKDAY_KEYS)"


lemma normalizeBusinessHours_round_trip_witness:
  "\<exists>stored. parseBusinessHours (Some stored) = parseBusinessHours (Some (Some sample_week))
    \<and> parseBusinessHours (Some stored) \<noteq> None"
proof -
  have "\<exists>stored. normalizeBusinessHours (Some sample_week) = Inr stored"
    by (simp add: normalizeBusinessHours_def sample_week_def WEEKDAY_KEYS_def normalize_day_def
        validRange_def is_digit_def digit_val_def bindE_def of_char_def)
  then show ?thesis using normalizeBusinessHours_round_trip by blast
qed


lemma shiftsOverlap_shared_minute_witness:
  "shiftsOverlap ''09:00'' ''13:00'' ''12:30'' ''18:00'' \<longleftrightarrow>
    (\<exists>m. 540 \<le> m \<and> m < 780 \<and> 750 \<le> m \<and> m < (1080 :: int))"
proof -
  have m: "minutesOfTime ''09:00'' = 540" "minutesOfTime ''13:00'' = 780"
    "minutesOfTime ''12:30'' = 750" "minutesOfTime ''18:00'' = 1080" by code_simp+
  have "valid_hours \<lparr>dh_start = ''09:00'', dh_end = ''13:00''\<rparr>"
    "valid_hours \<lparr>dh_start = ''12:30'', dh_end = ''18:00''\<rparr>" by code_simp+
  from shiftsOverlap_shared_minute [OF this] show ?thesis by (simp add: m)
qed

end
