(* ===== verification/Staff_Access.thy ===== *)
theory Staff_Access
  imports Working_Hours
begin

text \<open>
  Who may do what in a shop, and what its plan allows: \<open>barbershop-plan.constants.ts\<close>,
  \<open>staff-roles.ts\<close> and the access section of \<open>barbershop.service.ts\<close> (\<open>getBarbershopPlan\<close> to
  \<open>ownBarberIdIfBarber\<close>).

  The theory also declares the tables these checks read (users, plans, subscriptions, networks,
  shops, team), with the columns the modelled code uses; \<open>staff_db\<close> is extended by the components
  that add their own tables. A nullable column is an option. \<open>now\<close> is the instant of the call,
  where the code reads the clock.
\<close>

section \<open>Data\<close>

record plan =
  pl_id :: int
  pl_name :: string
  pl_price :: rat
  pl_billingCycle :: string

record subscription =
  su_id :: int
  su_userId :: int
  su_planId :: int
  su_startSubDate :: int
  su_cancelationDate :: "int option"
  su_status :: string
  su_currentPeriodEnd :: "int option"

record user =
  us_id :: int
  us_isActive :: bool
  us_deleted_at :: "int option"
  us_trialEndDate :: "int option"
  us_proUntil :: "int option"
  us_email :: string
  us_roleName :: "string option"
  us_stripeCustomerId :: "string option"

record network =
  nw_id :: int
  nw_ownerUserId :: int
  nw_currency :: string
  nw_loyaltyEnabled :: bool
  nw_loyaltyPointsPerCurrencyUnit :: "rat option"
  nw_loyaltyPointValue :: "rat option"
  nw_referralBonusPoints :: int
  nw_noShowFeeEnabled :: bool
  nw_noShowFeeType :: "string option"
  nw_noShowFeeValue :: "rat option"
  nw_lateCancellationWindowHours :: int
  nw_platformSuspendedAt :: "int option"

record barbershop =
  bs_id :: int
  bs_name :: string
  bs_networkId :: int
  bs_ownerUserId :: "int option"
  bs_isActive :: bool
  bs_closedAt :: "int option"
  bs_platformSuspendedAt :: "int option"
  bs_practiceKind :: string
  bs_timezone :: string
  bs_currency :: string
  bs_businessHours :: "json_text option"
  bs_minBookingLeadMinutes :: int
  bs_slug :: string
  bs_searchHiddenAt :: "int option"

record barber =
  bb_id :: int
  bb_barbershopId :: int
  bb_userId :: "int option"
  bb_professionalId :: "int option"
  bb_staffType :: "string option"
  bb_takesAppointments :: "bool option"
  bb_isActive :: bool
  bb_accessStartsAt :: "int option"
  bb_accessEndsAt :: "int option"

record staff_db =
  plans :: "plan table"
  subscriptions :: "subscription table"
  users :: "user table"
  networks :: "network table"
  barbershops :: "barbershop table"
  barbers :: "barber table"

section \<open>Plans\<close>

datatype barbershop_module = Mod_clients | Mod_queue | Mod_cuts | Mod_appointments | Mod_products
  | Mod_barbers | Mod_cashFlow | Mod_reports | Mod_settings | Mod_inventory | Mod_packages
  | Mod_subscriptions

datatype tier = BASIC | MEDIUM | PREMIUM

text \<open>\<open>PLAN_TIERS\<close> names one plan for each tier; the comparison ignores case and outer spaces.\<close>

definition PLAN_TIERS :: "tier \<Rightarrow> string list" where
  "PLAN_TIERS t = (case t of BASIC \<Rightarrow> [''Basic''] | MEDIUM \<Rightarrow> [''Standard''] | PREMIUM \<Rightarrow> [''Premium''])"

definition MODULES_BY_TIER :: "tier \<Rightarrow> barbershop_module list" where
  "MODULES_BY_TIER t = (let
       basic = [Mod_clients, Mod_queue, Mod_cuts, Mod_appointments, Mod_barbers, Mod_settings];
       medium = basic @ [Mod_products, Mod_inventory]
     in case t of BASIC \<Rightarrow> basic | MEDIUM \<Rightarrow> medium
       | PREMIUM \<Rightarrow> medium @ [Mod_cashFlow, Mod_reports, Mod_packages, Mod_subscriptions])"

text \<open>\<open>None\<close> is \<open>Infinity\<close>.\<close>

record plan_limits =
  maxBarbershops :: "int option"
  maxBarbersPerShop :: "int option"

definition LIMITS_BY_TIER :: "tier \<Rightarrow> plan_limits" where
  "LIMITS_BY_TIER t = (case t of
       BASIC \<Rightarrow> \<lparr>maxBarbershops = Some 1, maxBarbersPerShop = Some 3\<rparr>
     | MEDIUM \<Rightarrow> \<lparr>maxBarbershops = Some 3, maxBarbersPerShop = Some 10\<rparr>
     | PREMIUM \<Rightarrow> \<lparr>maxBarbershops = None, maxBarbersPerShop = None\<rparr>)"

definition resolveTier :: "string \<Rightarrow> tier" where
  "resolveTier planName = (let name = js_trim planName in
     if \<exists>p \<in> set (PLAN_TIERS PREMIUM). js_lower p = js_lower name then PREMIUM
     else if \<exists>p \<in> set (PLAN_TIERS MEDIUM). js_lower p = js_lower name then MEDIUM
     else BASIC)"

definition getPlanLimits :: "string \<Rightarrow> plan_limits" where
  "getPlanLimits planName = LIMITS_BY_TIER (resolveTier planName)"

definition getModulesForPlanName :: "string \<Rightarrow> barbershop_module list" where
  "getModulesForPlanName planName = MODULES_BY_TIER (resolveTier planName)"

definition planIncludesModule :: "string \<Rightarrow> barbershop_module \<Rightarrow> bool" where
  "planIncludesModule planName m \<longleftrightarrow> m \<in> set (getModulesForPlanName planName)"

definition effectivePlanName :: "string \<Rightarrow> int option \<Rightarrow> int \<Rightarrow> string" where
  "effectivePlanName planName trialEndDate now = (case trialEndDate of
       Some t \<Rightarrow> if now < t then ''Premium'' else planName
     | None \<Rightarrow> planName)"

text \<open>\<open>orderBy: startSubDate desc, take: 1\<close> among the active subscriptions of a user.\<close>

fun latest_sub :: "subscription option \<Rightarrow> subscription list \<Rightarrow> subscription option" where
  "latest_sub best [] = best"
| "latest_sub best (s # ss) = latest_sub (case best of
       None \<Rightarrow> Some s
     | Some b \<Rightarrow> if su_startSubDate b < su_startSubDate s then Some s else Some b) ss"

definition activeSubscription :: "'a staff_db_scheme \<Rightarrow> int \<Rightarrow> subscription option" where
  "activeSubscription db userId = latest_sub None
     (find_many (\<lambda>s. su_userId s = userId \<and> su_status s = ''ACTIVE'') (subscriptions db))"

definition planOfSubscription :: "'a staff_db_scheme \<Rightarrow> subscription \<Rightarrow> plan option" where
  "planOfSubscription db s = find_first (\<lambda>p. pl_id p = su_planId s) (plans db)"

definition userById :: "'a staff_db_scheme \<Rightarrow> int \<Rightarrow> user option" where
  "userById db i = find_first (\<lambda>u. us_id u = i) (users db)"

definition networkOf :: "'a staff_db_scheme \<Rightarrow> barbershop \<Rightarrow> network option" where
  "networkOf db shop = find_first (\<lambda>n. nw_id n = bs_networkId shop) (networks db)"

definition shopById :: "'a staff_db_scheme \<Rightarrow> int \<Rightarrow> barbershop option" where
  "shopById db i = find_first (\<lambda>s. bs_id s = i) (barbershops db)"

text \<open>The owner of the shop, or else of its network.\<close>

definition planOwner :: "'a staff_db_scheme \<Rightarrow> int \<Rightarrow> user option" where
  "planOwner db barbershopId = Option.bind (shopById db barbershopId) (\<lambda>shop.
     case Option.bind (bs_ownerUserId shop) (userById db) of
       Some u \<Rightarrow> Some u
     | None \<Rightarrow> Option.bind (networkOf db shop) (\<lambda>n. userById db (nw_ownerUserId n)))"

definition getBarbershopPlan :: "'a staff_db_scheme \<Rightarrow> int \<Rightarrow> plan option" where
  "getBarbershopPlan db barbershopId = Option.bind (planOwner db barbershopId) (\<lambda>owner.
     Option.bind (activeSubscription db (us_id owner)) (planOfSubscription db))"

definition activePlanName :: "'a staff_db_scheme \<Rightarrow> user option \<Rightarrow> string" where
  "activePlanName db owner =
     (case Option.bind owner (\<lambda>o'. Option.bind (activeSubscription db (us_id o')) (planOfSubscription db)) of
        None \<Rightarrow> [] | Some p \<Rightarrow> pl_name p)"

definition effectivePlanForShop :: "'a staff_db_scheme \<Rightarrow> int \<Rightarrow> int \<Rightarrow> string" where
  "effectivePlanForShop db now barbershopId = (let owner = planOwner db barbershopId in
     effectivePlanName (activePlanName db owner) (Option.bind owner us_trialEndDate) now)"

definition canAccessModule :: "'a staff_db_scheme \<Rightarrow> int \<Rightarrow> int \<Rightarrow> barbershop_module \<Rightarrow> bool" where
  "canAccessModule db now barbershopId m =
     planIncludesModule (effectivePlanForShop db now barbershopId) m"

definition ensureModuleAccess :: "'a staff_db_scheme \<Rightarrow> int \<Rightarrow> int \<Rightarrow> barbershop_module \<Rightarrow> unit result" where
  "ensureModuleAccess db now barbershopId m = throwIf (\<not> canAccessModule db now barbershopId m)
     (Forbidden ''Este recurso nao esta disponivel no seu plano atual. Faca upgrade para acessa-lo.'')"

definition getAvailableModules :: "'a staff_db_scheme \<Rightarrow> int \<Rightarrow> int \<Rightarrow> barbershop_module list" where
  "getAvailableModules db now barbershopId =
     getModulesForPlanName (effectivePlanForShop db now barbershopId)"

definition getPlanLimitsForBarbershop :: "'a staff_db_scheme \<Rightarrow> int \<Rightarrow> int \<Rightarrow> plan_limits" where
  "getPlanLimitsForBarbershop db now barbershopId =
     getPlanLimits (effectivePlanForShop db now barbershopId)"

definition getPlanLimitsForOwner :: "'a staff_db_scheme \<Rightarrow> int \<Rightarrow> int \<Rightarrow> plan_limits" where
  "getPlanLimitsForOwner db now ownerUserId = (let owner = userById db ownerUserId in
     getPlanLimits (effectivePlanName (activePlanName db owner) (Option.bind owner us_trialEndDate) now))"

section \<open>Team members\<close>

definition STAFF_TYPES :: "string list" where
  "STAFF_TYPES = [''basic'', ''barber'', ''reception'', ''manager'']"

definition isStaffType :: "string option \<Rightarrow> bool" where
  "isStaffType v \<longleftrightarrow> (case v of None \<Rightarrow> False | Some s \<Rightarrow> s \<in> set STAFF_TYPES)"

definition takesAppointments :: "barber \<Rightarrow> bool" where
  "takesAppointments b = (case bb_takesAppointments b of
     Some t \<Rightarrow> t | None \<Rightarrow> bb_staffType b \<noteq> Some ''reception'')"

text \<open>The query filter \<open>BOOKABLE_STAFF\<close>.\<close>

definition BOOKABLE_STAFF :: "barber \<Rightarrow> bool" where
  "BOOKABLE_STAFF b \<longleftrightarrow> bb_takesAppointments b = Some True
     \<or> bb_takesAppointments b = None
       \<and> (bb_staffType b = None \<or> bb_staffType b \<noteq> Some ''reception'')"

definition currentEngagement :: "int \<Rightarrow> barber \<Rightarrow> bool" where
  "currentEngagement now b \<longleftrightarrow> bb_isActive b
     \<and> (case bb_accessStartsAt b of None \<Rightarrow> True | Some s \<Rightarrow> s \<le> now)
     \<and> (case bb_accessEndsAt b of None \<Rightarrow> True | Some e \<Rightarrow> e \<ge> now)"

definition withinEngagement :: "int option \<Rightarrow> int option \<Rightarrow> int \<Rightarrow> bool" where
  "withinEngagement accessStartsAt accessEndsAt startAt \<longleftrightarrow>
     (case accessStartsAt of None \<Rightarrow> True | Some s \<Rightarrow> startAt \<ge> s)
     \<and> (case accessEndsAt of None \<Rightarrow> True | Some e \<Rightarrow> startAt \<le> e)"

section \<open>Seats of the plan\<close>

definition shopOwnerIds :: "'a staff_db_scheme \<Rightarrow> int \<Rightarrow> int list" where
  "shopOwnerIds db barbershopId = (case shopById db barbershopId of
       None \<Rightarrow> []
     | Some shop \<Rightarrow>
         (case bs_ownerUserId shop of None \<Rightarrow> [] | Some i \<Rightarrow> [i])
         @ (case networkOf db shop of None \<Rightarrow> [] | Some n \<Rightarrow> [nw_ownerUserId n]))"

definition takes_seat :: "int \<Rightarrow> int list \<Rightarrow> int \<Rightarrow> barber \<Rightarrow> bool" where
  "takes_seat now owners barbershopId b \<longleftrightarrow> bb_barbershopId b = barbershopId \<and> bb_isActive b
     \<and> (case bb_accessEndsAt b of None \<Rightarrow> True | Some e \<Rightarrow> e \<ge> now)
     \<and> BOOKABLE_STAFF b
     \<and> (owners = [] \<or> (case bb_userId b of None \<Rightarrow> True | Some u \<Rightarrow> u \<notin> set owners))"

definition countPlanSeats :: "'a staff_db_scheme \<Rightarrow> int \<Rightarrow> int \<Rightarrow> int" where
  "countPlanSeats db now barbershopId =
     count_where (takes_seat now (shopOwnerIds db barbershopId) barbershopId) (barbers db)"

definition ensureBarberLimitNotExceeded :: "'a staff_db_scheme \<Rightarrow> int \<Rightarrow> int \<Rightarrow> unit result" where
  "ensureBarberLimitNotExceeded db now barbershopId =
     (case maxBarbersPerShop (getPlanLimitsForBarbershop db now barbershopId) of
        None \<Rightarrow> Inr ()
      | Some limit \<Rightarrow> throwIf (countPlanSeats db now barbershopId \<ge> limit)
          (BadRequest (''Seu plano permite no maximo '' @ show_int limit
            @ '' profissional(is) que atendem por unidade - quem so administra (recepcao, gerente sem agenda) nao conta. Faca upgrade para adicionar mais.'')))"

fun check_shops_fit :: "'a staff_db_scheme \<Rightarrow> int \<Rightarrow> string \<Rightarrow> int \<Rightarrow> barbershop list \<Rightarrow> unit result" where
  "check_shops_fit db now planName limit [] = Inr ()"
| "check_shops_fit db now planName limit (shop # shops) =
     (let used = countPlanSeats db now (bs_id shop) in
      if used > limit then Inl (BadRequest (''O plano '' @ planName @ '' permite '' @ show_int limit
        @ '' profissional(is) que atendem por unidade e '' @ [CHR 0x22] @ bs_name shop @ [CHR 0x22]
        @ '' tem '' @ show_int used
        @ ''. Ajuste a equipe antes de trocar.''))
      else check_shops_fit db now planName limit shops)"

definition assertUsageFitsPlan :: "'a staff_db_scheme \<Rightarrow> int \<Rightarrow> int \<Rightarrow> string \<Rightarrow> unit result" where
  "assertUsageFitsPlan db now ownerUserId planName = (let
       limits = getPlanLimits planName;
       shops = find_many (\<lambda>s. (case networkOf db s of None \<Rightarrow> False
           | Some n \<Rightarrow> nw_ownerUserId n = ownerUserId)
         \<and> bs_practiceKind s = ''shop'' \<and> bs_closedAt s = None) (barbershops db)
     in case maxBarbershops limits of
          Some m \<Rightarrow>
            if int (length shops) > m then
              Inl (BadRequest (''O plano '' @ planName @ '' permite '' @ show_int m
                @ '' unidade(s) e a rede tem '' @ show_int (int (length shops))
                @ ''. Desative unidades antes de trocar.''))
            else (case maxBarbersPerShop limits of None \<Rightarrow> Inr ()
              | Some l \<Rightarrow> check_shops_fit db now planName l shops)
        | None \<Rightarrow> (case maxBarbersPerShop limits of None \<Rightarrow> Inr ()
              | Some l \<Rightarrow> check_shops_fit db now planName l shops))"

section \<open>Access levels\<close>

datatype access_level = Basic | Barber | Reception | Manager | Owner

definition ACCESS_RANK :: "access_level \<Rightarrow> int" where
  "ACCESS_RANK l = (case l of Basic \<Rightarrow> 1 | Barber \<Rightarrow> 2 | Reception \<Rightarrow> 3 | Manager \<Rightarrow> 4 | Owner \<Rightarrow> 5)"

instantiation access_level :: linorder
begin

definition less_eq_access_level :: "access_level \<Rightarrow> access_level \<Rightarrow> bool" where
  "less_eq_access_level a b \<longleftrightarrow> ACCESS_RANK a \<le> ACCESS_RANK b"

definition less_access_level :: "access_level \<Rightarrow> access_level \<Rightarrow> bool" where
  "less_access_level a b \<longleftrightarrow> ACCESS_RANK a < ACCESS_RANK b"

instance
  by standard
    (auto simp: less_eq_access_level_def less_access_level_def ACCESS_RANK_def split: access_level.splits)

end

text \<open>Same currency, whatever the case and the spaces; no currency is BRL.\<close>

definition sameCurrency :: "string option \<Rightarrow> string option \<Rightarrow> bool" where
  "sameCurrency a b = (let norm = (\<lambda>c. js_upper (js_trim (case c of None \<Rightarrow> ''BRL'' | Some s \<Rightarrow> s)))
     in norm a = norm b)"

definition networkMoneyRules :: "barbershop \<Rightarrow> network \<Rightarrow> network" where
  "networkMoneyRules shop network =
     (if sameCurrency (Some (bs_currency shop)) (Some (nw_currency network)) then network
      else network\<lparr>nw_loyaltyEnabled := False,
        nw_noShowFeeEnabled := (if nw_noShowFeeType network = Some ''FIXED'' then False
          else nw_noShowFeeEnabled network)\<rparr>)"

text \<open>\<open>isStaffType(t) ? t : 'barber'\<close>, as an access level.\<close>

definition level_of_staff :: "string option \<Rightarrow> access_level" where
  "level_of_staff t = (if t = Some ''basic'' then Basic else if t = Some ''reception'' then Reception
     else if t = Some ''manager'' then Manager else Barber)"

text \<open>The shop with what the check adds to it.\<close>

record shop_access =
  sa_shop :: barbershop
  sa_accessLevel :: access_level
  sa_network :: "network option"

definition owns_shop :: "'a staff_db_scheme \<Rightarrow> int \<Rightarrow> barbershop \<Rightarrow> bool" where
  "owns_shop db userId shop \<longleftrightarrow> bs_ownerUserId shop = Some userId
     \<or> (case networkOf db shop of None \<Rightarrow> False | Some n \<Rightarrow> nw_ownerUserId n = userId)"

definition accessLevelOf :: "'a staff_db_scheme \<Rightarrow> int \<Rightarrow> int \<Rightarrow> barbershop \<Rightarrow> access_level option" where
  "accessLevelOf db now userId shop =
     (if bs_closedAt shop \<noteq> None then None
      else if owns_shop db userId shop then Some Owner
      else (case find_first (\<lambda>b. bb_barbershopId b = bs_id shop \<and> bb_userId b = Some userId
                 \<and> currentEngagement now b) (barbers db) of
              None \<Rightarrow> None
            | Some staff \<Rightarrow> Some (level_of_staff (bb_staffType staff))))"

definition ensureBarbershopAccess ::
    "'a staff_db_scheme \<Rightarrow> int \<Rightarrow> int \<Rightarrow> int \<Rightarrow> access_level \<Rightarrow> shop_access result" where
  "ensureBarbershopAccess db now userId barbershopId lmin =
     (case shopById db barbershopId of
        None \<Rightarrow> Inl (Forbidden ''Unidade nao encontrada'')
      | Some shop \<Rightarrow>
          (case accessLevelOf db now userId shop of
             None \<Rightarrow> Inl (Forbidden ''Voce nao tem acesso a esta unidade'')
           | Some level \<Rightarrow>
               if ACCESS_RANK level < ACCESS_RANK lmin then
                 Inl (Forbidden ''Seu cargo nesta unidade nao permite essa acao.'')
               else Inr \<lparr>sa_shop = shop, sa_accessLevel = level,
                      sa_network = map_option (networkMoneyRules shop) (networkOf db shop)\<rparr>))"

definition getMyAccessLevel :: "'a staff_db_scheme \<Rightarrow> int \<Rightarrow> int \<Rightarrow> int \<Rightarrow> access_level option" where
  "getMyAccessLevel db now userId barbershopId =
     Option.bind (shopById db barbershopId) (accessLevelOf db now userId)"

definition ensureBarberOfBarbershop :: "'a staff_db_scheme \<Rightarrow> int \<Rightarrow> int \<Rightarrow> bool \<Rightarrow> int result" where
  "ensureBarberOfBarbershop db barbershopId barberId active =
     (case find_first (\<lambda>b. bb_id b = barberId \<and> bb_barbershopId b = barbershopId
         \<and> BOOKABLE_STAFF b \<and> (active \<longrightarrow> bb_isActive b)) (barbers db) of
        None \<Rightarrow> Inl (NotFound ''Profissional nao encontrado'')
      | Some b \<Rightarrow> Inr (bb_id b))"

definition OWN_AGENDA_ONLY :: "access_level list" where
  "OWN_AGENDA_ONLY = [Basic, Barber]"

definition ownBarberIdIfBarber :: "'a staff_db_scheme \<Rightarrow> int \<Rightarrow> shop_access \<Rightarrow> int option" where
  "ownBarberIdIfBarber db userId shop =
     (if sa_accessLevel shop \<notin> set OWN_AGENDA_ONLY then None
      else (case find_first (\<lambda>b. bb_barbershopId b = bs_id (sa_shop shop) \<and> bb_userId b = Some userId
                 \<and> bb_isActive b) (barbers db) of
              None \<Rightarrow> Some (- 1)
            | Some me \<Rightarrow> Some (bb_id me)))"

definition ensureCanBookForBarber ::
    "'a staff_db_scheme \<Rightarrow> int \<Rightarrow> int \<Rightarrow> int \<Rightarrow> int \<Rightarrow> shop_access result" where
  "ensureCanBookForBarber db now userId barbershopId barberId =
     bindE (ensureBarbershopAccess db now userId barbershopId Basic) (\<lambda>shop.
       let ownBarberId = ownBarberIdIfBarber db userId shop in
       if ownBarberId \<noteq> None \<and> Some barberId \<noteq> ownBarberId then
         Inl (Forbidden ''Seu cargo so permite agendar na sua propria agenda.'')
       else bindE (ensureBarberOfBarbershop db barbershopId barberId False) (\<lambda>_. Inr shop))"

definition ensureCanManageBarber ::
    "'a staff_db_scheme \<Rightarrow> int \<Rightarrow> int \<Rightarrow> int \<Rightarrow> int \<Rightarrow> shop_access result" where
  "ensureCanManageBarber db now userId barbershopId barberId =
     bindE (ensureBarbershopAccess db now userId barbershopId Basic) (\<lambda>shop.
       if ACCESS_RANK (sa_accessLevel shop) \<ge> ACCESS_RANK Manager then Inr shop
       else (case find_first (\<lambda>b. bb_id b = barberId \<and> bb_barbershopId b = barbershopId
                  \<and> bb_userId b = Some userId \<and> bb_isActive b) (barbers db) of
               None \<Rightarrow> Inl (Forbidden ''Seu cargo so permite mexer na sua propria agenda.'')
             | Some _ \<Rightarrow> Inr shop))"

text \<open>An appointment of another professional does not exist for a barber.\<close>

definition ensureOwnAppointment :: "int option \<Rightarrow> int \<Rightarrow> unit result" where
  "ensureOwnAppointment ownBarberId barberId =
     throwIf (ownBarberId \<noteq> None \<and> Some barberId \<noteq> ownBarberId) (NotFound ''Agendamento nao encontrado'')"

definition getPlanSeatUsage ::
    "'a staff_db_scheme \<Rightarrow> int \<Rightarrow> int \<Rightarrow> int \<Rightarrow> (int \<times> int option) result" where
  "getPlanSeatUsage db now userId barbershopId =
     bindE (ensureBarbershopAccess db now userId barbershopId Manager) (\<lambda>_.
       Inr (countPlanSeats db now barbershopId,
            maxBarbersPerShop (getPlanLimitsForBarbershop db now barbershopId)))"

section \<open>Laws of an access check\<close>

text \<open>
  What every operation of the services relies on when it calls the check with the level it
  needs: the caller gets the resource with the level he has, which is at least the one asked
  for, and a caller who has a level passes every check up to it, with the same resource.
\<close>

locale gatekeeper =
  fixes access :: "'l::linorder \<Rightarrow> 'e + 'r"
    and level :: "'r \<Rightarrow> 'l"
  assumes granted: "access m = Inr r \<Longrightarrow> m \<le> level r"
    and complete: "access m = Inr r \<Longrightarrow> m' \<le> level r \<Longrightarrow> access m' = Inr r"
begin

lemma downward: "access m = Inr r \<Longrightarrow> m' \<le> m \<Longrightarrow> access m' = Inr r"
  using granted complete order_trans by blast

lemma same_resource: "access m = Inr r \<Longrightarrow> access m' = Inr r' \<Longrightarrow> r = r'"
  by (metis downward linear sum.inject(2))

lemma both: "access m = Inr r \<Longrightarrow> access m' = Inr r' \<Longrightarrow> access (max m m') = Inr r"
  by (metis max_def same_resource)

lemma refused_upward: "access m = Inl e \<Longrightarrow> m \<le> m' \<Longrightarrow> \<exists>e'. access m' = Inl e'"
  by (metis downward sum.exhaust sum.simps(4))

lemma guarded:
  assumes "bindE (access m) f = Inr y" and "m' \<le> m"
  obtains r where "access m' = Inr r" and "m \<le> level r" and "f r = Inr y"
  using assms by (auto simp: bindE_eq_Inr intro: downward granted)

end

lemma ensureBarbershopAccess_Inr:
  "ensureBarbershopAccess db now u s m = Inr r \<longleftrightarrow>
     (\<exists>shop l. shopById db s = Some shop \<and> accessLevelOf db now u shop = Some l \<and> m \<le> l
        \<and> r = \<lparr>sa_shop = shop, sa_accessLevel = l,
                sa_network = map_option (networkMoneyRules shop) (networkOf db shop)\<rparr>)"
  by (auto simp: ensureBarbershopAccess_def less_eq_access_level_def split: option.splits)

interpretation staff: gatekeeper "ensureBarbershopAccess db now userId barbershopId" sa_accessLevel
  for db :: "'a staff_db_scheme" and now userId barbershopId
  by unfold_locales (auto simp: ensureBarbershopAccess_Inr)

section \<open>The tables are well formed\<close>

interpretation shop_tab: row_table bs_id "table_ok bs_id"
  by unfold_locales (rule table_ok_def)

interpretation barber_tab: row_table bb_id "table_ok bb_id"
  by unfold_locales (rule table_ok_def)

interpretation user_tab: row_table us_id "table_ok us_id"
  by unfold_locales (rule table_ok_def)

text \<open>The unique constraint \<open>(barbershopId, userId)\<close> of the team table.\<close>

definition one_engagement :: "barber table \<Rightarrow> bool" where
  "one_engagement t \<longleftrightarrow> (\<forall>b \<in> set (rows t). \<forall>c \<in> set (rows t).
     bb_userId b \<noteq> None \<and> bb_userId b = bb_userId c \<and> bb_barbershopId b = bb_barbershopId c \<longrightarrow> b = c)"

definition staff_ok :: "'a staff_db_scheme \<Rightarrow> bool" where
  "staff_ok db \<longleftrightarrow> table_ok bs_id (barbershops db) \<and> table_ok bb_id (barbers db)
     \<and> table_ok us_id (users db) \<and> one_engagement (barbers db)"

lemma shopById_iff:
  assumes "table_ok bs_id (barbershops db)"
  shows "shopById db i = Some shop \<longleftrightarrow> shop \<in> set (rows (barbershops db)) \<and> bs_id shop = i"
  using find_first_Some [of _ "barbershops db"] shop_tab.find_by_key [OF assms]
  by (auto simp: shopById_def)

lemma engagement_found:
  assumes "one_engagement (barbers db)" and "b \<in> set (rows (barbers db))"
    and "bb_barbershopId b = s" and "bb_userId b = Some u" and "P b"
  shows "find_first (\<lambda>c. bb_barbershopId c = s \<and> bb_userId c = Some u \<and> P c) (barbers db) = Some b"
proof (cases "find_first (\<lambda>c. bb_barbershopId c = s \<and> bb_userId c = Some u \<and> P c) (barbers db)")
  case None
  with assms show ?thesis by (auto simp: find_first_None)
next
  case (Some c)
  with find_first_Some [OF Some] assms show ?thesis by (auto simp: one_engagement_def)
qed

text \<open>
  The rule the access check implements, stated on the rows: the shop is open, and the user owns
  it (or its network), or he is in its team today.
\<close>

definition has_level :: "'a staff_db_scheme \<Rightarrow> int \<Rightarrow> int \<Rightarrow> barbershop \<Rightarrow> access_level \<Rightarrow> bool" where
  "has_level db now u shop l \<longleftrightarrow> bs_closedAt shop = None
     \<and> (if owns_shop db u shop then l = Owner
        else \<exists>b \<in> set (rows (barbers db)). bb_barbershopId b = bs_id shop \<and> bb_userId b = Some u
          \<and> currentEngagement now b \<and> l = level_of_staff (bb_staffType b))"

lemma accessLevelOf_iff:
  assumes "one_engagement (barbers db)"
  shows "accessLevelOf db now u shop = Some l \<longleftrightarrow> has_level db now u shop l"
proof -
  let ?p = "\<lambda>b. bb_barbershopId b = bs_id shop \<and> bb_userId b = Some u \<and> currentEngagement now b"
  show ?thesis
  proof (cases "find_first ?p (barbers db)")
    case None
    then have "\<not> (\<exists>b \<in> set (rows (barbers db)). ?p b \<and> l = level_of_staff (bb_staffType b))"
      by (auto simp: find_first_None)
    with None show ?thesis by (auto simp: accessLevelOf_def has_level_def)
  next
    case (Some b)
    have "b \<in> set (rows (barbers db))" "?p b" using find_first_Some [OF Some] by auto
    moreover have "c = b" if "c \<in> set (rows (barbers db))" "?p c" for c
      using assms that \<open>b \<in> set (rows (barbers db))\<close> \<open>?p b\<close> unfolding one_engagement_def by force
    ultimately have "(\<exists>b \<in> set (rows (barbers db)). ?p b \<and> l = level_of_staff (bb_staffType b))
        \<longleftrightarrow> l = level_of_staff (bb_staffType b)" by blast
    with Some show ?thesis by (auto simp: accessLevelOf_def has_level_def)
  qed
qed

text \<open>
  C6. The access check grants a level exactly when the rule on the rows does: it answers with the
  shop, the caller's level and the network's rules for the shop's currency if and only if the
  shop exists, is open, and the caller owns it or has a current engagement in its team whose rank
  reaches the level asked for.
\<close>

theorem ensureBarbershopAccess_iff:
  assumes "staff_ok db"
  shows "ensureBarbershopAccess db now u s m = Inr r \<longleftrightarrow>
    (\<exists>shop \<in> set (rows (barbershops db)). bs_id shop = s \<and> sa_shop r = shop
       \<and> has_level db now u shop (sa_accessLevel r) \<and> m \<le> sa_accessLevel r
       \<and> sa_network r = map_option (networkMoneyRules shop) (networkOf db shop))"
proof -
  have "table_ok bs_id (barbershops db)" "one_engagement (barbers db)"
    using assms by (simp_all add: staff_ok_def)
  note ok = shopById_iff [OF this(1)] accessLevelOf_iff [OF this(2)]
  show ?thesis
    by (cases r) (auto simp: ensureBarbershopAccess_Inr ok)
qed

section \<open>Own agenda\<close>

lemma level_of_staff_rank:
  "level_of_staff t \<le> Barber \<longleftrightarrow> t \<noteq> Some ''reception'' \<and> t \<noteq> Some ''manager''"
  by (auto simp: level_of_staff_def less_eq_access_level_def ACCESS_RANK_def)

lemma takesAppointments_iff: "BOOKABLE_STAFF b \<longleftrightarrow> takesAppointments b"
  by (auto simp: BOOKABLE_STAFF_def takesAppointments_def split: option.splits)

lemma ensureBarberOfBarbershop_Inr:
  assumes "table_ok bb_id (barbers db)"
  shows "ensureBarberOfBarbershop db s i active = Inr k \<longleftrightarrow> k = i \<and>
    (\<exists>b \<in> set (rows (barbers db)). bb_id b = i \<and> bb_barbershopId b = s \<and> takesAppointments b
       \<and> (active \<longrightarrow> bb_isActive b))"
proof (cases "find_first (\<lambda>b. bb_id b = i \<and> bb_barbershopId b = s \<and> BOOKABLE_STAFF b
    \<and> (active \<longrightarrow> bb_isActive b)) (barbers db)")
  case None
  then have "ensureBarberOfBarbershop db s i active = Inl (NotFound ''Profissional nao encontrado'')"
    by (simp add: ensureBarberOfBarbershop_def)
  moreover have "\<not> (\<exists>b \<in> set (rows (barbers db)). bb_id b = i \<and> bb_barbershopId b = s
      \<and> takesAppointments b \<and> (active \<longrightarrow> bb_isActive b))"
    using None by (auto simp: find_first_None takesAppointments_iff)
  ultimately show ?thesis by simp
next
  case (Some b)
  from find_first_Some [OF Some] Some show ?thesis
    by (auto simp: ensureBarberOfBarbershop_def takesAppointments_iff)
qed

lemma ownBarberId_own:
  assumes "ownBarberIdIfBarber db u shop = Some i" and "i \<noteq> - 1"
  shows "\<exists>b \<in> set (rows (barbers db)). bb_id b = i \<and> bb_barbershopId b = bs_id (sa_shop shop)
    \<and> bb_userId b = Some u \<and> bb_isActive b"
  using assms find_first_Some [of _ "barbers db"]
  by (fastforce simp: ownBarberIdIfBarber_def split: if_splits option.splits)


section \<open>Plans and seats\<close>

lemma tiers_nested:
  "set (MODULES_BY_TIER BASIC) \<subseteq> set (MODULES_BY_TIER MEDIUM)"
  "set (MODULES_BY_TIER MEDIUM) \<subseteq> set (MODULES_BY_TIER PREMIUM)"
  "m \<in> set (MODULES_BY_TIER PREMIUM)"
  by (auto simp: MODULES_BY_TIER_def Let_def) (cases m; simp)

lemma Premium_tier [simp]: "resolveTier ''Premium'' = PREMIUM"
  by code_simp

text \<open>
  During the trial of the shop's owner every module of the system passes the plan check and
  the team has no limit of seats.
\<close>

lemma trial_opens_everything:
  assumes "planOwner db s = Some owner" and "us_trialEndDate owner = Some t" and "now < t"
  shows "ensureModuleAccess db now s m = Inr () \<and> ensureBarberLimitNotExceeded db now s = Inr ()"
  using assms tiers_nested(3)
  by (simp_all add: ensureModuleAccess_def canAccessModule_def planIncludesModule_def
      effectivePlanForShop_def effectivePlanName_def getModulesForPlanName_def LIMITS_BY_TIER_def
      ensureBarberLimitNotExceeded_def getPlanLimitsForBarbershop_def getPlanLimits_def Let_def)


definition open_shops :: "'a staff_db_scheme \<Rightarrow> int \<Rightarrow> barbershop set" where
  "open_shops db ownerUserId = {s \<in> set (rows (barbershops db)). bs_practiceKind s = ''shop''
     \<and> bs_closedAt s = None
     \<and> (\<exists>n. networkOf db s = Some n \<and> nw_ownerUserId n = ownerUserId)}"

lemma check_shops_fit_Inr:
  "check_shops_fit db now name limit shops = Inr () \<longleftrightarrow>
     (\<forall>s \<in> set shops. countPlanSeats db now (bs_id s) \<le> limit)"
  by (induction shops) (auto simp: Let_def not_less)

text \<open>
  A change of plan is accepted exactly when what the owner uses fits the new plan: at most
  the plan's number of open shops, and in each of them at most the plan's number of seats.
\<close>

lemma assertUsageFitsPlan_iff:
  assumes "staff_ok db"
  shows "assertUsageFitsPlan db now o' name = Inr () \<longleftrightarrow>
    (case maxBarbershops (getPlanLimits name) of None \<Rightarrow> True
       | Some m \<Rightarrow> int (card (open_shops db o')) \<le> m)
    \<and> (\<forall>s \<in> open_shops db o'. case maxBarbersPerShop (getPlanLimits name) of None \<Rightarrow> True
       | Some l \<Rightarrow> countPlanSeats db now (bs_id s) \<le> l)"
proof -
  let ?p = "\<lambda>s. (case networkOf db s of None \<Rightarrow> False | Some n \<Rightarrow> nw_ownerUserId n = o')
    \<and> bs_practiceKind s = ''shop'' \<and> bs_closedAt s = None"
  define shops where "shops = find_many ?p (barbershops db)"
  have set: "set shops = open_shops db o'"
    by (auto simp: open_shops_def shops_def split: option.splits)
  have "distinct (map bs_id (rows (barbershops db)))"
    using assms by (simp add: staff_ok_def table_ok_def)
  then have "distinct shops" by (simp add: shops_def find_many_def distinct_map)
  then have len: "length shops = card (open_shops db o')"
    using distinct_card [of shops] set by simp
  show ?thesis
    unfolding assertUsageFitsPlan_def Let_def shops_def [symmetric]
    by (auto simp: len set check_shops_fit_Inr not_less split: option.splits)
qed

section \<open>The properties at concrete inputs\<close>

text \<open>
  One network (owner 1, on trial until 500), one shop and a team of two: the barber 11 (user 2)
  and the receptionist 12 (user 3), whose engagement ended at 50.
\<close>

definition sample_user :: "int \<Rightarrow> int option \<Rightarrow> user" where
  "sample_user i trial = \<lparr>us_id = i, us_isActive = True, us_deleted_at = None,
     us_trialEndDate = trial, us_proUntil = None, us_email = ''pessoa@exemplo.com'', us_roleName = None, us_stripeCustomerId = None\<rparr>"

definition sample_barber :: "int \<Rightarrow> int \<Rightarrow> string \<Rightarrow> int option \<Rightarrow> barber" where
  "sample_barber i u t e = \<lparr>bb_id = i, bb_barbershopId = 7, bb_userId = Some u, bb_professionalId = None,
     bb_staffType = Some t, bb_takesAppointments = None, bb_isActive = True,
     bb_accessStartsAt = None, bb_accessEndsAt = e\<rparr>"

definition sample_shop :: barbershop where
  "sample_shop = \<lparr>bs_id = 7, bs_name = ''Centro'', bs_networkId = 5, bs_ownerUserId = None,
     bs_isActive = True, bs_closedAt = None, bs_platformSuspendedAt = None, bs_practiceKind = ''shop'',
     bs_timezone = ''America/Sao_Paulo'', bs_currency = ''BRL'', bs_businessHours = None,
     bs_minBookingLeadMinutes = 30, bs_slug = ''unidade'', bs_searchHiddenAt = None\<rparr>"

definition sample_db :: staff_db where
  "sample_db = \<lparr>plans = \<lparr>rows = [\<lparr>pl_id = 3, pl_name = ''Basic'', pl_price = 49, pl_billingCycle = ''MONTHLY''\<rparr>], seq = 4\<rparr>,
     subscriptions = \<lparr>rows = [\<lparr>su_id = 9, su_userId = 1, su_planId = 3, su_startSubDate = 10,
        su_cancelationDate = None, su_status = ''ACTIVE'', su_currentPeriodEnd = None\<rparr>], seq = 10\<rparr>,
     users = \<lparr>rows = [sample_user 1 (Some 500), sample_user 2 None, sample_user 3 None], seq = 4\<rparr>,
     networks = \<lparr>rows = [\<lparr>nw_id = 5, nw_ownerUserId = 1, nw_currency = ''BRL'', nw_loyaltyEnabled = True,
        nw_loyaltyPointsPerCurrencyUnit = Some 1, nw_loyaltyPointValue = Some (1 / 20), nw_referralBonusPoints = 50,
        nw_noShowFeeEnabled = True, nw_noShowFeeType = Some ''FIXED'', nw_noShowFeeValue = Some 20,
        nw_lateCancellationWindowHours = 24, nw_platformSuspendedAt = None\<rparr>], seq = 6\<rparr>,
     barbershops = \<lparr>rows = [sample_shop], seq = 8\<rparr>,
     barbers = \<lparr>rows = [sample_barber 11 2 ''barber'' None, sample_barber 12 3 ''reception'' (Some 50)], seq = 13\<rparr>\<rparr>"

lemmas sample_defs = sample_db_def sample_user_def sample_barber_def sample_shop_def

lemma sample_ok: "staff_ok sample_db"
  by (simp add: staff_ok_def one_engagement_def table_ok_def sample_defs)

lemma ensureBarbershopAccess_iff_witness:
  "\<exists>r. ensureBarbershopAccess sample_db 100 2 7 Barber = Inr r
    \<and> (\<exists>shop \<in> set (rows (barbershops sample_db)). bs_id shop = 7 \<and> sa_shop r = shop
       \<and> has_level sample_db 100 2 shop (sa_accessLevel r) \<and> Barber \<le> sa_accessLevel r
       \<and> sa_network r = map_option (networkMoneyRules shop) (networkOf sample_db shop))"
proof -
  have "is_ok (ensureBarbershopAccess sample_db 100 2 7 Barber)" by code_simp
  then obtain r where r: "ensureBarbershopAccess sample_db 100 2 7 Barber = Inr r" by (rule is_okE)
  with ensureBarbershopAccess_iff [OF sample_ok, of 100 2 7 Barber r] show ?thesis by blast
qed



end
