(* ===== verification/Agenda.thy ===== *)
theory Agenda
  imports Staff_Access "HOL-Library.Product_Lexorder"
begin

text \<open>
  The agenda of \<open>barbershop.service.ts\<close>: the working window of a professional on a date
  (\<open>getWorkingWindow\<close>, \<open>getWorkingWindowOn\<close>, \<open>windowOnDate\<close>), the free slots of the public page
  (\<open>computeSlots\<close>, \<open>slotsForBarber\<close>, \<open>getPublicAvailableSlots\<close>, \<open>getPublicNextAvailableSlot\<close>), the
  check of a chosen slot (\<open>ensurePublicSlot\<close>) and the conflict checks every booking runs
  (\<open>ensureBarberAvailable\<close>, \<open>ensureResourceAvailable\<close>, \<open>samePersonBarberIds\<close>).

  Instants are milliseconds since the epoch; a slot is its instant, where the code prints the
  ISO text of it (in the four-digit years the order of the texts is the order of the instants).
  A date is the text "YYYY-MM-DD". A date or a text that does not parse is \<open>None\<close>.
\<close>

section \<open>Data\<close>

record service =
  sv_id :: int
  sv_barbershopId :: int
  sv_isActive :: bool
  sv_durationMinutes :: int
  sv_price :: rat
  sv_depositAmount :: "rat option"

record schedule =
  sh_id :: int
  sh_barberId :: int
  sh_dayOfWeek :: int
  sh_startTime :: string
  sh_endTime :: string
  sh_breakStart :: "string option"
  sh_breakEnd :: "string option"
  sh_isActive :: bool

record closure =
  cl_id :: int
  cl_barbershopId :: int
  cl_date :: string
  cl_openTime :: "string option"
  cl_closeTime :: "string option"

record time_off =
  to_id :: int
  to_barberId :: int
  to_startAt :: int
  to_endAt :: int
  to_reason :: string

record service_line =
  sl_serviceId :: int
  sl_quantity :: int
  sl_unitPrice :: rat

record appointment =
  ap_id :: int
  ap_barbershopId :: int
  ap_customerId :: int
  ap_barberId :: int
  ap_resourceId :: "int option"
  ap_startAt :: int
  ap_endAt :: int
  ap_status :: string
  ap_notes :: "string option"
  ap_source :: string
  ap_createdByUserId :: "int option"
  ap_depositAmount :: "rat option"
  ap_depositPaid :: bool
  ap_depositPaidAt :: "int option"
  ap_depositRefundedAt :: "int option"
  ap_depositManualMethod :: "string option"
  ap_depositReceivedAt :: "int option"
  ap_depositReceivedByUserId :: "int option"
  ap_depositCashSessionId :: "int option"
  ap_depositPaymentIntentId :: "string option"
  ap_prepaidAmount :: "rat option"
  ap_prepaidAt :: "int option"
  ap_prepaidPaymentIntentId :: "string option"
  ap_prepaidRefundedAt :: "int option"
  ap_prepaidRefundedAmount :: "rat option"
  ap_holdExpiresAt :: "int option"
  ap_reminderSentAt :: "int option"
  ap_contactEmail :: "string option"
  ap_linkVersion :: int
  ap_services :: "service_line list"

record agenda_db = staff_db +
  services :: "service table"
  schedules :: "schedule table"
  closures :: "closure table"
  timeOffs :: "time_off table"
  appointments :: "appointment table"

definition SLOT_GRANULARITY_MIN :: int where "SLOT_GRANULARITY_MIN = 15"
definition NEXT_AVAILABLE_DAYS :: int where "NEXT_AVAILABLE_DAYS = 60"
definition PUBLIC_BOOKING_WINDOW_DAYS :: int where "PUBLIC_BOOKING_WINDOW_DAYS = 90"

section \<open>The working window of a date\<close>

definition week_of :: "json_text option \<Rightarrow> day_hours option list" where
  "week_of json = (case parseBusinessHours json of Some days \<Rightarrow> days | None \<Rightarrow> DEFAULT_WORKING_HOURS)"

definition businessHoursOf :: "'a staff_db_scheme \<Rightarrow> int \<Rightarrow> json_text option" where
  "businessHoursOf db barbershopId = Option.bind (shopById db barbershopId) bs_businessHours"

text \<open>\<open>days[dayOfWeek]\<close>, for a day of the week.\<close>

definition shopHoursOn :: "'a staff_db_scheme \<Rightarrow> int \<Rightarrow> int \<Rightarrow> day_hours option" where
  "shopHoursOn db barbershopId dayOfWeek = week_of (businessHoursOf db barbershopId) ! nat dayOfWeek"

definition window_of_hours :: "day_hours \<Rightarrow> window" where
  "window_of_hours h = \<lparr>w_start = dh_start h, w_end = dh_end h, w_breakStart = None, w_breakEnd = None\<rparr>"

definition window_of_schedule :: "schedule \<Rightarrow> window" where
  "window_of_schedule s = \<lparr>w_start = sh_startTime s, w_end = sh_endTime s,
     w_breakStart = sh_breakStart s, w_breakEnd = sh_breakEnd s\<rparr>"

definition scheduleOf :: "'a agenda_db_scheme \<Rightarrow> int \<Rightarrow> int \<Rightarrow> schedule option" where
  "scheduleOf db barberId dayOfWeek =
     find_first (\<lambda>s. sh_barberId s = barberId \<and> sh_dayOfWeek s = dayOfWeek) (schedules db)"

definition getWorkingWindow :: "'a agenda_db_scheme \<Rightarrow> int \<Rightarrow> int \<Rightarrow> int \<Rightarrow> window option" where
  "getWorkingWindow db barbershopId barberId dayOfWeek =
     (case scheduleOf db barberId dayOfWeek of
        Some schedule \<Rightarrow>
          if \<not> sh_isActive schedule then None
          else clipToShopHours (window_of_schedule schedule) (shopHoursOn db barbershopId dayOfWeek)
      | None \<Rightarrow> map_option window_of_hours (shopHoursOn db barbershopId dayOfWeek))"

text \<open>\<open>Math.max\<close>, \<open>Math.min\<close> and the printing of a time, where a time may be NaN.\<close>

definition nan_max :: "int option \<Rightarrow> int option \<Rightarrow> int option" where
  "nan_max a b = (case (a, b) of (Some x, Some y) \<Rightarrow> Some (max x y) | _ \<Rightarrow> None)"

definition nan_min :: "int option \<Rightarrow> int option \<Rightarrow> int option" where
  "nan_min a b = (case (a, b) of (Some x, Some y) \<Rightarrow> Some (min x y) | _ \<Rightarrow> None)"

definition nan_hhmm :: "int option \<Rightarrow> string" where
  "nan_hhmm m = (case m of None \<Rightarrow> ''NaN:NaN'' | Some k \<Rightarrow> hhmm k)"

definition nan_le :: "int option \<Rightarrow> int option \<Rightarrow> bool" where
  "nan_le a b \<longleftrightarrow> (case (a, b) of (Some x, Some y) \<Rightarrow> x \<le> y | _ \<Rightarrow> False)"

text \<open>A window limited to the special hours of a date.\<close>

definition limit_window :: "window \<Rightarrow> string \<Rightarrow> string \<Rightarrow> window option" where
  "limit_window window openTime closeTime = (let
       start = nan_max (toMinutes (w_start window)) (toMinutes openTime);
       end' = nan_min (toMinutes (w_end window)) (toMinutes closeTime)
     in if nan_le end' start then None
        else Some (window\<lparr>w_start := nan_hhmm start, w_end := nan_hhmm end'\<rparr>))"

text \<open>
  The effect of a closure on the window of a weekday: closed all day, limited to special hours,
  or opened on special hours for whoever has no day off of his own on that weekday.
\<close>

definition closed_window :: "window option \<Rightarrow> bool \<Rightarrow> closure option \<Rightarrow> window option" where
  "closed_window window ownSchedule closure = (case closure of
       None \<Rightarrow> window
     | Some c \<Rightarrow>
         if \<not> given (cl_openTime c) \<or> \<not> given (cl_closeTime c) then None
         else (case window of
             None \<Rightarrow> if ownSchedule then None
               else Some \<lparr>w_start = the (cl_openTime c), w_end = the (cl_closeTime c),
                          w_breakStart = None, w_breakEnd = None\<rparr>
           | Some w \<Rightarrow> limit_window w (the (cl_openTime c)) (the (cl_closeTime c))))"

definition closureOn :: "'a agenda_db_scheme \<Rightarrow> int \<Rightarrow> string \<Rightarrow> closure option" where
  "closureOn db barbershopId dateStr =
     find_first (\<lambda>c. cl_barbershopId c = barbershopId \<and> cl_date c = dateStr) (closures db)"

definition getWorkingWindowOn :: "'a agenda_db_scheme \<Rightarrow> int \<Rightarrow> int \<Rightarrow> string \<Rightarrow> window option" where
  "getWorkingWindowOn db barbershopId barberId dateStr = (case dayOfWeekOf dateStr of
       None \<Rightarrow> None
     | Some dayOfWeek \<Rightarrow>
         closed_window (getWorkingWindow db barbershopId barberId dayOfWeek)
           (scheduleOf db barberId dayOfWeek \<noteq> None) (closureOn db barbershopId dateStr))"

text \<open>The same from data already loaded: the schedules of the barber, the week of the shop, the closure.\<close>

definition windowOnDate ::
    "schedule list \<Rightarrow> day_hours option list \<Rightarrow> closure option \<Rightarrow> string \<Rightarrow> window option" where
  "windowOnDate scheds week closure dateStr = (case dayOfWeekOf dateStr of
       None \<Rightarrow> None
     | Some dayOfWeek \<Rightarrow> (let
           schedule = find (\<lambda>s. sh_dayOfWeek s = dayOfWeek) scheds;
           window = (case schedule of
               Some s \<Rightarrow> if sh_isActive s then Some (window_of_schedule s) else None
             | None \<Rightarrow> map_option window_of_hours (week ! nat dayOfWeek))
         in closed_window window (schedule \<noteq> None) closure))"

section \<open>Who is the same person\<close>

definition samePersonBarberIds :: "'a staff_db_scheme \<Rightarrow> int \<Rightarrow> int option \<Rightarrow> int option \<Rightarrow> int list" where
  "samePersonBarberIds db barberId userId professionalId = (case professionalId of
       Some p \<Rightarrow> remdups (barberId # map bb_id (find_many (\<lambda>b. bb_professionalId b = Some p) (barbers db)))
     | None \<Rightarrow> (case userId of
           Some u \<Rightarrow> remdups (barberId # map bb_id (find_many (\<lambda>b. bb_userId b = Some u) (barbers db)))
         | None \<Rightarrow> [barberId]))"

definition barberById :: "'a staff_db_scheme \<Rightarrow> int \<Rightarrow> barber option" where
  "barberById db i = find_first (\<lambda>b. bb_id b = i) (barbers db)"

definition personOf :: "'a staff_db_scheme \<Rightarrow> int \<Rightarrow> int list" where
  "personOf db barberId = (case barberById db barberId of
       None \<Rightarrow> [barberId]
     | Some b \<Rightarrow> samePersonBarberIds db barberId (bb_userId b) (bb_professionalId b))"

section \<open>Free slots\<close>

definition overlaps :: "int \<Rightarrow> int \<Rightarrow> int \<Rightarrow> int \<Rightarrow> bool" where
  "overlaps s e s' e' \<longleftrightarrow> s' < e \<and> e' > s"

definition holds_agenda :: "appointment \<Rightarrow> bool" where
  "holds_agenda a \<longleftrightarrow> ap_status a \<notin> {''CANCELLED'', ''NO_SHOW''}"

text \<open>One candidate of the loop of \<open>computeSlots\<close>: its instant, when it is free.\<close>

definition slot_at :: "intl \<Rightarrow> int option \<Rightarrow> int option \<Rightarrow> int \<Rightarrow> string \<Rightarrow> string \<Rightarrow> window
    \<Rightarrow> (int \<times> int) list \<Rightarrow> int \<Rightarrow> int \<Rightarrow> int option" where
  "slot_at I accessStartsAt accessEndsAt duration dateStr timeZone window busyRanges cutoff minutes = (let
       breakStartMin = (if given (w_breakStart window) then toMinutes (the (w_breakStart window)) else None);
       breakEndMin = (if given (w_breakEnd window) then toMinutes (the (w_breakEnd window)) else None)
     in if nan_less (Some minutes) breakEndMin \<and> nan_less breakStartMin (Some (minutes + duration))
        then None
        else (case zonedTimeToUtc I dateStr minutes timeZone of
            None \<Rightarrow> None
          | Some slotStart \<Rightarrow>
              if slotStart \<le> cutoff then None
              else if \<not> withinEngagement accessStartsAt accessEndsAt slotStart then None
              else if list_ex (\<lambda>(s, e). slotStart < e \<and> slotStart + duration * 60000 > s) busyRanges then None
              else Some slotStart))"

function slot_loop :: "(int \<Rightarrow> int option) \<Rightarrow> int \<Rightarrow> int \<Rightarrow> bool \<Rightarrow> int \<Rightarrow> int list" where
  "slot_loop slot duration windowEndMin firstOnly minutes =
     (if minutes + duration \<le> windowEndMin then
        (case slot minutes of
           None \<Rightarrow> slot_loop slot duration windowEndMin firstOnly (minutes + SLOT_GRANULARITY_MIN)
         | Some s \<Rightarrow>
             if firstOnly then [s]
             else s # slot_loop slot duration windowEndMin firstOnly (minutes + SLOT_GRANULARITY_MIN))
      else [])"
  by auto
termination
  by (relation "measure (\<lambda>(slot, duration, windowEndMin, firstOnly, minutes).
        nat (windowEndMin - duration - minutes + 1))") (auto simp: SLOT_GRANULARITY_MIN_def)

declare slot_loop.simps [simp del]

definition computeSlots :: "intl \<Rightarrow> int option \<Rightarrow> int option \<Rightarrow> int \<Rightarrow> string \<Rightarrow> string \<Rightarrow> window option
    \<Rightarrow> (int \<times> int) list \<Rightarrow> bool \<Rightarrow> int \<Rightarrow> int list" where
  "computeSlots I accessStartsAt accessEndsAt duration dateStr timeZone window busyRanges firstOnly cutoff =
     (case window of
        None \<Rightarrow> []
      | Some w \<Rightarrow>
          (case (toMinutes (w_start w), toMinutes (w_end w)) of
             (Some windowStartMin, Some windowEndMin) \<Rightarrow>
               slot_loop (slot_at I accessStartsAt accessEndsAt duration dateStr timeZone w busyRanges cutoff)
                 duration windowEndMin firstOnly windowStartMin
           | _ \<Rightarrow> []))"

definition busy_of :: "'a agenda_db_scheme \<Rightarrow> int list \<Rightarrow> int option \<Rightarrow> int \<Rightarrow> int \<Rightarrow> (int \<times> int) list" where
  "busy_of db barberIds exclude dayStart dayEnd =
     map (\<lambda>a. (ap_startAt a, ap_endAt a))
       (find_many (\<lambda>a. ap_barberId a \<in> set barberIds \<and> Some (ap_id a) \<noteq> exclude \<and> holds_agenda a
          \<and> ap_startAt a < dayEnd \<and> ap_endAt a > dayStart) (appointments db))
     @ map (\<lambda>t. (to_startAt t, to_endAt t))
       (find_many (\<lambda>t. to_barberId t \<in> set barberIds \<and> to_startAt t < dayEnd \<and> to_endAt t > dayStart)
         (timeOffs db))"

text \<open>
  The two midnights that bound a date. A date that reached this point has been parsed, so they
  exist; \<open>None\<close> would be the RangeError of the conversion.
\<close>

definition day_bounds :: "intl \<Rightarrow> string \<Rightarrow> string \<Rightarrow> (int \<times> int) option" where
  "day_bounds I dateStr timeZone =
     Option.bind (zonedTimeToUtc I dateStr 0 timeZone) (\<lambda>dayStart.
     Option.bind (nextDateStr dateStr) (\<lambda>next.
     Option.bind (zonedTimeToUtc I next 0 timeZone) (\<lambda>dayEnd. Some (dayStart, dayEnd))))"

definition slotsForBarber :: "intl \<Rightarrow> 'a agenda_db_scheme \<Rightarrow> int \<Rightarrow> barber \<Rightarrow> int \<Rightarrow> string \<Rightarrow> string \<Rightarrow> int
    \<Rightarrow> int option \<Rightarrow> int list" where
  "slotsForBarber I db barbershopId barber duration dateStr timeZone notBefore exclude =
     (case getWorkingWindowOn db barbershopId (bb_id barber) dateStr of
        None \<Rightarrow> []
      | Some window \<Rightarrow>
          (let barberIds = samePersonBarberIds db (bb_id barber) (bb_userId barber) (bb_professionalId barber)
           in case day_bounds I dateStr timeZone of
                None \<Rightarrow> []
              | Some (dayStart, dayEnd) \<Rightarrow>
                  computeSlots I (bb_accessStartsAt barber) (bb_accessEndsAt barber) duration dateStr timeZone
                    (Some window) (busy_of db barberIds exclude dayStart dayEnd) False notBefore))"

section \<open>The public page\<close>

text \<open>The query filter \<open>ownerAcceptsPublic\<close>, and the same on a loaded row (\<open>ownerAccountOpen\<close>).\<close>

definition account_open :: "user \<Rightarrow> bool" where
  "account_open u \<longleftrightarrow> us_isActive u \<and> us_deleted_at u = None"

definition ownerAcceptsPublic :: "'a staff_db_scheme \<Rightarrow> barbershop \<Rightarrow> bool" where
  "ownerAcceptsPublic db shop \<longleftrightarrow> bs_platformSuspendedAt shop = None
     \<and> (case networkOf db shop of None \<Rightarrow> False
          | Some n \<Rightarrow> nw_platformSuspendedAt n = None
              \<and> (case userById db (nw_ownerUserId n) of None \<Rightarrow> False | Some u \<Rightarrow> account_open u))
     \<and> (bs_ownerUserId shop = None
        \<or> (case Option.bind (bs_ownerUserId shop) (userById db) of None \<Rightarrow> False | Some u \<Rightarrow> account_open u))"

definition ownerAccountOpen :: "int option \<Rightarrow> user option \<Rightarrow> int option \<Rightarrow> user \<Rightarrow> bool" where
  "ownerAccountOpen shopSuspendedAt shopOwner networkSuspendedAt networkOwner =
     (if shopSuspendedAt \<noteq> None \<or> networkSuspendedAt \<noteq> None then False
      else if \<not> us_isActive networkOwner \<or> us_deleted_at networkOwner \<noteq> None then False
      else (case shopOwner of
          Some u \<Rightarrow> if \<not> us_isActive u \<or> us_deleted_at u \<noteq> None then False else True
        | None \<Rightarrow> True))"

definition SHOP_NOT_RECEIVING_MESSAGE :: string where
  "SHOP_NOT_RECEIVING_MESSAGE =
     ''Esta unidade nao esta recebendo pelo app no momento. Fale diretamente com ela.''"

definition assertShopInService :: "'a staff_db_scheme \<Rightarrow> int \<Rightarrow> unit result" where
  "assertShopInService db barbershopId = (case shopById db barbershopId of
       None \<Rightarrow> Inl (BadRequest SHOP_NOT_RECEIVING_MESSAGE)
     | Some shop \<Rightarrow> throwIf (bs_closedAt shop \<noteq> None \<or> bs_platformSuspendedAt shop \<noteq> None
         \<or> Option.bind (networkOf db shop) nw_platformSuspendedAt \<noteq> None)
         (BadRequest SHOP_NOT_RECEIVING_MESSAGE))"

fun services_in_order :: "service list \<Rightarrow> int list \<Rightarrow> service list" where
  "services_in_order found [] = []"
| "services_in_order found (i # ids) = (case find (\<lambda>s. sv_id s = i) found of
       None \<Rightarrow> services_in_order found ids
     | Some s \<Rightarrow> s # services_in_order found ids)"

definition publicServices :: "'a agenda_db_scheme \<Rightarrow> int \<Rightarrow> int list \<Rightarrow> (service list \<times> int) result" where
  "publicServices db barbershopId serviceIds = (let ids = rev (remdups (rev serviceIds)) in
     if ids = [] then Inl (BadRequest ''Escolha pelo menos um servico'')
     else if length ids > 5 then Inl (BadRequest ''No maximo 5 servicos por agendamento'')
     else (let found = find_many (\<lambda>s. sv_id s \<in> set ids \<and> sv_barbershopId s = barbershopId \<and> sv_isActive s) (services db)
       in if length found \<noteq> length ids then Inl (NotFound ''Servico nao encontrado'')
          else (let svcs = services_in_order found ids
            in Inr (svcs, sum_list (map sv_durationMinutes svcs)))))"

definition publicBarbers :: "'a staff_db_scheme \<Rightarrow> int \<Rightarrow> barber list" where
  "publicBarbers db barbershopId = sort_key bb_id
     (find_many (\<lambda>b. bb_barbershopId b = barbershopId \<and> bb_isActive b \<and> BOOKABLE_STAFF b) (barbers db))"

definition publicCandidatesByLoad ::
    "'a agenda_db_scheme \<Rightarrow> int \<Rightarrow> int option \<Rightarrow> (barber list) result" where
  "publicCandidatesByLoad db barbershopId startAtInput = (let barbs = publicBarbers db barbershopId in
     case startAtInput of
       None \<Rightarrow> Inl (BadRequest ''Horario invalido'')
     | Some day \<Rightarrow> (let load = (\<lambda>i. count_where (\<lambda>a. ap_barbershopId a = barbershopId \<and> ap_barberId a = i
             \<and> holds_agenda a \<and> ap_startAt a \<ge> day - 12 * 3600000 \<and> ap_startAt a \<le> day + 12 * 3600000)
           (appointments db))
         in Inr (sort_key (\<lambda>b. (load (bb_id b), bb_id b)) barbs)))"

definition bookable_barber :: "'a staff_db_scheme \<Rightarrow> int \<Rightarrow> int \<Rightarrow> barber option" where
  "bookable_barber db barbershopId barberId =
     find_first (\<lambda>b. bb_id b = barberId \<and> bb_barbershopId b = barbershopId \<and> bb_isActive b \<and> BOOKABLE_STAFF b)
       (barbers db)"

definition publicShop :: "'a staff_db_scheme \<Rightarrow> int \<Rightarrow> barbershop option" where
  "publicShop db barbershopId = find_first (\<lambda>s. bs_id s = barbershopId \<and> bs_isActive s \<and> ownerAcceptsPublic db s)
     (barbershops db)"

definition lastPublicDay :: "intl \<Rightarrow> int \<Rightarrow> string \<Rightarrow> string option" where
  "lastPublicDay I now timeZone = addDaysStr (z_dateStr (toZonedParts I now timeZone)) PUBLIC_BOOKING_WINDOW_DAYS"

definition getPublicAvailableSlots :: "intl \<Rightarrow> 'a agenda_db_scheme \<Rightarrow> int \<Rightarrow> int \<Rightarrow> int option \<Rightarrow> int list
    \<Rightarrow> string \<Rightarrow> (int list) result" where
  "getPublicAvailableSlots I db now barbershopId barberId serviceIds dateStr =
     bindE (publicServices db barbershopId serviceIds) (\<lambda>(_, durationMinutes).
     if parse_iso_day dateStr = None then Inl (BadRequest ''Data invalida'')
     else (case publicShop db barbershopId of
         None \<Rightarrow> Inr []
       | Some shop \<Rightarrow> (let
             timeZone = safeTimeZone I (Some (bs_timezone shop));
             notBefore = now + bs_minBookingLeadMinutes shop * 60000
           in case lastPublicDay I now timeZone of
                None \<Rightarrow> Inl (PlainError ''RangeError'')
              | Some lastDay \<Rightarrow>
                  if lastDay < dateStr then Inr []
                  else (case barberId of
                      Some i \<Rightarrow> (case bookable_barber db barbershopId i of
                          None \<Rightarrow> Inl (NotFound ''Profissional nao encontrado'')
                        | Some barber \<Rightarrow>
                            Inr (slotsForBarber I db barbershopId barber durationMinutes dateStr timeZone notBefore None))
                    | None \<Rightarrow> Inr (sort (remdups (concat (map (\<lambda>b.
                        slotsForBarber I db barbershopId b durationMinutes dateStr timeZone notBefore None)
                        (publicBarbers db barbershopId)))))))))"

section \<open>The nearest slot\<close>

definition links_of :: "'a staff_db_scheme \<Rightarrow> barber list \<Rightarrow> barber list" where
  "links_of db barbs = (let
       professionalIds = List.map_filter bb_professionalId barbs;
       userIds = List.map_filter bb_userId (filter (\<lambda>b. bb_professionalId b = None) barbs)
     in find_many (\<lambda>l. (case bb_professionalId l of None \<Rightarrow> False | Some p \<Rightarrow> p \<in> set professionalIds)
          \<or> (case bb_userId l of None \<Rightarrow> False | Some u \<Rightarrow> u \<in> set userIds)) (barbers db))"

definition personIds_of :: "barber list \<Rightarrow> barber \<Rightarrow> int list" where
  "personIds_of links b = remdups (bb_id b #
     (if bb_professionalId b \<noteq> None
      then map bb_id (filter (\<lambda>l. bb_professionalId l = bb_professionalId b) links)
      else if bb_userId b \<noteq> None
      then map bb_id (filter (\<lambda>l. bb_userId l = bb_userId b) links)
      else []))"

text \<open>The busy ranges of the whole period, by barber, as \<open>busyByBarber\<close> holds them.\<close>

definition loaded_busy :: "'a agenda_db_scheme \<Rightarrow> int list \<Rightarrow> int \<Rightarrow> int \<Rightarrow> int \<Rightarrow> (int \<times> int) list" where
  "loaded_busy db allBarberIds rangeStart rangeEnd barberId =
     map (\<lambda>a. (ap_startAt a, ap_endAt a))
       (filter (\<lambda>a. ap_barberId a = barberId)
         (find_many (\<lambda>a. ap_barberId a \<in> set allBarberIds \<and> holds_agenda a
            \<and> ap_startAt a < rangeEnd \<and> ap_endAt a > rangeStart) (appointments db)))
     @ map (\<lambda>t. (to_startAt t, to_endAt t))
       (filter (\<lambda>t. to_barberId t = barberId)
         (find_many (\<lambda>t. to_barberId t \<in> set allBarberIds
            \<and> to_startAt t < rangeEnd \<and> to_endAt t > rangeStart) (timeOffs db)))"

definition busy_on_day :: "(int \<Rightarrow> (int \<times> int) list) \<Rightarrow> int list \<Rightarrow> int \<Rightarrow> int \<Rightarrow> (int \<times> int) list" where
  "busy_on_day busyByBarber personIds dayStart dayEnd =
     filter (\<lambda>(s, e). s < dayEnd \<and> e > dayStart) (concat (map busyByBarber personIds))"

fun earliest_of :: "int option \<Rightarrow> (int list) list \<Rightarrow> int option" where
  "earliest_of earliest [] = earliest"
| "earliest_of earliest (slots # rest) = earliest_of (case slots of
       [] \<Rightarrow> earliest
     | s # _ \<Rightarrow> (case earliest of None \<Rightarrow> Some s | Some e \<Rightarrow> if s < e then Some s else Some e)) rest"

text \<open>
  One day of the search: the earliest slot of the barbers, with the window that \<open>windowOf\<close> gives
  and the busy ranges already loaded.
\<close>

definition earliest_on :: "intl \<Rightarrow> barber list \<Rightarrow> int \<Rightarrow> string \<Rightarrow> string \<Rightarrow> (barber \<Rightarrow> window option)
    \<Rightarrow> (barber \<Rightarrow> (int \<times> int) list) \<Rightarrow> int \<Rightarrow> int option" where
  "earliest_on I barbs duration date timeZone windowOf busyOf notBefore =
     earliest_of None (map (\<lambda>b. computeSlots I (bb_accessStartsAt b) (bb_accessEndsAt b) duration date timeZone
       (windowOf b) (busyOf b) True notBefore) barbs)"

fun search_days :: "(int \<Rightarrow> (string \<times> int) option) \<Rightarrow> nat \<Rightarrow> int \<Rightarrow> (string \<times> int) option" where
  "search_days day 0 i = None"
| "search_days day (Suc n) i = (case day i of Some r \<Rightarrow> Some r | None \<Rightarrow> search_days day n (i + 1))"

definition next_search :: "intl \<Rightarrow> 'a agenda_db_scheme \<Rightarrow> int \<Rightarrow> barbershop \<Rightarrow> barber list \<Rightarrow> int
    \<Rightarrow> string \<Rightarrow> string \<Rightarrow> nat \<Rightarrow> int \<Rightarrow> (string \<times> int) option" where
  "next_search I db barbershopId shop barbs duration timeZone start maxDays notBefore = (let
       week = week_of (bs_businessHours shop);
       links = links_of db barbs;
       personIds = personIds_of links;
       allBarberIds = concat (map personIds barbs);
       rangeStart = zonedTimeToUtc I start 0 timeZone;
       rangeEnd = Option.bind (addDaysStr start (int maxDays)) (\<lambda>d. zonedTimeToUtc I d 0 timeZone)
     in case (rangeStart, rangeEnd) of
          (Some rs, Some re) \<Rightarrow>
            search_days (\<lambda>i. Option.bind (addDaysStr start i) (\<lambda>date.
              Option.bind (day_bounds I date timeZone) (\<lambda>(dayStart, dayEnd).
                map_option (\<lambda>slot. (date, slot)) (earliest_on I barbs duration date timeZone
                  (\<lambda>b. windowOnDate (find_many (\<lambda>s. sh_barberId s = bb_id b) (schedules db)) week
                     (closureOn db barbershopId date) date)
                  (\<lambda>b. busy_on_day (loaded_busy db allBarberIds rs re) (personIds b) dayStart dayEnd)
                  notBefore)))) maxDays 0
        | _ \<Rightarrow> None)"

definition getPublicNextAvailableSlot :: "intl \<Rightarrow> 'a agenda_db_scheme \<Rightarrow> int \<Rightarrow> int \<Rightarrow> int option
    \<Rightarrow> int list \<Rightarrow> string option \<Rightarrow> int \<Rightarrow> ((string \<times> int) option) result" where
  "getPublicNextAvailableSlot I db now barbershopId barberId serviceIds fromDate maxDays =
     bindE (publicServices db barbershopId serviceIds) (\<lambda>(_, durationMinutes).
     case publicShop db barbershopId of
       None \<Rightarrow> Inr None
     | Some shop \<Rightarrow> (let
           timeZone = safeTimeZone I (Some (bs_timezone shop));
           notBefore = now + bs_minBookingLeadMinutes shop * 60000
         in bindE (case barberId of
              Some i \<Rightarrow> (case bookable_barber db barbershopId i of
                  None \<Rightarrow> Inl (NotFound ''Profissional nao encontrado'')
                | Some barber \<Rightarrow> Inr [barber])
            | None \<Rightarrow> Inr (publicBarbers db barbershopId)) (\<lambda>barbs.
          if barbs = [] then Inr None
          else (let
              today = z_dateStr (toZonedParts I now timeZone);
              from' = (case fromDate of None \<Rightarrow> None
                | Some d \<Rightarrow> if parse_iso_day d = None then None else Some d)
            in case addDaysStr today PUBLIC_BOOKING_WINDOW_DAYS of
                 None \<Rightarrow> Inl (PlainError ''RangeError'')
               | Some lastDay \<Rightarrow>
                   if (case from' of None \<Rightarrow> False | Some d \<Rightarrow> lastDay < d) then Inr None
                   else (let
                       start = (case from' of Some d \<Rightarrow> if today < d then d else today | None \<Rightarrow> today);
                       daysLeft = (case (parse_iso_day lastDay, parse_iso_day start) of
                           (Some a, Some b) \<Rightarrow> a - b + 1 | _ \<Rightarrow> 0)
                     in Inr (next_search I db barbershopId shop barbs durationMinutes timeZone start
                          (nat (min maxDays daysLeft)) notBefore))))))"

section \<open>Checks of a booking\<close>

text \<open>\<open>None\<close> in \<open>startAtInput\<close>: a text that is not a date.\<close>

definition ensurePublicSlot :: "intl \<Rightarrow> 'a agenda_db_scheme \<Rightarrow> int \<Rightarrow> barbershop \<Rightarrow> int \<Rightarrow> int \<Rightarrow> int option
    \<Rightarrow> (int \<times> int) result" where
  "ensurePublicSlot I db now shop barberId durationMinutes startAtInput = (let
       leadMs = max 0 (bs_minBookingLeadMinutes shop) * 60000
     in case startAtInput of
          None \<Rightarrow> Inl (BadRequest ''Horario invalido'')
        | Some startAt \<Rightarrow>
     if startAt \<le> now + leadMs then
       Inl (BadRequest (if leadMs > 0 \<and> startAt > now
         then ''Esse horario precisa de mais antecedencia'' else ''Horario invalido''))
     else (let
         timeZone = safeTimeZone I (Some (bs_timezone shop));
         loc = toZonedParts I startAt timeZone
       in case lastPublicDay I now timeZone of
            None \<Rightarrow> Inl (PlainError ''RangeError'')
          | Some lastDay \<Rightarrow>
     if lastDay < z_dateStr loc then
       Inl (BadRequest ''Esse dia ainda nao esta aberto para agendamento online'')
     else (let endAt = startAt + durationMinutes * 60000
       in case getWorkingWindowOn db (bs_id shop) barberId (z_dateStr loc) of
            None \<Rightarrow> Inl (BadRequest ''Profissional nao atende nesse dia'')
          | Some window \<Rightarrow> (let
                startMin = z_minutesOfDay loc;
                windowStart = toMinutes (w_start window)
              in
     if startAt mod 60000 \<noteq> 0 \<or> \<not> (case windowStart of None \<Rightarrow> False
          | Some ws \<Rightarrow> (startMin - ws) mod SLOT_GRANULARITY_MIN = 0) then
       Inl (BadRequest ''Escolha um dos horarios da lista'')
     else (let endMin = startMin + durationMinutes in
     if nan_less (Some startMin) windowStart \<or> nan_less (toMinutes (w_end window)) (Some endMin) then
       Inl (BadRequest ''Horario fora do expediente do profissional'')
     else if given (w_breakStart window) \<and> given (w_breakEnd window)
       \<and> nan_less (Some startMin) (toMinutes (the (w_breakEnd window)))
       \<and> nan_less (toMinutes (the (w_breakStart window))) (Some endMin) then
       Inl (BadRequest ''Horario cai no intervalo do profissional'')
     else if count_where (\<lambda>t. to_barberId t \<in> set (personOf db barberId)
         \<and> to_startAt t < endAt \<and> to_endAt t > startAt) (timeOffs db) > 0 then
       Inl (BadRequest ''Profissional de folga nesse horario'')
     else Inr (startAt, endAt))))))"

definition ensureResourceAvailable :: "'a agenda_db_scheme \<Rightarrow> int \<Rightarrow> int \<Rightarrow> int \<Rightarrow> int \<Rightarrow> int option \<Rightarrow> unit result" where
  "ensureResourceAvailable db barbershopId resourceId startAt endAt exclude =
     (case find_first (\<lambda>a. ap_barbershopId a = barbershopId \<and> ap_resourceId a = Some resourceId
         \<and> Some (ap_id a) \<noteq> exclude \<and> holds_agenda a \<and> ap_startAt a < endAt \<and> ap_endAt a > startAt)
         (appointments db) of
        Some _ \<Rightarrow> Inl (BadRequest ''Recurso ja reservado nesse horario'')
      | None \<Rightarrow> Inr ())"

definition ensureBarberAvailable :: "'a agenda_db_scheme \<Rightarrow> int \<Rightarrow> int \<Rightarrow> int \<Rightarrow> int \<Rightarrow> int option \<Rightarrow> unit result" where
  "ensureBarberAvailable db barbershopId barberId startAt endAt exclude = (let
       barber = find_first (\<lambda>b. bb_id b = barberId \<and> bb_barbershopId b = barbershopId) (barbers db)
     in if (case barber of None \<Rightarrow> False
          | Some b \<Rightarrow> \<not> withinEngagement (bb_accessStartsAt b) (bb_accessEndsAt b) startAt) then
       Inl (BadRequest ''Esse horario esta fora do periodo deste profissional na unidade'')
     else (let barberIds = samePersonBarberIds db barberId
           (Option.bind barber bb_userId) (Option.bind barber bb_professionalId)
       in case find_first (\<lambda>a. ap_barberId a \<in> set barberIds \<and> Some (ap_id a) \<noteq> exclude \<and> holds_agenda a
              \<and> ap_startAt a < endAt \<and> ap_endAt a > startAt) (appointments db) of
            Some conflict \<Rightarrow> Inl (BadRequest (if ap_barbershopId conflict = barbershopId
              then ''Este profissional ja tem um agendamento nesse horario''
              else ''Este profissional ja esta ocupado em outra unidade nesse horario''))
          | None \<Rightarrow> Inr ()))"

definition ensureShiftFreeAcrossShops ::
    "'a agenda_db_scheme \<Rightarrow> int \<Rightarrow> int \<Rightarrow> int \<Rightarrow> string \<Rightarrow> string \<Rightarrow> unit result" where
  "ensureShiftFreeAcrossShops db now barberId dayOfWeek startTime endTime = (let
       others = filter (\<lambda>i. i \<noteq> barberId) (personOf db barberId)
     in if others = [] then Inr ()
        else (let shifts = find_many (\<lambda>s. sh_barberId s \<in> set others \<and> sh_dayOfWeek s = dayOfWeek
              \<and> sh_isActive s
              \<and> (case barberById db (sh_barberId s) of None \<Rightarrow> False | Some b \<Rightarrow> currentEngagement now b))
              (schedules db)
          in throwIf (list_ex (\<lambda>s. shiftsOverlap startTime endTime (sh_startTime s) (sh_endTime s)) shifts)
               (BadRequest ''Este profissional ja tem escala nesse horario em outra unidade'')))"

section \<open>What the loop of the slots computes\<close>

lemma slot_loop_set:
  "set (slot_loop slot duration windowEnd False m) =
     {s. \<exists>k :: nat. m + 15 * int k + duration \<le> windowEnd \<and> slot (m + 15 * int k) = Some s}"
proof (induction slot duration windowEnd "False" m rule: slot_loop.induct)
  case (1 slot duration windowEnd m)
  show ?case
  proof (cases "m + duration \<le> windowEnd")
    case True
    let ?rest = "{s. \<exists>k :: nat. m + 15 + 15 * int k + duration \<le> windowEnd \<and> slot (m + 15 + 15 * int k) = Some s}"
    have "set (slot_loop slot duration windowEnd False (m + 15)) = ?rest"
      using 1 True by (cases "slot m") (simp_all add: SLOT_GRANULARITY_MIN_def)
    then have "set (slot_loop slot duration windowEnd False m) = {s. slot m = Some s} \<union> ?rest"
      using True by (subst slot_loop.simps) (auto simp: SLOT_GRANULARITY_MIN_def split: option.split)
    also have "\<dots> = {s. \<exists>k :: nat. m + 15 * int k + duration \<le> windowEnd \<and> slot (m + 15 * int k) = Some s}"
    proof (rule set_eqI)
      fix s
      have ex: "(\<exists>k :: nat. P k) \<longleftrightarrow> P 0 \<or> (\<exists>k. P (Suc k))" for P
        by (metis nat.exhaust)
      show "s \<in> {s. slot m = Some s} \<union> ?rest \<longleftrightarrow>
        s \<in> {s. \<exists>k :: nat. m + 15 * int k + duration \<le> windowEnd \<and> slot (m + 15 * int k) = Some s}"
        unfolding mem_Collect_eq Un_iff by (subst (2) ex) (use True in \<open>simp add: algebra_simps\<close>)
    qed
    finally show ?thesis .
  next
    case False
    have "\<not> m + 15 * int k + duration \<le> windowEnd" for k :: nat
      using False by simp
    then show ?thesis using False by (subst slot_loop.simps) simp
  qed
qed

lemma slot_loop_first:
  "slot_loop slot duration windowEnd True m = take 1 (slot_loop slot duration windowEnd False m)"
proof (induction slot duration windowEnd "True" m rule: slot_loop.induct)
  case (1 slot duration windowEnd m)
  then show ?case
    by (subst (1 2) slot_loop.simps) (simp split: option.split)
qed

text \<open>Whether a candidate of \<open>duration\<close> minutes at minute \<open>m\<close> runs into the break of the window.\<close>

definition hits_break :: "window \<Rightarrow> int \<Rightarrow> int \<Rightarrow> bool" where
  "hits_break w m duration \<longleftrightarrow> given (w_breakStart w) \<and> given (w_breakEnd w)
     \<and> nan_less (Some m) (toMinutes (the (w_breakEnd w)))
     \<and> nan_less (toMinutes (the (w_breakStart w))) (Some (m + duration))"

lemma nan_less_None [simp]: "\<not> nan_less None x" "\<not> nan_less x None"
  by (simp_all add: nan_less_def split: option.split)

lemma slot_at_Some:
  "slot_at I a e duration date tz w busy cutoff m = Some t \<longleftrightarrow>
     \<not> hits_break w m duration \<and> zonedTimeToUtc I date m tz = Some t \<and> cutoff < t
     \<and> withinEngagement a e t \<and> (\<forall>(s, e') \<in> set busy. \<not> overlaps t (t + duration * 60000) s e')"
  by (auto simp: slot_at_def hits_break_def Let_def list_ex_iff overlaps_def not_le
      split: option.splits if_splits)

lemma computeSlots_set:
  assumes "toMinutes (w_start w) = Some ws" and "toMinutes (w_end w) = Some we"
  shows "t \<in> set (computeSlots I a e duration date tz (Some w) busy False cutoff) \<longleftrightarrow>
    (\<exists>k :: nat. ws + 15 * int k + duration \<le> we \<and> \<not> hits_break w (ws + 15 * int k) duration
       \<and> zonedTimeToUtc I date (ws + 15 * int k) tz = Some t \<and> cutoff < t \<and> withinEngagement a e t
       \<and> (\<forall>(s, e') \<in> set busy. \<not> overlaps t (t + duration * 60000) s e'))"
  by (auto simp: computeSlots_def assms slot_loop_set slot_at_Some)

lemma computeSlots_first:
  "computeSlots I a e duration date tz w busy True cutoff
    = take 1 (computeSlots I a e duration date tz w busy False cutoff)"
  by (auto simp: computeSlots_def slot_loop_first split: option.splits)

lemma grid_iff:
  fixes P :: "int \<Rightarrow> bool"
  shows "(\<exists>k :: nat. P (ws + 15 * int k)) \<longleftrightarrow> (\<exists>m. ws \<le> m \<and> (m - ws) mod 15 = 0 \<and> P m)"
proof (intro iffI; elim exE conjE)
  fix m assume m: "ws \<le> m" "(m - ws) mod 15 = 0" "P m"
  have "m - ws = 15 * ((m - ws) div 15)"
    using mult_div_mod_eq [of 15 "m - ws"] m(2) by linarith
  moreover have "0 \<le> (m - ws) div 15" using m(1) by (simp add: pos_imp_zdiv_nonneg_iff)
  ultimately have "m = ws + 15 * int (nat ((m - ws) div 15))" by simp
  with m(3) show "\<exists>k :: nat. P (ws + 15 * int k)" by (intro exI [of _ "nat ((m - ws) div 15)"]) simp
next
  fix k assume "P (ws + 15 * int k)"
  then show "\<exists>m. ws \<le> m \<and> (m - ws) mod 15 = 0 \<and> P m"
    by (intro exI [of _ "ws + 15 * int k"]) simp
qed

lemma computeSlots_grid:
  assumes "valid_window w"
  shows "t \<in> set (computeSlots I a e duration date tz (Some w) busy False cutoff) \<longleftrightarrow>
    (\<exists>m. minutesOfTime (w_start w) \<le> m \<and> (m - minutesOfTime (w_start w)) mod 15 = 0
       \<and> m + duration \<le> minutesOfTime (w_end w)
       \<and> \<not> hits_break w m duration
       \<and> zonedTimeToUtc I date m tz = Some t \<and> cutoff < t \<and> withinEngagement a e t
       \<and> (\<forall>(s, e') \<in> set busy. \<not> overlaps t (t + duration * 60000) s e'))"
proof -
  have w: "toMinutes (w_start w) = Some (minutesOfTime (w_start w))"
    "toMinutes (w_end w) = Some (minutesOfTime (w_end w))"
    using assms by (simp_all add: valid_window_def TIME_minutes)
  show ?thesis
    unfolding computeSlots_set [OF w]
    using grid_iff [of "\<lambda>m. m + duration \<le> minutesOfTime (w_end w) \<and> \<not> hits_break w m duration
      \<and> zonedTimeToUtc I date m tz = Some t \<and> cutoff < t \<and> withinEngagement a e t
      \<and> (\<forall>(s, e') \<in> set busy. \<not> overlaps t (t + duration * 60000) s e')" "minutesOfTime (w_start w)"]
    by simp
qed

text \<open>
  C9. The slots offered for a shift are exactly the instants that start on the quarter-hour grid of
  the shift, end inside it, miss its break and every busy range, come after the cutoff and fall
  in the professional's engagement; nothing that qualifies is left out.
\<close>

theorem computeSlots_exact:
  assumes "valid_window w"
  shows "t \<in> set (computeSlots I a e duration date tz (Some w) busy False cutoff) \<longleftrightarrow>
    (\<exists>m. minutesOfTime (w_start w) \<le> m \<and> (m - minutesOfTime (w_start w)) mod 15 = 0
       \<and> m + duration \<le> minutesOfTime (w_end w)
       \<and> \<not> hits_break w m duration
       \<and> zonedTimeToUtc I date m tz = Some t \<and> cutoff < t \<and> withinEngagement a e t
       \<and> (\<forall>(s, e') \<in> set busy. \<not> overlaps t (t + duration * 60000) s e'))"
  using assms by (rule computeSlots_grid)

section \<open>An offered slot is an accepted slot\<close>

text \<open>A day around which the zone keeps one offset, of whole minutes.\<close>

definition steady_day :: "intl \<Rightarrow> string \<Rightarrow> int \<Rightarrow> bool" where
  "steady_day I tz n \<longleftrightarrow> zone_near I tz \<and> inner_day n \<and> inner_day (n + 1)
     \<and> (\<exists>o'. o' mod 60000 = 0 \<and> (\<forall>t. \<bar>t - n * day_ms\<bar> \<le> 4 * day_ms \<longrightarrow> zoneOffset I tz t = o'))"

lemma steady_day_times:
  assumes "steady_day I tz n"
  obtains o' where "o' mod 60000 = 0"
    and "\<And>m. 0 \<le> m \<Longrightarrow> m \<le> 1440 \<Longrightarrow>
      zonedTimeToUtc I (iso_date n) m tz = Some (n * day_ms + m * 60000 - o')"
    and "zonedTimeToUtc I (iso_date (n + 1)) 0 tz = Some ((n + 1) * day_ms - o')"
    and "\<And>m. 0 \<le> m \<Longrightarrow> m < 1440 \<Longrightarrow> toZonedParts I (n * day_ms + m * 60000 - o') tz
      = \<lparr>z_dateStr = iso_date n, z_dayOfWeek = Some ((n + 4) mod 7), z_minutesOfDay = m\<rparr>"
proof -
  obtain o' where z: "zone_near I tz" "inner_day n" "inner_day (n + 1)" "o' mod 60000 = 0"
    and near: "\<forall>t. \<bar>t - n * day_ms\<bar> \<le> 4 * day_ms \<longrightarrow> zoneOffset I tz t = o'"
    using assms unfolding steady_day_def by (elim conjE exE)
  have o': "\<bar>t - n * day_ms\<bar> \<le> 4 * day_ms \<Longrightarrow> zoneOffset I tz t = o'" for t
    using near by blast
  have small: "\<bar>o'\<bar> \<le> day_ms"
    using z(1) o' [of "n * day_ms"] by (auto simp: zone_near_def)
  have settled: "settled_offset I tz w = o'" if "\<bar>w - n * day_ms\<bar> \<le> 2 * day_ms" for w
    unfolding settled_offset_def using that small by (subst (1 2) o') auto
  have exists: "wall_exists I tz w" if "\<bar>w - n * day_ms\<bar> \<le> 2 * day_ms" for w
    unfolding wall_exists_def settled [OF that] using that small by (intro o') auto
  have at: "zonedTimeToUtc I (iso_date n) m tz = Some (n * day_ms + m * 60000 - o')"
    if "0 \<le> m" "m \<le> 1440" for m
    using zonedTimeToUtc_eq [OF z(1,2) that] settled [of "n * day_ms + m * 60000"] that by simp
  have nxt: "zonedTimeToUtc I (iso_date (n + 1)) 0 tz = Some ((n + 1) * day_ms - o')"
    using zonedTimeToUtc_eq [OF z(1,3), of 0] settled [of "(n + 1) * day_ms"] by simp
  have bk: "toZonedParts I (n * day_ms + m * 60000 - o') tz
      = \<lparr>z_dateStr = iso_date n, z_dayOfWeek = Some ((n + 4) mod 7), z_minutesOfDay = m\<rparr>"
    if m: "0 \<le> m" "m < 1440" for m
    using zoned_round_trip_settled [OF z(1,2) m exists] at [of m] m by auto
  show ?thesis by (rule that [OF z(4) at nxt bk])
qed

text \<open>
  C10. Whatever the public page offers it also takes: on a day without a change of offset, every
  slot listed for a professional passes the check of the chosen slot (notice, booking window,
  grid, shift, break, days off) and the conflict check, and the booking gets the listed instant.
\<close>

theorem offered_slot_accepted:
  assumes day: "steady_day I (safeTimeZone I (Some (bs_timezone shop))) n"
    and ok: "table_ok bb_id (barbers db)" and b: "b \<in> set (rows (barbers db))"
    and bshop: "bb_barbershopId b = bs_id shop" and lead: "0 \<le> bs_minBookingLeadMinutes shop"
    and dur: "0 \<le> duration"
    and last: "lastPublicDay I now (safeTimeZone I (Some (bs_timezone shop))) = Some lastDay"
      "\<not> lastDay < iso_date n"
    and win: "getWorkingWindowOn db (bs_id shop) (bb_id b) (iso_date n) = Some w" "valid_window w"
    and slot: "t \<in> set (slotsForBarber I db (bs_id shop) b duration (iso_date n)
      (safeTimeZone I (Some (bs_timezone shop))) (now + bs_minBookingLeadMinutes shop * 60000) None)"
  shows "ensurePublicSlot I db now shop (bb_id b) duration (Some t) = Inr (t, t + duration * 60000)
    \<and> ensureBarberAvailable db (bs_id shop) (bb_id b) t (t + duration * 60000) None = Inr ()"
proof -
  let ?tz = "safeTimeZone I (Some (bs_timezone shop))"
  let ?ids = "samePersonBarberIds db (bb_id b) (bb_userId b) (bb_professionalId b)"
  obtain o' where o': "o' mod 60000 = 0"
    and at: "\<And>m. 0 \<le> m \<Longrightarrow> m \<le> 1440 \<Longrightarrow>
      zonedTimeToUtc I (iso_date n) m ?tz = Some (n * day_ms + m * 60000 - o')"
    and nxt: "zonedTimeToUtc I (iso_date (n + 1)) 0 ?tz = Some ((n + 1) * day_ms - o')"
    and bk: "\<And>m. 0 \<le> m \<Longrightarrow> m < 1440 \<Longrightarrow> toZonedParts I (n * day_ms + m * 60000 - o') ?tz
      = \<lparr>z_dateStr = iso_date n, z_dayOfWeek = Some ((n + 4) mod 7), z_minutesOfDay = m\<rparr>"
    using steady_day_times [OF day] by blast
  have plain: "plain_day n" "plain_day (n + 1)"
    using day inner_day_near [of n n] inner_day_near [of "n + 1" "n + 1"] by (auto simp: steady_day_def)
  define S where "S = n * day_ms - o'"
  define E where "E = (n + 1) * day_ms - o'"
  have bounds: "day_bounds I (iso_date n) ?tz = Some (S, E)"
    using at [of 0] nxt nextDateStr_iso [OF plain(1)] by (simp add: day_bounds_def S_def E_def)
  obtain m where m: "minutesOfTime (w_start w) \<le> m" "(m - minutesOfTime (w_start w)) mod 15 = 0"
      "m + duration \<le> minutesOfTime (w_end w)" "\<not> hits_break w m duration"
      "zonedTimeToUtc I (iso_date n) m ?tz = Some t" "now + bs_minBookingLeadMinutes shop * 60000 < t"
      "withinEngagement (bb_accessStartsAt b) (bb_accessEndsAt b) t"
    and busy: "\<forall>(s, e') \<in> set (busy_of db ?ids None S E). \<not> overlaps t (t + duration * 60000) s e'"
    using slot computeSlots_grid [OF win(2)] by (auto simp: slotsForBarber_def win(1) bounds Let_def)
  have range: "0 \<le> m" "m + duration < 1440" "m < 1440"
    using m(1,3) dur win(2) TIME_minutes_range [of "w_start w"] TIME_minutes_range [of "w_end w"]
    by (auto simp: valid_window_def)
  have t: "t = n * day_ms + m * 60000 - o'" using m(5) at [of m] range by simp
  have inside: "S \<le> t" "t + duration * 60000 \<le> E" using range t by (auto simp: S_def E_def)
  have parts: "toZonedParts I t ?tz
      = \<lparr>z_dateStr = iso_date n, z_dayOfWeek = Some ((n + 4) mod 7), z_minutesOfDay = m\<rparr>"
    using bk [of m] range t by simp
  have minute: "t mod 60000 = 0"
  proof -
    have "t = 60000 * (n * 1440 + m) - o'" using t by simp
    then have "t mod 60000 = (- o') mod 60000" by (metis mod_mult_self4 uminus_add_conv_diff add.commute)
    with o' show ?thesis by (simp add: zmod_zminus1_eq_if)
  qed
  have person: "personOf db (bb_id b) = ?ids"
    using barber_tab.find_by_key [OF ok b] by (simp add: personOf_def barberById_def)
  have free: "\<not> (to_barberId r \<in> set ?ids \<and> to_startAt r < t + duration * 60000 \<and> to_endAt r > t)"
    if "r \<in> set (rows (timeOffs db))" for r
    using busy that inside by (fastforce simp: busy_of_def overlaps_def)
  have "count_where (\<lambda>r. to_barberId r \<in> set (personOf db (bb_id b)) \<and> to_startAt r < t + duration * 60000
      \<and> to_endAt r > t) (timeOffs db) = 0"
    unfolding count_where_zero person using free by blast
  moreover have w: "toMinutes (w_start w) = Some (minutesOfTime (w_start w))"
    "toMinutes (w_end w) = Some (minutesOfTime (w_end w))"
    using win(2) by (simp_all add: valid_window_def TIME_minutes)
  ultimately have "ensurePublicSlot I db now shop (bb_id b) duration (Some t) = Inr (t, t + duration * 60000)"
    using m last win(1) lead minute
    by (simp add: ensurePublicSlot_def Let_def parts SLOT_GRANULARITY_MIN_def hits_break_def)
  moreover have "find_first (\<lambda>c. bb_id c = bb_id b \<and> bb_barbershopId c = bs_id shop) (barbers db) = Some b"
  proof (cases "find_first (\<lambda>c. bb_id c = bb_id b \<and> bb_barbershopId c = bs_id shop) (barbers db)")
    case None
    with b bshop show ?thesis by (auto simp: find_first_None)
  next
    case (Some c)
    with find_first_Some [OF Some] barber_tab.key_inj [OF ok _ b, of c] show ?thesis by simp
  qed
  moreover have "\<not> (ap_barberId r \<in> set ?ids \<and> Some (ap_id r) \<noteq> None \<and> holds_agenda r
      \<and> ap_startAt r < t + duration * 60000 \<and> ap_endAt r > t)"
    if "r \<in> set (rows (appointments db))" for r
    using busy that inside by (fastforce simp: busy_of_def overlaps_def)
  then have "find_first (\<lambda>r. ap_barberId r \<in> set ?ids \<and> Some (ap_id r) \<noteq> None \<and> holds_agenda r
      \<and> ap_startAt r < t + duration * 60000 \<and> ap_endAt r > t) (appointments db) = None"
    by (simp only: find_first_None) blast
  ultimately show ?thesis
    using m(7) by (simp add: ensureBarberAvailable_def Let_def)
qed

section \<open>The nearest slot searches the same slots\<close>

lemma hhmm_TIME:
  assumes "TIME s"
  shows "hhmm (minutesOfTime s) = s"
proof -
  have "0 \<le> minutesOfTime s" "minutesOfTime s < 1440" using TIME_minutes_range [OF assms] by auto
  then have "TIME (hhmm (minutesOfTime s))" and "minutesOfTime (hhmm (minutesOfTime s)) = minutesOfTime s"
    by (auto intro: TIME_hhmm minutesOfTime_hhmm)
  with TIME_less_iff [of s "hhmm (minutesOfTime s)"] TIME_less_iff [of "hhmm (minutesOfTime s)" s] assms
  show ?thesis by (metis less_irrefl neq_iff)
qed

lemma clip_fits:
  assumes "valid_window w" and "fitsShopHours (w_start w) (w_end w) hours"
  shows "clipToShopHours w hours = Some w"
proof -
  obtain sh where sh: "hours = Some sh" "minutesOfTime (dh_start sh) \<le> minutesOfTime (w_start w)"
      "minutesOfTime (w_end w) \<le> minutesOfTime (dh_end sh)"
    using assms(2) by (auto simp: fitsShopHours_def Let_def split: option.splits)
  with assms(1) show ?thesis
    by (simp add: clipToShopHours_def Let_def valid_window_def hhmm_TIME max_absorb1 min_absorb1)
qed

text \<open>Every active own shift of the professional lies in the shop's hours of its weekday.\<close>

definition shifts_fit :: "'a agenda_db_scheme \<Rightarrow> int \<Rightarrow> int \<Rightarrow> bool" where
  "shifts_fit db barbershopId barberId \<longleftrightarrow> (\<forall>s \<in> set (rows (schedules db)).
     sh_barberId s = barberId \<and> sh_isActive s \<longrightarrow> valid_window (window_of_schedule s)
       \<and> fitsShopHours (sh_startTime s) (sh_endTime s) (shopHoursOn db barbershopId (sh_dayOfWeek s)))"

lemma find_filter: "find p (filter q xs) = find (\<lambda>x. q x \<and> p x) xs"
  by (induction xs) auto

lemma windowOnDate_agrees:
  assumes "shifts_fit db s i"
  shows "windowOnDate (find_many (\<lambda>r. sh_barberId r = i) (schedules db)) (week_of (businessHoursOf db s))
      (closureOn db s date) date = getWorkingWindowOn db s i date"
proof (cases "dayOfWeekOf date")
  case None
  then show ?thesis by (simp add: windowOnDate_def getWorkingWindowOn_def)
next
  case (Some d)
  have f: "find (\<lambda>r. sh_dayOfWeek r = d) (find_many (\<lambda>r. sh_barberId r = i) (schedules db)) = scheduleOf db i d"
    by (simp add: find_many_def scheduleOf_def find_first_def find_filter)
  have "(case scheduleOf db i d of
      Some r \<Rightarrow> if sh_isActive r then Some (window_of_schedule r) else None
    | None \<Rightarrow> map_option window_of_hours (week_of (businessHoursOf db s) ! nat d)) = getWorkingWindow db s i d"
  proof (cases "scheduleOf db i d")
    case None
    then show ?thesis by (simp add: getWorkingWindow_def shopHoursOn_def)
  next
    case (Some r)
    then have "r \<in> set (rows (schedules db))" "sh_barberId r = i" "sh_dayOfWeek r = d"
      using find_first_Some [of _ "schedules db" r] by (auto simp: scheduleOf_def)
    with assms have "sh_isActive r \<Longrightarrow> clipToShopHours (window_of_schedule r) (shopHoursOn db s d)
        = Some (window_of_schedule r)"
      by (intro clip_fits) (auto simp: shifts_fit_def window_of_schedule_def)
    with Some show ?thesis by (simp add: getWorkingWindow_def)
  qed
  then show ?thesis using Some by (simp add: windowOnDate_def getWorkingWindowOn_def Let_def f)
qed

lemma personIds_same:
  assumes "b \<in> set barbs"
  shows "set (personIds_of (links_of db barbs) b)
    = set (samePersonBarberIds db (bb_id b) (bb_userId b) (bb_professionalId b))"
proof (cases "bb_professionalId b")
  case (Some p)
  with assms have "p \<in> set (List.map_filter bb_professionalId barbs)"
    by (force simp: map_filter_def)
  with Some show ?thesis
    by (auto simp: personIds_of_def samePersonBarberIds_def links_of_def Let_def)
next
  case None
  show ?thesis
  proof (cases "bb_userId b")
    case (Some u)
    with assms None have "u \<in> set (List.map_filter bb_userId (filter (\<lambda>b. bb_professionalId b = None) barbs))"
      by (force simp: map_filter_def)
    with Some None show ?thesis
      by (auto simp: personIds_of_def samePersonBarberIds_def links_of_def Let_def)
  qed (use None in \<open>simp add: personIds_of_def samePersonBarberIds_def\<close>)
qed

lemma busy_same:
  assumes "set ids = set ids'" and "set ids \<subseteq> set all_ids" and "rs \<le> S" and "E \<le> re"
  shows "set (busy_on_day (loaded_busy db all_ids rs re) ids S E) = set (busy_of db ids' None S E)"
  using assms by (fastforce simp: busy_on_day_def loaded_busy_def busy_of_def)

lemma computeSlots_cong:
  assumes "set busy = set busy'"
  shows "computeSlots I a e duration date tz w busy firstOnly cutoff
    = computeSlots I a e duration date tz w busy' firstOnly cutoff"
proof -
  have eq: "list_ex P busy = list_ex P busy'" for P using assms by (simp add: list_ex_iff)
  have "slot_at I a e duration date tz v busy cutoff = slot_at I a e duration date tz v busy' cutoff" for v
    unfolding slot_at_def eq by (rule refl)
  then show ?thesis by (simp add: computeSlots_def split: option.split)
qed

lemma earliest_of_spec:
  "case earliest_of e xs of
     None \<Rightarrow> e = None \<and> (\<forall>x \<in> set xs. x = [])
   | Some t \<Rightarrow> (e = Some t \<or> (\<exists>x \<in> set xs. x \<noteq> [] \<and> hd x = t))
       \<and> (\<forall>u. e = Some u \<longrightarrow> t \<le> u) \<and> (\<forall>x \<in> set xs. x \<noteq> [] \<longrightarrow> t \<le> hd x)"
proof (induction xs arbitrary: e)
  case Nil
  then show ?case by (simp split: option.split)
next
  case (Cons x xs)
  define e' where "e' = (case x of [] \<Rightarrow> e
    | s # _ \<Rightarrow> (case e of None \<Rightarrow> Some s | Some u \<Rightarrow> if s < u then Some s else Some u))"
  have step: "earliest_of e (x # xs) = earliest_of e' xs" by (simp add: e'_def)
  have "e' = None \<longleftrightarrow> e = None \<and> x = []" by (auto simp: e'_def split: list.split option.split)
  moreover have "e' = Some v \<Longrightarrow> (e = Some v \<or> x \<noteq> [] \<and> hd x = v) \<and> (\<forall>u. e = Some u \<longrightarrow> v \<le> u)
      \<and> (x \<noteq> [] \<longrightarrow> v \<le> hd x)" for v
    by (auto simp: e'_def split: list.splits option.splits if_splits)
  ultimately show ?case
    using Cons.IH [of e'] unfolding step
    by (cases "earliest_of e' xs"; cases e') (force, force, force, (auto intro: order_trans)[1])
qed

lemma search_days_spec:
  "case search_days day n i of
     None \<Rightarrow> (\<forall>j. 0 \<le> j \<and> j < int n \<longrightarrow> day (i + j) = None)
   | Some r \<Rightarrow> (\<exists>k. 0 \<le> k \<and> k < int n \<and> day (i + k) = Some r \<and> (\<forall>j. 0 \<le> j \<and> j < k \<longrightarrow> day (i + j) = None))"
proof (induction n arbitrary: i)
  case 0
  then show ?case by auto
next
  case (Suc n)
  show ?case
  proof (cases "day i")
    case None
    have shift: "day (i + j) = None" if "0 \<le> j" "j < k" "\<forall>j. 0 \<le> j \<and> j < k - 1 \<longrightarrow> day (i + 1 + j) = None" for j k
    proof (cases "j = 0")
      case False
      with that have "day (i + 1 + (j - 1)) = None" by (intro that(3) [rule_format]) auto
      then show ?thesis by (simp add: algebra_simps)
    qed (simp add: None)
    show ?thesis
    proof (cases "search_days day n (i + 1)")
      case None': None
      with Suc.IH [of "i + 1"] shift [of _ "int (Suc n)"] None show ?thesis by simp
    next
      case (Some r)
      with Suc.IH [of "i + 1"] obtain k where k: "0 \<le> k" "k < int n" "day (i + 1 + k) = Some r"
        "\<forall>j. 0 \<le> j \<and> j < k \<longrightarrow> day (i + 1 + j) = None" by auto
      have "\<exists>k. 0 \<le> k \<and> k < int (Suc n) \<and> day (i + k) = Some r \<and> (\<forall>j. 0 \<le> j \<and> j < k \<longrightarrow> day (i + j) = None)"
        using k shift [of _ "k + 1"] by (intro exI [of _ "k + 1"]) (simp add: algebra_simps)
      with Some None show ?thesis by simp
    qed
  next
    case (Some r)
    then show ?thesis by (auto intro!: exI [of _ 0])
  qed
qed

text \<open>No change of offset from the day \<open>n\<close> through the next \<open>k\<close> days.\<close>

definition steady_days :: "intl \<Rightarrow> string \<Rightarrow> int \<Rightarrow> nat \<Rightarrow> bool" where
  "steady_days I tz n k \<longleftrightarrow> (\<forall>i. 0 \<le> i \<and> i \<le> int k \<longrightarrow> steady_day I tz (n + i))"

lemma steady_days_bounds:
  assumes "steady_days I tz n k"
  obtains o' where "\<And>i. 0 \<le> i \<Longrightarrow> i \<le> int k \<Longrightarrow>
      zonedTimeToUtc I (iso_date (n + i)) 0 tz = Some ((n + i) * day_ms - o')"
    and "\<And>i. 0 \<le> i \<Longrightarrow> i \<le> int k \<Longrightarrow>
      day_bounds I (iso_date (n + i)) tz = Some ((n + i) * day_ms - o', (n + i + 1) * day_ms - o')"
proof -
  define off where "off i = zoneOffset I tz ((n + i) * day_ms)" for i
  have near: "zoneOffset I tz t = off i" if "0 \<le> i" "i \<le> int k" "\<bar>t - (n + i) * day_ms\<bar> \<le> 4 * day_ms" for i t
  proof -
    have "steady_day I tz (n + i)" using assms that by (simp add: steady_days_def)
    then obtain o' where "\<forall>t. \<bar>t - (n + i) * day_ms\<bar> \<le> 4 * day_ms \<longrightarrow> zoneOffset I tz t = o'"
      unfolding steady_day_def by (elim conjE exE)
    then have "zoneOffset I tz t = o'" "off i = o'" using that(3) by (simp_all add: off_def)
    then show ?thesis by simp
  qed
  have same: "j \<le> k \<Longrightarrow> off (int j) = off 0" for j :: nat
  proof (induction j)
    case (Suc j)
    have "zoneOffset I tz ((n + int (Suc j)) * day_ms) = off (int j)"
      using Suc.prems by (intro near) (simp_all add: algebra_simps)
    with Suc show ?case by (simp add: off_def)
  qed simp
  have times: "zonedTimeToUtc I (iso_date (n + i)) 0 tz = Some ((n + i) * day_ms - off 0)
      \<and> day_bounds I (iso_date (n + i)) tz = Some ((n + i) * day_ms - off 0, (n + i + 1) * day_ms - off 0)"
    if i: "0 \<le> i" "i \<le> int k" for i
  proof -
    have s: "steady_day I tz (n + i)" using assms i by (simp add: steady_days_def)
    have off: "off i = off 0" using same [of "nat i"] i by simp
    have z: "zone_near I tz" "inner_day (n + i)" "inner_day (n + i + 1)"
      using s by (simp_all add: steady_day_def)
    have settled: "settled_offset I tz w = off i" if "\<bar>w - (n + i) * day_ms\<bar> \<le> day_ms" for w
    proof -
      have "zoneOffset I tz w = off i" using i that by (intro near) auto
      moreover have "\<bar>off i\<bar> \<le> day_ms" using z(1) by (simp add: zone_near_def off_def)
      ultimately show ?thesis
        unfolding settled_offset_def using i that by (intro near) auto
    qed
    have a: "zonedTimeToUtc I (iso_date (n + i)) 0 tz = Some ((n + i) * day_ms - off i)"
      using zonedTimeToUtc_eq [OF z(1,2), of 0] settled [of "(n + i) * day_ms"] by simp
    have b: "zonedTimeToUtc I (iso_date (n + i + 1)) 0 tz = Some ((n + i + 1) * day_ms - off i)"
      using zonedTimeToUtc_eq [OF z(1,3), of 0] settled [of "(n + i + 1) * day_ms"] by simp
    have "plain_day (n + i)" using inner_day_near [OF z(2), of "n + i"] by simp
    then show ?thesis using a b off by (simp add: day_bounds_def nextDateStr_iso)
  qed
  show ?thesis by (rule that [of "off 0"]) (simp_all add: times)
qed

text \<open>
  C11. The nearest slot, found with everything loaded at once, is the first slot of the day lists:
  when the own shifts fit the shop's hours and no change of offset falls in the period, the search
  answers with the first date on which some professional has a free slot and with the earliest
  first slot of that date, and answers nothing exactly when every list of the period is empty.
\<close>

theorem next_search_first_listed:
  fixes maxDays :: nat
  assumes slots_def: "slots = (\<lambda>i b. slotsForBarber I db s b duration (iso_date (n + i)) tz notBefore None)"
    and zone: "steady_days I tz n maxDays"
    and shop: "shopById db s = Some shop"
    and fit: "\<forall>b \<in> set barbs. shifts_fit db s (bb_id b)"
  shows "case next_search I db s shop barbs duration tz (iso_date n) maxDays notBefore of
      None \<Rightarrow> \<forall>i. 0 \<le> i \<and> i < int maxDays \<longrightarrow> (\<forall>b \<in> set barbs. slots i b = [])
    | Some (date, t) \<Rightarrow> \<exists>i. 0 \<le> i \<and> i < int maxDays \<and> date = iso_date (n + i)
        \<and> (\<forall>j. 0 \<le> j \<and> j < i \<longrightarrow> (\<forall>b \<in> set barbs. slots j b = []))
        \<and> (\<exists>b \<in> set barbs. slots i b \<noteq> [] \<and> hd (slots i b) = t)
        \<and> (\<forall>b \<in> set barbs. slots i b \<noteq> [] \<longrightarrow> t \<le> hd (slots i b))"
proof -
  obtain o' where mid: "\<And>i. 0 \<le> i \<Longrightarrow> i \<le> int maxDays \<Longrightarrow>
      zonedTimeToUtc I (iso_date (n + i)) 0 tz = Some ((n + i) * day_ms - o')"
    and bounds: "\<And>i. 0 \<le> i \<Longrightarrow> i \<le> int maxDays \<Longrightarrow>
      day_bounds I (iso_date (n + i)) tz = Some ((n + i) * day_ms - o', (n + i + 1) * day_ms - o')"
    using steady_days_bounds [OF zone] by blast
  have plain: "plain_day n"
    using zone inner_day_near [of n n] by (force simp: steady_days_def steady_day_def)
  define day where "day i = map_option (\<lambda>t. (iso_date (n + i), t))
    (earliest_of None (map (\<lambda>b. take 1 (slots i b)) barbs))" for i
  define ids where "ids = personIds_of (links_of db barbs)"
  have one: "computeSlots I (bb_accessStartsAt b) (bb_accessEndsAt b) duration (iso_date (n + i)) tz
      (windowOnDate (find_many (\<lambda>r. sh_barberId r = bb_id b) (schedules db)) (week_of (bs_businessHours shop))
        (closureOn db s (iso_date (n + i))) (iso_date (n + i)))
      (busy_on_day (loaded_busy db (concat (map ids barbs)) (n * day_ms - o') ((n + int maxDays) * day_ms - o'))
        (ids b) ((n + i) * day_ms - o') ((n + i + 1) * day_ms - o')) True notBefore
    = take 1 (slots i b)" if i: "0 \<le> i" "i < int maxDays" and b: "b \<in> set barbs" for i b
  proof -
    let ?same = "samePersonBarberIds db (bb_id b) (bb_userId b) (bb_professionalId b)"
    let ?S = "(n + i) * day_ms - o'" and ?E = "(n + i + 1) * day_ms - o'"
    have "businessHoursOf db s = bs_businessHours shop" using shop by (simp add: businessHoursOf_def)
    with fit b windowOnDate_agrees [of db s "bb_id b"]
    have w: "windowOnDate (find_many (\<lambda>r. sh_barberId r = bb_id b) (schedules db)) (week_of (bs_businessHours shop))
        (closureOn db s (iso_date (n + i))) (iso_date (n + i)) = getWorkingWindowOn db s (bb_id b) (iso_date (n + i))"
      by simp
    have "set (busy_on_day (loaded_busy db (concat (map ids barbs)) (n * day_ms - o')
        ((n + int maxDays) * day_ms - o')) (ids b) ?S ?E) = set (busy_of db ?same None ?S ?E)"
      using personIds_same [OF b, of db] b i by (intro busy_same) (auto simp: ids_def)
    then show ?thesis
      using bounds [of i] i unfolding w computeSlots_first slots_def slotsForBarber_def Let_def
      by (cases "getWorkingWindowOn db s (bb_id b) (iso_date (n + i))")
        (auto simp: computeSlots_def cong: computeSlots_cong)
  qed
  have eq: "search_days f maxDays 0 = search_days day maxDays 0"
    if "\<And>i. 0 \<le> i \<Longrightarrow> i < int maxDays \<Longrightarrow> f i = day i" for f
  proof -
    have "search_days f k j = search_days day k j" if "0 \<le> j" "j + int k \<le> int maxDays" for k j
      using that
    proof (induction k arbitrary: j)
      case (Suc k)
      have "f j = day j" using Suc.prems \<open>\<And>i. 0 \<le> i \<Longrightarrow> i < int maxDays \<Longrightarrow> f i = day i\<close> by simp
      then show ?case using Suc.IH [of "j + 1"] Suc.prems by (simp split: option.split)
    qed simp
    then show ?thesis by simp
  qed
  have rs: "zonedTimeToUtc I (iso_date n) 0 tz = Some (n * day_ms - o')" using mid [of 0] by simp
  have re: "zonedTimeToUtc I (iso_date (n + int maxDays)) 0 tz = Some ((n + int maxDays) * day_ms - o')"
    using mid [of "int maxDays"] by simp
  have "next_search I db s shop barbs duration tz (iso_date n) maxDays notBefore = search_days day maxDays 0"
    unfolding next_search_def Let_def addDaysStr_iso [OF plain] bind.bind_lunit rs re prod.case option.case
      ids_def [symmetric]
  proof (rule eq)
    fix i assume i: "0 \<le> i" "i < int maxDays"
    show "Option.bind (day_bounds I (iso_date (n + i)) tz) (\<lambda>(dayStart, dayEnd).
        map_option (Pair (iso_date (n + i))) (earliest_on I barbs duration (iso_date (n + i)) tz
          (\<lambda>b. windowOnDate (find_many (\<lambda>s. sh_barberId s = bb_id b) (schedules db)) (week_of (bs_businessHours shop))
             (closureOn db s (iso_date (n + i))) (iso_date (n + i)))
          (\<lambda>b. busy_on_day (loaded_busy db (concat (map ids barbs)) (n * day_ms - o')
             ((n + int maxDays) * day_ms - o')) (ids b) dayStart dayEnd) notBefore)) = day i"
      using bounds [of i] i one [OF i] by (simp add: earliest_on_def day_def cong: map_cong)
  qed
  moreover have none: "day i = None \<longleftrightarrow> (\<forall>b \<in> set barbs. slots i b = [])" for i
    using earliest_of_spec [where e = None and xs = "map (\<lambda>b. take 1 (slots i b)) barbs"]
    by (cases "earliest_of None (map (\<lambda>b. take 1 (slots i b)) barbs)") (auto simp: day_def)
  moreover have some: "date = iso_date (n + i) \<and> (\<exists>b \<in> set barbs. slots i b \<noteq> [] \<and> hd (slots i b) = t)
      \<and> (\<forall>b \<in> set barbs. slots i b \<noteq> [] \<longrightarrow> t \<le> hd (slots i b))" if "day i = Some (date, t)" for i date t
    using earliest_of_spec [where e = None and xs = "map (\<lambda>b. take 1 (slots i b)) barbs"] that
    by (cases "earliest_of None (map (\<lambda>b. take 1 (slots i b)) barbs)") (auto simp: day_def)
  moreover have "case search_days day maxDays 0 of
      None \<Rightarrow> \<forall>i. 0 \<le> i \<and> i < int maxDays \<longrightarrow> (\<forall>b \<in> set barbs. slots i b = [])
    | Some (date, t) \<Rightarrow> \<exists>i. 0 \<le> i \<and> i < int maxDays \<and> date = iso_date (n + i)
        \<and> (\<forall>j. 0 \<le> j \<and> j < i \<longrightarrow> (\<forall>b \<in> set barbs. slots j b = []))
        \<and> (\<exists>b \<in> set barbs. slots i b \<noteq> [] \<and> hd (slots i b) = t)
        \<and> (\<forall>b \<in> set barbs. slots i b \<noteq> [] \<longrightarrow> t \<le> hd (slots i b))"
  proof (cases "search_days day maxDays 0")
    case None
    with search_days_spec [where day = day and n = maxDays and i = 0] show ?thesis by (simp add: none)
  next
    case (Some r)
    obtain date t where r: "r = (date, t)" by (cases r)
    from Some search_days_spec [where day = day and n = maxDays and i = 0]
    obtain k where k: "0 \<le> k" "k < int maxDays" "day k = Some (date, t)"
      "\<forall>j. 0 \<le> j \<and> j < k \<longrightarrow> (\<forall>b \<in> set barbs. slots j b = [])"
      by (auto simp: none r)
    show ?thesis unfolding Some r option.case prod.case using k some [OF k(3)] by blast
  qed
  ultimately show ?thesis by simp
qed

section \<open>A concrete agenda\<close>

text \<open>
  The shop of the sample data with its default hours (9 to 18 on weekdays), one service of 45
  minutes and a barber whose own Tuesday shift runs from 7 to 20: the shift is accepted as it is,
  and every reading of it is meant to clip it to the hours of the shop.
\<close>

definition fixed_zone :: intl where
  "fixed_zone = \<lparr>zoneKnown = (\<lambda>z. True), zoneOffset = (\<lambda>z t. - 10800000)\<rparr>"

definition sample_agenda :: agenda_db where
  "sample_agenda = staff_db.extend sample_db (agenda_db.fields
     \<lparr>rows = [\<lparr>sv_id = 1, sv_barbershopId = 7, sv_isActive = True, sv_durationMinutes = 45, sv_price = 50,
        sv_depositAmount = None\<rparr>], seq = 2\<rparr>
     \<lparr>rows = [\<lparr>sh_id = 1, sh_barberId = 11, sh_dayOfWeek = 2, sh_startTime = ''07:00'', sh_endTime = ''20:00'',
        sh_breakStart = Some ''12:00'', sh_breakEnd = Some ''13:00'', sh_isActive = True\<rparr>], seq = 2\<rparr>
     empty_table empty_table empty_table)"

lemma sample_window_loaded: "windowOnDate (find_many (\<lambda>s. sh_barberId s = 11) (schedules sample_agenda)) (week_of (bs_businessHours sample_shop))
     (closureOn sample_agenda 7 ''2026-03-31'') ''2026-03-31'' = 
   Some \<lparr>w_start = ''07:00'', w_end = ''20:00'', w_breakStart = Some ''12:00'', w_breakEnd = Some ''13:00''\<rparr>" by code_simp
lemma sample_window_on: "getWorkingWindowOn sample_agenda 7 11 ''2026-03-31'' = 
   Some \<lparr>w_start = ''09:00'', w_end = ''18:00'', w_breakStart = Some ''12:00'', w_breakEnd = Some ''13:00''\<rparr>" by code_simp

lemma fixed_zone_at:
  assumes "inner_day n" and "0 \<le> m" and "m \<le> 1440"
  shows "zonedTimeToUtc fixed_zone (iso_date n) m z = Some (n * day_ms + m * 60000 + 10800000)"
proof -
  have "zone_near fixed_zone z" by (simp add: zone_near_def zone_ok_def fixed_zone_def)
  from zonedTimeToUtc_eq [OF this assms] show ?thesis by (simp add: settled_offset_def fixed_zone_def)
qed

lemma sample_civil:
  "civil_of_day 20542 = (2026, 3, 30)" "civil_of_day 20543 = (2026, 3, 31)" "civil_of_day 20544 = (2026, 4, 1)"
  "civil_of_day 20632 = (2026, 6, 28)" "civil_of_day 20603 = (2026, 5, 30)"
proof -
  have v: "valid_civil 2026 3 30" "valid_civil 2026 3 31" "valid_civil 2026 4 1" "valid_civil 2026 6 28"
    "valid_civil 2026 5 30" by (simp_all add: valid_civil_def month_len_def)
  have d: "make_day 2026 3 30 = 20542" "make_day 2026 3 31 = 20543" "make_day 2026 4 1 = 20544"
    "make_day 2026 6 28 = 20632" "make_day 2026 5 30 = 20603" by code_simp+
  show "civil_of_day 20542 = (2026, 3, 30)" "civil_of_day 20543 = (2026, 3, 31)" "civil_of_day 20544 = (2026, 4, 1)"
    "civil_of_day 20632 = (2026, 6, 28)" "civil_of_day 20603 = (2026, 5, 30)"
    using v [THEN civil_of_make_day] unfolding d by auto
qed

lemma sample_days:
  "iso_date 20542 = ''2026-03-30''" "iso_date 20543 = ''2026-03-31''" "iso_date 20544 = ''2026-04-01''"
  "iso_date 20632 = ''2026-06-28''"
proof -
  have p: "pad_start 4 (show_nat 2026) = ''2026''" "pad_start 2 (show_nat 3) = ''03''"
    "pad_start 2 (show_nat 4) = ''04''" "pad_start 2 (show_nat 6) = ''06''" "pad_start 2 (show_nat 30) = ''30''"
    "pad_start 2 (show_nat 31) = ''31''" "pad_start 2 (show_nat (Suc 0)) = ''01''" "pad_start 2 (show_nat 28) = ''28''"
    by code_simp+
  show "iso_date 20542 = ''2026-03-30''" "iso_date 20543 = ''2026-03-31''" "iso_date 20544 = ''2026-04-01''"
    "iso_date 20632 = ''2026-06-28''"
    by (simp_all add: iso_date_def sample_civil p)
qed

lemma sample_inner: "inner_day 20542" "inner_day 20543" "inner_day 20544" "inner_day 20603"
proof -
  have "year_from_day n = 2026" if "civil_of_day n = (2026, m, d)" for n m d
    using that by (simp add: civil_of_day_def Let_def)
  from this [OF sample_civil(1)] this [OF sample_civil(2)] this [OF sample_civil(3)] this [OF sample_civil(5)]
  show "inner_day 20542" "inner_day 20543" "inner_day 20544" "inner_day 20603" by (simp_all add: inner_day_def)
qed

lemma sample_plain: "plain_day 20542" "plain_day 20543"
  using inner_day_near [OF sample_inner(1), of 20542] inner_day_near [OF sample_inner(2), of 20543] by simp_all

lemma sample_first_slot: "computeSlots fixed_zone None None 45 ''2026-03-31'' tz
    (Some \<lparr>w_start = ''07:00'', w_end = ''20:00'', w_breakStart = Some ''12:00'', w_breakEnd = Some ''13:00''\<rparr>)
    [] True 1774873800000 = [1774951200000]"
proof -
  have t: "toMinutes ''07:00'' = Some 420" "toMinutes ''20:00'' = Some 1200" "toMinutes ''12:00'' = Some 720"
    "toMinutes ''13:00'' = Some 780" by code_simp+
  have "zonedTimeToUtc fixed_zone ''2026-03-31'' 420 tz = Some 1774951200000"
    using fixed_zone_at [of 20543 420 tz] by (simp add: sample_days sample_inner)
  then show ?thesis
    by (simp add: computeSlots_def t slot_loop.simps slot_at_def Let_def given_def withinEngagement_def)
qed
lemma sample_bounds: "day_bounds fixed_zone ''2026-03-31'' tz = Some (1774926000000, 1775012400000)"
proof -
  have "zonedTimeToUtc fixed_zone ''2026-03-31'' 0 tz = Some 1774926000000"
    "zonedTimeToUtc fixed_zone ''2026-04-01'' 0 tz = Some 1775012400000"
    using fixed_zone_at [of 20543 0 tz] fixed_zone_at [of 20544 0 tz] by (simp_all add: sample_days sample_inner)
  moreover have "nextDateStr ''2026-03-31'' = Some ''2026-04-01''"
    using nextDateStr_iso [OF sample_plain(2)] by (simp add: sample_days)
  ultimately show ?thesis by (simp add: day_bounds_def)
qed

lemma sample_busy: "busy_on_day (loaded_busy sample_agenda ids rs re) p S E = []"
proof -
  have "rows (appointments sample_agenda) = []" "rows (timeOffs sample_agenda) = []" by code_simp+
  then have "loaded_busy sample_agenda ids rs re i = []" for i by (simp add: loaded_busy_def find_many_def)
  then show ?thesis by (simp add: busy_on_day_def)
qed

lemma sample_search: "next_search fixed_zone sample_agenda 7 sample_shop [sample_barber 11 2 ''barber'' None] 45
   ''America/Sao_Paulo'' ''2026-03-31'' 60 1774873800000 = Some (''2026-03-31'', 1774951200000)"
proof -
  have "zonedTimeToUtc fixed_zone ''2026-03-31'' 0 tz = Some 1774926000000" for tz
    using fixed_zone_at [of 20543 0 tz] by (simp add: sample_days sample_inner)
  moreover have "addDaysStr ''2026-03-31'' 60 = Some (iso_date 20603)" "addDaysStr ''2026-03-31'' 0 = Some ''2026-03-31''"
    using addDaysStr_iso [OF sample_plain(2), of 60] addDaysStr_iso [OF sample_plain(2), of 0]
    by (simp_all add: sample_days)
  moreover note sample_inner(4)
  moreover have "search_days f 60 0 = (case f 0 of Some r \<Rightarrow> Some r | None \<Rightarrow> search_days f 59 1)" for f
    using search_days.simps(2) [of f 59 0, unfolded add_0_left] by simp
  moreover have "bb_id (sample_barber 11 2 ''barber'' None) = 11" "bb_accessStartsAt (sample_barber 11 2 ''barber'' None) = None"
   "bb_accessEndsAt (sample_barber 11 2 ''barber'' None) = None" by (simp_all add: sample_barber_def)
  ultimately show ?thesis
  using fixed_zone_at [of 20603 0 "''America/Sao_Paulo''"]
  by (simp add: next_search_def sample_bounds earliest_on_def sample_window_loaded
      sample_first_slot sample_busy)
qed

lemma sample_zoned:
  "toZonedParts fixed_zone 1774872000000 z = \<lparr>z_dateStr = ''2026-03-30'', z_dayOfWeek = Some 1, z_minutesOfDay = 540\<rparr>"
  "toZonedParts fixed_zone 1774951200000 z = \<lparr>z_dateStr = ''2026-03-31'', z_dayOfWeek = Some 2, z_minutesOfDay = 420\<rparr>"
  using toZonedParts_eq [of fixed_zone z 1774872000000] toZonedParts_eq [of fixed_zone z 1774951200000] sample_plain
  by (simp_all add: zone_ok_def fixed_zone_def local_ms_def sample_days)

lemma sample_last_day: "addDaysStr ''2026-03-30'' PUBLIC_BOOKING_WINDOW_DAYS = Some ''2026-06-28''"
  using addDaysStr_iso [OF sample_plain(1), of 90] by (simp add: sample_days PUBLIC_BOOKING_WINDOW_DAYS_def)

lemma sample_zone_name: "safeTimeZone fixed_zone (Some (bs_timezone sample_shop)) = ''America/Sao_Paulo''"
  by code_simp

lemma sample_nearest: "getPublicNextAvailableSlot fixed_zone sample_agenda 1774872000000 7 (Some 11) [1] (Some ''2026-03-31'') 60
   = Inr (Some (''2026-03-31'', 1774951200000))"
proof -
  have "publicServices sample_agenda 7 [1] = Inr ([\<lparr>sv_id = 1, sv_barbershopId = 7, sv_isActive = True, sv_durationMinutes = 45, sv_price = 50,
        sv_depositAmount = None\<rparr>], 45)" "publicShop sample_agenda 7 = Some sample_shop"
   "bookable_barber sample_agenda 7 11 = Some (sample_barber 11 2 ''barber'' None)"
   "safeTimeZone fixed_zone (Some (bs_timezone sample_shop)) = ''America/Sao_Paulo''"
   "bs_minBookingLeadMinutes sample_shop = 30"
   "parse_iso_day ''2026-03-31'' = Some 20543"
   "parse_iso_day ''2026-06-28'' = Some 20632"
   "\<not> ''2026-06-28'' < ''2026-03-31''" "''2026-03-30'' < ''2026-03-31''"
   by code_simp+
  moreover note sample_last_day
  ultimately show ?thesis by (simp add: getPublicNextAvailableSlot_def sample_search sample_zoned)
qed

lemma sample_refused:
  "ensurePublicSlot fixed_zone sample_agenda 1774872000000 sample_shop 11 45 (Some 1774951200000)
    = Inl (BadRequest ''Horario fora do expediente do profissional'')"
proof -
  have "\<not> ''2026-06-28'' < ''2026-03-31''" "toMinutes ''09:00'' = Some 540" by code_simp+
  moreover have "bs_id sample_shop = 7" "bs_minBookingLeadMinutes sample_shop = 30"
    by (simp_all add: sample_shop_def)
  ultimately show ?thesis
    by (simp add: ensurePublicSlot_def sample_zone_name sample_zoned lastPublicDay_def sample_last_day
        sample_window_on SLOT_GRANULARITY_MIN_def)
qed


lemma steady_fixed: "inner_day n \<Longrightarrow> inner_day (n + 1) \<Longrightarrow> steady_day fixed_zone tz n"
  unfolding steady_day_def
  by (auto simp: zone_near_def zone_ok_def fixed_zone_def intro!: exI [of _ "- 10800000"])

lemma inner_days:
  assumes "inner_day a" and "inner_day b" and "a \<le> n" and "n \<le> b"
  shows "inner_day n"
  using assms year_from_day_mono [of a n] year_from_day_mono [of n b] by (simp add: inner_day_def)

lemma computeSlots_exact_witness:
  "(1774951200000 :: int) \<in> set (computeSlots fixed_zone None None 45 ''2026-03-31'' ''America/Sao_Paulo''
      (Some \<lparr>w_start = ''07:00'', w_end = ''20:00'', w_breakStart = Some ''12:00'', w_breakEnd = Some ''13:00''\<rparr>)
      [] False 0)"
proof -
  let ?w = "\<lparr>w_start = ''07:00'', w_end = ''20:00'', w_breakStart = Some ''12:00'', w_breakEnd = Some ''13:00''\<rparr>"
  have v: "valid_window ?w" "\<not> hits_break ?w 420 45" "minutesOfTime ''07:00'' = 420" "minutesOfTime ''20:00'' = 1200"
    by code_simp+
  have "zonedTimeToUtc fixed_zone ''2026-03-31'' 420 ''America/Sao_Paulo'' = Some 1774951200000"
    using fixed_zone_at [of 20543 420] by (simp add: sample_days sample_inner)
  with v show ?thesis
    unfolding computeSlots_exact [OF v(1)] by (intro exI [of _ 420]) (simp add: withinEngagement_def)
qed

lemma offered_slot_accepted_witness:
  "ensurePublicSlot fixed_zone sample_agenda 1774872000000 sample_shop 11 45 (Some 1774958400000)
      = Inr (1774958400000, 1774961100000)
    \<and> ensureBarberAvailable sample_agenda 7 11 1774958400000 1774961100000 None = Inr ()"
proof -
  let ?b = "sample_barber 11 2 ''barber'' None"
  let ?w = "\<lparr>w_start = ''09:00'', w_end = ''18:00'', w_breakStart = Some ''12:00'', w_breakEnd = Some ''13:00''\<rparr>"
  have v: "valid_window ?w" "\<not> hits_break ?w 540 45" "minutesOfTime ''09:00'' = 540" "minutesOfTime ''18:00'' = 1080"
    by code_simp+
  have id: "bb_id ?b = 11" "bb_barbershopId ?b = 7" "bs_id sample_shop = 7" "bs_minBookingLeadMinutes sample_shop = 30"
    "bb_accessStartsAt ?b = None" "bb_accessEndsAt ?b = None"
    by (simp_all add: sample_barber_def sample_shop_def)
  have rows: "rows (appointments sample_agenda) = []" "rows (timeOffs sample_agenda) = []"
    "?b \<in> set (rows (barbers sample_agenda))" "table_ok bb_id (barbers sample_agenda)"
    by code_simp+
  have "zonedTimeToUtc fixed_zone ''2026-03-31'' 540 ''America/Sao_Paulo'' = Some 1774958400000"
    using fixed_zone_at [of 20543 540] by (simp add: sample_days sample_inner)
  then have slot: "1774958400000 \<in> set (slotsForBarber fixed_zone sample_agenda (bs_id sample_shop) ?b 45 (iso_date 20543)
      (safeTimeZone fixed_zone (Some (bs_timezone sample_shop)))
      (1774872000000 + bs_minBookingLeadMinutes sample_shop * 60000) None)"
    using v rows unfolding slotsForBarber_def sample_zone_name id sample_days sample_window_on sample_bounds Let_def
      option.case prod.case computeSlots_grid [OF v(1)]
    by (intro exI [of _ 540]) (simp add: withinEngagement_def busy_of_def find_many_def)
  have "\<not> ''2026-06-28'' < ''2026-03-31''" by code_simp
  from offered_slot_accepted [of fixed_zone sample_shop 20543 sample_agenda ?b 45 1774872000000 "''2026-06-28''" ?w,
      OF _ rows(4,3) _ _ _ _ _ _ v(1) slot]
  show ?thesis
    using steady_fixed [of 20543] sample_inner sample_window_on
    by (simp add: id lastPublicDay_def sample_zoned sample_last_day sample_zone_name sample_days
        \<open>\<not> ''2026-06-28'' < ''2026-03-31''\<close>)
qed

lemma next_search_first_listed_witness:
  "case next_search fixed_zone sample_agenda 7 sample_shop [sample_barber 12 3 ''reception'' None] 45
      ''America/Sao_Paulo'' (iso_date 20542) 1 1774873800000 of
      None \<Rightarrow> \<forall>i. 0 \<le> i \<and> i < int 1 \<longrightarrow> (\<forall>b \<in> {sample_barber 12 3 ''reception'' None}.
        slotsForBarber fixed_zone sample_agenda 7 b 45 (iso_date (20542 + i)) ''America/Sao_Paulo'' 1774873800000 None = [])
    | Some (date, t) \<Rightarrow> \<exists>i. 0 \<le> i \<and> i < int 1 \<and> date = iso_date (20542 + i)
        \<and> (\<exists>b \<in> {sample_barber 12 3 ''reception'' None}.
            hd (slotsForBarber fixed_zone sample_agenda 7 b 45 (iso_date (20542 + i)) ''America/Sao_Paulo'' 1774873800000 None) = t)"
proof -
  let ?b = "sample_barber 12 3 ''reception'' None"
  have days: "steady_days fixed_zone ''America/Sao_Paulo'' 20542 1"
    using steady_fixed inner_days [OF sample_inner(1,4)] by (auto simp: steady_days_def)
  have shop: "shopById sample_agenda 7 = Some sample_shop" by code_simp
  have "rows (schedules sample_agenda) = [\<lparr>sh_id = 1, sh_barberId = 11, sh_dayOfWeek = 2,
      sh_startTime = ''07:00'', sh_endTime = ''20:00'', sh_breakStart = Some ''12:00'',
      sh_breakEnd = Some ''13:00'', sh_isActive = True\<rparr>]" by code_simp
  then have fit: "\<forall>b \<in> set [?b]. shifts_fit sample_agenda 7 (bb_id b)"
    by (simp add: shifts_fit_def sample_barber_def)
  show ?thesis
    using next_search_first_listed [OF refl days shop fit, of 45 1774873800000]
    by (auto split: option.split)
qed

end
