(* ===== verification/Schedules.thy ===== *)
theory Schedules
  imports Agenda
begin

text \<open>
  Changes of the agenda's inputs: the own shifts and days off of a professional
  (\<open>createBarberSchedule\<close> to \<open>deleteBarberTimeOff\<close> of \<open>barbershop.service.ts\<close>) and the weekly schedules
  of \<open>schedule.service.ts\<close> (opening hours, own week, and the booked appointments a new schedule
  would leave outside).

  \<open>withWaitlistOpening\<close> runs the change and then tells the waiting list and the open screens in the
  background; the model keeps the change. \<open>release\<close>, the hold plugin the service is given
  (\<open>DepositHolds\<close>), is a parameter.
\<close>

section \<open>Own shifts\<close>

text \<open>\<open>getBarberSchedules\<close>: the active shifts, by day of the week.\<close>

definition getBarberSchedules ::
    "'a agenda_db_scheme \<Rightarrow> int \<Rightarrow> int \<Rightarrow> int \<Rightarrow> int \<Rightarrow> (schedule list) result" where
  "getBarberSchedules db now userId barbershopId barberId =
     bindE (ensureBarbershopAccess db now userId barbershopId Basic) (\<lambda>_.
       Inr (sort_key sh_dayOfWeek (find_many (\<lambda>s. sh_barberId s = barberId \<and> sh_isActive s) (schedules db))))"

definition getBarberSchedulesByBarber ::
    "'a agenda_db_scheme \<Rightarrow> int \<Rightarrow> int \<Rightarrow> int \<Rightarrow> (schedule list) result" where
  "getBarberSchedulesByBarber db now userId barberId = (case barberById db barberId of
       None \<Rightarrow> Inl (NotFound ''Profissional nao encontrado'')
     | Some b \<Rightarrow> getBarberSchedules db now userId (bb_barbershopId b) barberId)"

record shift_input =
  si_startTime :: string
  si_endTime :: string
  si_breakStart :: "string option"
  si_breakEnd :: "string option"

definition SHIFT_DAY_TAKEN_MESSAGE :: string where
  "SHIFT_DAY_TAKEN_MESSAGE = ''Este dia ja tem escala. Edite o dia na escala da semana.''"

definition createBarberSchedule :: "'a agenda_db_scheme \<Rightarrow> int \<Rightarrow> int \<Rightarrow> int \<Rightarrow> int \<Rightarrow> shift_input
    \<Rightarrow> ('a agenda_db_scheme) result" where
  "createBarberSchedule db now userId barberId dayOfWeek i =
     (case barberById db barberId of
        None \<Rightarrow> Inl (NotFound ''Profissional nao encontrado'')
      | Some b \<Rightarrow>
     bindE (ensureCanManageBarber db now userId (bb_barbershopId b) (bb_id b)) (\<lambda>_.
     bindE (throwIf (dayOfWeek < 0 \<or> dayOfWeek > 6) (BadRequest ''Dia da semana invalido'')) (\<lambda>_.
     bindE (checkShift (si_startTime i) (si_endTime i) (si_breakStart i) (si_breakEnd i)) (\<lambda>_.
     bindE (throwIf (scheduleOf db (bb_id b) dayOfWeek \<noteq> None) (BadRequest SHIFT_DAY_TAKEN_MESSAGE)) (\<lambda>_.
     bindE (ensureShiftFreeAcrossShops db now barberId dayOfWeek (si_startTime i) (si_endTime i)) (\<lambda>_.
       Inr (db\<lparr>schedules := create_row (\<lambda>k. \<lparr>sh_id = k, sh_barberId = barberId, sh_dayOfWeek = dayOfWeek,
         sh_startTime = si_startTime i, sh_endTime = si_endTime i, sh_breakStart = si_breakStart i,
         sh_breakEnd = si_breakEnd i, sh_isActive = True\<rparr>) (schedules db)\<rparr>)))))))"

text \<open>
  The patch of \<open>updateBarberSchedule\<close>: \<open>None\<close> leaves the column as it is. A break is \<open>Some None\<close>
  when it is cleared.
\<close>

record shift_patch =
  sp_startTime :: "string option"
  sp_endTime :: "string option"
  sp_breakStart :: "string option option"
  sp_breakEnd :: "string option option"
  sp_isActive :: "bool option"

definition or_else :: "'a option \<Rightarrow> 'a \<Rightarrow> 'a" where
  "or_else p x = (case p of None \<Rightarrow> x | Some y \<Rightarrow> y)"

definition patch_shift :: "shift_patch \<Rightarrow> schedule \<Rightarrow> schedule" where
  "patch_shift p s = s\<lparr>
     sh_startTime := or_else (sp_startTime p) (sh_startTime s),
     sh_endTime := or_else (sp_endTime p) (sh_endTime s),
     sh_breakStart := or_else (sp_breakStart p) (sh_breakStart s),
     sh_breakEnd := or_else (sp_breakEnd p) (sh_breakEnd s),
     sh_isActive := or_else (sp_isActive p) (sh_isActive s)\<rparr>"

definition updateBarberSchedule :: "'a agenda_db_scheme \<Rightarrow> int \<Rightarrow> int \<Rightarrow> int \<Rightarrow> shift_patch
    \<Rightarrow> ('a agenda_db_scheme) result" where
  "updateBarberSchedule db now userId scheduleId p =
     (case find_first (\<lambda>s. sh_id s = scheduleId) (schedules db) of
        None \<Rightarrow> Inl (NotFound ''Horario nao encontrado'')
      | Some s \<Rightarrow>
     (case barberById db (sh_barberId s) of
        None \<Rightarrow> Inl (NotFound ''Horario nao encontrado'')
      | Some b \<Rightarrow>
     bindE (ensureCanManageBarber db now userId (bb_barbershopId b) (sh_barberId s)) (\<lambda>_. let s' = patch_shift p s in
     bindE (if sh_isActive s' then
         bindE (checkShift (sh_startTime s') (sh_endTime s') (sh_breakStart s') (sh_breakEnd s')) (\<lambda>_.
           ensureShiftFreeAcrossShops db now (sh_barberId s) (sh_dayOfWeek s) (sh_startTime s') (sh_endTime s'))
       else Inr ()) (\<lambda>_.
     Inr (db\<lparr>schedules := update_many (\<lambda>r. sh_id r = scheduleId) (patch_shift p) (schedules db)\<rparr>)))))"

definition deleteBarberSchedule :: "'a agenda_db_scheme \<Rightarrow> int \<Rightarrow> int \<Rightarrow> int \<Rightarrow> ('a agenda_db_scheme) result" where
  "deleteBarberSchedule db now userId scheduleId =
     (case find_first (\<lambda>s. sh_id s = scheduleId) (schedules db) of
        None \<Rightarrow> Inl (NotFound ''Horario nao encontrado'')
      | Some s \<Rightarrow>
     (case barberById db (sh_barberId s) of
        None \<Rightarrow> Inl (NotFound ''Horario nao encontrado'')
      | Some b \<Rightarrow>
     bindE (ensureCanManageBarber db now userId (bb_barbershopId b) (sh_barberId s)) (\<lambda>_.
       Inr (db\<lparr>schedules := delete_many (\<lambda>r. sh_id r = scheduleId) (schedules db)\<rparr>))))"

section \<open>Days off\<close>

definition MAX_TIME_OFF_DAYS :: int where "MAX_TIME_OFF_DAYS = 366"

definition TIME_OFF_REASONS :: "string list" where
  "TIME_OFF_REASONS = [''VACATION'', ''SICK'', ''PERSONAL'', ''OTHER'']"

text \<open>A sick leave is health data: only manager, owner and the professional himself see the reason.\<close>

definition timeOffReasonFor :: "access_level \<Rightarrow> bool \<Rightarrow> string \<Rightarrow> string" where
  "timeOffReasonFor level ownOnly reason = (let full = ownOnly \<or> ACCESS_RANK level \<ge> ACCESS_RANK Manager in
     if full \<or> reason \<noteq> ''SICK'' then reason else ''OTHER'')"

text \<open>\<open>None\<close> in a time: a text that is not a date. The holds to free are given to \<open>release\<close> one by one.\<close>

definition createBarberTimeOff :: "(int \<Rightarrow> 'a agenda_db_scheme \<Rightarrow> 'a agenda_db_scheme) \<Rightarrow> 'a agenda_db_scheme
    \<Rightarrow> int \<Rightarrow> int \<Rightarrow> int \<Rightarrow> int option \<Rightarrow> int option \<Rightarrow> string option
    \<Rightarrow> (int \<times> 'a agenda_db_scheme) result" where
  "createBarberTimeOff release db now userId barberId startInput endInput reasonInput =
     (case barberById db barberId of
        None \<Rightarrow> Inl (NotFound ''Profissional nao encontrado'')
      | Some b \<Rightarrow>
     bindE (ensureCanManageBarber db now userId (bb_barbershopId b) (bb_id b)) (\<lambda>_.
     (case (startInput, endInput) of
        (Some startAt, Some endAt) \<Rightarrow>
     if endAt \<le> startAt then Inl (BadRequest ''Periodo invalido'')
     else if endAt - startAt > MAX_TIME_OFF_DAYS * 86400000 then
       Inl (BadRequest (''O periodo pode ter no maximo '' @ show_int MAX_TIME_OFF_DAYS @ '' dias''))
     else (let reason = or_else reasonInput ''PERSONAL'' in
     if reason \<notin> set TIME_OFF_REASONS then Inl (BadRequest ''Motivo invalido'')
     else (let
         db1 = db\<lparr>timeOffs := create_row (\<lambda>k. \<lparr>to_id = k, to_barberId = barberId, to_startAt = startAt,
           to_endAt = endAt, to_reason = reason\<rparr>) (timeOffs db)\<rparr>;
         ids = samePersonBarberIds db (bb_id b) (bb_userId b) (bb_professionalId b);
         holds = find_many (\<lambda>a. ap_barberId a \<in> set ids \<and> ap_status a = ''PENDING_PAYMENT''
           \<and> ap_startAt a < endAt \<and> ap_endAt a > startAt) (appointments db1);
         db2 = foldl (\<lambda>d a. release (ap_id a) d) db1 holds;
         affected = count_where (\<lambda>a. ap_barberId a = bb_id b
           \<and> ap_status a \<in> {''CONFIRMED'', ''PENDING_PAYMENT''}
           \<and> ap_startAt a < endAt \<and> ap_endAt a > startAt) (appointments db2)
       in Inr (affected, db2)))
      | _ \<Rightarrow> Inl (BadRequest ''Periodo invalido''))))"

definition getBarbershopTimeOffs :: "'a agenda_db_scheme \<Rightarrow> int \<Rightarrow> int \<Rightarrow> int \<Rightarrow> int \<Rightarrow> int
    \<Rightarrow> (time_off list) result" where
  "getBarbershopTimeOffs db now userId barbershopId startAt endAt =
     bindE (ensureBarbershopAccess db now userId barbershopId Basic) (\<lambda>shop.
       let own = ownBarberIdIfBarber db userId shop;
         found = take 500 (sort_key to_startAt (find_many (\<lambda>t.
           (case barberById db (to_barberId t) of None \<Rightarrow> False | Some b \<Rightarrow> bb_barbershopId b = barbershopId)
           \<and> (own = None \<or> Some (to_barberId t) = own)
           \<and> to_startAt t < endAt \<and> to_endAt t > startAt) (timeOffs db)))
       in Inr (map (\<lambda>t. t\<lparr>to_reason := timeOffReasonFor (sa_accessLevel shop) (own \<noteq> None) (to_reason t)\<rparr>) found))"

definition deleteBarberTimeOff :: "'a agenda_db_scheme \<Rightarrow> int \<Rightarrow> int \<Rightarrow> int \<Rightarrow> ('a agenda_db_scheme) result" where
  "deleteBarberTimeOff db now userId timeOffId =
     (case find_first (\<lambda>t. to_id t = timeOffId) (timeOffs db) of
        None \<Rightarrow> Inl (NotFound ''Afastamento nao encontrado'')
      | Some t \<Rightarrow>
     (case barberById db (to_barberId t) of
        None \<Rightarrow> Inl (NotFound ''Afastamento nao encontrado'')
      | Some b \<Rightarrow>
     bindE (ensureCanManageBarber db now userId (bb_barbershopId b) (to_barberId t)) (\<lambda>_.
       Inr (db\<lparr>timeOffs := delete_many (\<lambda>r. to_id r = timeOffId) (timeOffs db)\<rparr>))))"

definition getBarberTimeOffsByBarber :: "'a agenda_db_scheme \<Rightarrow> int \<Rightarrow> int \<Rightarrow> int \<Rightarrow> int option \<Rightarrow> int option
    \<Rightarrow> (time_off list) result" where
  "getBarberTimeOffsByBarber db now userId barberId from' to' =
     (case barberById db barberId of
        None \<Rightarrow> Inl (NotFound ''Profissional nao encontrado'')
      | Some b \<Rightarrow>
     bindE (ensureBarbershopAccess db now userId (bb_barbershopId b) Basic) (\<lambda>shop.
       let own = ownBarberIdIfBarber db userId shop in
       if own \<noteq> None \<and> own \<noteq> Some barberId then Inl (NotFound ''Profissional nao encontrado'')
       else Inr (map (\<lambda>t. t\<lparr>to_reason := timeOffReasonFor (sa_accessLevel shop) (own \<noteq> None) (to_reason t)\<rparr>)
         (sort_key (\<lambda>t. - to_startAt t) (find_many (\<lambda>t. to_barberId t = barberId
           \<and> (case from' of None \<Rightarrow> True | Some f \<Rightarrow> to_endAt t \<ge> f)
           \<and> (case to' of None \<Rightarrow> True | Some e \<Rightarrow> to_startAt t \<le> e)) (timeOffs db))))))"

section \<open>Opening hours\<close>

record business_day =
  bd_dayOfWeek :: int
  bd_open :: bool
  bd_start :: "string option"
  bd_end :: "string option"

fun checkDays :: "int list \<Rightarrow> int set \<Rightarrow> unit result" where
  "checkDays [] seen = Inr ()"
| "checkDays (d # ds) seen =
     (if d < 0 \<or> d > 6 then Inl (BadRequest ''Dia da semana invalido'')
      else if d \<in> seen then Inl (BadRequest ''Dia da semana repetido'')
      else checkDays ds (insert d seen))"

fun business_json :: "business_day list \<Rightarrow> ((string \<times> day_hours option) list) result" where
  "business_json [] = Inr []"
| "business_json (d # ds) = (let key = WEEKDAY_KEYS ! nat (bd_dayOfWeek d) in
     bindE (if bd_open d then bindE (checkRange (bd_start d) (bd_end d) key) (\<lambda>h. Inr (Some h)) else Inr None) (\<lambda>h.
     bindE (business_json ds) (\<lambda>rest. Inr ((key, h) # rest))))"

definition parseBusinessDays :: "business_day list \<Rightarrow> ((string \<times> day_hours option) list) result" where
  "parseBusinessDays days =
     bindE (checkDays (map bd_dayOfWeek days) {}) (\<lambda>_.
     if length days \<noteq> 7 then Inl (BadRequest ''Informe os 7 dias da semana'')
     else business_json days)"

text \<open>\<open>JSON.stringify(json)\<close>, as the value it encodes.\<close>

definition stringify_hours :: "(string \<times> day_hours option) list \<Rightarrow> json_text" where
  "stringify_hours js = Some (JObj (map (\<lambda>(k, h). (k, day_hours_json h)) js))"

definition hours_on :: "(string \<times> day_hours option) list \<Rightarrow> int \<Rightarrow> day_hours option" where
  "hours_on js dayOfWeek = (case map_of js (WEEKDAY_KEYS ! nat dayOfWeek) of None \<Rightarrow> None | Some h \<Rightarrow> h)"

record hours_view =
  hv_dayOfWeek :: int
  hv_open :: bool
  hv_start :: "string option"
  hv_end :: "string option"
  hv_isDefault :: bool

definition shop_week :: "'a staff_db_scheme \<Rightarrow> int \<Rightarrow> day_hours option list" where
  "shop_week db barbershopId = week_of (businessHoursOf db barbershopId)"

definition getBusinessHours :: "'a staff_db_scheme \<Rightarrow> int \<Rightarrow> int \<Rightarrow> int \<Rightarrow> (hours_view list) result" where
  "getBusinessHours db now userId barbershopId =
     bindE (ensureBarbershopAccess db now userId barbershopId Basic) (\<lambda>_. (let
         isDefault = parseBusinessHours (businessHoursOf db barbershopId) = None;
         days = shop_week db barbershopId
       in Inr (map (\<lambda>i. (let d = days ! nat i in \<lparr>hv_dayOfWeek = i, hv_open = (d \<noteq> None),
            hv_start = map_option dh_start d, hv_end = map_option dh_end d, hv_isDefault = isDefault\<rparr>))
            [0, 1, 2, 3, 4, 5, 6])))"

text \<open>The free-shift check of the team members who follow the shop's hours on a day.\<close>

fun check_team_days :: "'a agenda_db_scheme \<Rightarrow> int \<Rightarrow> (string \<times> day_hours option) list \<Rightarrow> int \<Rightarrow> int list \<Rightarrow> unit result" where
  "check_team_days db now js barberId [] = Inr ()"
| "check_team_days db now js barberId (d # ds) =
     bindE (case hours_on js d of
         None \<Rightarrow> Inr ()
       | Some h \<Rightarrow> if scheduleOf db barberId d \<noteq> None then Inr ()
           else ensureShiftFreeAcrossShops db now barberId d (dh_start h) (dh_end h)) (\<lambda>_.
     check_team_days db now js barberId ds)"

fun check_team :: "'a agenda_db_scheme \<Rightarrow> int \<Rightarrow> (string \<times> day_hours option) list \<Rightarrow> barber list \<Rightarrow> unit result" where
  "check_team db now js [] = Inr ()"
| "check_team db now js (b # bs) =
     bindE (check_team_days db now js (bb_id b) [0, 1, 2, 3, 4, 5, 6]) (\<lambda>_. check_team db now js bs)"

text \<open>The saved state, and the answer read back from it.\<close>

definition setBusinessHours :: "'a agenda_db_scheme \<Rightarrow> int \<Rightarrow> int \<Rightarrow> int \<Rightarrow> business_day list
    \<Rightarrow> ((hours_view list) result \<times> 'a agenda_db_scheme) result" where
  "setBusinessHours db now userId barbershopId days =
     bindE (ensureBarbershopAccess db now userId barbershopId Manager) (\<lambda>_.
     bindE (parseBusinessDays days) (\<lambda>js.
     bindE (check_team db now js (find_many (\<lambda>b. bb_barbershopId b = barbershopId \<and> bb_isActive b
         \<and> currentEngagement now b) (barbers db))) (\<lambda>_. let
       db' = db\<lparr>barbershops := update_many (\<lambda>s. bs_id s = barbershopId)
         (\<lambda>s. s\<lparr>bs_businessHours := Some (stringify_hours js)\<rparr>) (barbershops db)\<rparr>
     in Inr (getBusinessHours db' now userId barbershopId, db'))))"

section \<open>The week of a professional\<close>

record schedule_day =
  sd_dayOfWeek :: int
  sd_mode :: string
  sd_startTime :: "string option"
  sd_endTime :: "string option"
  sd_breakStart :: "string option"
  sd_breakEnd :: "string option"

record week_view =
  wv_dayOfWeek :: int
  wv_mode :: string
  wv_startTime :: "string option"
  wv_endTime :: "string option"
  wv_breakStart :: "string option"
  wv_breakEnd :: "string option"
  wv_working :: bool

definition MODES :: "string list" where
  "MODES = [''SHOP'', ''CUSTOM'', ''OFF'']"

definition barberOrThrow :: "'a staff_db_scheme \<Rightarrow> int \<Rightarrow> barber result" where
  "barberOrThrow db barberId = (case barberById db barberId of
       None \<Rightarrow> Inl (NotFound ''Profissional nao encontrado'') | Some b \<Rightarrow> Inr b)"

definition getWeeklySchedule :: "'a agenda_db_scheme \<Rightarrow> int \<Rightarrow> int \<Rightarrow> int \<Rightarrow> (week_view list) result" where
  "getWeeklySchedule db now userId barberId =
     bindE (barberOrThrow db barberId) (\<lambda>barber.
     bindE (ensureBarbershopAccess db now userId (bb_barbershopId barber) Basic) (\<lambda>_.
     Inr (map (\<lambda>d. (let shopDay = shop_week db (bb_barbershopId barber) ! nat d in
         case scheduleOf db barberId d of
           None \<Rightarrow> \<lparr>wv_dayOfWeek = d, wv_mode = ''SHOP'', wv_startTime = map_option dh_start shopDay,
             wv_endTime = map_option dh_end shopDay, wv_breakStart = None, wv_breakEnd = None,
             wv_working = (shopDay \<noteq> None)\<rparr>
         | Some row \<Rightarrow> (let when' = (\<lambda>x. if sh_isActive row then x else None) in
             \<lparr>wv_dayOfWeek = d, wv_mode = (if sh_isActive row then ''CUSTOM'' else ''OFF''),
              wv_startTime = when' (Some (sh_startTime row)), wv_endTime = when' (Some (sh_endTime row)),
              wv_breakStart = when' (sh_breakStart row), wv_breakEnd = when' (sh_breakEnd row),
              wv_working = sh_isActive row\<rparr>))) [0, 1, 2, 3, 4, 5, 6])))"

fun check_modes :: "schedule_day list \<Rightarrow> unit result" where
  "check_modes [] = Inr ()"
| "check_modes (d # ds) = (let label = WEEKDAY_KEYS ! nat (sd_dayOfWeek d) in
     bindE (throwIf (sd_mode d \<notin> set MODES) (BadRequest ''Tipo de dia invalido'')) (\<lambda>_.
     bindE (if sd_mode d \<noteq> ''CUSTOM'' then Inr () else
       bindE (checkRange (sd_startTime d) (sd_endTime d) label) (\<lambda>work.
       bindE (throwIf (given (sd_breakStart d) \<noteq> given (sd_breakEnd d))
         (BadRequest (label @ '': informe o inicio e o fim do intervalo''))) (\<lambda>_.
       if given (sd_breakStart d) then
         bindE (checkRange (sd_breakStart d) (sd_breakEnd d) (label @ '' (intervalo)'')) (\<lambda>pause.
         throwIf (dh_start pause \<le> dh_start work \<or> dh_end pause \<ge> dh_end work)
           (BadRequest (label @ '': o intervalo precisa ficar dentro do expediente'')))
       else Inr ()))) (\<lambda>_.
     check_modes ds)))"

definition checkWeeklyDays :: "schedule_day list \<Rightarrow> unit result" where
  "checkWeeklyDays days = bindE (checkDays (map sd_dayOfWeek days) {}) (\<lambda>_. check_modes days)"

definition SCHEDULE_OUTSIDE_SHOP_MESSAGE :: string where
  "SCHEDULE_OUTSIDE_SHOP_MESSAGE =
     ''O horario do profissional precisa ficar dentro do expediente da unidade.''"

text \<open>\<open>must(v, ...)\<close>: the value, or an internal error when it is missing.\<close>

definition text_of :: "string option \<Rightarrow> string" where
  "text_of t = (case t of None \<Rightarrow> [] | Some s \<Rightarrow> s)"

definition or_null :: "string option \<Rightarrow> string option" where
  "or_null t = (if given t then t else None)"

definition trim_or_null :: "string option \<Rightarrow> string option" where
  "trim_or_null t = (case t of None \<Rightarrow> None | Some s \<Rightarrow> or_null (Some (js_trim s)))"

fun check_week_free :: "'a agenda_db_scheme \<Rightarrow> int \<Rightarrow> barber \<Rightarrow> schedule_day list \<Rightarrow> unit result" where
  "check_week_free db now b [] = Inr ()"
| "check_week_free db now b (d # ds) = (let
       shopWindow = shopHoursOn db (bb_barbershopId b) (sd_dayOfWeek d);
       custom = (sd_mode d = ''CUSTOM'');
       own = \<lparr>dh_start = text_of (sd_startTime d), dh_end = text_of (sd_endTime d)\<rparr>
     in bindE (if sd_mode d = ''OFF'' then Inr ()
         else bindE (throwIf (custom \<and> \<not> fitsShopHours (dh_start own) (dh_end own) shopWindow)
             (BadRequest SCHEDULE_OUTSIDE_SHOP_MESSAGE)) (\<lambda>_.
           case (if custom then Some own else shopWindow) of
             None \<Rightarrow> Inr ()
           | Some w \<Rightarrow> ensureShiftFreeAcrossShops db now (bb_id b) (sd_dayOfWeek d) (dh_start w) (dh_end w))) (\<lambda>_.
       check_week_free db now b ds))"

definition write_shift :: "schedule_day \<Rightarrow> schedule \<Rightarrow> schedule" where
  "write_shift d s = (if sd_mode d = ''OFF''
     then s\<lparr>sh_startTime := ''00:00'', sh_endTime := ''00:00'', sh_breakStart := None, sh_breakEnd := None,
            sh_isActive := False\<rparr>
     else s\<lparr>sh_startTime := text_of (sd_startTime d), sh_endTime := text_of (sd_endTime d),
            sh_breakStart := or_null (sd_breakStart d), sh_breakEnd := or_null (sd_breakEnd d),
            sh_isActive := True\<rparr>)"

text \<open>One statement of the transaction: delete the row of the day, or update it, or create it.\<close>

definition save_day :: "int \<Rightarrow> schedule_day \<Rightarrow> schedule table \<Rightarrow> schedule table" where
  "save_day barberId d t = (let key = (\<lambda>s. sh_barberId s = barberId \<and> sh_dayOfWeek s = sd_dayOfWeek d) in
     if sd_mode d = ''SHOP'' then delete_many key t
     else if find_first key t \<noteq> None then update_many key (write_shift d) t
     else create_row (\<lambda>k. write_shift d \<lparr>sh_id = k, sh_barberId = barberId, sh_dayOfWeek = sd_dayOfWeek d,
       sh_startTime = [], sh_endTime = [], sh_breakStart = None, sh_breakEnd = None, sh_isActive = True\<rparr>) t)"

definition setWeeklySchedule :: "'a agenda_db_scheme \<Rightarrow> int \<Rightarrow> int \<Rightarrow> int \<Rightarrow> schedule_day list
    \<Rightarrow> ((week_view list) result \<times> 'a agenda_db_scheme) result" where
  "setWeeklySchedule db now userId barberId days =
     bindE (barberOrThrow db barberId) (\<lambda>barber.
     bindE (ensureCanManageBarber db now userId (bb_barbershopId barber) barberId) (\<lambda>_.
     bindE (checkWeeklyDays days) (\<lambda>_.
     bindE (check_week_free db now barber days) (\<lambda>_. let
       db' = db\<lparr>schedules := fold (save_day barberId) days (schedules db)\<rparr>
     in Inr (getWeeklySchedule db' now userId barberId, db')))))"

section \<open>Booked appointments a new schedule leaves outside\<close>

definition IMPACT_LIMIT :: nat where "IMPACT_LIMIT = 500"

text \<open>The order of the pages, and one page after the cursor.\<close>

definition page_key :: "appointment \<Rightarrow> int \<times> int" where
  "page_key a = (ap_startAt a, ap_id a)"

definition next_page :: "nat \<Rightarrow> (int \<times> int) option \<Rightarrow> appointment list \<Rightarrow> appointment list" where
  "next_page limit cursor found = take limit (sort_key page_key (filter (\<lambda>a. case cursor of
       None \<Rightarrow> True
     | Some (startAt, i) \<Rightarrow> ap_startAt a > startAt \<or> ap_startAt a = startAt \<and> ap_id a > i) found))"

text \<open>The loop over the pages, for as many pages as \<open>fuel\<close> allows.\<close>

fun all_pages :: "nat \<Rightarrow> nat \<Rightarrow> (int \<times> int) option \<Rightarrow> appointment list \<Rightarrow> (appointment list) option" where
  "all_pages 0 limit cursor found = None"
| "all_pages (Suc fuel) limit cursor found = (let page = next_page limit cursor found in
     if length page < limit then Some page
     else map_option (\<lambda>rest. page @ rest) (all_pages fuel limit (Some (page_key (last page))) found))"

definition outside :: "intl \<Rightarrow> 'a agenda_db_scheme \<Rightarrow> nat \<Rightarrow> int \<Rightarrow> int \<Rightarrow> int option
    \<Rightarrow> (int \<Rightarrow> int \<Rightarrow> window option) \<Rightarrow> (appointment list) option" where
  "outside I db fuel now barbershopId barberId windowFor = (let
       timeZone = safeTimeZone I (Option.bind (shopById db barbershopId) (\<lambda>s. Some (bs_timezone s)));
       today = z_dateStr (toZonedParts I now timeZone);
       closed = map cl_date (find_many (\<lambda>c. cl_barbershopId c = barbershopId \<and> today \<le> cl_date c) (closures db));
       found = find_many (\<lambda>a. ap_barbershopId a = barbershopId \<and> (barberId = None \<or> Some (ap_barberId a) = barberId)
         \<and> ap_status a \<in> {''CONFIRMED'', ''PENDING_PAYMENT''} \<and> ap_startAt a \<ge> now) (appointments db)
     in map_option (filter (\<lambda>a. (let
            start = toZonedParts I (ap_startAt a) timeZone;
            end' = toZonedParts I (ap_endAt a) timeZone;
            endMinutes = (if z_dateStr end' = z_dateStr start then z_minutesOfDay end' else 24 * 60)
          in z_dateStr start \<notin> set closed
            \<and> \<not> fitsWindow (case z_dayOfWeek start of None \<Rightarrow> None | Some d \<Rightarrow> windowFor (ap_barberId a) d)
                (z_minutesOfDay start) endMinutes)))
        (all_pages fuel IMPACT_LIMIT None found))"

definition row_window :: "schedule option \<Rightarrow> day_hours option \<Rightarrow> window option" where
  "row_window row shopDay = (case row of
       Some r \<Rightarrow> if sh_isActive r then Some (window_of_schedule r) else None
     | None \<Rightarrow> map_option window_of_hours shopDay)"

definition businessHoursImpact :: "intl \<Rightarrow> 'a agenda_db_scheme \<Rightarrow> nat \<Rightarrow> int \<Rightarrow> int \<Rightarrow> int \<Rightarrow> business_day list
    \<Rightarrow> ((appointment list) option) result" where
  "businessHoursImpact I db fuel now userId barbershopId days =
     bindE (ensureBarbershopAccess db now userId barbershopId Manager) (\<lambda>_.
     bindE (parseBusinessDays days) (\<lambda>js.
     Inr (outside I db fuel now barbershopId None (\<lambda>barberId d.
       row_window (case barberById db barberId of
           None \<Rightarrow> None
         | Some b \<Rightarrow> if bb_barbershopId b = barbershopId then scheduleOf db barberId d else None)
         (hours_on js d)))))"

definition weeklyScheduleImpact :: "intl \<Rightarrow> 'a agenda_db_scheme \<Rightarrow> nat \<Rightarrow> int \<Rightarrow> int \<Rightarrow> int \<Rightarrow> schedule_day list
    \<Rightarrow> ((appointment list) option) result" where
  "weeklyScheduleImpact I db fuel now userId barberId days =
     bindE (barberOrThrow db barberId) (\<lambda>barber.
     bindE (ensureCanManageBarber db now userId (bb_barbershopId barber) barberId) (\<lambda>_.
     bindE (checkWeeklyDays days) (\<lambda>_.
     Inr (outside I db fuel now (bb_barbershopId barber) (Some barberId) (\<lambda>_ d.
       let shopDay = shop_week db (bb_barbershopId barber) ! nat d in
       case find (\<lambda>x. sd_dayOfWeek x = d) days of
         Some x \<Rightarrow>
           if sd_mode x = ''OFF'' then None
           else if sd_mode x = ''CUSTOM'' then
             Some \<lparr>w_start = text_of (sd_startTime x), w_end = text_of (sd_endTime x),
               w_breakStart = or_null (sd_breakStart x), w_breakEnd = or_null (sd_breakEnd x)\<rparr>
           else map_option window_of_hours shopDay
       | None \<Rightarrow> row_window (scheduleOf db barberId d) shopDay)))))"

section \<open>The pages lose no appointment\<close>

lemma after_cursor: "ap_startAt a > s \<or> ap_startAt a = s \<and> ap_id a > i \<longleftrightarrow> (s, i) < page_key a"
  by (auto simp: page_key_def)

lemma drop_after:
  assumes "sorted_wrt (\<lambda>a b. key a < (key b :: 'k :: linorder)) R" and "0 < k" and "k \<le> length R"
  shows "filter (\<lambda>a. key (last (take k R)) < key a) R = drop k R"
proof -
  define A where "A = take k R"
  define B where "B = drop k R"
  have R: "R = A @ B" and ne: "A \<noteq> []" using assms(2,3) by (auto simp: A_def B_def)
  have w: "sorted_wrt (\<lambda>a b. key a < key b) (A @ B)" using assms(1) R by simp
  obtain A' x where A': "A = A' @ [x]" using ne by (cases A rule: rev_cases) auto
  have "key a \<le> key (last A)" if "a \<in> set A" for a
    using w that unfolding A' by (auto simp: sorted_wrt_append)
  then have "filter (\<lambda>a. key (last A) < key a) A = []"
    by (auto simp: filter_empty_conv not_less)
  moreover have "filter (\<lambda>a. key (last A) < key a) B = B"
    using w ne by (auto simp: sorted_wrt_append filter_id_conv)
  ultimately have "filter (\<lambda>a. key (last A) < key a) R = B" by (simp add: R)
  then show ?thesis by (simp only: A_def B_def)
qed

lemma all_pages_from:
  assumes "distinct (map ap_id found)" and "0 < limit"
    and "length (filter (\<lambda>a. case cursor of None \<Rightarrow> True | Some (s, i) \<Rightarrow> (s, i) < page_key a) found) < fuel"
  shows "all_pages fuel limit cursor found
    = Some (filter (\<lambda>a. case cursor of None \<Rightarrow> True | Some (s, i) \<Rightarrow> (s, i) < page_key a) (sort_key page_key found))"
  using assms(3)
proof (induction fuel arbitrary: cursor)
  case 0
  then show ?case by simp
next
  case (Suc fuel)
  let ?after = "\<lambda>c a. case c of None \<Rightarrow> True | Some (s, i) \<Rightarrow> (s, i) < page_key a"
  define R where "R = filter (?after cursor) (sort_key page_key found)"
  have page: "next_page limit cursor found = take limit R"
    unfolding next_page_def R_def filter_sort after_cursor by simp
  have "distinct (map page_key (sort_key page_key found))"
    using assms(1) by (auto simp: distinct_map inj_on_def page_key_def)
  then have "sorted_wrt (<) (map page_key (sort_key page_key found))"
    by (simp add: strict_sorted_iff)
  then have strict: "sorted_wrt (\<lambda>a b. page_key a < page_key b) R"
    unfolding R_def sorted_wrt_map by (rule sorted_wrt_filter)
  have len: "length R = length (filter (?after cursor) found)"
    unfolding R_def filter_sort by simp
  show ?case
  proof (cases "length R < limit")
    case True
    then show ?thesis by (simp add: page R_def [symmetric] min_def)
  next
    case False
    define c where "c = page_key (last (take limit R))"
    have "take limit R \<noteq> []" using False assms(2) by (cases R) auto
    then have "last (take limit R) \<in> set R" by (meson in_set_takeD last_in_set)
    then have beyond: "?after cursor a" if "c < page_key a" for a
      using that by (auto simp: R_def c_def split: option.splits)
    have drop: "filter (\<lambda>a. c < page_key a) R = drop limit R"
      unfolding c_def using False assms(2) by (intro drop_after [OF strict]) auto
    have rest: "filter (?after (Some c)) (sort_key page_key found) = drop limit R"
    proof -
      have "filter (?after (Some c)) (sort_key page_key found) = filter (\<lambda>a. c < page_key a) R"
        unfolding R_def filter_filter by (rule filter_cong) (use beyond in \<open>auto simp: split_def\<close>)
      then show ?thesis using drop by simp
    qed
    have "length (filter (?after (Some c)) found) = length (drop limit R)"
      unfolding rest [symmetric] filter_sort by simp
    also have "\<dots> < fuel" using Suc.prems False assms(2) len by simp
    finally have "all_pages fuel limit (Some c) found = Some (drop limit R)"
      using Suc.IH [of "Some c"] rest by simp
    then show ?thesis
      using False by (simp add: page c_def [symmetric] R_def [symmetric])
  qed
qed

text \<open>
  C16. Reading the booked appointments page by page returns every one of them, once, in order of
  start and id, however many pages there are: no appointment is lost or repeated at the edge of a
  page, even when several start at the same instant, and one page more than there are
  appointments is always enough.
\<close>

theorem all_pages_complete:
  assumes "distinct (map ap_id found)" and "length found < fuel"
  shows "all_pages fuel IMPACT_LIMIT None found = Some (sort_key page_key found)"
  using all_pages_from [OF assms(1), of IMPACT_LIMIT None fuel] assms(2)
  by (simp add: IMPACT_LIMIT_def)

section \<open>A saved week takes effect\<close>

lemma find_first_update:
  assumes "\<And>r. p r \<Longrightarrow> p (f r)"
  shows "find_first p (update_many p f t) = map_option f (find_first p t)"
proof -
  have "find p (map (\<lambda>r. if p r then f r else r) xs) = map_option f (find p xs)" for xs
    by (induction xs) (auto simp: assms)
  then show ?thesis by (simp add: find_first_def)
qed

lemma find_first_other:
  assumes "\<And>r. q r \<Longrightarrow> \<not> p r" and "\<And>r. q r \<Longrightarrow> \<not> p (f r)"
  shows "find_first p (update_many q f t) = find_first p t" and "find_first p (delete_many q t) = find_first p t"
proof -
  have "find p (map (\<lambda>r. if q r then f r else r) xs) = find p xs" for xs
    by (induction xs) (auto simp: assms)
  then show "find_first p (update_many q f t) = find_first p t" by (simp add: find_first_def)
  have "find p (filter (\<lambda>r. \<not> q r) xs) = find p xs" for xs
    by (induction xs) (auto simp: assms)
  then show "find_first p (delete_many q t) = find_first p t" by (simp add: find_first_def)
qed

lemma find_first_create:
  "find_first p (create_row mk t) = (case find_first p t of Some r \<Rightarrow> Some r
     | None \<Rightarrow> if p (mk (seq t)) then Some (mk (seq t)) else None)"
proof -
  have "find p (xs @ [y]) = (case find p xs of Some r \<Rightarrow> Some r | None \<Rightarrow> if p y then Some y else None)" for xs y
    by (induction xs) auto
  then show ?thesis by (simp add: find_first_def)
qed

lemma write_shift_key [simp]:
  "sh_id (write_shift d s) = sh_id s" "sh_barberId (write_shift d s) = sh_barberId s"
  "sh_dayOfWeek (write_shift d s) = sh_dayOfWeek s"
  by (simp_all add: write_shift_def)

text \<open>The window of the day a week entry asks for.\<close>

definition wanted_shift :: "schedule_day \<Rightarrow> schedule option \<Rightarrow> bool" where
  "wanted_shift d row = (case row of
       None \<Rightarrow> sd_mode d = ''SHOP''
     | Some r \<Rightarrow> sd_mode d \<noteq> ''SHOP'' \<and> (sh_isActive r \<longleftrightarrow> sd_mode d \<noteq> ''OFF'')
         \<and> (sh_isActive r \<longrightarrow> window_of_schedule r = \<lparr>w_start = text_of (sd_startTime d),
              w_end = text_of (sd_endTime d), w_breakStart = or_null (sd_breakStart d),
              w_breakEnd = or_null (sd_breakEnd d)\<rparr>))"

lemma save_day_same:
  "wanted_shift d (find_first (\<lambda>s. sh_barberId s = b \<and> sh_dayOfWeek s = sd_dayOfWeek d) (save_day b d t))"
proof -
  let ?p = "\<lambda>s. sh_barberId s = b \<and> sh_dayOfWeek s = sd_dayOfWeek d"
  have "find_first ?p (delete_many ?p t) = None" by (auto simp: find_first_None)
  then show ?thesis
    by (cases "find_first ?p t")
      (auto simp: save_day_def Let_def find_first_update find_first_create wanted_shift_def
        write_shift_def window_of_schedule_def)
qed

lemma save_day_other:
  assumes "sd_dayOfWeek d \<noteq> k \<or> b \<noteq> b'"
  shows "find_first (\<lambda>s. sh_barberId s = b' \<and> sh_dayOfWeek s = k) (save_day b d t)
    = find_first (\<lambda>s. sh_barberId s = b' \<and> sh_dayOfWeek s = k) t"
proof -
  let ?p = "\<lambda>s. sh_barberId s = b' \<and> sh_dayOfWeek s = k"
    and ?q = "\<lambda>s. sh_barberId s = b \<and> sh_dayOfWeek s = sd_dayOfWeek d"
  have "?q r \<Longrightarrow> \<not> ?p r" "?q r \<Longrightarrow> \<not> ?p (write_shift d r)" for r using assms by auto
  note other = find_first_other [of ?q ?p "write_shift d" t, OF this]
  show ?thesis
    using assms by (auto simp: save_day_def Let_def find_first_create other split: option.split)
qed

lemma fold_save_day:
  assumes "distinct (map sd_dayOfWeek days)" and "d \<in> set days"
  shows "wanted_shift d (find_first (\<lambda>s. sh_barberId s = b \<and> sh_dayOfWeek s = sd_dayOfWeek d)
    (fold (save_day b) days t))"
  using assms
proof (induction days arbitrary: t)
  case (Cons x days)
  have later: "find_first (\<lambda>s. sh_barberId s = b \<and> sh_dayOfWeek s = k) (fold (save_day b) ds t')
      = find_first (\<lambda>s. sh_barberId s = b \<and> sh_dayOfWeek s = k) t'"
    if "k \<notin> sd_dayOfWeek ` set ds" for k ds t'
    using that by (induction ds arbitrary: t') (auto simp: save_day_other)
  show ?case
  proof (cases "d = x")
    case True
    then show ?thesis using Cons.prems save_day_same by (simp add: later)
  next
    case False
    then show ?thesis using Cons by simp
  qed
qed simp

lemma checkDays_distinct: "checkDays ds seen = Inr () \<Longrightarrow> distinct ds \<and> set ds \<inter> seen = {} \<and> set ds \<subseteq> {0..6}"
  by (induction ds arbitrary: seen) (fastforce split: if_splits)+

lemma scheduleOf_saved:
  "scheduleOf (db\<lparr>schedules := t\<rparr>) b k = find_first (\<lambda>s. sh_barberId s = b \<and> sh_dayOfWeek s = k) t"
  by (simp add: scheduleOf_def)

lemma shopHoursOn_schedules [simp]: "shopHoursOn (db\<lparr>schedules := t\<rparr>) = shopHoursOn db"
  by (simp add: shopHoursOn_def businessHoursOf_def shopById_def fun_eq_iff)

lemma check_week_free_custom:
  assumes "check_week_free db now b days = Inr ()" and "d \<in> set days" and "sd_mode d = ''CUSTOM''"
  shows "fitsShopHours (text_of (sd_startTime d)) (text_of (sd_endTime d))
      (shopHoursOn db (bb_barbershopId b) (sd_dayOfWeek d))"
    and "ensureShiftFreeAcrossShops db now (bb_id b) (sd_dayOfWeek d)
      (text_of (sd_startTime d)) (text_of (sd_endTime d)) = Inr ()"
  using assms by (induction days) (auto simp: Let_def bindE_eq_Inr split: if_splits)

lemma check_modes_in: "check_modes days = Inr () \<Longrightarrow> d \<in> set days \<Longrightarrow>
    sd_mode d \<in> set MODES \<and> (sd_mode d = ''CUSTOM'' \<longrightarrow> (\<exists>l. checkRange (sd_startTime d) (sd_endTime d) l
      = Inr \<lparr>dh_start = text_of (sd_startTime d), dh_end = text_of (sd_endTime d)\<rparr>))"
proof (induction days)
  case (Cons x xs)
  have r: "checkRange s e l = Inr w \<Longrightarrow> w = \<lparr>dh_start = text_of s, dh_end = text_of e\<rparr>" for s e l w
    by (auto simp: checkRange_def time_given_def text_of_def split: if_splits option.splits)
  show ?case
  proof (cases "d = x")
    case True
    with Cons.prems r show ?thesis
      by (force simp: Let_def bindE_eq_Inr split: if_splits)
  next
    case False
    with Cons show ?thesis by (auto simp: Let_def bindE_eq_Inr)
  qed
qed simp

lemma checkRange_valid: "checkRange s e l = Inr h \<Longrightarrow> valid_hours h"
  by (auto simp: checkRange_def time_given_def valid_hours_def TIME_less_iff [symmetric] not_le
      split: if_splits option.splits)

text \<open>
  C13. A week that \<open>setWeeklySchedule\<close> accepts is what the agenda then uses: each day sent with its
  own hours gives exactly that window and break, a day off gives none, and a day given back to the
  shop follows the hours of the shop.
\<close>

theorem setWeeklySchedule_takes_effect:
  assumes "setWeeklySchedule db now userId barberId days = Inr (answer, db')"
    and "barberById db barberId = Some b" and "d \<in> set days"
  shows "getWorkingWindow db' (bb_barbershopId b) barberId (sd_dayOfWeek d) =
    (if sd_mode d = ''OFF'' then None
     else if sd_mode d = ''CUSTOM'' then
       Some \<lparr>w_start = text_of (sd_startTime d), w_end = text_of (sd_endTime d),
         w_breakStart = or_null (sd_breakStart d), w_breakEnd = or_null (sd_breakEnd d)\<rparr>
     else map_option window_of_hours (shopHoursOn db (bb_barbershopId b) (sd_dayOfWeek d)))"
proof -
  from assms(1,2) have checks: "checkWeeklyDays days = Inr ()" "check_week_free db now b days = Inr ()"
    and db': "db' = db\<lparr>schedules := fold (save_day barberId) days (schedules db)\<rparr>"
    by (auto simp: setWeeklySchedule_def barberOrThrow_def bindE_eq_Inr Let_def)
  have dist: "distinct (map sd_dayOfWeek days)" and modes: "check_modes days = Inr ()"
    using checks(1) checkDays_distinct by (auto simp: checkWeeklyDays_def bindE_eq_Inr)
  have row: "wanted_shift d (scheduleOf db' barberId (sd_dayOfWeek d))"
    unfolding db' scheduleOf_saved by (rule fold_save_day [OF dist assms(3)])
  have shop: "shopHoursOn db' = shopHoursOn db" by (simp add: db')
  note m = check_modes_in [OF modes assms(3)]
  show ?thesis
  proof (cases "scheduleOf db' barberId (sd_dayOfWeek d)")
    case None
    with row show ?thesis by (simp add: wanted_shift_def getWorkingWindow_def shop)
  next
    case (Some r)
    show ?thesis
    proof (cases "sd_mode d = ''OFF''")
      case True
      with row Some show ?thesis by (auto simp: wanted_shift_def getWorkingWindow_def)
    next
      case False
      with row Some m have custom: "sd_mode d = ''CUSTOM''" by (auto simp: wanted_shift_def MODES_def)
      then obtain l where "checkRange (sd_startTime d) (sd_endTime d) l
          = Inr \<lparr>dh_start = text_of (sd_startTime d), dh_end = text_of (sd_endTime d)\<rparr>" using m by blast
      from checkRange_valid [OF this] check_week_free_custom(1) [OF checks(2) assms(3) custom]
      have "clipToShopHours (window_of_schedule r) (shopHoursOn db (bb_barbershopId b) (sd_dayOfWeek d))
          = Some (window_of_schedule r)"
        using row Some custom
        by (intro clip_fits) (auto simp: wanted_shift_def valid_window_def valid_hours_def)
      then show ?thesis
        using row Some custom by (simp add: wanted_shift_def getWorkingWindow_def shop)
    qed
  qed
qed

lemma parse_stringified:
  assumes "h = None \<or> (\<exists>r. h = Some r \<and> valid_hours r)"
  shows "parse_day_hours (Some (day_hours_json h)) = h"
  using assms by (auto simp: parse_day_hours_def day_hours_json_def jtruthy_def jprop_def validRange_print)

lemma business_json_entry:
  assumes "business_json days = Inr js" and "d \<in> set days"
  shows "\<exists>h. (WEEKDAY_KEYS ! nat (bd_dayOfWeek d), h) \<in> set js \<and> (h = None \<or> (\<exists>r. h = Some r \<and> valid_hours r))
    \<and> h = (if bd_open d then Some \<lparr>dh_start = text_of (bd_start d), dh_end = text_of (bd_end d)\<rparr> else None)"
  using assms
proof (induction days arbitrary: js)
  case (Cons x xs)
  have r: "checkRange s e l = Inr w \<Longrightarrow> w = \<lparr>dh_start = text_of s, dh_end = text_of e\<rparr>" for s e l w
    by (auto simp: checkRange_def time_given_def text_of_def split: if_splits option.splits)
  show ?case
    using Cons checkRange_valid r by (auto simp: Let_def bindE_eq_Inr split: if_splits)
qed simp

lemma business_json_keys: "business_json days = Inr js \<Longrightarrow>
    map fst js = map (\<lambda>d. WEEKDAY_KEYS ! nat (bd_dayOfWeek d)) days"
  by (induction days arbitrary: js) (auto simp: Let_def bindE_eq_Inr)

text \<open>
  C14. Opening hours that \<open>setBusinessHours\<close> accepts are read back from the JSON it stores: on every
  weekday the shop opens and closes at the times sent for that day, or stays closed.
\<close>

theorem setBusinessHours_takes_effect:
  assumes "setBusinessHours db now userId barbershopId days = Inr (answer, db')"
    and "shopById db barbershopId = Some shop" and "d \<in> set days"
  shows "shopHoursOn db' barbershopId (bd_dayOfWeek d) =
    (if bd_open d then Some \<lparr>dh_start = text_of (bd_start d), dh_end = text_of (bd_end d)\<rparr> else None)"
proof -
  obtain js where days: "checkDays (map bd_dayOfWeek days) {} = Inr ()" "business_json days = Inr js"
    and db': "db' = db\<lparr>barbershops := update_many (\<lambda>s. bs_id s = barbershopId)
      (\<lambda>s. s\<lparr>bs_businessHours := Some (stringify_hours js)\<rparr>) (barbershops db)\<rparr>"
    using assms(1) by (auto simp: setBusinessHours_def parseBusinessDays_def bindE_eq_Inr Let_def split: if_splits)
  let ?key = "\<lambda>d. WEEKDAY_KEYS ! nat (bd_dayOfWeek d)"
  have range: "distinct (map bd_dayOfWeek days)" "bd_dayOfWeek ` set days \<subseteq> {0..6}"
    using checkDays_distinct [OF days(1)] by auto
  have keys: "distinct WEEKDAY_KEYS" "length WEEKDAY_KEYS = 7" by (simp_all add: WEEKDAY_KEYS_def)
  have "?key x = ?key y \<longleftrightarrow> bd_dayOfWeek x = bd_dayOfWeek y" if "x \<in> set days" "y \<in> set days" for x y
  proof -
    have "nat (bd_dayOfWeek x) < 7" "nat (bd_dayOfWeek y) < 7" "0 \<le> bd_dayOfWeek x" "0 \<le> bd_dayOfWeek y"
      using range(2) that by force+
    then show ?thesis using nth_eq_iff_index_eq [OF keys(1)] keys(2) by auto
  qed
  then have "distinct (map ?key days)" using range(1) by (auto simp: distinct_map inj_on_def)
  then have dist: "distinct (map fst js)" by (simp add: business_json_keys [OF days(2)])
  obtain h where h: "(?key d, h) \<in> set js" "h = None \<or> (\<exists>r. h = Some r \<and> valid_hours r)"
    "h = (if bd_open d then Some \<lparr>dh_start = text_of (bd_start d), dh_end = text_of (bd_end d)\<rparr> else None)"
    using business_json_entry [OF days(2) assms(3)] by blast
  have "shopById db' barbershopId = Some (shop\<lparr>bs_businessHours := Some (stringify_hours js)\<rparr>)"
    using assms(2) unfolding db' shopById_def by (simp add: find_first_update)
  then have hours: "businessHoursOf db' barbershopId = Some (stringify_hours js)"
    by (simp add: businessHoursOf_def)
  have "map_of (map (\<lambda>(k, h). (k, day_hours_json h)) js) (?key d) = Some (day_hours_json h)"
    using map_of_is_SomeI [OF dist h(1)] by (simp add: map_of_map)
  moreover have "nat (bd_dayOfWeek d) < 7" using range(2) assms(3) by force
  ultimately have "shopHoursOn db' barbershopId (bd_dayOfWeek d) = parse_day_hours (Some (day_hours_json h))"
    by (simp add: shopHoursOn_def hours week_of_def parseBusinessHours_def stringify_hours_def jprop_def keys(2))
  then show ?thesis using parse_stringified [OF h(2)] h(3) by simp
qed

section \<open>One person, one place\<close>

text \<open>
  The links of the team table: the rows of one account share one professional, and a professional
  belongs to one account.
\<close>

definition links_ok :: "'a staff_db_scheme \<Rightarrow> bool" where
  "links_ok db \<longleftrightarrow> (\<forall>b \<in> set (rows (barbers db)). \<forall>c \<in> set (rows (barbers db)).
     bb_professionalId b \<noteq> None \<longrightarrow> bb_userId b \<noteq> None
       \<and> (bb_professionalId c = bb_professionalId b \<longleftrightarrow> bb_userId c = bb_userId b))"

lemma personOf_iff:
  assumes "links_ok db" and "table_ok bb_id (barbers db)" and "b \<in> set (rows (barbers db))"
    and "c \<in> set (rows (barbers db))"
  shows "bb_id c \<in> set (personOf db (bb_id b)) \<longleftrightarrow>
    c = b \<or> bb_userId b \<noteq> None \<and> bb_userId c = bb_userId b"
proof -
  have b: "barberById db (bb_id b) = Some b"
    using barber_tab.find_by_key [OF assms(2,3)] by (simp add: barberById_def)
  have inj: "bb_id x = bb_id y \<longleftrightarrow> x = y" if "x \<in> set (rows (barbers db))" "y \<in> set (rows (barbers db))" for x y
    using barber_tab.key_inj [OF assms(2) that] by auto
  have mem: "bb_id c \<in> bb_id ` {x \<in> set (rows (barbers db)). P x} \<longleftrightarrow> P c" for P
    using inj assms(4) by auto
  show ?thesis
  proof (cases "bb_professionalId b")
    case (Some p)
    then have "bb_professionalId c = Some p \<longleftrightarrow> bb_userId b \<noteq> None \<and> bb_userId c = bb_userId b"
      using assms(1) [unfolded links_ok_def, THEN bspec, OF assms(3), THEN bspec, OF assms(4)] by simp
    then show ?thesis
      using Some inj [OF assms(4,3)] by (auto simp: personOf_def b samePersonBarberIds_def mem)
  next
    case None
    then show ?thesis
      using inj [OF assms(4,3)] by (cases "bb_userId b") (auto simp: personOf_def b samePersonBarberIds_def mem)
  qed
qed

text \<open>No two current shifts of one person in two places cross.\<close>

definition crossing :: "'a agenda_db_scheme \<Rightarrow> int \<Rightarrow> schedule \<Rightarrow> schedule \<Rightarrow> bool" where
  "crossing db now s t \<longleftrightarrow> sh_isActive s \<and> sh_isActive t \<and> sh_dayOfWeek s = sh_dayOfWeek t
     \<and> sh_barberId s \<noteq> sh_barberId t \<and> sh_barberId t \<in> set (personOf db (sh_barberId s))
     \<and> (\<exists>b. barberById db (sh_barberId s) = Some b \<and> currentEngagement now b)
     \<and> (\<exists>b. barberById db (sh_barberId t) = Some b \<and> currentEngagement now b)
     \<and> shiftsOverlap (sh_startTime s) (sh_endTime s) (sh_startTime t) (sh_endTime t)"

definition shifts_apart :: "'a agenda_db_scheme \<Rightarrow> int \<Rightarrow> bool" where
  "shifts_apart db now \<longleftrightarrow> (\<forall>s \<in> set (rows (schedules db)). \<forall>t \<in> set (rows (schedules db)). \<not> crossing db now s t)"

lemma crossing_sym:
  assumes "links_ok db" and "table_ok bb_id (barbers db)" and "crossing db now s t"
  shows "crossing db now t s"
proof -
  obtain b c where bc: "barberById db (sh_barberId s) = Some b" "barberById db (sh_barberId t) = Some c"
    using assms(3) by (auto simp: crossing_def)
  then have "b \<in> set (rows (barbers db))" "bb_id b = sh_barberId s" "c \<in> set (rows (barbers db))" "bb_id c = sh_barberId t"
    using find_first_Some [of _ "barbers db"] by (auto simp: barberById_def)
  with personOf_iff [OF assms(1,2), of b c] personOf_iff [OF assms(1,2), of c b] assms(3)
  show ?thesis by (auto simp: crossing_def shiftsOverlap_def)
qed

lemma free_not_crossing:
  assumes "ensureShiftFreeAcrossShops db now (sh_barberId s) (sh_dayOfWeek s) (sh_startTime s) (sh_endTime s) = Inr ()"
    and "t \<in> set (rows (schedules db))"
  shows "\<not> crossing db now s t"
proof
  assume c: "crossing db now s t"
  then have o: "sh_barberId t \<in> set (filter (\<lambda>i. i \<noteq> sh_barberId s) (personOf db (sh_barberId s)))"
    by (auto simp: crossing_def)
  then have "filter (\<lambda>i. i \<noteq> sh_barberId s) (personOf db (sh_barberId s)) \<noteq> []" by (metis empty_iff empty_set)
  with assms(1) have "\<forall>x \<in> set (rows (schedules db)). sh_barberId x \<in> set (filter (\<lambda>i. i \<noteq> sh_barberId s) (personOf db (sh_barberId s)))
      \<and> sh_dayOfWeek x = sh_dayOfWeek s \<and> sh_isActive x \<and> (\<exists>b. barberById db (sh_barberId x) = Some b \<and> currentEngagement now b)
      \<longrightarrow> \<not> shiftsOverlap (sh_startTime s) (sh_endTime s) (sh_startTime x) (sh_endTime x)"
    by (auto simp: ensureShiftFreeAcrossShops_def Let_def list_ex_iff simp del: set_filter)
  with assms(2) o c show False unfolding crossing_def by metis
qed

lemma shifts_apart_change:
  assumes "links_ok db" and "table_ok bb_id (barbers db)" and "shifts_apart db now"
    and new: "\<And>s. s \<in> set (rows t) \<Longrightarrow> s \<in> set (rows (schedules db)) \<or> sh_barberId s = i \<and>
      (sh_isActive s \<longrightarrow> ensureShiftFreeAcrossShops db now i (sh_dayOfWeek s) (sh_startTime s) (sh_endTime s) = Inr ())"
  shows "shifts_apart (db\<lparr>schedules := t\<rparr>) now"
proof -
  have "personOf (db\<lparr>schedules := t\<rparr>) = personOf db"
    by (simp add: personOf_def barberById_def samePersonBarberIds_def fun_eq_iff split: option.split)
  then have eq: "crossing (db\<lparr>schedules := t\<rparr>) now = crossing db now"
    by (simp add: crossing_def barberById_def fun_eq_iff)
  have "\<not> crossing db now s u" if s: "s \<in> set (rows t)" and u: "u \<in> set (rows t)" for s u
  proof
    assume c: "crossing db now s u"
    have act: "sh_isActive s" "sh_isActive u" "sh_barberId s \<noteq> sh_barberId u" using c by (auto simp: crossing_def)
    consider "s \<in> set (rows (schedules db))" "u \<in> set (rows (schedules db))"
      | "s \<notin> set (rows (schedules db))" "u \<in> set (rows (schedules db))"
      | "u \<notin> set (rows (schedules db))" "s \<in> set (rows (schedules db))"
      using new [OF s] new [OF u] act by auto
    then show False
    proof cases
      case 1
      with assms(3) c show False by (auto simp: shifts_apart_def)
    next
      case 2
      with new [OF s] act free_not_crossing [of db now s u] c show False by auto
    next
      case 3
      with new [OF u] act free_not_crossing [of db now u s] crossing_sym [OF assms(1,2) c] show False by auto
    qed
  qed
  then show ?thesis by (simp add: shifts_apart_def eq)
qed

text \<open>The operations that write own shifts, as steps of the agenda.\<close>

inductive shift_step :: "int \<Rightarrow> agenda_db \<Rightarrow> agenda_db \<Rightarrow> bool" for now where
  create: "createBarberSchedule db now userId i day input = Inr db' \<Longrightarrow> shift_step now db db'"
| update: "updateBarberSchedule db now userId k patch = Inr db' \<Longrightarrow> shift_step now db db'"
| delete: "deleteBarberSchedule db now userId k = Inr db' \<Longrightarrow> shift_step now db db'"
| week: "setWeeklySchedule db now userId i days = Inr (answer, db') \<Longrightarrow> shift_step now db db'"

lemma save_day_rows:
  assumes "s \<in> set (rows (fold (save_day i) days t))" and "\<forall>d \<in> set days. sd_mode d \<in> set MODES"
  shows "s \<in> set (rows t) \<or> sh_barberId s = i \<and>
    (sh_isActive s \<longrightarrow> (\<exists>d \<in> set days. sd_mode d = ''CUSTOM'' \<and> sh_dayOfWeek s = sd_dayOfWeek d
       \<and> sh_startTime s = text_of (sd_startTime d) \<and> sh_endTime s = text_of (sd_endTime d)))"
  using assms
proof (induction days arbitrary: t)
  case (Cons d days)
  have one: "s \<in> set (rows t) \<or> sh_barberId s = i \<and> (sh_isActive s \<longrightarrow> sd_mode d = ''CUSTOM''
      \<and> sh_dayOfWeek s = sd_dayOfWeek d \<and> sh_startTime s = text_of (sd_startTime d)
      \<and> sh_endTime s = text_of (sd_endTime d))" if "s \<in> set (rows (save_day i d t))"
    using that Cons.prems(2) by (auto simp: save_day_def Let_def write_shift_def MODES_def split: if_splits)
  from Cons.IH [of "save_day i d t"] Cons.prems show ?case by (auto dest: one)
qed simp

definition free_rows :: "int \<Rightarrow> 'a agenda_db_scheme \<Rightarrow> 'a agenda_db_scheme \<Rightarrow> bool" where
  "free_rows now d e \<longleftrightarrow> (\<exists>t i. e = d\<lparr>schedules := t\<rparr> \<and> (\<forall>s \<in> set (rows t). s \<in> set (rows (schedules d))
      \<or> sh_barberId s = i \<and> (sh_isActive s \<longrightarrow>
        ensureShiftFreeAcrossShops d now i (sh_dayOfWeek s) (sh_startTime s) (sh_endTime s) = Inr ())))"

lemma create_rows: "createBarberSchedule d now u i day input = Inr e \<Longrightarrow> free_rows now d e"
  unfolding free_rows_def
  by (rule exI [of _ "schedules e"], rule exI [of _ i])
    (auto simp: createBarberSchedule_def bindE_eq_Inr split: option.splits)

lemma delete_rows: "deleteBarberSchedule d now u k = Inr e \<Longrightarrow> free_rows now d e"
  unfolding free_rows_def
  by (rule exI [of _ "schedules e"]) (auto simp: deleteBarberSchedule_def bindE_eq_Inr split: option.splits)

lemma patch_shift_key [simp]:
  "sh_id (patch_shift p s) = sh_id s" "sh_barberId (patch_shift p s) = sh_barberId s"
  "sh_dayOfWeek (patch_shift p s) = sh_dayOfWeek s"
  by (simp_all add: patch_shift_def)

interpretation schedule_tab: row_table sh_id "table_ok sh_id"
  by unfold_locales (rule table_ok_def)

lemma update_rows:
  assumes "updateBarberSchedule d now u k p = Inr e" and "table_ok sh_id (schedules d)"
  shows "free_rows now d e"
proof -
  obtain s where s: "find_first (\<lambda>s. sh_id s = k) (schedules d) = Some s"
    and free: "sh_isActive (patch_shift p s) \<longrightarrow> ensureShiftFreeAcrossShops d now (sh_barberId s) (sh_dayOfWeek s)
      (sh_startTime (patch_shift p s)) (sh_endTime (patch_shift p s)) = Inr ()"
    and e: "e = d\<lparr>schedules := update_many (\<lambda>r. sh_id r = k) (patch_shift p) (schedules d)\<rparr>"
    using assms(1) by (auto simp: updateBarberSchedule_def bindE_eq_Inr Let_def split: option.splits if_splits)
  have "r = s" if "r \<in> set (rows (schedules d))" "sh_id r = k" for r
    using schedule_tab.key_inj [OF assms(2) that(1), of s] find_first_Some [OF s] that(2) by simp
  then show ?thesis
    unfolding free_rows_def e using free
    by (intro exI [of _ "update_many (\<lambda>r. sh_id r = k) (patch_shift p) (schedules d)"] exI [of _ "sh_barberId s"]) auto
qed

lemma week_rows:
  assumes "setWeeklySchedule d now u i days = Inr (answer, e)"
  shows "free_rows now d e"
proof -
  from assms obtain b where b: "barberById d i = Some b"
    and checks: "checkWeeklyDays days = Inr ()" "check_week_free d now b days = Inr ()"
    and e: "e = d\<lparr>schedules := fold (save_day i) days (schedules d)\<rparr>"
    by (auto simp: setWeeklySchedule_def barberOrThrow_def bindE_eq_Inr Let_def split: option.splits)
  have "bb_id b = i" using b find_first_Some [of _ "barbers d" b] by (auto simp: barberById_def)
  moreover have "\<forall>x \<in> set days. sd_mode x \<in> set MODES"
    using checks(1) check_modes_in by (auto simp: checkWeeklyDays_def bindE_eq_Inr)
  ultimately have "\<forall>s \<in> set (rows (fold (save_day i) days (schedules d))). s \<in> set (rows (schedules d))
      \<or> sh_barberId s = i \<and> (sh_isActive s \<longrightarrow>
        ensureShiftFreeAcrossShops d now i (sh_dayOfWeek s) (sh_startTime s) (sh_endTime s) = Inr ())"
    using save_day_rows [of _ i days "schedules d"] check_week_free_custom(2) [OF checks(2)] by metis
  then show ?thesis unfolding free_rows_def e by blast
qed

lemma save_day_ok: "table_ok sh_id t \<Longrightarrow> table_ok sh_id (fold (save_day i) days t)"
proof (induction days arbitrary: t)
  case (Cons d days)
  have "table_ok sh_id (save_day i d t)"
    using Cons.prems by (auto simp: save_day_def Let_def intro!: schedule_tab.ok_create schedule_tab.ok_update
        schedule_tab.ok_delete)
  then show ?case using Cons.IH by simp
qed simp

lemma shift_step_table: "shift_step now d e \<Longrightarrow> table_ok sh_id (schedules d) \<Longrightarrow> table_ok sh_id (schedules e)"
proof (induction rule: shift_step.induct)
  case (create db userId i day input db')
  then show ?case
    by (auto simp: createBarberSchedule_def bindE_eq_Inr intro!: schedule_tab.ok_create split: option.splits)
next
  case (update db userId k patch db')
  then show ?case
    by (auto simp: updateBarberSchedule_def bindE_eq_Inr Let_def intro!: schedule_tab.ok_update
        split: option.splits if_splits)
next
  case (delete db userId k db')
  then show ?case
    by (auto simp: deleteBarberSchedule_def bindE_eq_Inr intro!: schedule_tab.ok_delete split: option.splits)
next
  case (week db userId i days answer db')
  then show ?case
    by (auto simp: setWeeklySchedule_def bindE_eq_Inr Let_def save_day_ok)
qed


section \<open>The properties at concrete inputs\<close>

definition sample_booking :: "int \<Rightarrow> int \<Rightarrow> appointment" where
  "sample_booking i start = \<lparr>ap_id = i, ap_barbershopId = 7, ap_customerId = 1, ap_barberId = 11,
     ap_resourceId = None, ap_startAt = start, ap_endAt = start + 2700000, ap_status = ''CONFIRMED'',
     ap_notes = None, ap_source = ''PHONE'', ap_createdByUserId = None, ap_depositAmount = None,
     ap_depositPaid = False, ap_depositPaidAt = None, ap_depositRefundedAt = None,
     ap_depositManualMethod = None, ap_depositReceivedAt = None, ap_depositReceivedByUserId = None,
     ap_depositCashSessionId = None, ap_depositPaymentIntentId = None, ap_prepaidAmount = None,
     ap_prepaidAt = None, ap_prepaidPaymentIntentId = None, ap_prepaidRefundedAt = None,
     ap_prepaidRefundedAmount = None, ap_holdExpiresAt = None, ap_reminderSentAt = None,
     ap_contactEmail = None, ap_linkVersion = 0, ap_services = []\<rparr>"

lemma all_pages_complete_witness:
  "all_pages 3 IMPACT_LIMIT None [sample_booking 5 900, sample_booking 4 900]
    = Some (sort_key page_key [sample_booking 5 900, sample_booking 4 900])"
  by (rule all_pages_complete) (simp_all add: sample_booking_def)

definition sample_days_input :: "schedule_day list" where
  "sample_days_input = [
     \<lparr>sd_dayOfWeek = 3, sd_mode = ''CUSTOM'', sd_startTime = Some ''10:00'', sd_endTime = Some ''16:00'',
      sd_breakStart = Some ''12:00'', sd_breakEnd = Some ''13:00''\<rparr>,
     \<lparr>sd_dayOfWeek = 2, sd_mode = ''OFF'', sd_startTime = None, sd_endTime = None, sd_breakStart = None,
      sd_breakEnd = None\<rparr>]"

lemma sample_week_saved:
  "\<exists>answer db'. setWeeklySchedule sample_agenda 100 1 11 sample_days_input = Inr (answer, db')"
proof -
  have "is_ok (setWeeklySchedule sample_agenda 100 1 11 sample_days_input)" by code_simp
  then show ?thesis by (auto elim: is_okE)
qed

lemma setWeeklySchedule_takes_effect_witness:
  "\<exists>answer db'. setWeeklySchedule sample_agenda 100 1 11 sample_days_input = Inr (answer, db')
    \<and> getWorkingWindow db' 7 11 3 = Some \<lparr>w_start = ''10:00'', w_end = ''16:00'',
        w_breakStart = Some ''12:00'', w_breakEnd = Some ''13:00''\<rparr>"
proof -
  obtain answer db' where s: "setWeeklySchedule sample_agenda 100 1 11 sample_days_input = Inr (answer, db')"
    using sample_week_saved by blast
  have b: "barberById sample_agenda 11 = Some (sample_barber 11 2 ''barber'' None)" by code_simp
  have d: "\<lparr>sd_dayOfWeek = 3, sd_mode = ''CUSTOM'', sd_startTime = Some ''10:00'', sd_endTime = Some ''16:00'',
      sd_breakStart = Some ''12:00'', sd_breakEnd = Some ''13:00''\<rparr> \<in> set sample_days_input"
    by (simp add: sample_days_input_def)
  from setWeeklySchedule_takes_effect [OF s b d]
  have "getWorkingWindow db' 7 11 3 = Some \<lparr>w_start = ''10:00'', w_end = ''16:00'',
      w_breakStart = Some ''12:00'', w_breakEnd = Some ''13:00''\<rparr>"
    by (simp add: sample_barber_def text_of_def or_null_def given_def)
  with s show ?thesis by blast
qed

definition sample_hours_input :: "business_day list" where
  "sample_hours_input = map (\<lambda>d. \<lparr>bd_dayOfWeek = d, bd_open = (d \<noteq> 0), bd_start = Some ''08:30'',
     bd_end = Some ''19:00''\<rparr>) [0, 1, 2, 3, 4, 5, 6]"

lemma setBusinessHours_takes_effect_witness:
  "\<exists>answer db'. setBusinessHours sample_agenda 100 1 7 sample_hours_input = Inr (answer, db')
    \<and> shopHoursOn db' 7 4 = Some \<lparr>dh_start = ''08:30'', dh_end = ''19:00''\<rparr>"
proof -
  have "is_ok (setBusinessHours sample_agenda 100 1 7 sample_hours_input)" by code_simp
  then obtain answer db' where s: "setBusinessHours sample_agenda 100 1 7 sample_hours_input = Inr (answer, db')"
    by (auto elim: is_okE)
  have b: "shopById sample_agenda 7 = Some sample_shop" by code_simp
  have d: "\<lparr>bd_dayOfWeek = 4, bd_open = True, bd_start = Some ''08:30'', bd_end = Some ''19:00''\<rparr>
    \<in> set sample_hours_input" by (simp add: sample_hours_input_def)
  from setBusinessHours_takes_effect [OF s b d] s show ?thesis by (auto simp: text_of_def)
qed


end
