(* ===== verification/Money.thy ===== *)
theory Money
  imports Staff_Access
begin

text \<open>
  Amounts of money: \<open>money-units.ts\<close> (minor units of a currency, rounding, caps) and the check of an
  amount typed by the staff (\<open>checkMoney\<close> of \<open>barbershop.service.ts\<close>). Amounts are exact rationals;
  a number that is not finite never equals one and is refused by the code before it is used.
\<close>

section \<open>Currencies\<close>

definition ZERO_DECIMAL :: "string list" where
  "ZERO_DECIMAL =
    [''BIF'', ''CLP'', ''DJF'', ''GNF'', ''JPY'', ''KMF'', ''KRW'', ''MGA'', ''PYG'', ''RWF'',
     ''UGX'', ''VND'', ''VUV'', ''XAF'', ''XOF'', ''XPF'']"

definition currency_code :: "string option \<Rightarrow> string" where
  "currency_code currency = js_upper (case currency of None \<Rightarrow> [] | Some c \<Rightarrow> c)"

definition isZeroDecimal :: "string option \<Rightarrow> bool" where
  "isZeroDecimal currency \<longleftrightarrow> currency_code currency \<in> set ZERO_DECIMAL"

definition minorUnitFactor :: "string option \<Rightarrow> int" where
  "minorUnitFactor currency = (if isZeroDecimal currency then 1 else 100)"

definition toMinorUnits :: "rat \<Rightarrow> string option \<Rightarrow> int" where
  "toMinorUnits amount currency = js_round (amount * of_int (minorUnitFactor currency))"

definition fromMinorUnits :: "int \<Rightarrow> string option \<Rightarrow> rat" where
  "fromMinorUnits minor currency = of_int minor / of_int (minorUnitFactor currency)"

definition roundMoney :: "rat \<Rightarrow> string option \<Rightarrow> rat" where
  "roundMoney amount currency = fromMinorUnits (toMinorUnits amount currency) currency"

definition MONEY_SCALE :: "(string \<times> int) list" where
  "MONEY_SCALE =
    [(''ALL'', 100), (''AMD'', 500), (''AOA'', 1000), (''ARS'', 1000), (''BDT'', 100),
     (''BIF'', 3000), (''CDF'', 3000), (''CLP'', 1000), (''COP'', 1000), (''CRC'', 500),
     (''DJF'', 100), (''EGP'', 100), (''GNF'', 10000), (''HTG'', 100), (''HUF'', 100),
     (''IDR'', 10000), (''IQD'', 1000), (''IRR'', 10000), (''ISK'', 100), (''JPY'', 100),
     (''KES'', 100), (''KHR'', 5000), (''KMF'', 500), (''KRW'', 1000), (''KZT'', 500),
     (''LAK'', 20000), (''LBP'', 100000), (''LKR'', 500), (''MGA'', 5000), (''MMK'', 3000),
     (''MNT'', 3000), (''MWK'', 1000), (''NGN'', 1000), (''NPR'', 100), (''PKR'', 500),
     (''PYG'', 5000), (''RSD'', 100), (''RUB'', 100), (''RWF'', 1000), (''SLL'', 20000),
     (''SOS'', 500), (''STD'', 20000), (''SYP'', 10000), (''TZS'', 3000), (''UGX'', 3000),
     (''UZS'', 10000), (''VEF'', 10000), (''VND'', 20000), (''VUV'', 100), (''XAF'', 500),
     (''XOF'', 500), (''XPF'', 100), (''YER'', 500), (''ZWL'', 10000)]"

definition moneyScale :: "string option \<Rightarrow> int" where
  "moneyScale currency = (case map_of MONEY_SCALE (currency_code currency) of None \<Rightarrow> 1 | Some s \<Rightarrow> s)"

definition moneyCap :: "int \<Rightarrow> string option \<Rightarrow> int" where
  "moneyCap base currency = base * moneyScale currency"

definition MAX_MONEY :: int where
  "MAX_MONEY = 1000000"

text \<open>A missing amount passes; otherwise from 0 to the cap in the currency of the shop.\<close>

definition checkMoney :: "string \<Rightarrow> rat option \<Rightarrow> string option \<Rightarrow> unit result" where
  "checkMoney label value currency = (case value of
       None \<Rightarrow> Inr ()
     | Some v \<Rightarrow> throwIf (v < 0 \<or> v > of_int (moneyCap MAX_MONEY currency)) (BadRequest (label @ '' invalido'')))"

section \<open>Rounding\<close>

lemma factor_pos: "0 < minorUnitFactor c"
  by (simp add: minorUnitFactor_def)

lemma factor_rat_pos: "0 < (of_int (minorUnitFactor c) :: rat)"
  by (simp add: factor_pos)

lemma fromMinorUnits_mono: "i \<le> j \<Longrightarrow> fromMinorUnits i c \<le> fromMinorUnits j c"
  using factor_rat_pos [of c] by (simp add: fromMinorUnits_def divide_right_mono)

lemma toMinorUnits_mono: "x \<le> y \<Longrightarrow> toMinorUnits x c \<le> toMinorUnits y c"
  using factor_rat_pos [of c] by (simp add: toMinorUnits_def js_round_mono mult_right_mono)

lemma toMinorUnits_from: "toMinorUnits (fromMinorUnits n c) c = n"
  using factor_rat_pos [of c] by (simp add: toMinorUnits_def fromMinorUnits_def)



lemma checkMoney_Inr: "checkMoney l (Some v) c = Inr () \<longleftrightarrow> 0 \<le> v \<and> v \<le> of_int (moneyCap MAX_MONEY c)"
  by (auto simp: checkMoney_def not_less)

end
