(* ===== verification/Solo.thy ===== *)
theory Solo
  imports Agenda
begin

text \<open>
  The monthly quota of people who work on their own and the Pro plan that lifts it: \<open>solo.ts\<close>,
  \<open>pro.ts\<close> and \<open>pro-referral-release.ts\<close>. The theory also declares the tables of customers, of the
  queue (walk-ins) and of sales, with the columns the modelled code uses.
\<close>

section \<open>Data\<close>

record customer =
  cu_id :: int
  cu_networkId :: int
  cu_deletedAt :: "int option"
  cu_clientAccountId :: "int option"
  cu_phone :: string
  cu_email :: "string option"
  cu_loyaltyPoints :: int

record walk_in_line =
  wl_serviceId :: int
  wl_quantity :: int
  wl_notes :: "string option"

record walk_in =
  wi_id :: int
  wi_createdAt :: int
  wi_barbershopId :: int
  wi_customerId :: "int option"
  wi_barberId :: "int option"
  wi_customerName :: string
  wi_customerPhone :: "string option"
  wi_status :: string
  wi_queuePosition :: int
  wi_servedAt :: "int option"
  wi_services :: "walk_in_line list"

record sale_item =
  it_itemType :: string
  it_serviceId :: "int option"
  it_productId :: "int option"
  it_serviceHistoryId :: "int option"
  it_quantity :: int
  it_unitPrice :: rat
  it_totalPrice :: rat
  it_notes :: "string option"

record sale =
  se_id :: int
  se_barbershopId :: int
  se_createdAt :: int
  se_customerId :: "int option"
  se_barberId :: "int option"
  se_appointmentId :: "int option"
  se_cashSessionId :: "int option"
  se_saleType :: string
  se_subtotal :: rat
  se_discountAmount :: rat
  se_taxAmount :: rat
  se_total :: rat
  se_paymentStatus :: string
  se_paymentMethod :: "string option"
  se_paidAt :: "int option"
  se_giftCardId :: "int option"
  se_giftCardAmountApplied :: "rat option"
  se_loyaltyPointsEarned :: "int option"
  se_loyaltyPointsRedeemed :: "int option"
  se_loyaltyDiscountAmount :: "rat option"
  se_depositApplied :: "rat option"
  se_prepaidApplied :: "rat option"
  se_clientSubscriptionId :: "int option"
  se_items :: "sale_item list"

record pro_referral =
  pr_id :: int
  pr_inviterUserId :: int
  pr_invitedUserId :: int
  pr_months :: int
  pr_inviterGrantedAt :: "int option"

record solo_db = agenda_db +
  customers :: "customer table"
  walkIns :: "walk_in table"
  sales :: "sale table"
  proReferrals :: "pro_referral table"

section \<open>The Pro plan\<close>

definition PRO_REFERRAL_NEW_ACCOUNT_DAYS :: int where
  "PRO_REFERRAL_NEW_ACCOUNT_DAYS = 30"

definition isNewProAccount :: "int \<Rightarrow> int \<Rightarrow> bool" where
  "isNewProAccount createdAt now \<longleftrightarrow> now \<le> createdAt + PRO_REFERRAL_NEW_ACCOUNT_DAYS * 24 * 60 * 60 * 1000"

definition isProActive :: "int option \<Rightarrow> int \<Rightarrow> bool" where
  "isProActive until now \<longleftrightarrow> (case until of None \<Rightarrow> False | Some u \<Rightarrow> u > now)"

text \<open>\<open>setUTCMonth(getUTCMonth() + months)\<close>: a day the target month does not have carries over.\<close>

definition add_utc_months :: "int \<Rightarrow> int \<Rightarrow> int" where
  "add_utc_months t months = (case civil_of_day (t div day_ms) of
     (y, m, d) \<Rightarrow> make_day y (m + months) d * day_ms + t mod day_ms)"

definition extendProUntil :: "int option \<Rightarrow> int \<Rightarrow> int \<Rightarrow> int" where
  "extendProUntil current months now = add_utc_months
     (case current of None \<Rightarrow> now | Some c \<Rightarrow> if c > now then c else now) months"

text \<open>The invited account has really served someone: a finished appointment of a real customer.\<close>

definition realAppointmentWhere :: "'a solo_db_scheme \<Rightarrow> int \<Rightarrow> int \<Rightarrow> appointment \<Rightarrow> bool" where
  "realAppointmentWhere db invitedUserId now a \<longleftrightarrow> ap_status a = ''COMPLETED'' \<and> ap_endAt a \<le> now
     \<and> (case barberById db (ap_barberId a) of None \<Rightarrow> False | Some b \<Rightarrow> bb_userId b = Some invitedUserId)
     \<and> (ap_source a = ''ONLINE''
        \<or> (case find_first (\<lambda>c. cu_id c = ap_customerId a) (customers db) of
             None \<Rightarrow> False | Some c \<Rightarrow> cu_clientAccountId c \<noteq> None))"

text \<open>
  One pending referral: claimed by the conditional update, which leaves a referral that was already
  granted alone, then the Pro period of the inviter grows by its months.
\<close>

definition release_one :: "int \<Rightarrow> int \<Rightarrow> pro_referral \<Rightarrow> 'a solo_db_scheme \<times> int \<Rightarrow> 'a solo_db_scheme \<times> int" where
  "release_one inviterUserId now referral st = (case st of (db, released) \<Rightarrow>
     if find_first (realAppointmentWhere db (pr_invitedUserId referral) now) (appointments db) = None
     then (db, released)
     else if count_where (\<lambda>r. pr_id r = pr_id referral \<and> pr_inviterGrantedAt r = None) (proReferrals db) \<noteq> 1
     then (db, released)
     else (db\<lparr>
         proReferrals := update_many (\<lambda>r. pr_id r = pr_id referral \<and> pr_inviterGrantedAt r = None)
           (\<lambda>r. r\<lparr>pr_inviterGrantedAt := Some now\<rparr>) (proReferrals db),
         users := update_many (\<lambda>u. us_id u = inviterUserId)
           (\<lambda>u. u\<lparr>us_proUntil := Some (extendProUntil
              (Option.bind (userById db inviterUserId) us_proUntil) (pr_months referral) now)\<rparr>) (users db)\<rparr>,
       released + 1))"

definition releaseInviterMonths :: "'a solo_db_scheme \<Rightarrow> int \<Rightarrow> int \<Rightarrow> 'a solo_db_scheme \<times> int" where
  "releaseInviterMonths db inviterUserId now =
     fold (release_one inviterUserId now)
       (find_many (\<lambda>r. pr_inviterUserId r = inviterUserId \<and> pr_inviterGrantedAt r = None) (proReferrals db))
       (db, 0)"

section \<open>The quota\<close>

definition SOLO_SERVICE_LIMIT :: int where "SOLO_SERVICE_LIMIT = 30"
definition SOLO_PRODUCT_LIMIT :: int where "SOLO_PRODUCT_LIMIT = 30"

definition SOLO_BLOCKED_MESSAGE :: string where
  "SOLO_BLOCKED_MESSAGE = ''Pelo segundo mes seguido voce passou de 30 atendimentos por conta propria. Os que ja estao marcados continuam. Novos ficam pausados neste mes.''"

definition SOLO_PRODUCT_BLOCKED_MESSAGE :: string where
  "SOLO_PRODUCT_BLOCKED_MESSAGE = ''Pelo segundo mes seguido voce passou de 30 produtos vendidos por conta propria. Esta venda nao entra.''"

definition SOLO_STAFF_MESSAGE :: string where
  "SOLO_STAFF_MESSAGE = ''No modo por conta propria a agenda e de uma pessoa so. Com equipe, cadastre um estabelecimento.''"

record solo_decision =
  so_limit :: int
  so_completed :: int
  so_remaining :: int
  so_nearLimit :: bool
  so_grace :: bool
  so_blocked :: bool

text \<open>\<open>Math.ceil(limit * 0.8)\<close> of a whole limit.\<close>

definition soloDecision :: "int \<Rightarrow> int \<Rightarrow> int \<Rightarrow> solo_decision" where
  "soloDecision completedThisMonth completedPreviousMonth limit = (let
       over = completedThisMonth \<ge> limit;
       previousOver = completedPreviousMonth \<ge> limit;
       blocked = over \<and> previousOver;
       nearFrom = - ((- 4 * limit) div 5)
     in \<lparr>so_limit = limit, so_completed = completedThisMonth,
         so_remaining = max 0 (limit - completedThisMonth),
         so_nearLimit = (completedThisMonth \<ge> nearFrom \<and> \<not> over),
         so_grace = (over \<and> \<not> blocked), so_blocked = blocked\<rparr>)"

definition solo_shop :: "'a staff_db_scheme \<Rightarrow> int \<Rightarrow> int \<Rightarrow> bool" where
  "solo_shop db ownerUserId shopId = (case shopById db shopId of
       None \<Rightarrow> False | Some s \<Rightarrow> bs_practiceKind s = ''solo'' \<and> bs_ownerUserId s = Some ownerUserId)"

definition completedInRange :: "'a solo_db_scheme \<Rightarrow> int \<Rightarrow> int \<times> int \<Rightarrow> int" where
  "completedInRange db ownerUserId period = (case period of (start, end') \<Rightarrow>
     count_where (\<lambda>a. ap_status a = ''COMPLETED'' \<and> ap_source a \<noteq> ''HISTORY'' \<and> start \<le> ap_startAt a
       \<and> ap_startAt a < end' \<and> solo_shop db ownerUserId (ap_barbershopId a)) (appointments db)
     + count_where (\<lambda>w. wi_status w = ''COMPLETED'' \<and> solo_shop db ownerUserId (wi_barbershopId w)
       \<and> (case wi_servedAt w of Some t \<Rightarrow> start \<le> t \<and> t < end'
            | None \<Rightarrow> start \<le> wi_createdAt w \<and> wi_createdAt w < end')) (walkIns db))"

definition productsInRange :: "'a solo_db_scheme \<Rightarrow> int \<Rightarrow> int \<times> int \<Rightarrow> int" where
  "productsInRange db ownerUserId period = (case period of (start, end') \<Rightarrow>
     sum_list (map (\<lambda>s. sum_list (map it_quantity (filter (\<lambda>i. it_itemType i = ''PRODUCT'') (se_items s))))
       (find_many (\<lambda>s. se_paymentStatus s \<noteq> ''REFUNDED'' \<and> start \<le> se_createdAt s \<and> se_createdAt s < end'
          \<and> solo_shop db ownerUserId (se_barbershopId s)) (sales db))))"

text \<open>The calendar month of \<open>when\<close> and the one before, in the zone of the agenda.\<close>

definition solo_months :: "intl \<Rightarrow> string \<Rightarrow> int \<Rightarrow> ((int \<times> int) \<times> (int \<times> int)) option" where
  "solo_months I zone when' = (case parse_ymd (z_dateStr (toZonedParts I when' zone)) of
       None \<Rightarrow> None
     | Some (year, month, _) \<Rightarrow>
         (case (monthRangeUtc I year month zone,
                if month = 1 then monthRangeUtc I (year - 1) 12 zone else monthRangeUtc I year (month - 1) zone) of
            (Some cur, Some prev) \<Rightarrow> Some (cur, prev) | _ \<Rightarrow> None))"

record solo_usage =
  so_services :: solo_decision
  so_products :: solo_decision

definition soloUsage :: "intl \<Rightarrow> 'a solo_db_scheme \<Rightarrow> int \<Rightarrow> string \<Rightarrow> int \<Rightarrow> solo_usage option" where
  "soloUsage I db ownerUserId timeZone when' =
     map_option (\<lambda>(cur, prev). \<lparr>
         so_services = soloDecision (completedInRange db ownerUserId cur) (completedInRange db ownerUserId prev)
           SOLO_SERVICE_LIMIT,
         so_products = soloDecision (productsInRange db ownerUserId cur) (productsInRange db ownerUserId prev)
           SOLO_PRODUCT_LIMIT\<rparr>)
       (solo_months I (safeTimeZone I (Some timeZone)) when')"

text \<open>An item of a sale being typed: its type, product and quantity may be missing.\<close>

definition productUnits :: "(string option \<times> int option \<times> int option) list \<Rightarrow> int" where
  "productUnits items = foldl (\<lambda>sum (itemType, productId, quantity).
     if itemType = Some ''PRODUCT'' \<or> (productId \<noteq> None \<and> productId \<noteq> Some 0)
     then sum + max 0 (case quantity of None \<Rightarrow> 0 | Some q \<Rightarrow> q) else sum) 0 items"

definition hasActivePro :: "'a solo_db_scheme \<Rightarrow> int \<Rightarrow> int \<Rightarrow> int \<Rightarrow> bool \<times> 'a solo_db_scheme" where
  "hasActivePro db userId when' now = (let db' = fst (releaseInviterMonths db userId now) in
     (isProActive (Option.bind (userById db' userId) us_proUntil) when', db'))"

text \<open>
  The two quota checks. The state changes even when the check refuses: the months of Pro already
  earned by referrals are released first. \<open>None\<close> of \<open>soloUsage\<close> would be a date error and never
  happens for an instant in the four-digit years.
\<close>

definition solo_check :: "intl \<Rightarrow> 'a solo_db_scheme \<Rightarrow> int \<Rightarrow> int \<Rightarrow> int \<Rightarrow> (solo_usage \<Rightarrow> bool) \<Rightarrow> string
    \<Rightarrow> unit result \<times> 'a solo_db_scheme" where
  "solo_check I db now barbershopId when' blocked message = (case shopById db barbershopId of
       None \<Rightarrow> (Inr (), db)
     | Some shop \<Rightarrow> (case bs_ownerUserId shop of
           None \<Rightarrow> (Inr (), db)
         | Some owner \<Rightarrow>
             if bs_practiceKind shop \<noteq> ''solo'' then (Inr (), db)
             else (case hasActivePro db owner when' now of (pro, db') \<Rightarrow>
               if pro then (Inr (), db')
               else (case soloUsage I db' owner (bs_timezone shop) when' of
                   None \<Rightarrow> (Inl (PlainError ''RangeError''), db')
                 | Some usage \<Rightarrow> (throwIf (blocked usage) (BadRequest message), db')))))"

definition assertSoloBookingAllowed :: "intl \<Rightarrow> 'a solo_db_scheme \<Rightarrow> int \<Rightarrow> int \<Rightarrow> int
    \<Rightarrow> unit result \<times> 'a solo_db_scheme" where
  "assertSoloBookingAllowed I db now barbershopId when' =
     solo_check I db now barbershopId when' (\<lambda>u. so_blocked (so_services u)) SOLO_BLOCKED_MESSAGE"

definition assertSoloProductSaleAllowed :: "intl \<Rightarrow> 'a solo_db_scheme \<Rightarrow> int \<Rightarrow> int \<Rightarrow> int \<Rightarrow> int
    \<Rightarrow> unit result \<times> 'a solo_db_scheme" where
  "assertSoloProductSaleAllowed I db now barbershopId when' units =
     (if units \<le> 0 then (Inr (), db)
      else solo_check I db now barbershopId when' (\<lambda>u. so_blocked (so_products u)) SOLO_PRODUCT_BLOCKED_MESSAGE)"

definition assertSoloSinglePerson :: "'a staff_db_scheme \<Rightarrow> int \<Rightarrow> unit result" where
  "assertSoloSinglePerson db barbershopId = throwIf
     (case shopById db barbershopId of None \<Rightarrow> False | Some s \<Rightarrow> bs_practiceKind s = ''solo'')
     (BadRequest SOLO_STAFF_MESSAGE)"

section \<open>Referrals are paid once\<close>

interpretation referral_tab: row_table pr_id "table_ok pr_id"
  by unfold_locales (rule table_ok_def)

text \<open>The account a referral invited has served someone.\<close>

definition has_served :: "'a solo_db_scheme \<Rightarrow> int \<Rightarrow> pro_referral \<Rightarrow> bool" where
  "has_served db now r \<longleftrightarrow> find_first (realAppointmentWhere db (pr_invitedUserId r) now) (appointments db) \<noteq> None"

text \<open>A referral of the inviter that could be paid now: pending, and its account has served someone.\<close>

definition payable :: "'a solo_db_scheme \<Rightarrow> int \<Rightarrow> int \<Rightarrow> pro_referral \<Rightarrow> bool" where
  "payable db inviter now r \<longleftrightarrow> pr_inviterUserId r = inviter \<and> pr_inviterGrantedAt r = None \<and> has_served db now r"

lemma has_served_frame:
  assumes "barbers db' = barbers db" and "customers db' = customers db" and "appointments db' = appointments db"
  shows "has_served db' = has_served db"
proof (intro ext)
  fix now r
  have "realAppointmentWhere db' u now a = realAppointmentWhere db u now a" for u a
    using assms by (simp add: realAppointmentWhere_def barberById_def)
  then have "realAppointmentWhere db' u now = realAppointmentWhere db u now" for u
    by (intro ext) blast
  then show "has_served db' now r = has_served db now r"
    using assms(3) by (simp add: has_served_def)
qed

definition grant :: "int \<Rightarrow> pro_referral \<Rightarrow> pro_referral" where
  "grant now r = r\<lparr>pr_inviterGrantedAt := Some now\<rparr>"

lemma grant_simps [simp]:
  "pr_id (grant now r) = pr_id r" "pr_inviterGrantedAt (grant now r) = Some now"
  "pr_inviterUserId (grant now r) = pr_inviterUserId r" "grant now (grant now r) = grant now r"
  by (simp_all add: grant_def)

lemma update_many_twice:
  assumes "\<And>x. p (f x) = p x" and "\<And>x. f (f x) = f x"
  shows "update_many p f (update_many q f t) = update_many (\<lambda>x. q x \<or> p x) f t"
proof -
  have "map (\<lambda>r. if p r then f r else r) (map (\<lambda>r. if q r then f r else r) xs)
      = map (\<lambda>r. if q r \<or> p r then f r else r) xs" for xs
    by (induction xs) (auto simp: assms)
  then show ?thesis by (simp only: update_many_def table.simps) simp
qed

lemma release_one_pending:
  assumes "table_ok pr_id (proReferrals db)" and "r \<in> set (rows (proReferrals db))" and "pr_inviterGrantedAt r = None"
  shows "\<exists>us. release_one u now r (db, n) = (if has_served db now r
    then (db\<lparr>proReferrals := update_many (\<lambda>x. pr_id x = pr_id r) (grant now) (proReferrals db), users := us\<rparr>, n + 1)
    else (db, n))"
proof -
  let ?p = "\<lambda>x. pr_id x = pr_id r \<and> pr_inviterGrantedAt x = None"
  have same: "x = r" if "x \<in> set (rows (proReferrals db))" "pr_id x = pr_id r" for x
    using referral_tab.key_inj [OF assms(1) that(1) assms(2) that(2)] .
  have "count_where ?p (proReferrals db) \<le> 1"
    by (rule referral_tab.count_by_key_le [OF assms(1)])
  moreover have "count_where ?p (proReferrals db) \<noteq> 0"
    using assms(2,3) by (auto simp: count_where_zero)
  ultimately have one: "count_where ?p (proReferrals db) = 1"
    using count_where_nonneg [of ?p "proReferrals db"] by linarith
  have "?p x \<longleftrightarrow> pr_id x = pr_id r" if "x \<in> set (rows (proReferrals db))" for x
    using same [OF that] assms(3) by auto
  then have "update_many ?p (\<lambda>x. x\<lparr>pr_inviterGrantedAt := Some now\<rparr>) (proReferrals db)
    = update_many (\<lambda>x. pr_id x = pr_id r) (grant now) (proReferrals db)"
    by (simp add: update_many_def grant_def cong: map_cong)
  with one show ?thesis by (auto simp: release_one_def has_served_def)
qed

lemma release_fold:
  assumes "table_ok pr_id (proReferrals db)" and "distinct (map pr_id rs)"
    and "\<forall>r \<in> set rs. r \<in> set (rows (proReferrals db)) \<and> pr_inviterGrantedAt r = None"
  shows "\<exists>us. fold (release_one u now) rs (db, n) =
    (db\<lparr>proReferrals := update_many (\<lambda>x. \<exists>r \<in> set rs. has_served db now r \<and> pr_id x = pr_id r) (grant now) (proReferrals db),
        users := us\<rparr>,
     n + int (length (filter (has_served db now) rs)))"
  using assms
proof (induction rs arbitrary: db n)
  case Nil
  have "update_many (\<lambda>x. False) (grant now) (proReferrals db) = proReferrals db"
    by (simp add: update_many_def)
  then show ?case by (auto intro!: exI [of _ "users db"])
next
  case (Cons r rs)
  obtain us where one: "release_one u now r (db, n) = (if has_served db now r
      then (db\<lparr>proReferrals := update_many (\<lambda>x. pr_id x = pr_id r) (grant now) (proReferrals db), users := us\<rparr>, n + 1)
      else (db, n))"
    using release_one_pending [of db r u now n] Cons.prems by auto
  show ?case
  proof (cases "has_served db now r")
    case False
    then show ?thesis using Cons.IH [of db n] Cons.prems one by simp
  next
    case True
    define e where "e = db\<lparr>proReferrals := update_many (\<lambda>x. pr_id x = pr_id r) (grant now) (proReferrals db), users := us\<rparr>"
    have served: "has_served e now = has_served db now"
      using has_served_frame [of e db] by (simp add: e_def)
    have ok: "table_ok pr_id (proReferrals e)"
      unfolding e_def using Cons.prems(1) by (simp add: referral_tab.ok_update)
    have later: "\<forall>x \<in> set rs. x \<in> set (rows (proReferrals e)) \<and> pr_inviterGrantedAt x = None"
    proof
      fix x assume x: "x \<in> set rs"
      then have "pr_id x \<noteq> pr_id r" using Cons.prems(2) by (metis distinct.simps(2) imageI list.simps(9) set_map)
      then show "x \<in> set (rows (proReferrals e)) \<and> pr_inviterGrantedAt x = None"
        using Cons.prems(3) x by (auto simp: e_def intro!: image_eqI [of _ _ x])
    qed
    obtain vs where fold: "fold (release_one u now) rs (e, n + 1) =
        (e\<lparr>proReferrals := update_many (\<lambda>x. \<exists>r \<in> set rs. has_served e now r \<and> pr_id x = pr_id r) (grant now) (proReferrals e),
          users := vs\<rparr>, n + 1 + int (length (filter (has_served e now) rs)))"
      using Cons.IH [OF ok _ later, of "n + 1"] Cons.prems(2) by auto
    have "update_many (\<lambda>x. \<exists>r \<in> set rs. has_served db now r \<and> pr_id x = pr_id r) (grant now)
          (update_many (\<lambda>x. pr_id x = pr_id r) (grant now) (proReferrals db))
        = update_many (\<lambda>x. \<exists>y \<in> set (r # rs). has_served db now y \<and> pr_id x = pr_id y) (grant now) (proReferrals db)"
      using True by (subst update_many_twice) simp_all
    then have "fst (fold (release_one u now) rs (e, n + 1)) = db\<lparr>proReferrals :=
        update_many (\<lambda>x. \<exists>y \<in> set (r # rs). has_served db now y \<and> pr_id x = pr_id y) (grant now) (proReferrals db),
        users := vs\<rparr>"
      unfolding fold served by (simp add: e_def)
    moreover have "snd (fold (release_one u now) rs (e, n + 1)) = n + int (length (filter (has_served db now) (r # rs)))"
      unfolding fold served using True by simp
    moreover have "fold (release_one u now) (r # rs) (db, n) = fold (release_one u now) rs (e, n + 1)"
      using one True by (simp add: e_def)
    ultimately show ?thesis by (intro exI [of _ vs] prod_eqI) (simp_all only: fst_conv snd_conv)
  qed
qed

text \<open>
  C18. A referral is paid once: releasing the months of an inviter counts exactly the pending
  referrals whose invited account has served someone, leaves none of them pending, and a second run
  finds nothing to pay and changes nothing.
\<close>

theorem releaseInviterMonths_once:
  assumes ok: "table_ok pr_id (proReferrals db)"
    and run: "releaseInviterMonths db inviter now = (db', released)"
  shows "released = count_where (payable db inviter now) (proReferrals db)
    \<and> count_where (payable db' inviter now) (proReferrals db') = 0
    \<and> releaseInviterMonths db' inviter now = (db', 0)"
proof -
  define rs where "rs = find_many (\<lambda>r. pr_inviterUserId r = inviter \<and> pr_inviterGrantedAt r = None) (proReferrals db)"
  have dist: "distinct (map pr_id rs)"
    using ok by (simp add: rs_def find_many_def table_ok_def distinct_map_filter)
  obtain us where "releaseInviterMonths db inviter now =
      (db\<lparr>proReferrals := update_many (\<lambda>x. \<exists>r \<in> set rs. has_served db now r \<and> pr_id x = pr_id r) (grant now) (proReferrals db),
        users := us\<rparr>, int (length (filter (has_served db now) rs)))"
    using release_fold [OF ok dist, of inviter now 0] by (auto simp: rs_def releaseInviterMonths_def)
  with run have db': "db' = db\<lparr>proReferrals := update_many (\<lambda>x. \<exists>r \<in> set rs. has_served db now r \<and> pr_id x = pr_id r)
        (grant now) (proReferrals db), users := us\<rparr>"
    and released: "released = int (length (filter (has_served db now) rs))" by simp_all
  have served: "has_served db' now = has_served db now"
    using has_served_frame [of db' db] by (simp add: db')
  have rows': "rows (proReferrals db') = map (\<lambda>x. if \<exists>r \<in> set rs. has_served db now r \<and> pr_id x = pr_id r
      then grant now x else x) (rows (proReferrals db))"
    by (simp add: db')
  have none: "\<not> payable db' inviter now x" if x: "x \<in> set (rows (proReferrals db'))" for x
    using x unfolding rows' payable_def served by (auto simp: rs_def)
  have ok': "table_ok pr_id (proReferrals db')"
    unfolding db' using ok by (simp add: referral_tab.ok_update)
  define ss where "ss = find_many (\<lambda>r. pr_inviterUserId r = inviter \<and> pr_inviterGrantedAt r = None) (proReferrals db')"
  have skip: "release_one inviter now x (db', 0) = (db', 0)" if "x \<in> set ss" for x
    using none [of x] that by (auto simp: ss_def payable_def has_served_def release_one_def)
  have "fold (release_one inviter now) ss (db', 0) = (db', 0)"
    using skip by (induction ss) auto
  then have "releaseInviterMonths db' inviter now = (db', 0)"
    by (simp add: releaseInviterMonths_def ss_def)
  moreover have "released = count_where (payable db inviter now) (proReferrals db)"
    by (simp add: released rs_def find_many_def count_where_def payable_def [abs_def] conj_ac)
  ultimately show ?thesis using none by (simp add: count_where_zero)
qed

text \<open>
  The inviter 1 has two referrals pending: the account 2 finished an online appointment, the account 3
  never served anyone.
\<close>

definition sample_visit :: "int \<Rightarrow> int \<Rightarrow> string \<Rightarrow> appointment" where
  "sample_visit i start status = \<lparr>ap_id = i, ap_barbershopId = 7, ap_customerId = 1, ap_barberId = 11,
     ap_resourceId = None, ap_startAt = start, ap_endAt = start + 2700000, ap_status = status, ap_notes = None,
     ap_source = ''ONLINE'', ap_createdByUserId = None, ap_depositAmount = None, ap_depositPaid = False,
     ap_depositPaidAt = None, ap_depositRefundedAt = None, ap_depositManualMethod = None,
     ap_depositReceivedAt = None, ap_depositReceivedByUserId = None, ap_depositCashSessionId = None, ap_depositPaymentIntentId = None, ap_prepaidAmount = None,
     ap_prepaidAt = None, ap_prepaidPaymentIntentId = None, ap_prepaidRefundedAt = None,
     ap_prepaidRefundedAmount = None, ap_holdExpiresAt = None, ap_reminderSentAt = None,
     ap_contactEmail = None, ap_linkVersion = 0,
     ap_services = [\<lparr>sl_serviceId = 1, sl_quantity = 1, sl_unitPrice = 50\<rparr>]\<rparr>"

definition sample_solo :: solo_db where
  "sample_solo = agenda_db.extend (sample_agenda\<lparr>appointments := \<lparr>rows = [sample_visit 1 1000 ''COMPLETED''], seq = 2\<rparr>\<rparr>)
     (solo_db.fields
       \<lparr>rows = [\<lparr>cu_id = 1, cu_networkId = 5, cu_deletedAt = None, cu_clientAccountId = None,
          cu_phone = ''11999990000'', cu_email = None, cu_loyaltyPoints = 0\<rparr>], seq = 2\<rparr>
       empty_table empty_table
       \<lparr>rows = [\<lparr>pr_id = 1, pr_inviterUserId = 1, pr_invitedUserId = 2, pr_months = 1, pr_inviterGrantedAt = None\<rparr>,
          \<lparr>pr_id = 2, pr_inviterUserId = 1, pr_invitedUserId = 3, pr_months = 1, pr_inviterGrantedAt = None\<rparr>], seq = 3\<rparr>)"

lemma releaseInviterMonths_once_witness:
  "\<exists>db'. releaseInviterMonths sample_solo 1 9000000 = (db', 1)
    \<and> count_where (payable db' 1 9000000) (proReferrals db') = 0
    \<and> releaseInviterMonths db' 1 9000000 = (db', 0)"
proof -
  obtain db' n where run: "releaseInviterMonths sample_solo 1 9000000 = (db', n)" by fastforce
  have "table_ok pr_id (proReferrals sample_solo)" by code_simp
  from releaseInviterMonths_once [OF this run]
  have "n = count_where (payable sample_solo 1 9000000) (proReferrals sample_solo)
    \<and> count_where (payable db' 1 9000000) (proReferrals db') = 0
    \<and> releaseInviterMonths db' 1 9000000 = (db', 0)" .
  moreover have "count_where (payable sample_solo 1 9000000) (proReferrals sample_solo) = 1" by code_simp
  ultimately show ?thesis using run by auto
qed

end
