(* ===== verification/Shop_Data.thy ===== *)
theory Shop_Data
  imports Schedules Money Solo
begin

text \<open>
  The remaining tables the booking and the cash desk use (rooms, products, cash sessions, expenses,
  service history, fees, tips, pay of the team, rent), the checks that what comes by id belongs to the
  shop (\<open>ensureCustomerOfNetwork\<close>, \<open>ensureResourceOfBarbershop\<close>, \<open>ensureItemsOfBarbershop\<close>), the text
  limits of \<open>public-text-limits.ts\<close> and who may see the contact of a customer.
\<close>

section \<open>Data\<close>

record resource =
  rs_id :: int
  rs_barbershopId :: int
  rs_isActive :: bool

record product =
  pd_id :: int
  pd_barbershopId :: int
  pd_unit :: string
  pd_isActive :: bool

record cash_session =
  cs_id :: int
  cs_barbershopId :: int
  cs_openedByUserId :: int
  cs_openedAt :: int
  cs_openingBalance :: rat
  cs_closedByUserId :: "int option"
  cs_closedAt :: "int option"
  cs_countedBalance :: "rat option"
  cs_expectedBalance :: "rat option"
  cs_difference :: "rat option"
  cs_status :: string
  cs_notes :: "string option"

record expense =
  ex_id :: int
  ex_barbershopId :: int
  ex_cashSessionId :: "int option"
  ex_category :: string
  ex_description :: string
  ex_amount :: rat
  ex_paymentMethod :: "string option"
  ex_expenseDate :: int
  ex_createdByUserId :: int

record service_history =
  hi_id :: int
  hi_barbershopId :: int
  hi_customerId :: int
  hi_barberId :: int
  hi_walkInId :: "int option"
  hi_serviceId :: int
  hi_performedAt :: int
  hi_priceCharged :: rat
  hi_durationMinutes :: "int option"
  hi_notes :: "string option"

record no_show_fee =
  nf_id :: int
  nf_appointmentId :: int
  nf_customerId :: int
  nf_barbershopId :: int
  nf_amount :: rat
  nf_currency :: string
  nf_reason :: string
  nf_status :: string
  nf_collectedAt :: "int option"
  nf_saleId :: "int option"

record tip =
  tp_id :: int
  tp_appointmentId :: int
  tp_barberId :: "int option"
  tp_destination :: string
  tp_method :: string
  tp_amount :: rat
  tp_receivedByUnit :: bool
  tp_payEntryId :: "int option"
  tp_cashSessionId :: "int option"

record pay_entry =
  pe_id :: int
  pe_barbershopId :: int
  pe_barberId :: int
  pe_type :: string
  pe_amount :: rat
  pe_method :: "string option"
  pe_date :: int
  pe_notes :: "string option"
  pe_createdByUserId :: int
  pe_payoutId :: "int option"
  pe_expenseId :: "int option"
  pe_cashSessionId :: "int option"

record payout =
  po_id :: int
  po_barbershopId :: int
  po_barberId :: int
  po_periodStart :: int
  po_periodEnd :: int
  po_payType :: string
  po_serviceSales :: rat
  po_productSales :: rat
  po_salesCount :: int
  po_commission :: rat
  po_fixedAmount :: rat
  po_baseAmount :: rat
  po_tips :: rat
  po_bonuses :: rat
  po_deductions :: rat
  po_advances :: rat
  po_total :: rat
  po_currency :: string
  po_method :: string
  po_paidAt :: int
  po_notes :: "string option"
  po_expenseId :: "int option"
  po_cashSessionId :: "int option"
  po_carryOverEntryId :: "int option"
  po_createdByUserId :: int

record rent_payment =
  rp_id :: int
  rp_createdAt :: int
  rp_linkId :: int
  rp_stripeInvoiceId :: "string option"
  rp_amount :: rat
  rp_currency :: string
  rp_status :: string
  rp_method :: string
  rp_dueDate :: "int option"
  rp_paidAt :: "int option"
  rp_notes :: "string option"
  rp_recordedByUserId :: "int option"
  rp_cashSessionId :: "int option"
  rp_memberExpenseId :: "int option"
  rp_overdueNotifiedAt :: "int option"
  rp_periodStart :: "int option"
  rp_periodEnd :: "int option"
  rp_platformFeePercent :: "rat option"
  rp_refundedAmount :: "rat option"

record shop_db = solo_db +
  resources :: "resource table"
  products :: "product table"
  cashSessions :: "cash_session table"
  expenses :: "expense table"
  serviceHistories :: "service_history table"
  noShowFees :: "no_show_fee table"
  tips :: "tip table"
  payEntries :: "pay_entry table"
  payouts :: "payout table"
  rentPayments :: "rent_payment table"

text \<open>An optional id counts as given when it is a number other than 0.\<close>

definition truthy :: "int option \<Rightarrow> bool" where
  "truthy i \<longleftrightarrow> (case i of None \<Rightarrow> False | Some n \<Rightarrow> n \<noteq> 0)"

definition SALE_PAYMENT_METHODS :: "string list" where
  "SALE_PAYMENT_METHODS = [''CASH'', ''CARD'', ''CREDIT_CARD'', ''DEBIT_CARD'', ''PIX'', ''TRANSFER'', ''OTHER'']"

section \<open>Text\<close>

definition CATALOG_TEXT_MAX :: int where "CATALOG_TEXT_MAX = 2000"
definition CATALOG_TEXT_MESSAGE :: string where "CATALOG_TEXT_MESSAGE = ''Texto muito longo''"

text \<open>Description and notes: trimmed, an empty text becomes null.\<close>

definition limitedCatalogText :: "string option \<Rightarrow> (string option) result" where
  "limitedCatalogText raw = (case raw of
       None \<Rightarrow> Inr None
     | Some r \<Rightarrow> (let text = js_trim r in
         if int (length text) > CATALOG_TEXT_MAX then Inl (BadRequest CATALOG_TEXT_MESSAGE)
         else Inr (if text = [] then None else Some text)))"

section \<open>What comes by id belongs to the shop\<close>

definition ensureCustomerOfNetwork :: "'a solo_db_scheme \<Rightarrow> int \<Rightarrow> int \<Rightarrow> unit result" where
  "ensureCustomerOfNetwork db networkId customerId = throwIf
     (find_first (\<lambda>c. cu_id c = customerId \<and> cu_networkId c = networkId \<and> cu_deletedAt c = None) (customers db) = None)
     (NotFound ''Cliente nao encontrado'')"

definition ensureResourceOfBarbershop :: "'a shop_db_scheme \<Rightarrow> int \<Rightarrow> int \<Rightarrow> bool \<Rightarrow> unit result" where
  "ensureResourceOfBarbershop db barbershopId resourceId allowInactive = throwIf
     (find_first (\<lambda>r. rs_id r = resourceId \<and> rs_barbershopId r = barbershopId \<and> (allowInactive \<or> rs_isActive r))
        (resources db) = None)
     (NotFound ''Recurso nao encontrado'')"

definition ensureItemsOfBarbershop :: "'a shop_db_scheme \<Rightarrow> int \<Rightarrow> int list \<Rightarrow> int list \<Rightarrow> bool \<Rightarrow> unit result" where
  "ensureItemsOfBarbershop db barbershopId serviceIds productIds active = (let
       uniqueServices = remdups serviceIds;
       uniqueProducts = remdups productIds;
       foundServices = (if uniqueServices = [] then 0 else count_where
         (\<lambda>s. sv_id s \<in> set uniqueServices \<and> sv_barbershopId s = barbershopId \<and> (active \<longrightarrow> sv_isActive s)) (services db));
       foundProducts = (if uniqueProducts = [] then 0 else count_where
         (\<lambda>p. pd_id p \<in> set uniqueProducts \<and> pd_barbershopId p = barbershopId \<and> (active \<longrightarrow> pd_isActive p)) (products db))
     in bindE (throwIf (foundServices \<noteq> int (length uniqueServices)) (NotFound ''Servico nao encontrado'')) (\<lambda>_.
       throwIf (foundProducts \<noteq> int (length uniqueProducts)) (NotFound ''Produto nao encontrado'')))"

section \<open>Who sees the contact of a customer\<close>

definition contactVisibility :: "'a agenda_db_scheme \<Rightarrow> int \<Rightarrow> shop_access \<Rightarrow> int option \<Rightarrow> bool" where
  "contactVisibility db userId shop = (\<lambda>customerId.
     if ACCESS_RANK (sa_accessLevel shop) \<ge> ACCESS_RANK Reception then True
     else if sa_accessLevel shop = Basic then False
     else (let own = (case ownBarberIdIfBarber db userId shop of None \<Rightarrow> - 1 | Some i \<Rightarrow> i);
               ids = map ap_customerId (find_many (\<lambda>a. ap_barberId a = own) (appointments db))
           in case customerId of None \<Rightarrow> False | Some c \<Rightarrow> c \<in> set ids))"

definition hideContact :: "(int option \<Rightarrow> bool) \<Rightarrow> customer option \<Rightarrow> customer option" where
  "hideContact canSee customer' = (case customer' of
       None \<Rightarrow> None
     | Some c \<Rightarrow> if canSee (Some (cu_id c)) then Some c else Some (c\<lparr>cu_phone := [], cu_email := None\<rparr>))"

section \<open>Tables of the shop\<close>

interpretation appointment_tab: row_table ap_id "table_ok ap_id"
  by unfold_locales (rule table_ok_def)

interpretation session_tab: row_table cs_id "table_ok cs_id"
  by unfold_locales (rule table_ok_def)

interpretation walk_in_tab: row_table wi_id "table_ok wi_id"
  by unfold_locales (rule table_ok_def)

lemma contact_level:
  "contactVisibility db u shop (Some c) \<longleftrightarrow> sa_accessLevel shop \<ge> Reception
     \<or> sa_accessLevel shop = Barber \<and> (\<exists>a \<in> set (rows (appointments db)). ap_customerId a = c
         \<and> ap_barberId a = (case ownBarberIdIfBarber db u shop of None \<Rightarrow> - 1 | Some i \<Rightarrow> i))"
  by (cases "sa_accessLevel shop")
    (auto simp: contactVisibility_def ACCESS_RANK_def less_eq_access_level_def Let_def)

end
