(* ===== verification/Refunds.thy ===== *)
theory Refunds
  imports Shop_Data
begin

text \<open>
  Refunds of what a customer paid online (\<open>refundOnlineDeposit\<close>, \<open>refundPrepayment\<close> and the two manual
  refunds of \<open>barbershop.service.ts\<close>).

  The payment provider is a parameter: \<open>create intent amount key\<close> is the answer of \<open>createRefund\<close>
  (\<open>amount\<close> in minor units, \<open>None\<close> for the whole charge; \<open>key\<close> is the idempotency key). A refund is
  three database steps around that call: read, conditional claim, and undo when the provider
  refuses. \<open>refund_step\<close> interleaves those steps of any number of refunds of one appointment.
\<close>

section \<open>Operations\<close>

datatype refund_answer = Refund_made | Refund_already_made | Refund_refused

type_synonym provider = "string \<Rightarrow> int option \<Rightarrow> string \<Rightarrow> refund_answer"

definition appointmentById :: "'a agenda_db_scheme \<Rightarrow> int \<Rightarrow> appointment option" where
  "appointmentById db i = find_first (\<lambda>a. ap_id a = i) (appointments db)"

definition saleOf :: "'a solo_db_scheme \<Rightarrow> int \<Rightarrow> sale option" where
  "saleOf db appointmentId = find_first (\<lambda>s. se_appointmentId s = Some appointmentId) (sales db)"

text \<open>\<open>!intentId\<close>: a missing or empty id.\<close>

definition payment_intent :: "string option \<Rightarrow> string option" where
  "payment_intent i = (if given i then i else None)"

definition deposit_claim :: "int \<Rightarrow> int \<Rightarrow> string \<Rightarrow> 'a agenda_db_scheme \<Rightarrow> bool \<times> 'a agenda_db_scheme" where
  "deposit_claim now appointmentId intent db = (let
       mine = (\<lambda>a. ap_id a = appointmentId \<and> ap_depositPaid a \<and> ap_depositRefundedAt a = None
         \<and> ap_depositPaymentIntentId a = Some intent)
     in if count_where mine (appointments db) = 0 then (False, db)
        else (True, db\<lparr>appointments := update_many mine
          (\<lambda>a. a\<lparr>ap_depositPaid := False, ap_depositRefundedAt := Some now\<rparr>) (appointments db)\<rparr>))"

definition deposit_undo :: "int \<Rightarrow> int \<Rightarrow> 'a agenda_db_scheme \<Rightarrow> 'a agenda_db_scheme" where
  "deposit_undo now appointmentId db = db\<lparr>appointments := update_many
     (\<lambda>a. ap_id a = appointmentId \<and> ap_depositRefundedAt a = Some now)
     (\<lambda>a. a\<lparr>ap_depositPaid := True, ap_depositRefundedAt := None\<rparr>) (appointments db)\<rparr>"

definition refundOnlineDeposit :: "provider \<Rightarrow> int \<Rightarrow> int \<Rightarrow> 'a solo_db_scheme \<Rightarrow> bool result \<times> 'a solo_db_scheme" where
  "refundOnlineDeposit create now appointmentId db = (case appointmentById db appointmentId of
       None \<Rightarrow> (Inr False, db)
     | Some appt \<Rightarrow> (case payment_intent (ap_depositPaymentIntentId appt) of
           None \<Rightarrow> (Inr False, db)
         | Some intent \<Rightarrow>
             if ap_depositPaidAt appt = None \<or> saleOf db appointmentId \<noteq> None then (Inr False, db)
             else (case deposit_claim now appointmentId intent db of
                 (False, _) \<Rightarrow> (Inr False, db)
               | (True, db1) \<Rightarrow> (case create intent None (''deposit-refund-'' @ intent) of
                     Refund_made \<Rightarrow> (Inr True, db1)
                   | Refund_already_made \<Rightarrow> (Inr True, db1)
                   | Refund_refused \<Rightarrow> (Inl (PlainError ''stripe''), deposit_undo now appointmentId db1)))))"

text \<open>\<open>Math.round(x * 100) / 100\<close> and \<open>toFixed(2)\<close> of an amount that is not negative.\<close>

definition cents :: "rat \<Rightarrow> rat" where
  "cents x = of_int (js_round (x * 100)) / 100"

definition to_fixed_2 :: "rat \<Rightarrow> string" where
  "to_fixed_2 x = (let c = js_round (x * 100) in show_int (c div 100) @ ''.'' @ pad_start 2 (show_nat (nat (c mod 100))))"

definition amount_or_0 :: "rat option \<Rightarrow> rat" where
  "amount_or_0 x = (case x of None \<Rightarrow> 0 | Some v \<Rightarrow> v)"

record prepay_claim =
  pc_appointmentId :: int
  pc_intent :: string
  pc_before :: "rat option"
  pc_value :: rat
  pc_after :: rat
  pc_full :: bool
  pc_currency :: string

text \<open>What a refund decides from the row it read; \<open>None\<close>: there is nothing to give back.\<close>

definition prepay_read :: "'a solo_db_scheme \<Rightarrow> int \<Rightarrow> rat option \<Rightarrow> (prepay_claim option) result" where
  "prepay_read db appointmentId amount = (case appointmentById db appointmentId of
       None \<Rightarrow> Inr None
     | Some appt \<Rightarrow> (case payment_intent (ap_prepaidPaymentIntentId appt) of
           None \<Rightarrow> Inr None
         | Some intent \<Rightarrow>
             if ap_prepaidAt appt = None \<or> ap_prepaidRefundedAt appt \<noteq> None \<or> saleOf db appointmentId \<noteq> None
             then Inr None
             else (let paid = amount_or_0 (ap_prepaidAmount appt);
                       before = amount_or_0 (ap_prepaidRefundedAmount appt);
                       remaining = cents (paid - before);
                       wanted = (case amount of None \<Rightarrow> remaining | Some v \<Rightarrow> cents v);
                       after = cents (before + wanted)
               in if remaining \<le> 0 then Inr None
                  else if \<not> wanted > 0 \<or> wanted > remaining then
                    Inl (BadRequest (''O estorno vai de 0,01 ate '' @ to_fixed_2 remaining))
                  else Inr (Some \<lparr>pc_appointmentId = appointmentId, pc_intent = intent,
                    pc_before = ap_prepaidRefundedAmount appt, pc_value = wanted, pc_after = after,
                    pc_full = (after \<ge> paid),
                    pc_currency = (case shopById db (ap_barbershopId appt) of None \<Rightarrow> [] | Some s \<Rightarrow> bs_currency s)\<rparr>))))"

definition prepay_take :: "int \<Rightarrow> prepay_claim \<Rightarrow> 'a agenda_db_scheme \<Rightarrow> bool \<times> 'a agenda_db_scheme" where
  "prepay_take now c db = (let
       mine = (\<lambda>a. ap_id a = pc_appointmentId c \<and> ap_prepaidRefundedAt a = None
         \<and> ap_prepaidRefundedAmount a = pc_before c)
     in if count_where mine (appointments db) = 0 then (False, db)
        else (True, db\<lparr>appointments := update_many mine
          (\<lambda>a. a\<lparr>ap_prepaidRefundedAmount := Some (pc_after c),
             ap_prepaidRefundedAt := (if pc_full c then Some now else None)\<rparr>) (appointments db)\<rparr>))"

definition prepay_undo :: "prepay_claim \<Rightarrow> 'a agenda_db_scheme \<Rightarrow> 'a agenda_db_scheme" where
  "prepay_undo c db = db\<lparr>appointments := update_many
     (\<lambda>a. ap_id a = pc_appointmentId c \<and> ap_prepaidRefundedAmount a = Some (pc_after c))
     (\<lambda>a. a\<lparr>ap_prepaidRefundedAmount := pc_before c, ap_prepaidRefundedAt := None\<rparr>) (appointments db)\<rparr>"

definition refundPrepayment :: "provider \<Rightarrow> int \<Rightarrow> int \<Rightarrow> rat option \<Rightarrow> 'a solo_db_scheme
    \<Rightarrow> bool result \<times> 'a solo_db_scheme" where
  "refundPrepayment create now appointmentId amount db = (case prepay_read db appointmentId amount of
       Inl e \<Rightarrow> (Inl e, db)
     | Inr None \<Rightarrow> (Inr False, db)
     | Inr (Some c) \<Rightarrow> (case prepay_take now c db of
           (False, _) \<Rightarrow> (Inr False, db)
         | (True, db1) \<Rightarrow> (case create (pc_intent c) (Some (toMinorUnits (pc_value c) (Some (pc_currency c))))
               (''prepayment-refund-'' @ pc_intent c @ ''-'' @ show_int (js_round (pc_after c * 100))) of
               Refund_made \<Rightarrow> (Inr True, db1)
             | Refund_already_made \<Rightarrow> (Inr True, db1)
             | Refund_refused \<Rightarrow> (Inl (PlainError ''stripe''), prepay_undo c db1))))"

section \<open>Manual refunds\<close>

definition REFUND_LATER :: http_error where
  "REFUND_LATER = BadRequest ''Nao foi possivel estornar agora. Tente de novo.''"

definition REFUND_AT_PROVIDER :: http_error where
  "REFUND_AT_PROVIDER = BadRequest ''A conta deste horario ja foi fechada: estorne pelo painel do Stripe''"

text \<open>The answer of both manual refunds: the appointment with the contact of its customer hidden from who may not see it.\<close>

definition appointment_view :: "'a solo_db_scheme \<Rightarrow> int \<Rightarrow> shop_access \<Rightarrow> int \<Rightarrow> (appointment \<times> customer option) option" where
  "appointment_view db userId shop appointmentId = map_option
     (\<lambda>a. (a, hideContact (contactVisibility db userId shop) (find_first (\<lambda>c. cu_id c = ap_customerId a) (customers db))))
     (appointmentById db appointmentId)"

definition refundAppointmentPrepayment :: "provider \<Rightarrow> int \<Rightarrow> int \<Rightarrow> int \<Rightarrow> int \<Rightarrow> rat option
    \<Rightarrow> 'a solo_db_scheme \<Rightarrow> ((appointment \<times> customer option) option) result \<times> 'a solo_db_scheme" where
  "refundAppointmentPrepayment create now userId barbershopId appointmentId amount db =
     (case ensureBarbershopAccess db now userId barbershopId Manager of
        Inl e \<Rightarrow> (Inl e, db)
      | Inr shop \<Rightarrow>
     (case find_first (\<lambda>a. ap_id a = appointmentId \<and> ap_barbershopId a = barbershopId) (appointments db) of
        None \<Rightarrow> (Inl (NotFound ''Agendamento nao encontrado''), db)
      | Some appt \<Rightarrow>
     if ap_prepaidAt appt = None then (Inl (BadRequest ''Este horario nao foi pago pelo app''), db)
     else if ap_prepaidRefundedAt appt \<noteq> None then (Inl (BadRequest ''O pagamento ja foi estornado''), db)
     else if saleOf db appointmentId \<noteq> None then (Inl REFUND_AT_PROVIDER, db)
     else (case refundPrepayment create now appointmentId amount db of
        (Inl (BadRequest m), db1) \<Rightarrow> (Inl (BadRequest m), db1)
      | (Inl _, db1) \<Rightarrow> (Inl REFUND_LATER, db1)
      | (Inr False, db1) \<Rightarrow> (Inl (BadRequest ''O pagamento ja foi estornado''), db1)
      | (Inr True, db1) \<Rightarrow> (Inr (appointment_view db1 userId shop appointmentId), db1))))"

definition refundAppointmentDeposit :: "provider \<Rightarrow> int \<Rightarrow> int \<Rightarrow> int \<Rightarrow> int
    \<Rightarrow> 'a solo_db_scheme \<Rightarrow> ((appointment \<times> customer option) option) result \<times> 'a solo_db_scheme" where
  "refundAppointmentDeposit create now userId barbershopId appointmentId db =
     (case ensureBarbershopAccess db now userId barbershopId Manager of
        Inl e \<Rightarrow> (Inl e, db)
      | Inr shop \<Rightarrow>
     (case find_first (\<lambda>a. ap_id a = appointmentId \<and> ap_barbershopId a = barbershopId) (appointments db) of
        None \<Rightarrow> (Inl (NotFound ''Agendamento nao encontrado''), db)
      | Some appt \<Rightarrow>
     if ap_depositRefundedAt appt \<noteq> None then (Inl (BadRequest ''O sinal ja foi estornado''), db)
     else if \<not> ap_depositPaid appt \<or> ap_depositPaidAt appt = None then
       (Inl (BadRequest ''Este horario nao tem sinal pago online''), db)
     else if saleOf db appointmentId \<noteq> None then (Inl REFUND_AT_PROVIDER, db)
     else (case refundOnlineDeposit create now appointmentId db of
        (Inl _, db1) \<Rightarrow> (Inl REFUND_LATER, db1)
      | (Inr False, db1) \<Rightarrow> (Inl (BadRequest ''O sinal ja foi estornado''), db1)
      | (Inr True, db1) \<Rightarrow> (Inr (appointment_view db1 userId shop appointmentId), db1))))"

section \<open>Any number of refunds at the same time\<close>

text \<open>
  The refunds of one appointment that run at the same time: \<open>rr_read\<close> holds those that read the row,
  \<open>rr_taken\<close> those whose conditional update was made and that wait for the provider, and \<open>rr_paidBack\<close>
  the money the provider gave back.
\<close>

record refund_run =
  rr_db :: solo_db
  rr_read :: "prepay_claim list"
  rr_taken :: "prepay_claim list"
  rr_paidBack :: rat

inductive refund_step :: "int \<Rightarrow> refund_run \<Rightarrow> refund_run \<Rightarrow> bool" for i where
  Read: "prepay_read (rr_db s) i amount = Inr (Some c) \<Longrightarrow> refund_step i s (s\<lparr>rr_read := c # rr_read s\<rparr>)"
| Won: "c \<in> set (rr_read s) \<Longrightarrow> prepay_take now c (rr_db s) = (True, db') \<Longrightarrow>
    refund_step i s (s\<lparr>rr_db := db', rr_read := remove1 c (rr_read s), rr_taken := c # rr_taken s\<rparr>)"
| Lost: "c \<in> set (rr_read s) \<Longrightarrow> prepay_take now c (rr_db s) = (False, db') \<Longrightarrow>
    refund_step i s (s\<lparr>rr_read := remove1 c (rr_read s)\<rparr>)"
| Made: "c \<in> set (rr_taken s) \<Longrightarrow>
    refund_step i s (s\<lparr>rr_taken := remove1 c (rr_taken s), rr_paidBack := rr_paidBack s + pc_value c\<rparr>)"
| Already: "c \<in> set (rr_taken s) \<Longrightarrow> refund_step i s (s\<lparr>rr_taken := remove1 c (rr_taken s)\<rparr>)"
| Refused: "c \<in> set (rr_taken s) \<Longrightarrow>
    refund_step i s (s\<lparr>rr_db := prepay_undo c (rr_db s), rr_taken := remove1 c (rr_taken s)\<rparr>)"

definition whole_cents :: "rat \<Rightarrow> bool" where
  "whole_cents x \<longleftrightarrow> cents x = x"

lemma cents_whole [simp]: "whole_cents (cents x)"
  by (simp add: whole_cents_def cents_def)

lemma whole_cents_iff: "whole_cents x \<longleftrightarrow> (\<exists>k. x = of_int k / 100)"
  by (auto simp: whole_cents_def cents_def intro: sym)

lemma whole_cents_add: "whole_cents x \<Longrightarrow> whole_cents y \<Longrightarrow> whole_cents (x + y)"
  unfolding whole_cents_iff by (metis add_divide_distrib of_int_add)

lemma whole_cents_diff: "whole_cents x \<Longrightarrow> whole_cents y \<Longrightarrow> whole_cents (x - y)"
  unfolding whole_cents_iff by (metis diff_divide_distrib of_int_diff)

lemma whole_cents_0 [simp]: "whole_cents 0"
  unfolding whole_cents_iff by (rule exI [of _ 0]) simp

lemma cents_id: "whole_cents x \<Longrightarrow> cents x = x"
  by (simp add: whole_cents_def)

text \<open>A claim of the appointment \<open>i\<close>, of which \<open>paid\<close> was paid.\<close>

definition claim_ok :: "int \<Rightarrow> rat \<Rightarrow> prepay_claim \<Rightarrow> bool" where
  "claim_ok i paid c \<longleftrightarrow> pc_appointmentId c = i \<and> 0 < pc_value c \<and> whole_cents (amount_or_0 (pc_before c))
     \<and> whole_cents (pc_value c) \<and> pc_after c = amount_or_0 (pc_before c) + pc_value c \<and> pc_after c \<le> paid"

definition run_ok :: "int \<Rightarrow> rat \<Rightarrow> refund_run \<Rightarrow> bool" where
  "run_ok i paid s \<longleftrightarrow> table_ok ap_id (appointments (rr_db s))
     \<and> (\<exists>a. appointmentById (rr_db s) i = Some a \<and> amount_or_0 (ap_prepaidAmount a) = paid
          \<and> whole_cents (amount_or_0 (ap_prepaidRefundedAmount a)) \<and> amount_or_0 (ap_prepaidRefundedAmount a) \<le> paid
          \<and> rr_paidBack s + sum_list (map pc_value (rr_taken s)) \<le> amount_or_0 (ap_prepaidRefundedAmount a))
     \<and> (\<forall>c \<in> set (rr_read s) \<union> set (rr_taken s). claim_ok i paid c)"

lemma appointmentById_update:
  assumes "\<And>a. ap_id (f a) = ap_id a"
  shows "appointmentById (db\<lparr>appointments := update_many p f (appointments db)\<rparr>) i
    = map_option (\<lambda>a. if p a then f a else a) (appointmentById db i)"
proof -
  have "find (\<lambda>a. ap_id a = i) (map (\<lambda>a. if p a then f a else a) xs)
      = map_option (\<lambda>a. if p a then f a else a) (find (\<lambda>a. ap_id a = i) xs)" for xs
    by (induction xs) (simp_all add: assms)
  then show ?thesis by (simp add: appointmentById_def find_first_def)
qed

lemma read_claim_ok:
  assumes "run_ok i paid s" and "whole_cents paid" and "prepay_read (rr_db s) i amount = Inr (Some c)"
  shows "claim_ok i paid c"
proof -
  obtain a where a: "appointmentById (rr_db s) i = Some a" "amount_or_0 (ap_prepaidAmount a) = paid"
    "whole_cents (amount_or_0 (ap_prepaidRefundedAmount a))"
    using assms(1) by (auto simp: run_ok_def)
  define before where "before = amount_or_0 (ap_prepaidRefundedAmount a)"
  have rem: "cents (paid - before) = paid - before"
    using a(3) assms(2) by (simp add: cents_id whole_cents_diff before_def)
  obtain wanted where w: "whole_cents wanted" "0 < wanted" "wanted \<le> paid - before" "pc_value c = wanted"
      "pc_appointmentId c = i" "pc_before c = ap_prepaidRefundedAmount a" "pc_after c = cents (before + wanted)"
  proof
    define wanted where "wanted = (case amount of None \<Rightarrow> cents (paid - before) | Some v \<Rightarrow> cents v)"
    show "whole_cents wanted" by (simp add: wanted_def split: option.split)
    note unfold = assms(3) [unfolded prepay_read_def a(1) option.simps(5) Let_def, folded before_def, unfolded a(2),
        folded wanted_def]
    then show "0 < wanted" "wanted \<le> paid - before" "pc_value c = wanted" "pc_appointmentId c = i"
      "pc_before c = ap_prepaidRefundedAmount a" "pc_after c = cents (before + wanted)"
      by (auto simp: rem split: option.split_asm if_split_asm)
  qed
  then show ?thesis
    using a(3) by (auto simp: claim_ok_def before_def [symmetric] cents_id whole_cents_add)
qed

lemma taken_row:
  assumes ok: "table_ok ap_id (appointments db)" and row: "appointmentById db i = Some a"
    and take: "prepay_take now c db = (True, db')" and i: "pc_appointmentId c = i"
  shows "ap_prepaidRefundedAmount a = pc_before c
    \<and> appointmentById db' i = Some (a\<lparr>ap_prepaidRefundedAmount := Some (pc_after c),
        ap_prepaidRefundedAt := (if pc_full c then Some now else None)\<rparr>)
    \<and> table_ok ap_id (appointments db')"
proof -
  define mine where "mine = (\<lambda>a :: appointment. ap_id a = pc_appointmentId c \<and> ap_prepaidRefundedAt a = None
    \<and> ap_prepaidRefundedAmount a = pc_before c)"
  define f where "f = (\<lambda>a :: appointment. a\<lparr>ap_prepaidRefundedAmount := Some (pc_after c),
    ap_prepaidRefundedAt := (if pc_full c then Some now else None)\<rparr>)"
  have db': "db' = db\<lparr>appointments := update_many mine f (appointments db)\<rparr>"
    and "count_where mine (appointments db) \<noteq> 0"
    using take by (auto simp: prepay_take_def mine_def f_def Let_def split: if_splits)
  then obtain x where x: "x \<in> set (rows (appointments db))" "mine x" by (auto simp: count_where_zero)
  moreover have "a \<in> set (rows (appointments db))" "ap_id a = i"
    using row find_first_Some [of _ "appointments db" a] by (auto simp: appointmentById_def)
  ultimately have "mine a" using appointment_tab.key_inj [OF ok] i by (metis (mono_tags, lifting) mine_def)
  moreover have "appointmentById db' i = map_option (\<lambda>a. if mine a then f a else a) (appointmentById db i)"
    unfolding db' by (rule appointmentById_update) (simp add: f_def)
  ultimately show ?thesis
    using row appointment_tab.ok_update [OF ok, of mine f] by (auto simp: mine_def f_def db')
qed

lemma undone_row:
  assumes "table_ok ap_id (appointments db)" and "appointmentById db i = Some a"
  shows "\<exists>a'. appointmentById (prepay_undo c db) i = Some a' \<and> ap_prepaidAmount a' = ap_prepaidAmount a
    \<and> (ap_prepaidRefundedAmount a' = ap_prepaidRefundedAmount a
        \<or> ap_prepaidRefundedAmount a = Some (pc_after c) \<and> ap_prepaidRefundedAmount a' = pc_before c)
    \<and> table_ok ap_id (appointments (prepay_undo c db))"
proof -
  define p where "p = (\<lambda>a :: appointment. ap_id a = pc_appointmentId c \<and> ap_prepaidRefundedAmount a = Some (pc_after c))"
  define f where "f = (\<lambda>a :: appointment. a\<lparr>ap_prepaidRefundedAmount := pc_before c, ap_prepaidRefundedAt := None\<rparr>)"
  have undo: "prepay_undo c db = db\<lparr>appointments := update_many p f (appointments db)\<rparr>"
    by (simp add: prepay_undo_def p_def f_def)
  have "appointmentById (prepay_undo c db) i = map_option (\<lambda>a. if p a then f a else a) (appointmentById db i)"
    unfolding undo by (rule appointmentById_update) (simp add: f_def)
  moreover have "table_ok ap_id (appointments (prepay_undo c db))"
    unfolding undo using appointment_tab.ok_update [OF assms(1), of p f] by (simp add: f_def)
  ultimately show ?thesis using assms(2) by (auto simp: p_def f_def)
qed

lemma run_ok_leave:
  assumes "run_ok i paid s" and "c \<in> set (rr_taken s)" and "x \<le> pc_value c"
  shows "run_ok i paid (s\<lparr>rr_taken := remove1 c (rr_taken s), rr_paidBack := rr_paidBack s + x\<rparr>)"
proof -
  have "sum_list (map pc_value (rr_taken s)) = pc_value c + sum_list (map pc_value (remove1 c (rr_taken s)))"
    by (rule sum_list_map_remove1 [OF assms(2)])
  then show ?thesis
    using assms(1,3) set_remove1_subset [of c "rr_taken s"] unfolding run_ok_def by (auto simp: subset_iff)
qed

lemma run_ok_won:
  assumes ok: "run_ok i paid s" and c: "c \<in> set (rr_read s)" and take: "prepay_take now c (rr_db s) = (True, db')"
  shows "run_ok i paid (s\<lparr>rr_db := db', rr_read := remove1 c (rr_read s), rr_taken := c # rr_taken s\<rparr>)"
proof -
  obtain a where row: "appointmentById (rr_db s) i = Some a" "amount_or_0 (ap_prepaidAmount a) = paid"
    and le: "rr_paidBack s + sum_list (map pc_value (rr_taken s)) \<le> amount_or_0 (ap_prepaidRefundedAmount a)"
    and tab: "table_ok ap_id (appointments (rr_db s))"
    using ok by (auto simp: run_ok_def)
  have claim: "claim_ok i paid c" using ok c by (auto simp: run_ok_def)
  then have "pc_appointmentId c = i" by (simp add: claim_ok_def)
  note t = taken_row [OF tab row(1) take this]
  define a' where "a' = a\<lparr>ap_prepaidRefundedAmount := Some (pc_after c), ap_prepaidRefundedAt := (if pc_full c then Some now else None)\<rparr>"
  have after: "amount_or_0 (ap_prepaidRefundedAmount a') = pc_after c" "amount_or_0 (ap_prepaidAmount a') = paid"
    using row(2) by (simp_all add: a'_def amount_or_0_def)
  have "whole_cents (pc_after c)" "pc_after c \<le> paid"
    "rr_paidBack s + sum_list (map pc_value (c # rr_taken s)) \<le> pc_after c"
    using claim le t by (auto simp: claim_ok_def whole_cents_add)
  moreover have "appointmentById db' i = Some a'" "table_ok ap_id (appointments db')"
    using t by (simp_all only: a'_def)
  moreover have "claim_ok i paid x" if "x \<in> set (remove1 c (rr_read s)) \<union> set (c # rr_taken s)" for x
    using that ok claim set_remove1_subset [of c "rr_read s"] by (auto simp only: run_ok_def list.set)
  ultimately show ?thesis using after unfolding run_ok_def by simp
qed

lemma run_ok_refused:
  assumes ok: "run_ok i paid s" and c: "c \<in> set (rr_taken s)"
  shows "run_ok i paid (s\<lparr>rr_db := prepay_undo c (rr_db s), rr_taken := remove1 c (rr_taken s)\<rparr>)"
proof -
  obtain a where row: "appointmentById (rr_db s) i = Some a" "amount_or_0 (ap_prepaidAmount a) = paid"
      "whole_cents (amount_or_0 (ap_prepaidRefundedAmount a))" "amount_or_0 (ap_prepaidRefundedAmount a) \<le> paid"
    and le: "rr_paidBack s + sum_list (map pc_value (rr_taken s)) \<le> amount_or_0 (ap_prepaidRefundedAmount a)"
    and tab: "table_ok ap_id (appointments (rr_db s))"
    using ok by (auto simp: run_ok_def)
  have claim: "claim_ok i paid c" using ok c by (auto simp: run_ok_def)
  have sum: "sum_list (map pc_value (rr_taken s)) = pc_value c + sum_list (map pc_value (remove1 c (rr_taken s)))"
    by (rule sum_list_map_remove1 [OF c])
  have le': "rr_paidBack s + sum_list (map pc_value (remove1 c (rr_taken s))) \<le> amount_or_0 r
      \<and> whole_cents (amount_or_0 r) \<and> amount_or_0 r \<le> paid"
    if "r = ap_prepaidRefundedAmount a \<or> ap_prepaidRefundedAmount a = Some (pc_after c) \<and> r = pc_before c" for r
    using that le sum claim row(3,4) by (auto simp: claim_ok_def amount_or_0_def [of "Some _"])
  obtain a' where "appointmentById (prepay_undo c (rr_db s)) i = Some a'" "ap_prepaidAmount a' = ap_prepaidAmount a"
      "table_ok ap_id (appointments (prepay_undo c (rr_db s)))"
      and r: "ap_prepaidRefundedAmount a' = ap_prepaidRefundedAmount a
        \<or> ap_prepaidRefundedAmount a = Some (pc_after c) \<and> ap_prepaidRefundedAmount a' = pc_before c"
    using undone_row [OF tab row(1), of c] by auto
  with le' [OF r] row(2) ok show ?thesis
    using set_remove1_subset [of c "rr_taken s"] by (auto simp: run_ok_def subset_iff)
qed

lemma run_ok_step:
  assumes "refund_step i s t" and "whole_cents paid" and "run_ok i paid s"
  shows "run_ok i paid t"
  using assms(1)
proof cases
  case (Read amount c)
  then show ?thesis using read_claim_ok [OF assms(3,2)] assms(3) by (auto simp: run_ok_def)
next
  case (Won c now db')
  then show ?thesis using run_ok_won [OF assms(3)] by simp
next
  case (Lost c now db')
  then show ?thesis using assms(3) set_remove1_subset [of c "rr_read s"] by (auto simp: run_ok_def subset_iff)
next
  case (Made c)
  then show ?thesis using run_ok_leave [OF assms(3), of c "pc_value c"] by simp
next
  case (Already c)
  moreover have "claim_ok i paid c" using Already assms(3) by (simp only: run_ok_def) blast
  then have "0 \<le> pc_value c" by (simp add: claim_ok_def)
  ultimately show ?thesis using run_ok_leave [OF assms(3), of c 0] by (cases s) simp
next
  case (Refused c)
  then show ?thesis using run_ok_refused [OF assms(3)] by simp
qed

text \<open>
  C19. However many refunds of one prepaid appointment run at the same time, by whoever asked and in
  whatever order their steps interleave with the answers of the payment provider, the money given
  back never exceeds what the appointment records as refunded, and that never exceeds what was paid.
\<close>

theorem refunds_within_payment:
  assumes "table_ok ap_id (appointments db)" and "appointmentById db i = Some a"
    and "ap_prepaidRefundedAmount a = None" and "whole_cents (amount_or_0 (ap_prepaidAmount a))"
    and "0 \<le> amount_or_0 (ap_prepaidAmount a)"
    and "(refund_step i)\<^sup>*\<^sup>* \<lparr>rr_db = db, rr_read = [], rr_taken = [], rr_paidBack = 0\<rparr> s"
  shows "\<exists>a'. appointmentById (rr_db s) i = Some a'
    \<and> rr_paidBack s + sum_list (map pc_value (rr_taken s)) \<le> amount_or_0 (ap_prepaidRefundedAmount a')
    \<and> amount_or_0 (ap_prepaidRefundedAmount a') \<le> amount_or_0 (ap_prepaidAmount a)"
proof -
  let ?paid = "amount_or_0 (ap_prepaidAmount a)"
  have "run_ok i ?paid s"
    using assms(6)
  proof (induction rule: rtranclp_induct)
    case base
    then show ?case using assms(1-5) by (simp add: run_ok_def amount_or_0_def [of None])
  next
    case (step y z)
    then show ?case using run_ok_step assms(4) by blast
  qed
  then show ?thesis by (auto simp: run_ok_def)
qed

section \<open>A refused refund can be lost\<close>

text \<open>An appointment of 100 paid through the app and cancelled.\<close>

definition sample_prepaid :: solo_db where
  "sample_prepaid = sample_solo\<lparr>appointments := \<lparr>rows = [(sample_visit 1 1000 ''CANCELLED'')\<lparr>
     ap_prepaidAmount := Some 100, ap_prepaidAt := Some 5, ap_prepaidPaymentIntentId := Some ''pi_1''\<rparr>], seq = 2\<rparr>\<rparr>"

definition sample_claim :: "rat option \<Rightarrow> rat \<Rightarrow> rat \<Rightarrow> bool \<Rightarrow> prepay_claim" where
  "sample_claim before value after full = \<lparr>pc_appointmentId = 1, pc_intent = ''pi_1'', pc_before = before,
     pc_value = value, pc_after = after, pc_full = full, pc_currency = ''BRL''\<rparr>"

definition sample_refunded :: "rat \<Rightarrow> int option \<Rightarrow> solo_db" where
  "sample_refunded amount t = sample_prepaid\<lparr>appointments := update_many (\<lambda>_. True)
     (\<lambda>a. a\<lparr>ap_prepaidRefundedAmount := Some amount, ap_prepaidRefundedAt := t\<rparr>) (appointments sample_prepaid)\<rparr>"

lemma sample_refund_steps:
  "prepay_read sample_prepaid 1 (Some 30) = Inr (Some (sample_claim None 30 30 False))"
  "prepay_take 50 (sample_claim None 30 30 False) sample_prepaid = (True, sample_refunded 30 None)"
  "prepay_read (sample_refunded 30 None) 1 None = Inr (Some (sample_claim (Some 30) 70 100 True))"
  "prepay_take 60 (sample_claim (Some 30) 70 100 True) (sample_refunded 30 None) = (True, sample_refunded 100 (Some 60))"
  "prepay_undo (sample_claim None 30 30 False) (sample_refunded 100 (Some 60)) = sample_refunded 100 (Some 60)"
  "prepay_read (sample_refunded 100 (Some 60)) 1 None = Inr None"
  by code_simp+

lemma sample_refund_run:
  "(refund_step 1)\<^sup>*\<^sup>* \<lparr>rr_db = sample_prepaid, rr_read = [], rr_taken = [], rr_paidBack = 0\<rparr>
     \<lparr>rr_db = sample_refunded 100 (Some 60), rr_read = [], rr_taken = [], rr_paidBack = 70\<rparr>"
proof -
  let ?c = "sample_claim None 30 30 False" and ?d = "sample_claim (Some 30) 70 100 True"
  let ?s = "\<lambda>db r t b. \<lparr>rr_db = db, rr_read = r, rr_taken = t, rr_paidBack = b\<rparr>"
  have "?c \<noteq> ?d" "pc_value ?d = 70" by (simp_all add: sample_claim_def)
  have "refund_step 1 (?s sample_prepaid [] [] 0) (?s sample_prepaid [?c] [] 0)"
    using refund_step.Read [of "?s sample_prepaid [] [] 0" 1] sample_refund_steps(1) by simp
  moreover have "refund_step 1 (?s sample_prepaid [?c] [] 0) (?s (sample_refunded 30 None) [] [?c] 0)"
    using refund_step.Won [of ?c "?s sample_prepaid [?c] [] 0" 50] sample_refund_steps(2) by simp
  moreover have "refund_step 1 (?s (sample_refunded 30 None) [] [?c] 0) (?s (sample_refunded 30 None) [?d] [?c] 0)"
    using refund_step.Read [of "?s (sample_refunded 30 None) [] [?c] 0" 1] sample_refund_steps(3) by simp
  moreover have "refund_step 1 (?s (sample_refunded 30 None) [?d] [?c] 0) (?s (sample_refunded 100 (Some 60)) [] [?d, ?c] 0)"
    using refund_step.Won [of ?d "?s (sample_refunded 30 None) [?d] [?c] 0" 60] sample_refund_steps(4) by simp
  moreover have "refund_step 1 (?s (sample_refunded 100 (Some 60)) [] [?d, ?c] 0) (?s (sample_refunded 100 (Some 60)) [] [?c] 70)"
    using refund_step.Made [of ?d "?s (sample_refunded 100 (Some 60)) [] [?d, ?c] 0" 1] \<open>pc_value ?d = 70\<close> by simp
  moreover have "refund_step 1 (?s (sample_refunded 100 (Some 60)) [] [?c] 70) (?s (sample_refunded 100 (Some 60)) [] [] 70)"
    using refund_step.Refused [of ?c "?s (sample_refunded 100 (Some 60)) [] [?c] 70" 1] sample_refund_steps(5) by simp
  ultimately show ?thesis by (meson converse_rtranclp_into_rtranclp rtranclp.rtrancl_refl)
qed

lemma refunds_within_payment_witness:
  "\<exists>a'. appointmentById (sample_refunded 100 (Some 60)) 1 = Some a'
    \<and> 70 \<le> amount_or_0 (ap_prepaidRefundedAmount a') \<and> amount_or_0 (ap_prepaidRefundedAmount a') \<le> 100"
proof -
  define a where "a = hd (rows (appointments sample_prepaid))"
  have a: "appointmentById sample_prepaid 1 = Some a" "ap_prepaidRefundedAmount a = None" "amount_or_0 (ap_prepaidAmount a) = 100"
    unfolding a_def by code_simp+
  have "table_ok ap_id (appointments sample_prepaid)" "whole_cents 100" by code_simp+
  from refunds_within_payment [OF this(1) a(1,2) _ _ sample_refund_run] this(2) a(3)
  show ?thesis by simp
qed


end
