(* ===== verification/Deposits.thy ===== *)
theory Deposits
  imports Refunds
begin

text \<open>
  Deposits paid online and the holds that wait for them: \<open>finalize\<close>, \<open>settleForStaff\<close>,
  \<open>releaseUnpaidHold\<close> and \<open>expireHolds\<close> of \<open>deposit-payment.service.ts\<close> (with the plugin interface
  \<open>DepositHolds\<close> of \<open>barbershop.service.ts\<close>, which those implement).

  The payment provider is outside: \<open>retrieve\<close> reads a payment intent (\<open>None\<close>: the provider did not
  answer), \<open>cancel\<close> cancels one (\<open>False\<close>: it failed). Refund requests are an output, the list of
  idempotency keys asked for; their answer never changes what the code does next. The columns that
  record the fee of the platform are left out.
\<close>

section \<open>Operations\<close>

record pay_intent =
  pi_id :: string
  pi_status :: string
  pi_appointmentId :: "int option"

definition refund_key :: "pay_intent \<Rightarrow> string" where
  "refund_key intent = ''deposit-refund-'' @ pi_id intent"

definition intent_of :: "pay_intent \<Rightarrow> appointment \<Rightarrow> bool" where
  "intent_of intent a \<longleftrightarrow> ap_depositPaymentIntentId a = Some (pi_id intent) \<or> pi_appointmentId intent = Some (ap_id a)"

definition confirm_paid :: "int \<Rightarrow> pay_intent \<Rightarrow> appointment \<Rightarrow> appointment" where
  "confirm_paid now intent a = a\<lparr>ap_status := ''CONFIRMED'', ap_depositPaid := True, ap_depositPaidAt := Some now,
     ap_depositPaymentIntentId := Some (pi_id intent), ap_holdExpiresAt := None\<rparr>"

definition mark_returned :: "int \<Rightarrow> pay_intent \<Rightarrow> appointment \<Rightarrow> appointment" where
  "mark_returned now intent a = a\<lparr>ap_depositPaymentIntentId := Some (pi_id intent), ap_depositRefundedAt := Some now\<rparr>"

definition finalize :: "int \<Rightarrow> pay_intent \<Rightarrow> 'a agenda_db_scheme \<Rightarrow> string \<times> string list \<times> 'a agenda_db_scheme" where
  "finalize now intent db = (
     if pi_status intent \<noteq> ''succeeded'' then (''PENDING_PAYMENT'', [], db)
     else (case find_first (intent_of intent) (appointments db) of
         None \<Rightarrow> (''NOT_FOUND'', [refund_key intent], db)
       | Some appt \<Rightarrow> (let
           waiting = (\<lambda>a. ap_id a = ap_id appt \<and> ap_status a = ''PENDING_PAYMENT'');
           notReturned = (\<lambda>a. ap_id a = ap_id appt \<and> ap_depositRefundedAt a = None)
         in if count_where waiting (appointments db) = 1 then
              (''CONFIRMED'', [], db\<lparr>appointments := update_many waiting (confirm_paid now intent) (appointments db)\<rparr>)
            else if ap_status appt = ''CANCELLED'' \<and> \<not> ap_depositPaid appt then
              (if count_where notReturned (appointments db) = 1 then
                 (''REFUNDED'', [refund_key intent],
                  db\<lparr>appointments := update_many notReturned (mark_returned now intent) (appointments db)\<rparr>)
               else (''REFUNDED'', [], db))
            else if ap_depositPaymentIntentId appt = Some (pi_id intent)
                \<and> (ap_depositPaid appt \<or> ap_depositRefundedAt appt \<noteq> None) then (ap_status appt, [], db)
            else (''REFUNDED'', [refund_key intent], db))))"

definition DEPOSIT_CHECK_FAILED_MESSAGE :: string where
  "DEPOSIT_CHECK_FAILED_MESSAGE = ''Nao foi possivel conferir o sinal deste horario no Stripe agora. Tente de novo em instantes.''"

text \<open>\<open>settleForStaff\<close>: \<open>paid\<close>, \<open>released\<close> or \<open>none\<close>; refused when the provider does not answer.\<close>

definition settleForStaff :: "(string \<Rightarrow> pay_intent option) \<Rightarrow> (string \<Rightarrow> bool) \<Rightarrow> int \<Rightarrow> int
    \<Rightarrow> 'a agenda_db_scheme \<Rightarrow> string result \<times> string list \<times> 'a agenda_db_scheme" where
  "settleForStaff retrieve cancel now appointmentId db = (case appointmentById db appointmentId of
       None \<Rightarrow> (Inr ''none'', [], db)
     | Some appt \<Rightarrow>
         if ap_status appt \<noteq> ''PENDING_PAYMENT'' then (Inr ''none'', [], db)
         else (case payment_intent (ap_depositPaymentIntentId appt) of
             None \<Rightarrow> (Inr ''none'', [], db)
           | Some i \<Rightarrow> (case retrieve i of
               None \<Rightarrow> (Inl (BadRequest DEPOSIT_CHECK_FAILED_MESSAGE), [], db)
             | Some intent \<Rightarrow>
                 if pi_status intent = ''succeeded'' then (case finalize now intent db of
                   (status, calls, db1) \<Rightarrow> (Inr (if status = ''CONFIRMED'' then ''paid'' else ''released''), calls, db1))
                 else if pi_status intent \<noteq> ''canceled'' \<and> \<not> cancel (pi_id intent) then
                   (Inl (BadRequest DEPOSIT_CHECK_FAILED_MESSAGE), [], db)
                 else (Inr ''released'', [], db))))"

definition drop_hold :: "appointment \<Rightarrow> appointment" where
  "drop_hold a = a\<lparr>ap_status := ''CANCELLED'', ap_holdExpiresAt := None\<rparr>"

definition release_hold :: "int \<Rightarrow> 'a agenda_db_scheme \<Rightarrow> bool \<times> 'a agenda_db_scheme" where
  "release_hold appointmentId db = (let waiting = (\<lambda>a. ap_id a = appointmentId \<and> ap_status a = ''PENDING_PAYMENT'')
     in (count_where waiting (appointments db) = 1,
         db\<lparr>appointments := update_many waiting drop_hold (appointments db)\<rparr>))"

definition releaseUnpaidHold :: "(string \<Rightarrow> pay_intent option) \<Rightarrow> int \<Rightarrow> int \<Rightarrow> 'a agenda_db_scheme
    \<Rightarrow> bool \<times> string list \<times> 'a agenda_db_scheme" where
  "releaseUnpaidHold retrieve now appointmentId db = (case appointmentById db appointmentId of
       None \<Rightarrow> (False, [], db)
     | Some appt \<Rightarrow>
         if ap_status appt \<noteq> ''PENDING_PAYMENT'' then (False, [], db)
         else (case payment_intent (ap_depositPaymentIntentId appt) of
             None \<Rightarrow> (case release_hold appointmentId db of (ok, db1) \<Rightarrow> (ok, [], db1))
           | Some i \<Rightarrow> (case retrieve i of
               None \<Rightarrow> (False, [], db)
             | Some intent \<Rightarrow>
                 if pi_status intent = ''succeeded'' then (case finalize now intent db of
                   (_, calls, db1) \<Rightarrow> (False, calls, db1))
                 else (case release_hold appointmentId db of (ok, db1) \<Rightarrow> (ok, [], db1)))))"

definition overdue :: "int \<Rightarrow> appointment \<Rightarrow> bool" where
  "overdue now a \<longleftrightarrow> ap_status a = ''PENDING_PAYMENT'' \<and> (case ap_holdExpiresAt a of None \<Rightarrow> False | Some t \<Rightarrow> t < now)"

definition expire_one :: "(string \<Rightarrow> pay_intent option) \<Rightarrow> int \<Rightarrow> appointment
    \<Rightarrow> int \<times> string list \<times> 'a agenda_db_scheme \<Rightarrow> int \<times> string list \<times> 'a agenda_db_scheme" where
  "expire_one retrieve now appt st = (case st of (released, calls, db) \<Rightarrow>
     (case releaseUnpaidHold retrieve now (ap_id appt) db of
        (ok, asked, db1) \<Rightarrow> (if ok then released + 1 else released, calls @ asked, db1)))"

definition expireHolds :: "(string \<Rightarrow> pay_intent option) \<Rightarrow> int \<Rightarrow> 'a agenda_db_scheme
    \<Rightarrow> int \<times> string list \<times> 'a agenda_db_scheme" where
  "expireHolds retrieve now db = fold (expire_one retrieve now)
     (take 200 (find_many (overdue now) (appointments db))) (0, [], db)"

section \<open>A payment is applied once\<close>

lemma find_first_update_only:
  assumes "find_first p t = Some x" and "q x" and "\<And>y. y \<in> set (rows t) \<Longrightarrow> q y \<Longrightarrow> y = x" and "p (f x)"
  shows "find_first p (update_many q f t) = Some (f x)"
proof -
  have "find p xs = Some x \<Longrightarrow> (\<And>y. y \<in> set xs \<Longrightarrow> q y \<Longrightarrow> y = x)
      \<Longrightarrow> find p (map (\<lambda>r. if q r then f r else r) xs) = Some (f x)" for xs
  proof (induction xs)
    case (Cons y ys)
    show ?case
    proof (cases "p y")
      case True
      with Cons.prems(1) have "y = x" by simp
      then show ?thesis using assms(2,4) by simp
    next
      case False
      with Cons.prems have "y \<noteq> x" using find_Some_iff [of p ys x] by auto
      with Cons.prems(2) [of y] have "\<not> q y" by auto
      with False show ?thesis using Cons by simp
    qed
  qed simp
  with assms(1,3) show ?thesis by (simp add: find_first_def)
qed

lemma one_row:
  assumes "table_ok ap_id (appointments db)" and "x \<in> set (rows (appointments db))"
  shows "count_where (\<lambda>a. ap_id a = ap_id x \<and> p a) (appointments db) = (if p x then 1 else 0)"
proof -
  have same: "a = x" if "a \<in> set (rows (appointments db))" "ap_id a = ap_id x" for a
    using appointment_tab.key_inj [OF assms(1) that(1) assms(2) that(2)] .
  show ?thesis
  proof (cases "p x")
    case True
    have "count_where (\<lambda>a. ap_id a = ap_id x \<and> p a) (appointments db) \<noteq> 0"
      unfolding count_where_zero using assms(2) True by blast
    moreover note appointment_tab.count_by_key_le [OF assms(1), of "ap_id x" p]
      count_where_nonneg [of "\<lambda>a. ap_id a = ap_id x \<and> p a" "appointments db"]
    ultimately have "count_where (\<lambda>a. ap_id a = ap_id x \<and> p a) (appointments db) = 1" by linarith
    with True show ?thesis by simp
  next
    case False
    then have "count_where (\<lambda>a. ap_id a = ap_id x \<and> p a) (appointments db) = 0"
      unfolding count_where_zero using same by blast
    with False show ?thesis by simp
  qed
qed

lemma finalize_found:
  assumes "table_ok ap_id (appointments db)" and "find_first (intent_of intent) (appointments db) = Some x"
    and "pi_status intent = ''succeeded''"
  shows "finalize now intent db = (
    if ap_status x = ''PENDING_PAYMENT'' then
      (''CONFIRMED'', [], db\<lparr>appointments := update_many (\<lambda>a. ap_id a = ap_id x \<and> ap_status a = ''PENDING_PAYMENT'')
         (confirm_paid now intent) (appointments db)\<rparr>)
    else if ap_status x = ''CANCELLED'' \<and> \<not> ap_depositPaid x then
      (if ap_depositRefundedAt x = None then
         (''REFUNDED'', [refund_key intent], db\<lparr>appointments :=
            update_many (\<lambda>a. ap_id a = ap_id x \<and> ap_depositRefundedAt a = None) (mark_returned now intent) (appointments db)\<rparr>)
       else (''REFUNDED'', [], db))
    else if ap_depositPaymentIntentId x = Some (pi_id intent) \<and> (ap_depositPaid x \<or> ap_depositRefundedAt x \<noteq> None)
      then (ap_status x, [], db)
    else (''REFUNDED'', [refund_key intent], db))"
proof -
  have "x \<in> set (rows (appointments db))" using find_first_Some [OF assms(2)] by simp
  note one = one_row [OF assms(1) this, of "\<lambda>a. ap_status a = ''PENDING_PAYMENT''"]
    one_row [OF assms(1) this, of "\<lambda>a. ap_depositRefundedAt a = None"]
  show ?thesis unfolding finalize_def assms(2) Let_def option.simps(5) one
    by (cases "ap_status x = ''PENDING_PAYMENT''"; cases "ap_depositRefundedAt x = None")
      (simp_all only: assms(3) if_True if_False simp_thms zero_neq_one)
qed

lemma confirm_paid_simps [simp]:
  "ap_id (confirm_paid now intent a) = ap_id a" "ap_depositPaid (confirm_paid now intent a)"
  "ap_depositPaymentIntentId (confirm_paid now intent a) = Some (pi_id intent)"
  "ap_status (confirm_paid now intent a) = ''CONFIRMED''"
  "ap_id (mark_returned now intent a) = ap_id a" "ap_depositRefundedAt (mark_returned now intent a) = Some now"
  "ap_status (mark_returned now intent a) = ap_status a" "ap_depositPaid (mark_returned now intent a) = ap_depositPaid a"
  "ap_depositPaymentIntentId (mark_returned now intent a) = Some (pi_id intent)"
  by (simp_all add: confirm_paid_def mark_returned_def)

text \<open>What the first call leaves: the same appointment is found again, and what it does then.\<close>

lemma finalize_twice:
  assumes ok: "table_ok ap_id (appointments db)" and paid: "pi_status intent = ''succeeded''"
    and first: "finalize now intent db = (s, calls, db')"
  shows "\<exists>s' calls'. (\<forall>later. finalize later intent db' = (s', calls', db')) \<and> set (calls @ calls') \<subseteq> {refund_key intent}
    \<and> (calls = [] \<longrightarrow> (\<exists>a \<in> set (rows (appointments db')). intent_of intent a
         \<and> (ap_depositPaid a \<or> ap_depositRefundedAt a \<noteq> None)))
    \<and> ((\<exists>a. find_first (intent_of intent) (appointments db) = Some a \<and> ap_status a = ''CANCELLED''
         \<and> \<not> ap_depositPaid a \<and> ap_depositRefundedAt a = None) \<longrightarrow> calls = [refund_key intent] \<and> calls' = [])"
proof (cases "find_first (intent_of intent) (appointments db)")
  case None
  with first paid show ?thesis by (auto simp: finalize_def)
next
  case (Some x)
  from find_first_Some [OF this] have x: "x \<in> set (rows (appointments db))" "intent_of intent x" by auto
  note found = finalize_found [OF ok Some paid, of now]
  have only: "y = x" if "y \<in> set (rows (appointments db))" "ap_id y = ap_id x" for y
    using appointment_tab.key_inj [OF ok that(1) x(1) that(2)] .
  have again: "find_first (intent_of intent) (update_many q f (appointments db)) = Some (f x)"
    if "q x" "\<And>y. q y \<Longrightarrow> ap_id y = ap_id x" "ap_depositPaymentIntentId (f x) = Some (pi_id intent)" for q f
  proof (rule find_first_update_only [where q = q and f = f, OF Some that(1)])
    show "intent_of intent (f x)" using that(3) by (simp add: intent_of_def)
  qed (use that(2) only in blast)
  show ?thesis
  proof (cases "ap_status x = ''PENDING_PAYMENT''")
    case True
    let ?q = "\<lambda>a. ap_id a = ap_id x \<and> ap_status a = ''PENDING_PAYMENT''"
    have res: "calls = []" "db' = db\<lparr>appointments := update_many ?q (confirm_paid now intent) (appointments db)\<rparr>"
      using first found True by auto
    have again': "find_first (intent_of intent) (appointments db') = Some (confirm_paid now intent x)"
      unfolding res(2) using again [of ?q "confirm_paid now intent"] True by simp
    have "table_ok ap_id (appointments db')"
      unfolding res(2) using ok by (simp add: appointment_tab.ok_update)
    from finalize_found [OF this again' paid] find_first_Some [OF again'] res(1) Some True
    show ?thesis by (auto simp: intent_of_def intro!: bexI [of _ "confirm_paid now intent x"])
  next
    case waiting: False
    show ?thesis
    proof (cases "ap_status x = ''CANCELLED'' \<and> \<not> ap_depositPaid x \<and> ap_depositRefundedAt x = None")
      case True
      let ?q = "\<lambda>a. ap_id a = ap_id x \<and> ap_depositRefundedAt a = None"
      have res: "calls = [refund_key intent]"
          "db' = db\<lparr>appointments := update_many ?q (mark_returned now intent) (appointments db)\<rparr>"
        using first found True by auto
      have again': "find_first (intent_of intent) (appointments db') = Some (mark_returned now intent x)"
        unfolding res(2) using again [of ?q "mark_returned now intent"] True by simp
      have "table_ok ap_id (appointments db')"
        unfolding res(2) using ok by (simp add: appointment_tab.ok_update)
      from finalize_found [OF this again' paid] res(1) Some True
      show ?thesis by auto
    next
      case False
      note at = finalize_found [OF ok Some paid]
      have stay: "\<exists>s0 c0. (\<forall>t. finalize t intent db = (s0, c0, db)) \<and> set c0 \<subseteq> {refund_key intent}
          \<and> (c0 = [] \<longrightarrow> ap_depositPaid x \<or> ap_depositRefundedAt x \<noteq> None)"
      proof (cases "ap_status x = ''CANCELLED'' \<and> \<not> ap_depositPaid x")
        case True
        with False have "ap_depositRefundedAt x \<noteq> None" by simp
        with True waiting show ?thesis by (simp only: at if_True if_False simp_thms) auto
      next
        case other: False
        show ?thesis
        proof (cases "ap_depositPaymentIntentId x = Some (pi_id intent) \<and> (ap_depositPaid x \<or> ap_depositRefundedAt x \<noteq> None)")
          case True
          then show ?thesis unfolding at using waiting other by auto
        next
          case False
          then show ?thesis unfolding at using waiting other by auto
        qed
      qed
      then have "db' = db" "set calls \<subseteq> {refund_key intent}"
          "calls = [] \<longrightarrow> ap_depositPaid x \<or> ap_depositRefundedAt x \<noteq> None"
          "\<forall>later. finalize later intent db = (s, calls, db)"
        using first by auto
      then show ?thesis using x Some False by auto
    qed
  qed
qed



section \<open>Every overdue hold is settled\<close>

text \<open>
  What the provider is relied on for: it answers, and the intent of an appointment carries its own id
  and the id of that appointment (the metadata the code writes when it creates it). The ids are unique
  in the table.
\<close>

definition intents_ok :: "(string \<Rightarrow> pay_intent option) \<Rightarrow> 'a agenda_db_scheme \<Rightarrow> bool" where
  "intents_ok retrieve db \<longleftrightarrow> table_ok ap_id (appointments db)
     \<and> (\<forall>a \<in> set (rows (appointments db)). \<forall>b \<in> set (rows (appointments db)).
          ap_depositPaymentIntentId a \<noteq> None \<longrightarrow> ap_depositPaymentIntentId a = ap_depositPaymentIntentId b \<longrightarrow> ap_id a = ap_id b)
     \<and> (\<forall>a \<in> set (rows (appointments db)). \<forall>i. ap_depositPaymentIntentId a = Some i \<longrightarrow>
          (\<exists>intent. retrieve i = Some intent \<and> pi_id intent = i \<and> pi_appointmentId intent = Some (ap_id a)))"

lemma settle_row:
  assumes ok: "intents_ok retrieve db"
    and g: "\<And>a. ap_id a = k \<Longrightarrow> a \<in> set (rows (appointments db)) \<Longrightarrow> ap_id (g a) = k
      \<and> ap_status (g a) \<noteq> ''PENDING_PAYMENT'' \<and> ap_depositPaymentIntentId (g a) = ap_depositPaymentIntentId a"
    and db': "db' = db\<lparr>appointments := update_many (\<lambda>a. ap_id a = k \<and> ap_status a = ''PENDING_PAYMENT'') g (appointments db)\<rparr>"
  shows "intents_ok retrieve db' \<and> (\<forall>a \<in> set (rows (appointments db')). ap_status a = ''PENDING_PAYMENT''
    \<longrightarrow> a \<in> set (rows (appointments db)) \<and> ap_id a \<noteq> k)"
proof -
  have src: "\<exists>b \<in> set (rows (appointments db)). ap_id a = ap_id b \<and> ap_depositPaymentIntentId a = ap_depositPaymentIntentId b
      \<and> (ap_status a = ''PENDING_PAYMENT'' \<longrightarrow> a = b \<and> ap_id a \<noteq> k)"
    if "a \<in> set (rows (appointments db'))" for a
    using that g by (auto simp: db' split: if_splits)
  have "table_ok ap_id (appointments db')"
    unfolding db' using ok g by (auto simp: intents_ok_def intro!: appointment_tab.ok_update)
  moreover have "ap_id a = ap_id b" if "a \<in> set (rows (appointments db'))" "b \<in> set (rows (appointments db'))"
    "ap_depositPaymentIntentId a \<noteq> None" "ap_depositPaymentIntentId a = ap_depositPaymentIntentId b" for a b
    using src [OF that(1)] src [OF that(2)] that(3,4) ok unfolding intents_ok_def by metis
  moreover have "\<exists>intent. retrieve i = Some intent \<and> pi_id intent = i \<and> pi_appointmentId intent = Some (ap_id a)"
    if "a \<in> set (rows (appointments db'))" "ap_depositPaymentIntentId a = Some i" for a i
    using src [OF that(1)] that(2) ok unfolding intents_ok_def by metis
  ultimately show ?thesis using src unfolding intents_ok_def by blast
qed

lemma release_effect:
  assumes ok: "intents_ok retrieve db" and run: "releaseUnpaidHold retrieve now k db = (b, calls, db')"
  shows "intents_ok retrieve db' \<and> (\<forall>a \<in> set (rows (appointments db')). ap_status a = ''PENDING_PAYMENT''
    \<longrightarrow> a \<in> set (rows (appointments db)) \<and> ap_id a \<noteq> k)"
proof (cases "appointmentById db k")
  case None
  then have "db' = db" using run by (simp add: releaseUnpaidHold_def)
  with None ok show ?thesis by (auto simp: appointmentById_def find_first_None)
next
  case (Some x)
  from find_first_Some [OF this [unfolded appointmentById_def]]
  have x: "x \<in> set (rows (appointments db))" "ap_id x = k" by auto
  have tab: "table_ok ap_id (appointments db)" using ok by (simp add: intents_ok_def)
  have only: "a = x" if "a \<in> set (rows (appointments db))" "ap_id a = k" for a
    using appointment_tab.key_inj [OF tab that(1) x(1)] that(2) x(2) by simp
  note set_row = settle_row [OF ok]
  show ?thesis
  proof (cases "ap_status x = ''PENDING_PAYMENT''")
    case False
    then have "db' = db" using run Some by (simp add: releaseUnpaidHold_def)
    with False ok only show ?thesis by auto
  next
    case True
    have drop: "db' = db\<lparr>appointments := update_many (\<lambda>a. ap_id a = k \<and> ap_status a = ''PENDING_PAYMENT'') drop_hold (appointments db)\<rparr>
        \<Longrightarrow> ?thesis"
      by (rule set_row [of k drop_hold]) (simp_all add: drop_hold_def)
    show ?thesis
    proof (cases "payment_intent (ap_depositPaymentIntentId x)")
      case None
      then show ?thesis
        using run Some True by (intro drop) (auto simp: releaseUnpaidHold_def release_hold_def Let_def)
    next
      case (Some i)
      then have i: "ap_depositPaymentIntentId x = Some i" by (auto simp: payment_intent_def split: if_splits)
      then obtain intent where intent: "retrieve i = Some intent" "pi_id intent = i" "pi_appointmentId intent = Some k"
        using ok x unfolding intents_ok_def by blast
      show ?thesis
      proof (cases "pi_status intent = ''succeeded''")
        case False
        then show ?thesis
          using run \<open>appointmentById db k = Some x\<close> True Some intent(1)
          by (intro drop) (auto simp: releaseUnpaidHold_def release_hold_def Let_def)
      next
        case paid: True
        have "intent_of intent a \<longleftrightarrow> a = x" if "a \<in> set (rows (appointments db))" for a
          using that ok x i only intent(2,3) unfolding intents_ok_def intent_of_def by (metis option.distinct(1) option.inject)
        then have "find_first (intent_of intent) (appointments db) = Some x"
          using x(1) find_first_Some [of "intent_of intent" "appointments db"]
            find_first_None [of "intent_of intent" "appointments db"]
          by (cases "find_first (intent_of intent) (appointments db)") auto
        from finalize_found [OF tab this paid, of now] True x(2)
        have "finalize now intent db = (''CONFIRMED'', [], db\<lparr>appointments :=
            update_many (\<lambda>a. ap_id a = k \<and> ap_status a = ''PENDING_PAYMENT'') (confirm_paid now intent) (appointments db)\<rparr>)"
          by simp
        then have "db' = db\<lparr>appointments :=
            update_many (\<lambda>a. ap_id a = k \<and> ap_status a = ''PENDING_PAYMENT'') (confirm_paid now intent) (appointments db)\<rparr>"
          using run \<open>appointmentById db k = Some x\<close> True Some intent(1) paid by (simp add: releaseUnpaidHold_def)
        then show ?thesis
          by (rule set_row [of k "confirm_paid now intent", rotated]) (use only i intent(2) in auto)
      qed
    qed
  qed
qed

lemma expire_fold:
  assumes "intents_ok retrieve db" and "fold (expire_one retrieve now) xs (n, calls, db) = (m, calls', db')"
    and "a \<in> set (rows (appointments db'))" and "ap_status a = ''PENDING_PAYMENT''"
  shows "a \<in> set (rows (appointments db)) \<and> ap_id a \<notin> ap_id ` set xs"
  using assms
proof (induction xs arbitrary: n calls db)
  case (Cons x xs)
  obtain b asked db1 where one: "releaseUnpaidHold retrieve now (ap_id x) db = (b, asked, db1)" by (metis prod_cases3)
  note effect = release_effect [OF Cons.prems(1) one]
  have "expire_one retrieve now x (n, calls, db) = (if b then n + 1 else n, calls @ asked, db1)"
    by (simp add: expire_one_def one)
  then have "fold (expire_one retrieve now) xs (if b then n + 1 else n, calls @ asked, db1) = (m, calls', db')"
    using Cons.prems(2) by simp
  from Cons.IH [OF _ this Cons.prems(3,4)] effect Cons.prems(4) show ?case by auto
qed simp


section \<open>The properties at concrete inputs\<close>

text \<open>
  Three holds past their deadline: the payment of the first succeeded, that of the second is open, and
  the third has none. The fourth appointment was released before its payment arrived.
\<close>

definition sample_hold :: "int \<Rightarrow> string \<Rightarrow> string option \<Rightarrow> appointment" where
  "sample_hold i status intent = (sample_visit i (1000 * i) status)\<lparr>ap_depositAmount := Some 20,
     ap_depositPaymentIntentId := intent, ap_holdExpiresAt := Some 100\<rparr>"

definition sample_holds :: solo_db where
  "sample_holds = sample_solo\<lparr>appointments := \<lparr>rows = [sample_hold 1 ''PENDING_PAYMENT'' (Some ''pi_1''),
     sample_hold 2 ''PENDING_PAYMENT'' (Some ''pi_2''), sample_hold 3 ''PENDING_PAYMENT'' None,
     sample_hold 4 ''CANCELLED'' (Some ''pi_4'')], seq = 5\<rparr>\<rparr>"

definition sample_intent :: "string \<Rightarrow> pay_intent option" where
  "sample_intent i = (if i = ''pi_1'' then Some \<lparr>pi_id = i, pi_status = ''succeeded'', pi_appointmentId = Some 1\<rparr>
     else if i = ''pi_2'' then Some \<lparr>pi_id = i, pi_status = ''requires_payment_method'', pi_appointmentId = Some 2\<rparr>
     else if i = ''pi_4'' then Some \<lparr>pi_id = i, pi_status = ''succeeded'', pi_appointmentId = Some 4\<rparr> else None)"

lemma sample_intents_ok: "intents_ok sample_intent sample_holds"
proof -
  have "table_ok ap_id (appointments sample_holds)" by code_simp
  moreover have "rows (appointments sample_holds) = [sample_hold 1 ''PENDING_PAYMENT'' (Some ''pi_1''),
     sample_hold 2 ''PENDING_PAYMENT'' (Some ''pi_2''), sample_hold 3 ''PENDING_PAYMENT'' None,
     sample_hold 4 ''CANCELLED'' (Some ''pi_4'')]" by (simp add: sample_holds_def)
  ultimately show ?thesis
    by (simp add: intents_ok_def sample_hold_def sample_visit_def sample_intent_def)
qed

lemma sample_paid_intent: "pi_status (the (sample_intent ''pi_1'')) = ''succeeded''" "pi_status (the (sample_intent ''pi_4'')) = ''succeeded''"
  by (simp_all add: sample_intent_def)




end
