(* ===== verification/Booking.thy ===== *)
theory Booking
  imports Deposits
begin

text \<open>
  The agenda as the team changes it (\<open>barbershop.service.ts\<close>): creating, changing and cancelling an
  appointment, the deposit received by hand, and the fee of a missed or late cancelled appointment.

  Operations answer with a result and the state they leave, since some of them change the state before
  a later check refuses (the Pro months released by the quota check, a hold settled with the payment
  provider). The transaction of \<open>createAppointment\<close> and \<open>updateAppointment\<close> runs under \<open>lockSchedule\<close>;
  the model runs it in one step, and \<open>lock_covers_conflicts\<close> shows that two bookings that could
  collide hold a common lock. E-mails, the waiting list and the tables of series are left out.
\<close>

section \<open>Results with a state\<close>

definition and_then :: "'a result \<times> 's \<Rightarrow> ('a \<Rightarrow> 's \<Rightarrow> 'b result \<times> 's) \<Rightarrow> 'b result \<times> 's" where
  "and_then r f = (case r of (Inl e, s) \<Rightarrow> (Inl e, s) | (Inr x, s) \<Rightarrow> f x s)"

lemma and_then_simps [simp]:
  "and_then (Inl e, s) f = (Inl e, s)" "and_then (Inr x, s) f = f x s"
  by (simp_all add: and_then_def)

lemma and_thenE:
  assumes "and_then r f = (a, t)"
  obtains (stop) e where "r = (Inl e, t)" "a = Inl e" | (go) x s where "r = (Inr x, s)" "f x s = (a, t)"
  using assms by (auto simp: and_then_def split: prod.splits sum.splits)

section \<open>Creating an appointment\<close>

record line_input =
  li_serviceId :: int
  li_quantity :: "int option"
  li_unitPrice :: rat

record appointment_input =
  ai_customerId :: int
  ai_barberId :: int
  ai_resourceId :: "int option"
  ai_startAt :: "int option"
  ai_endAt :: "int option"
  ai_status :: "string option"
  ai_notes :: "string option"
  ai_source :: "string option"
  ai_depositAmount :: "rat option"
  ai_depositPaid :: bool
  ai_depositPaymentMethod :: "string option"
  ai_services :: "line_input list"

text \<open>The locks of a booking: of the person (or of the link, without an account), and of the room.\<close>

definition lockSchedule :: "'a staff_db_scheme \<Rightarrow> int \<Rightarrow> int option \<Rightarrow> (int \<times> int) list" where
  "lockSchedule db barberId resourceId =
     (case Option.bind (barberById db barberId) bb_userId of
        Some u \<Rightarrow> if u \<noteq> 0 then (3, u) else (1, barberId)
      | None \<Rightarrow> (1, barberId))
     # (if truthy resourceId then [(2, the resourceId)] else [])"

definition create_times :: "appointment_input \<Rightarrow> (int \<times> int \<times> string option) result" where
  "create_times d = (case (ai_startAt d, ai_endAt d) of
       (Some s, Some e) \<Rightarrow> bindE (limitedCatalogText (ai_notes d)) (\<lambda>notes.
         if e \<le> s then Inl (BadRequest ''O fim tem que ser depois do inicio'') else Inr (s, e, notes))
     | _ \<Rightarrow> Inl (BadRequest ''Horario invalido''))"

definition line_quantity :: "line_input \<Rightarrow> int" where
  "line_quantity l = (case li_quantity l of None \<Rightarrow> 1 | Some q \<Rightarrow> q)"

fun check_lines :: "string \<Rightarrow> line_input list \<Rightarrow> unit result" where
  "check_lines currency [] = Inr ()"
| "check_lines currency (l # ls) =
     bindE (checkMoney ''Preco do servico'' (Some (li_unitPrice l)) (Some currency)) (\<lambda>_.
     if line_quantity l < 1 \<or> line_quantity l > 1000 then Inl (BadRequest ''Quantidade invalida'')
     else check_lines currency ls)"

definition resolved_deposit :: "'a agenda_db_scheme \<Rightarrow> appointment_input \<Rightarrow> rat option" where
  "resolved_deposit db d = (case ai_depositAmount d of
       Some x \<Rightarrow> Some x
     | None \<Rightarrow> (case ai_services d of
         [] \<Rightarrow> None
       | l # _ \<Rightarrow> Option.bind (find_first (\<lambda>s. sv_id s = li_serviceId l) (services db)) sv_depositAmount))"

definition lines_total :: "line_input list \<Rightarrow> rat" where
  "lines_total ls = sum_list (map (\<lambda>l. li_unitPrice l * of_int (line_quantity l)) ls)"

definition APPOINTMENT_DEPOSIT_MESSAGE :: string where
  "APPOINTMENT_DEPOSIT_MESSAGE = ''O sinal nao pode ser maior que o preco dos servicos do horario.''"

text \<open>The checks between the quota and the receipt of the deposit; the answer is the deposit to write.\<close>

definition create_checks :: "'a shop_db_scheme \<Rightarrow> int \<Rightarrow> shop_access \<Rightarrow> int \<Rightarrow> appointment_input \<Rightarrow> (rat option) result" where
  "create_checks db userId shop barbershopId d = (let
       own = ownBarberIdIfBarber db userId shop;
       currency = bs_currency (sa_shop shop);
       deposit = resolved_deposit db d
     in bindE (throwIf (own \<noteq> None \<and> Some (ai_barberId d) \<noteq> own)
          (Forbidden ''Seu cargo so permite agendar na sua propria agenda.'')) (\<lambda>_.
     bindE (ensureCustomerOfNetwork db (bs_networkId (sa_shop shop)) (ai_customerId d)) (\<lambda>_.
     bindE (ensureBarberOfBarbershop db barbershopId (ai_barberId d) True) (\<lambda>_.
     bindE (if truthy (ai_resourceId d) then ensureResourceOfBarbershop db barbershopId (the (ai_resourceId d)) False
            else Inr ()) (\<lambda>_.
     bindE (ensureItemsOfBarbershop db barbershopId (map li_serviceId (ai_services d)) [] True) (\<lambda>_.
     bindE (check_lines currency (ai_services d)) (\<lambda>_.
     bindE (checkMoney ''Sinal'' (ai_depositAmount d) (Some currency)) (\<lambda>_.
     bindE (throwIf (case deposit of None \<Rightarrow> False | Some x \<Rightarrow> x > lines_total (ai_services d) + 1 / 200)
          (BadRequest APPOINTMENT_DEPOSIT_MESSAGE)) (\<lambda>_. Inr deposit)))))))))"

record receipt =
  rc_method :: string
  rc_receivedAt :: int
  rc_receivedBy :: int
  rc_cashSessionId :: "int option"

definition DEPOSIT_RECEPTION_MESSAGE :: string where
  "DEPOSIT_RECEPTION_MESSAGE = ''O sinal recebido a mao e marcado pela recepcao para cima.''"

definition DEPOSIT_METHOD_MESSAGE :: string where
  "DEPOSIT_METHOD_MESSAGE = ''Informe a forma em que o sinal foi recebido.''"

definition DEPOSIT_CASH_CLOSED_MESSAGE :: string where
  "DEPOSIT_CASH_CLOSED_MESSAGE = ''Esse sinal entrou num caixa que ja foi fechado e nao pode mais ser desmarcado.''"

definition openSession :: "'a shop_db_scheme \<Rightarrow> int \<Rightarrow> cash_session option" where
  "openSession db barbershopId =
     find_first (\<lambda>s. cs_barbershopId s = barbershopId \<and> cs_status s = ''OPEN'') (cashSessions db)"

definition manualDepositReceipt :: "'a shop_db_scheme \<Rightarrow> int \<Rightarrow> int \<Rightarrow> shop_access \<Rightarrow> string option \<Rightarrow> receipt result" where
  "manualDepositReceipt db now userId shop method' =
     (if ACCESS_RANK (sa_accessLevel shop) < ACCESS_RANK Reception then Inl (Forbidden DEPOSIT_RECEPTION_MESSAGE)
      else (case method' of
          None \<Rightarrow> Inl (BadRequest DEPOSIT_METHOD_MESSAGE)
        | Some m \<Rightarrow>
            if m \<notin> set SALE_PAYMENT_METHODS then Inl (BadRequest DEPOSIT_METHOD_MESSAGE)
            else Inr \<lparr>rc_method = m, rc_receivedAt = now, rc_receivedBy = userId,
              rc_cashSessionId = (if m = ''CASH'' then map_option cs_id (openSession db (bs_id (sa_shop shop))) else None)\<rparr>))"

definition new_appointment :: "int \<Rightarrow> int \<Rightarrow> int \<Rightarrow> appointment_input \<Rightarrow> int \<times> int \<times> string option
    \<Rightarrow> rat option \<Rightarrow> receipt option \<Rightarrow> appointment" where
  "new_appointment i userId barbershopId d slot deposit received = (case slot of (s, e, notes) \<Rightarrow>
     \<lparr>ap_id = i, ap_barbershopId = barbershopId, ap_customerId = ai_customerId d, ap_barberId = ai_barberId d,
      ap_resourceId = ai_resourceId d, ap_startAt = s, ap_endAt = e,
      ap_status = or_else (ai_status d) ''CONFIRMED'', ap_notes = notes, ap_source = or_else (ai_source d) ''PHONE'',
      ap_createdByUserId = Some userId, ap_depositAmount = deposit, ap_depositPaid = ai_depositPaid d,
      ap_depositPaidAt = None, ap_depositRefundedAt = None, ap_depositManualMethod = map_option rc_method received,
      ap_depositReceivedAt = map_option rc_receivedAt received,
      ap_depositReceivedByUserId = map_option rc_receivedBy received,
      ap_depositCashSessionId = Option.bind received rc_cashSessionId, ap_depositPaymentIntentId = None,
      ap_prepaidAmount = None, ap_prepaidAt = None, ap_prepaidPaymentIntentId = None, ap_prepaidRefundedAt = None,
      ap_prepaidRefundedAmount = None, ap_holdExpiresAt = None, ap_reminderSentAt = None, ap_contactEmail = None,
      ap_linkVersion = 0,
      ap_services = map (\<lambda>l. \<lparr>sl_serviceId = li_serviceId l, sl_quantity = line_quantity l,
        sl_unitPrice = li_unitPrice l\<rparr>) (ai_services d)\<rparr>)"

text \<open>The checks of a slot, made under the lock; a room only when one is given.\<close>

definition slot_free :: "'a agenda_db_scheme \<Rightarrow> int \<Rightarrow> int \<Rightarrow> int option \<Rightarrow> int \<Rightarrow> int \<Rightarrow> int option \<Rightarrow> unit result" where
  "slot_free db barbershopId barberId resourceId startAt endAt exclude =
     bindE (ensureBarberAvailable db barbershopId barberId startAt endAt exclude) (\<lambda>_.
     if truthy resourceId then ensureResourceAvailable db barbershopId (the resourceId) startAt endAt exclude
     else Inr ())"

definition book :: "'a agenda_db_scheme \<Rightarrow> int \<Rightarrow> int \<Rightarrow> appointment_input \<Rightarrow> int \<times> int \<times> string option
    \<Rightarrow> rat option \<Rightarrow> receipt option \<Rightarrow> int result \<times> 'a agenda_db_scheme" where
  "book db userId barbershopId d slot deposit received =
     (case slot_free db barbershopId (ai_barberId d) (ai_resourceId d) (fst slot) (fst (snd slot)) None of
        Inl e \<Rightarrow> (Inl e, db)
      | Inr _ \<Rightarrow> (Inr (seq (appointments db)), db\<lparr>appointments := create_row
          (\<lambda>i. new_appointment i userId barbershopId d slot deposit received) (appointments db)\<rparr>))"

text \<open>Everything that can refuse the booking before the transaction.\<close>

definition create_request :: "intl \<Rightarrow> 'a shop_db_scheme \<Rightarrow> int \<Rightarrow> int \<Rightarrow> int \<Rightarrow> appointment_input
    \<Rightarrow> (shop_access \<times> (int \<times> int \<times> string option) \<times> rat option \<times> receipt option) result \<times> 'a shop_db_scheme" where
  "create_request I db now userId barbershopId d =
     and_then (create_times d, db) (\<lambda>slot db.
     and_then (ensureBarbershopAccess db now userId barbershopId Basic, db) (\<lambda>shop db.
     and_then (if ai_source d \<noteq> Some ''HISTORY'' then assertSoloBookingAllowed I db now barbershopId (fst slot)
               else (Inr (), db)) (\<lambda>_ db.
     and_then (create_checks db userId shop barbershopId d, db) (\<lambda>deposit db.
     and_then (if ai_depositPaid d
               then bindE (manualDepositReceipt db now userId shop (ai_depositPaymentMethod d)) (\<lambda>r. Inr (Some r))
               else Inr None, db) (\<lambda>received db.
       (Inr (shop, slot, deposit, received), db))))))"

definition createAppointment :: "intl \<Rightarrow> 'a shop_db_scheme \<Rightarrow> int \<Rightarrow> int \<Rightarrow> int \<Rightarrow> appointment_input
    \<Rightarrow> ((appointment \<times> customer option) option) result \<times> 'a shop_db_scheme" where
  "createAppointment I db now userId barbershopId d =
     and_then (create_request I db now userId barbershopId d) (\<lambda>(shop, slot, deposit, received) db.
     and_then (book db userId barbershopId d slot deposit received) (\<lambda>i db.
       (Inr (appointment_view db userId shop i), db)))"

section \<open>The deposit received by hand\<close>

definition mark_received :: "receipt \<Rightarrow> appointment \<Rightarrow> appointment" where
  "mark_received r x = x\<lparr>ap_depositPaid := True, ap_depositManualMethod := Some (rc_method r),
     ap_depositReceivedAt := Some (rc_receivedAt r), ap_depositReceivedByUserId := Some (rc_receivedBy r),
     ap_depositCashSessionId := rc_cashSessionId r\<rparr>"

definition unmark_received :: "appointment \<Rightarrow> appointment" where
  "unmark_received x = x\<lparr>ap_depositPaid := False, ap_depositManualMethod := None, ap_depositReceivedAt := None,
     ap_depositReceivedByUserId := None, ap_depositCashSessionId := None\<rparr>"

definition setAppointmentDepositPaid :: "'a shop_db_scheme \<Rightarrow> int \<Rightarrow> int \<Rightarrow> int \<Rightarrow> int \<Rightarrow> bool \<Rightarrow> string option
    \<Rightarrow> ('a shop_db_scheme) result" where
  "setAppointmentDepositPaid db now userId barbershopId appointmentId paid method' =
     bindE (ensureBarbershopAccess db now userId barbershopId Barber) (\<lambda>shop.
     case find_first (\<lambda>a. ap_id a = appointmentId \<and> ap_barbershopId a = barbershopId) (appointments db) of
       None \<Rightarrow> Inl (NotFound ''Agendamento nao encontrado'')
     | Some a \<Rightarrow>
     bindE (ensureOwnAppointment (ownBarberIdIfBarber db userId shop) (ap_barberId a)) (\<lambda>_.
     if ap_depositPaidAt a \<noteq> None \<or> ap_depositRefundedAt a \<noteq> None then
       Inl (BadRequest ''Sinal pago online: use Estornar sinal pra devolver ao cliente.'')
     else if paid = ap_depositPaid a then Inr db
     else if paid then
       bindE (manualDepositReceipt db now userId shop method') (\<lambda>r.
       Inr (db\<lparr>appointments := update_many (\<lambda>x. ap_id x = appointmentId) (mark_received r) (appointments db)\<rparr>))
     else if ACCESS_RANK (sa_accessLevel shop) < ACCESS_RANK Reception then Inl (Forbidden DEPOSIT_RECEPTION_MESSAGE)
     else if ap_depositCashSessionId a \<noteq> None
         \<and> map_option cs_status (find_first (\<lambda>s. Some (cs_id s) = ap_depositCashSessionId a) (cashSessions db)) \<noteq> Some ''OPEN''
       then Inl (BadRequest DEPOSIT_CASH_CLOSED_MESSAGE)
     else Inr (db\<lparr>appointments := update_many (\<lambda>x. ap_id x = appointmentId) unmark_received (appointments db)\<rparr>)))"

section \<open>The fee of a missed or late cancelled appointment\<close>

definition depositKept :: "appointment \<Rightarrow> bool" where
  "depositKept a \<longleftrightarrow> ap_depositPaid a \<and> (ap_depositPaidAt a \<noteq> None \<or> ap_depositReceivedAt a \<noteq> None)
     \<and> ap_depositRefundedAt a = None"

definition services_value :: "appointment \<Rightarrow> rat" where
  "services_value a = sum_list (map (\<lambda>s. sl_unitPrice s * of_int (sl_quantity s)) (ap_services a))"

record fee =
  fe_amount :: rat
  fe_currency :: string
  fe_reason :: string

text \<open>The fee before the deposit is taken off; a value of 0 counts as not set.\<close>

definition fee_rule :: "network \<Rightarrow> rat \<Rightarrow> rat" where
  "fee_rule n worth = (let value = amount_or_0 (nw_noShowFeeValue n) in
     min (if nw_noShowFeeType n = Some ''PERCENT'' then worth * (value / 100)
          else if nw_noShowFeeType n = Some ''FIXED'' then value else 0) worth)"

definition noShowFeeFor :: "'a staff_db_scheme \<Rightarrow> int \<Rightarrow> int \<Rightarrow> appointment \<Rightarrow> string \<Rightarrow> fee option" where
  "noShowFeeFor db now barbershopId a newStatus = (case shopById db barbershopId of
       None \<Rightarrow> None
     | Some shop \<Rightarrow> (case map_option (networkMoneyRules shop) (networkOf db shop) of
           None \<Rightarrow> None
         | Some n \<Rightarrow> (let
               noShow = (newStatus = ''NO_SHOW'');
               late = (newStatus = ''CANCELLED'' \<and> ap_startAt a - now < nw_lateCancellationWindowHours n * 3600000);
               worth = services_value a;
               currency = Some (bs_currency shop);
               retained = (if depositKept a then amount_or_0 (ap_depositAmount a) else 0);
               amount = roundMoney (roundMoney (fee_rule n worth) currency - retained) currency
             in if \<not> nw_noShowFeeEnabled n \<or> \<not> noShow \<and> \<not> late \<or> worth \<le> 0 \<or> amount \<le> 0 then None
                else Some \<lparr>fe_amount = amount, fe_currency = bs_currency shop,
                  fe_reason = (if noShow then ''NO_SHOW'' else ''LATE_CANCELLATION'')\<rparr>)))"

text \<open>The shop keeps the fee out of what was paid through the app and gives the rest back.\<close>

definition retainFeeFromPrepayment :: "provider \<Rightarrow> int \<Rightarrow> int \<Rightarrow> appointment \<Rightarrow> string \<Rightarrow> 'a solo_db_scheme
    \<Rightarrow> (rat option) result \<times> 'a solo_db_scheme" where
  "retainFeeFromPrepayment create now barbershopId a newStatus db = (case noShowFeeFor db now barbershopId a newStatus of
       None \<Rightarrow> (Inr None, db)
     | Some fee \<Rightarrow> (let
           currency = Some (fe_currency fee);
           remaining = roundMoney (amount_or_0 (ap_prepaidAmount a) - amount_or_0 (ap_prepaidRefundedAmount a)) currency;
           retained = min (fe_amount fee) remaining;
           back = roundMoney (remaining - retained) currency
         in if remaining \<le> 0 then (Inr None, db)
            else if back > 0 then and_then (refundPrepayment create now (ap_id a) (Some back) db) (\<lambda>_ db. (Inr (Some retained), db))
            else (Inr (Some retained), db)))"

definition recordNoShowFee :: "int \<Rightarrow> int \<Rightarrow> appointment \<Rightarrow> string \<Rightarrow> rat \<Rightarrow> 'a shop_db_scheme \<Rightarrow> 'a shop_db_scheme" where
  "recordNoShowFee now barbershopId a newStatus prepaidRetained db =
     (if find_first (\<lambda>f. nf_appointmentId f = ap_id a) (noShowFees db) \<noteq> None then db
      else (case noShowFeeFor db now barbershopId a newStatus of
          None \<Rightarrow> db
        | Some fee \<Rightarrow> (let due = roundMoney (fe_amount fee - prepaidRetained) (Some (fe_currency fee)) in
            if due \<le> 0 then db
            else db\<lparr>noShowFees := create_row (\<lambda>i. \<lparr>nf_id = i, nf_appointmentId = ap_id a, nf_customerId = ap_customerId a,
              nf_barbershopId = barbershopId, nf_amount = due, nf_currency = fe_currency fee,
              nf_reason = fe_reason fee, nf_status = ''PENDING'',
              nf_collectedAt = None, nf_saleId = None\<rparr>) (noShowFees db)\<rparr>)))"

section \<open>Changing an appointment\<close>

definition NO_SHOW_GRACE_MINUTES :: int where "NO_SHOW_GRACE_MINUTES = 5"
definition IN_PROGRESS_EARLY_MINUTES :: int where "IN_PROGRESS_EARLY_MINUTES = 30"

definition assertStatusFitsTime :: "string \<Rightarrow> int \<Rightarrow> int \<Rightarrow> unit result" where
  "assertStatusFitsTime status startAt now =
     (if status = ''NO_SHOW'' \<and> now < startAt + NO_SHOW_GRACE_MINUTES * 60000 then
        Inl (BadRequest ''So da para marcar falta 5 minutos depois do inicio do horario. Antes disso, cancele o horario (o cliente e avisado).'')
      else if status = ''IN_PROGRESS'' \<and> now < startAt - IN_PROGRESS_EARLY_MINUTES * 60000 then
        Inl (BadRequest ''So da para por em atendimento a partir de 30 minutos antes do inicio do horario.'')
      else if status = ''COMPLETED'' \<and> now < startAt then
        Inl (BadRequest ''So da para marcar como concluido depois do inicio do horario. Antes disso, cancele ou remarque.'')
      else Inr ())"

definition reminderCoveredByNotice :: "int \<Rightarrow> int \<Rightarrow> bool" where
  "reminderCoveredByNotice noticeAt startAt \<longleftrightarrow> startAt - noticeAt \<le> 24 * 60 * 60 * 1000"

definition reminderSentAtAfterMove :: "int \<Rightarrow> int \<Rightarrow> bool \<Rightarrow> int option" where
  "reminderSentAtAfterMove startAt now whatsapp =
     (if \<not> reminderCoveredByNotice now startAt \<or> whatsapp then None else Some now)"

definition sameShopMonth :: "intl \<Rightarrow> int \<Rightarrow> int \<Rightarrow> string option \<Rightarrow> bool" where
  "sameShopMonth I a b timeZone = (let tz = safeTimeZone I timeZone in
     take 7 (z_dateStr (toZonedParts I a tz)) = take 7 (z_dateStr (toZonedParts I b tz)))"

definition STAFF_APPOINTMENT_STATUSES :: "string list" where
  "STAFF_APPOINTMENT_STATUSES = [''DRAFT'', ''CONFIRMED'', ''IN_PROGRESS'', ''COMPLETED'', ''CANCELLED'', ''NO_SHOW'']"

record appointment_patch =
  up_customerId :: "int option"
  up_barberId :: "int option"
  up_resourceId :: "int option"
  up_startAt :: "int option"
  up_endAt :: "int option"
  up_notes :: "string option"
  up_status :: "string option"

text \<open>What the payment provider and the messaging service answer while an appointment is changed.\<close>

record providers =
  pv_retrieve :: "string \<Rightarrow> pay_intent option"
  pv_cancel :: "string \<Rightarrow> bool"
  pv_refund :: provider
  pv_whatsapp :: bool

definition TIP_REACHED_PROFESSIONAL_MESSAGE :: string where
  "TIP_REACHED_PROFESSIONAL_MESSAGE = ''A caixinha deste atendimento ja ficou com o profissional. Apague a caixinha antes de trocar o profissional.''"

definition professional_tip :: "int \<Rightarrow> tip \<Rightarrow> bool" where
  "professional_tip appointmentId t \<longleftrightarrow> tp_appointmentId t = appointmentId \<and> tp_destination t = ''professional''"

definition ensureTipsCanMove :: "'a shop_db_scheme \<Rightarrow> int \<Rightarrow> unit result" where
  "ensureTipsCanMove db appointmentId = (let
       ts = find_many (professional_tip appointmentId) (tips db);
       entryIds = List.map_filter tp_payEntryId ts;
       paid = count_where (\<lambda>e. pe_id e \<in> set entryIds \<and> pe_payoutId e \<noteq> None) (payEntries db)
     in throwIf (paid > 0 \<or> list_ex (\<lambda>t. \<not> tp_receivedByUnit t \<or> tp_method t = ''STRIPE'') ts)
       (BadRequest TIP_REACHED_PROFESSIONAL_MESSAGE))"

definition move_tips :: "int \<Rightarrow> int \<Rightarrow> 'a shop_db_scheme \<Rightarrow> 'a shop_db_scheme" where
  "move_tips appointmentId barberId db = (let
       ts = find_many (professional_tip appointmentId) (tips db);
       ids = map tp_id ts;
       entryIds = List.map_filter tp_payEntryId ts
     in db\<lparr>tips := update_many (\<lambda>t. tp_id t \<in> set ids) (\<lambda>t. t\<lparr>tp_barberId := Some barberId\<rparr>) (tips db),
       payEntries := update_many (\<lambda>e. pe_id e \<in> set entryIds \<and> pe_payoutId e = None)
         (\<lambda>e. e\<lparr>pe_barberId := barberId\<rparr>) (payEntries db)\<rparr>)"

definition CUSTOMER_LOCKED :: http_error where
  "CUSTOMER_LOCKED = BadRequest ''Nao da para trocar o cliente deste horario: ele tem venda, sinal pago online ou foi pago pelo app.''"

definition changes_to :: "'x option \<Rightarrow> 'x \<Rightarrow> bool" where
  "changes_to new old \<longleftrightarrow> new \<noteq> None \<and> new \<noteq> Some old"

text \<open>Moving only the start keeps the duration.\<close>

definition keep_duration :: "appointment \<Rightarrow> appointment_patch \<Rightarrow> appointment_patch" where
  "keep_duration a p = (case (up_startAt p, up_endAt p) of
       (Some s, None) \<Rightarrow> p\<lparr>up_endAt := Some (s + (ap_endAt a - ap_startAt a))\<rparr>
     | _ \<Rightarrow> p)"

text \<open>The checks before the quota: the appointment and the patch with its end.\<close>

definition update_checks :: "'a shop_db_scheme \<Rightarrow> int \<Rightarrow> shop_access \<Rightarrow> int \<Rightarrow> int \<Rightarrow> appointment_patch
    \<Rightarrow> (appointment \<times> appointment_patch) result" where
  "update_checks db userId shop barbershopId appointmentId p =
     (case find_first (\<lambda>a. ap_id a = appointmentId \<and> ap_barbershopId a = barbershopId) (appointments db) of
        None \<Rightarrow> Inl (NotFound ''Agendamento nao encontrado'')
      | Some a \<Rightarrow> (let
           own = ownBarberIdIfBarber db userId shop;
           customerChanged = changes_to (up_customerId p) (ap_customerId a);
           barberChanged = (truthy (up_barberId p) \<and> up_barberId p \<noteq> Some (ap_barberId a));
           q = keep_duration a p
         in bindE (ensureOwnAppointment own (ap_barberId a)) (\<lambda>_.
     bindE (throwIf (own \<noteq> None \<and> truthy (up_barberId p) \<and> up_barberId p \<noteq> own)
       (Forbidden ''Seu cargo so permite mexer na sua propria agenda.'')) (\<lambda>_.
     bindE (if truthy (up_customerId p) then ensureCustomerOfNetwork db (bs_networkId (sa_shop shop)) (the (up_customerId p))
       else Inr ()) (\<lambda>_.
     bindE (throwIf (customerChanged \<and> (ap_depositPaidAt a \<noteq> None \<or> ap_prepaidAt a \<noteq> None)) CUSTOMER_LOCKED) (\<lambda>_.
     bindE (throwIf (customerChanged \<and> saleOf db appointmentId \<noteq> None) CUSTOMER_LOCKED) (\<lambda>_.
     bindE (if barberChanged then bindE (ensureBarberOfBarbershop db barbershopId (the (up_barberId p)) True)
         (\<lambda>_. ensureTipsCanMove db appointmentId) else Inr ()) (\<lambda>_.
     bindE (if truthy (up_resourceId p) then ensureResourceOfBarbershop db barbershopId (the (up_resourceId p))
         (up_resourceId p = ap_resourceId a) else Inr ()) (\<lambda>_.
     bindE (throwIf (changes_to (up_status p) (ap_status a) \<and> the (up_status p) \<notin> set STAFF_APPOINTMENT_STATUSES)
       (BadRequest ''Situacao do agendamento invalida'')) (\<lambda>_.
     bindE (throwIf (or_else (up_endAt q) (ap_endAt a) \<le> or_else (up_startAt q) (ap_startAt a))
       (BadRequest ''O fim tem que ser depois do inicio'')) (\<lambda>_. Inr (a, q))))))))))))"

text \<open>
  A hold the team takes over is settled with the provider first. The answer: the appointment as it is
  then, and whether its hold is dropped.
\<close>

definition settle_hold :: "providers \<Rightarrow> int \<Rightarrow> appointment \<Rightarrow> appointment_patch \<Rightarrow> 'a agenda_db_scheme
    \<Rightarrow> (appointment \<times> bool) result \<times> 'a agenda_db_scheme" where
  "settle_hold P now a p db =
     (if ap_status a = ''PENDING_PAYMENT'' \<and> changes_to (up_status p) ''PENDING_PAYMENT'' then
        (case settleForStaff (pv_retrieve P) (pv_cancel P) now (ap_id a) db of
           (Inl e, _, db1) \<Rightarrow> (Inl e, db1)
         | (Inr answer, _, db1) \<Rightarrow> (Inr (if answer = ''paid'' then (case appointmentById db1 (ap_id a) of
               None \<Rightarrow> a | Some b \<Rightarrow> b) else a, True), db1))
      else (Inr (a, False), db))"

definition cancelled_now :: "appointment \<Rightarrow> appointment_patch \<Rightarrow> bool" where
  "cancelled_now a p \<longleftrightarrow> up_status p = Some ''CANCELLED'' \<and> ap_status a \<noteq> ''CANCELLED''"

text \<open>The row \<open>appointment.update\<close> writes.\<close>

definition apply_patch :: "providers \<Rightarrow> int \<Rightarrow> appointment \<Rightarrow> bool \<Rightarrow> appointment_patch \<Rightarrow> appointment \<Rightarrow> appointment" where
  "apply_patch P now a dropHold p x = x\<lparr>
     ap_customerId := or_else (up_customerId p) (ap_customerId x),
     ap_barberId := or_else (up_barberId p) (ap_barberId x),
     ap_resourceId := (if up_resourceId p = None then ap_resourceId x else up_resourceId p),
     ap_startAt := or_else (up_startAt p) (ap_startAt x),
     ap_endAt := or_else (up_endAt p) (ap_endAt x),
     ap_notes := (if up_notes p = None then ap_notes x else up_notes p),
     ap_status := or_else (up_status p) (ap_status x),
     ap_holdExpiresAt := (if dropHold then None else ap_holdExpiresAt x),
     ap_reminderSentAt := (if or_else (up_startAt p) (ap_startAt a) \<noteq> ap_startAt a
       then reminderSentAtAfterMove (or_else (up_startAt p) (ap_startAt a)) now (pv_whatsapp P) else ap_reminderSentAt x),
     ap_linkVersion := ap_linkVersion x + (if changes_to (up_customerId p) (ap_customerId a) then 2
       else if cancelled_now a p then 1 else 0),
     ap_contactEmail := (if changes_to (up_customerId p) (ap_customerId a) then None else ap_contactEmail x)\<rparr>"

text \<open>The transaction of \<open>updateAppointment\<close>: \<open>a0\<close> is the appointment the checks read, \<open>a\<close> the one after the hold.\<close>

definition rewrite :: "providers \<Rightarrow> int \<Rightarrow> int \<Rightarrow> appointment \<Rightarrow> appointment \<Rightarrow> bool \<Rightarrow> appointment_patch \<Rightarrow> 'a shop_db_scheme
    \<Rightarrow> unit result \<times> 'a shop_db_scheme" where
  "rewrite P now barbershopId a0 a dropHold p db = (let
       finalStatus = or_else (up_status p) (ap_status a);
       barberId = or_else (up_barberId p) (ap_barberId a);
       resourceId = (if up_resourceId p = None then ap_resourceId a else up_resourceId p);
       barberChanged = (truthy (up_barberId p) \<and> up_barberId p \<noteq> Some (ap_barberId a0))
     in case (if finalStatus \<notin> {''CANCELLED'', ''NO_SHOW''}
              then slot_free db barbershopId barberId resourceId (or_else (up_startAt p) (ap_startAt a))
                (or_else (up_endAt p) (ap_endAt a)) (Some (ap_id a))
              else Inr ()) of
          Inl e \<Rightarrow> (Inl e, db)
        | Inr _ \<Rightarrow> (let db1 = (if barberChanged then move_tips (ap_id a) barberId db else db)
            in (Inr (), db1\<lparr>appointments := update_many (\<lambda>x. ap_id x = ap_id a) (apply_patch P now a dropHold p)
                 (appointments db1)\<rparr>)))"

definition fee_status_change :: "appointment \<Rightarrow> appointment_patch \<Rightarrow> string option \<Rightarrow> bool" where
  "fee_status_change a p cancelledBy \<longleftrightarrow>
     (up_status p = Some ''NO_SHOW'' \<or> up_status p = Some ''CANCELLED'' \<and> cancelledBy \<noteq> Some ''business'')
     \<and> Some (ap_status a) \<noteq> up_status p"

text \<open>An error of a refund is logged and forgotten.\<close>

definition ignore_error :: "'x \<Rightarrow> 'x result \<times> 's \<Rightarrow> 'x \<times> 's" where
  "ignore_error x r = (case r of (Inl _, s) \<Rightarrow> (x, s) | (Inr y, s) \<Rightarrow> (y, s))"

text \<open>
  What follows the transaction: the fee kept out of a prepayment, the refunds of a cancellation, the
  fee recorded as due, and the pending fee removed when a cancellation or a miss is undone.
\<close>

definition keep_fee :: "providers \<Rightarrow> int \<Rightarrow> int \<Rightarrow> appointment \<Rightarrow> appointment_patch \<Rightarrow> string option
    \<Rightarrow> 'a shop_db_scheme \<Rightarrow> rat option \<times> 'a shop_db_scheme" where
  "keep_fee P now barbershopId a p cancelledBy db = (case appointmentById db (ap_id a) of
       Some updated \<Rightarrow> if fee_status_change a p cancelledBy \<and> ap_prepaidAt a \<noteq> None \<and> ap_prepaidRefundedAt a = None
         then ignore_error None (retainFeeFromPrepayment (pv_refund P) now barbershopId updated (text_of (up_status p)) db)
         else (None, db)
     | None \<Rightarrow> (None, db))"

definition give_back :: "providers \<Rightarrow> int \<Rightarrow> appointment \<Rightarrow> appointment_patch \<Rightarrow> bool \<Rightarrow> rat option
    \<Rightarrow> 'a shop_db_scheme \<Rightarrow> 'a shop_db_scheme" where
  "give_back P now a p refundDeposit retained db = (let
       db1 = (if cancelled_now a p \<and> refundDeposit \<and> ap_depositPaid a \<and> ap_depositPaidAt a \<noteq> None
         then snd (refundOnlineDeposit (pv_refund P) now (ap_id a) db) else db)
     in if cancelled_now a p \<and> ap_prepaidAt a \<noteq> None \<and> retained = None
        then snd (refundPrepayment (pv_refund P) now (ap_id a) None db1) else db1)"

definition fee_due :: "int \<Rightarrow> int \<Rightarrow> appointment \<Rightarrow> appointment_patch \<Rightarrow> string option \<Rightarrow> rat option
    \<Rightarrow> 'a shop_db_scheme \<Rightarrow> 'a shop_db_scheme" where
  "fee_due now barbershopId a p cancelledBy retained db = (case appointmentById db (ap_id a) of
       Some updated \<Rightarrow> if fee_status_change a p cancelledBy
         then recordNoShowFee now barbershopId updated (text_of (up_status p)) (amount_or_0 retained) db else db
     | None \<Rightarrow> db)"

definition fee_undone :: "appointment \<Rightarrow> appointment_patch \<Rightarrow> 'a shop_db_scheme \<Rightarrow> 'a shop_db_scheme" where
  "fee_undone a p db =
     (if ap_status a \<in> {''NO_SHOW'', ''CANCELLED''} \<and> changes_to (up_status p) (ap_status a)
         \<and> text_of (up_status p) \<notin> {''NO_SHOW'', ''CANCELLED''}
      then db\<lparr>noShowFees := delete_many (\<lambda>f. nf_appointmentId f = ap_id a \<and> nf_status f = ''PENDING'') (noShowFees db)\<rparr>
      else db)"

definition settle_money :: "providers \<Rightarrow> int \<Rightarrow> int \<Rightarrow> appointment \<Rightarrow> appointment_patch \<Rightarrow> string option \<Rightarrow> bool
    \<Rightarrow> 'a shop_db_scheme \<Rightarrow> 'a shop_db_scheme" where
  "settle_money P now barbershopId a p cancelledBy refundDeposit db = (let
       (retained, db1) = keep_fee P now barbershopId a p cancelledBy db
     in fee_undone a p (fee_due now barbershopId a p cancelledBy retained (give_back P now a p refundDeposit retained db1)))"

text \<open>Everything that can refuse the change before a hold is settled.\<close>

definition update_request :: "intl \<Rightarrow> 'a shop_db_scheme \<Rightarrow> int \<Rightarrow> int \<Rightarrow> int \<Rightarrow> int \<Rightarrow> appointment_patch \<Rightarrow> string option
    \<Rightarrow> (shop_access \<times> appointment \<times> appointment_patch) result \<times> 'a shop_db_scheme" where
  "update_request I db now userId barbershopId appointmentId patch cancelledBy =
     and_then (ensureBarbershopAccess db now userId barbershopId Basic, db) (\<lambda>shop db.
     and_then (throwIf (cancelledBy \<notin> {None, Some ''client'', Some ''business''})
       (BadRequest ''Quem cancelou: cliente ou unidade''), db) (\<lambda>_ db.
     and_then (update_checks db userId shop barbershopId appointmentId patch, db) (\<lambda>(a, p) db. let
       newStart = or_else (up_startAt p) (ap_startAt a)
     in and_then (if ap_source a \<noteq> ''HISTORY'' \<and> \<not> sameShopMonth I (ap_startAt a) newStart (Some (bs_timezone (sa_shop shop)))
         then assertSoloBookingAllowed I db now barbershopId newStart else (Inr (), db)) (\<lambda>_ db.
     and_then (if changes_to (up_status p) (ap_status a) then assertStatusFitsTime (the (up_status p)) newStart now
         else Inr (), db) (\<lambda>_ db.
     and_then (throwIf (changes_to (up_status p) (ap_status a) \<and> the (up_status p) \<in> {''CANCELLED'', ''NO_SHOW''}
         \<and> saleOf db appointmentId \<noteq> None)
         (BadRequest ''Apague ou estorne a venda antes de mudar a situacao deste horario.''), db) (\<lambda>_ db.
       (Inr (shop, a, p), db)))))))"

definition updateAppointment :: "providers \<Rightarrow> intl \<Rightarrow> 'a shop_db_scheme \<Rightarrow> int \<Rightarrow> int \<Rightarrow> int \<Rightarrow> int \<Rightarrow> appointment_patch
    \<Rightarrow> bool \<Rightarrow> string option \<Rightarrow> ((appointment \<times> customer option) option) result \<times> 'a shop_db_scheme" where
  "updateAppointment P I db now userId barbershopId appointmentId patch refundDeposit cancelledBy =
     and_then (update_request I db now userId barbershopId appointmentId patch cancelledBy) (\<lambda>(shop, a0, p) db.
     and_then (settle_hold P now a0 p db) (\<lambda>(a, dropHold) db.
     and_then (rewrite P now barbershopId a0 a dropHold p db) (\<lambda>_ db. let
       db' = settle_money P now barbershopId a p cancelledBy refundDeposit db
     in (Inr (appointment_view db' userId shop appointmentId), db'))))"

section \<open>No double booking\<close>

definition place :: "appointment \<Rightarrow> int \<times> int \<times> int \<times> int option \<times> int \<times> int" where
  "place a = (ap_id a, ap_barbershopId a, ap_barberId a, ap_resourceId a, ap_startAt a, ap_endAt a)"

lemma place_eq: "place a = place b \<longleftrightarrow> ap_id a = ap_id b \<and> ap_barbershopId a = ap_barbershopId b
    \<and> ap_barberId a = ap_barberId b \<and> ap_resourceId a = ap_resourceId b \<and> ap_startAt a = ap_startAt b \<and> ap_endAt a = ap_endAt b"
  by (simp add: place_def)

text \<open>Two appointments that hold the same person, or the same room, at the same time.\<close>

definition clash :: "'a agenda_db_scheme \<Rightarrow> appointment \<Rightarrow> appointment \<Rightarrow> bool" where
  "clash db a b \<longleftrightarrow> holds_agenda a \<and> holds_agenda b \<and> ap_id a \<noteq> ap_id b
     \<and> ap_startAt a < ap_endAt b \<and> ap_startAt b < ap_endAt a
     \<and> (ap_barberId b \<in> set (personOf db (ap_barberId a))
        \<or> ap_barbershopId a = ap_barbershopId b \<and> truthy (ap_resourceId a) \<and> ap_resourceId a = ap_resourceId b)"

definition link_at :: "'a staff_db_scheme \<Rightarrow> int \<Rightarrow> int \<Rightarrow> bool" where
  "link_at db barbershopId barberId \<longleftrightarrow> (\<exists>b \<in> set (rows (barbers db)). bb_id b = barberId \<and> bb_barbershopId b = barbershopId)"

definition agenda_ok :: "'a agenda_db_scheme \<Rightarrow> bool" where
  "agenda_ok db \<longleftrightarrow> table_ok ap_id (appointments db) \<and> table_ok bb_id (barbers db) \<and> links_ok db
     \<and> (\<forall>a \<in> set (rows (appointments db)). link_at db (ap_barbershopId a) (ap_barberId a))
     \<and> (\<forall>a \<in> set (rows (appointments db)). \<forall>b \<in> set (rows (appointments db)). \<not> clash db a b)"

lemma personOf_frame: "barbers db' = barbers db \<Longrightarrow> personOf db' i = personOf db i"
  by (simp add: personOf_def barberById_def samePersonBarberIds_def split: option.split)

lemma clash_frame:
  assumes "barbers db' = barbers db" and "place a' = place a" and "place b' = place b"
    and "holds_agenda a' \<longrightarrow> holds_agenda a" and "holds_agenda b' \<longrightarrow> holds_agenda b" and "clash db' a' b'"
  shows "clash db a b"
  using assms personOf_frame [OF assms(1)] by (simp add: clash_def place_eq)

lemma clash_sym:
  assumes ok: "agenda_ok db" and a: "link_at db s (ap_barberId a)" and b: "link_at db s' (ap_barberId b)" and "clash db a b"
  shows "clash db b a"
proof -
  obtain x y where "x \<in> set (rows (barbers db))" "bb_id x = ap_barberId a" "y \<in> set (rows (barbers db))" "bb_id y = ap_barberId b"
    using a b by (auto simp: link_at_def)
  then have "ap_barberId b \<in> set (personOf db (ap_barberId a)) \<longleftrightarrow> ap_barberId a \<in> set (personOf db (ap_barberId b))"
    using ok personOf_iff [of db x y] personOf_iff [of db y x] by (auto simp: agenda_ok_def)
  with assms(4) show ?thesis by (auto simp: clash_def)
qed

text \<open>A change that moves nothing and only frees slots.\<close>

definition only_frees :: "'a agenda_db_scheme \<Rightarrow> 'a agenda_db_scheme \<Rightarrow> bool" where
  "only_frees db db' \<longleftrightarrow> barbers db' = barbers db \<and> seq (appointments db') = seq (appointments db)
     \<and> list_all2 (\<lambda>a b. place b = place a \<and> (holds_agenda b \<longrightarrow> holds_agenda a))
         (rows (appointments db)) (rows (appointments db'))"

lemma only_frees_refl [simp]: "only_frees db db"
  by (simp add: only_frees_def list_all2_refl)

lemma only_frees_trans:
  assumes "only_frees db db'" and "only_frees db' db''"
  shows "only_frees db db''"
proof -
  have "list_all2 (\<lambda>a b. place b = place a \<and> (holds_agenda b \<longrightarrow> holds_agenda a))
      (rows (appointments db)) (rows (appointments db''))"
    by (rule list_all2_trans [of "\<lambda>a b. place b = place a \<and> (holds_agenda b \<longrightarrow> holds_agenda a)"
          "\<lambda>a b. place b = place a \<and> (holds_agenda b \<longrightarrow> holds_agenda a)" _ _ "rows (appointments db')"])
      (use assms in \<open>auto simp: only_frees_def\<close>)
  with assms show ?thesis by (simp add: only_frees_def)
qed

lemma only_frees_update:
  assumes "\<And>a. p a \<Longrightarrow> place (f a) = place a \<and> (holds_agenda (f a) \<longrightarrow> holds_agenda a)"
  shows "only_frees db (db\<lparr>appointments := update_many p f (appointments db)\<rparr>)"
  using assms by (auto simp: only_frees_def list_all2_conv_all_nth)

lemma only_frees_same: "barbers db' = barbers db \<Longrightarrow> appointments db' = appointments db \<Longrightarrow> only_frees db db'"
  by (simp add: only_frees_def list_all2_refl)

lemma only_frees_ok:
  assumes "agenda_ok db" and "only_frees db db'"
  shows "agenda_ok db'"
proof -
  let ?R = "\<lambda>a b. place b = place a \<and> (holds_agenda b \<longrightarrow> holds_agenda a)"
  have frame: "barbers db' = barbers db" "list_all2 ?R (rows (appointments db)) (rows (appointments db'))"
    "seq (appointments db') = seq (appointments db)"
    using assms(2) by (simp_all add: only_frees_def)
  have src: "\<exists>a \<in> set (rows (appointments db)). ?R a a'" if a': "a' \<in> set (rows (appointments db'))" for a'
  proof -
    obtain i where "i < length (rows (appointments db'))" "a' = rows (appointments db') ! i"
      using a' by (auto simp: in_set_conv_nth)
    with frame(2) show ?thesis
      by (intro bexI [of _ "rows (appointments db) ! i"]) (auto simp: list_all2_conv_all_nth)
  qed
  have keys: "map ap_id (rows (appointments db')) = map ap_id (rows (appointments db))"
    using frame(2) by (intro nth_equalityI) (auto simp: list_all2_conv_all_nth place_eq)
  then have "table_ok ap_id (appointments db')"
    using assms(1) frame(3) table_ok_keys unfolding agenda_ok_def by blast
  moreover have "links_ok db'" using assms(1) frame(1) by (simp add: agenda_ok_def links_ok_def)
  moreover have "link_at db' (ap_barbershopId a) (ap_barberId a)" if "a \<in> set (rows (appointments db'))" for a
    using src [OF that] assms(1) frame(1) by (auto simp: agenda_ok_def link_at_def place_eq)
  moreover have "\<not> clash db' a b" if "a \<in> set (rows (appointments db'))" "b \<in> set (rows (appointments db'))" for a b
    using src [OF that(1)] src [OF that(2)] assms(1) clash_frame [OF frame(1), of a _ b] unfolding agenda_ok_def by blast
  ultimately show ?thesis using assms(1) frame(1) by (simp add: agenda_ok_def)
qed

lemma finalize_frees: "finalize now intent db = (s, calls, db') \<Longrightarrow> only_frees db db'"
  by (auto simp: finalize_def Let_def confirm_paid_def mark_returned_def place_eq holds_agenda_def
      intro!: only_frees_update split: option.splits if_splits)

lemma settleForStaff_frees:
  assumes "settleForStaff retrieve cancel now i db = (r, calls, db')"
  shows "only_frees db db'"
  using assms finalize_frees [of now _ db]
  by (auto simp: settleForStaff_def split: option.splits if_splits prod.splits)

lemma releaseUnpaidHold_frees:
  assumes "releaseUnpaidHold retrieve now i db = (r, calls, db')"
  shows "only_frees db db'"
proof -
  have "only_frees db (snd (release_hold i db))"
    by (auto simp: release_hold_def Let_def drop_hold_def place_eq holds_agenda_def intro!: only_frees_update)
  with assms finalize_frees [of now _ db] show ?thesis
    by (auto simp: releaseUnpaidHold_def split: option.splits if_splits prod.splits)
qed

lemma deposit_claim_frees: "deposit_claim now i intent db = (b, db') \<Longrightarrow> only_frees db db'"
  by (auto simp: deposit_claim_def Let_def place_eq holds_agenda_def intro!: only_frees_update split: if_splits)

lemma deposit_undo_frees: "only_frees db (deposit_undo now i db)"
  unfolding deposit_undo_def by (rule only_frees_update) (simp add: place_eq holds_agenda_def)

lemma prepay_take_frees: "prepay_take now c db = (b, db') \<Longrightarrow> only_frees db db'"
  by (auto simp: prepay_take_def Let_def place_eq holds_agenda_def intro!: only_frees_update split: if_splits)

lemma prepay_undo_frees: "only_frees db (prepay_undo c db)"
  unfolding prepay_undo_def by (rule only_frees_update) (simp add: place_eq holds_agenda_def)

lemma refundOnlineDeposit_frees:
  assumes "refundOnlineDeposit create now i db = (r, db')"
  shows "only_frees db db'"
proof -
  have undo: "only_frees db (deposit_undo now i d)" if "deposit_claim now i intent db = (b, d)" for intent b d
    using only_frees_trans [OF deposit_claim_frees [OF that] deposit_undo_frees] .
  show ?thesis
    using assms unfolding refundOnlineDeposit_def
    by (auto split: option.split_asm if_split_asm prod.split_asm bool.split_asm refund_answer.split_asm
        intro: undo deposit_claim_frees)
qed

lemma refundPrepayment_frees:
  assumes "refundPrepayment create now i amount db = (r, db')"
  shows "only_frees db db'"
proof -
  have undo: "only_frees db (prepay_undo c d)" if "prepay_take now c db = (b, d)" for c b d
    using only_frees_trans [OF prepay_take_frees [OF that] prepay_undo_frees] .
  show ?thesis
    using assms unfolding refundPrepayment_def
    by (auto split: sum.split_asm option.split_asm prod.split_asm bool.split_asm refund_answer.split_asm
        intro: undo prepay_take_frees)
qed

text \<open>The quota check writes the Pro months it releases, nothing else.\<close>

definition only_months :: "'a solo_db_scheme \<Rightarrow> 'a solo_db_scheme \<Rightarrow> bool" where
  "only_months db db' \<longleftrightarrow> (\<exists>us rs. db' = db\<lparr>users := us, proReferrals := rs\<rparr>)"

lemma only_months_refl [simp]: "only_months db db"
  unfolding only_months_def by (intro exI [of _ "users db"] exI [of _ "proReferrals db"]) simp

lemma only_months_I: "only_months db (db\<lparr>users := us, proReferrals := rs\<rparr>)"
  unfolding only_months_def by (rule exI, rule exI, rule refl)

lemma only_months_trans:
  assumes "only_months a b" and "only_months b c"
  shows "only_months a c"
proof -
  obtain us rs us' rs' where "b = a\<lparr>users := us, proReferrals := rs\<rparr>" "c = b\<lparr>users := us', proReferrals := rs'\<rparr>"
    using assms by (auto simp: only_months_def)
  then have "c = a\<lparr>users := us', proReferrals := rs'\<rparr>" by simp
  then show ?thesis by (simp only: only_months_I)
qed

lemma release_one_months: "only_months (fst st) (fst (release_one u now r st))"
proof -
  have swap: "d\<lparr>proReferrals := rs, users := us\<rparr> = d\<lparr>users := us, proReferrals := rs\<rparr>" for d :: "'a solo_db_scheme" and rs us
    by simp
  show ?thesis by (cases st) (simp add: release_one_def swap only_months_I del: solo_db.simps)
qed

lemma release_months: "only_months (fst st) (fst (fold (release_one u now) rs st))"
proof (induction rs arbitrary: st)
  case (Cons r rs)
  then show ?case using only_months_trans [OF release_one_months [of st u now r]] by simp
qed simp

lemma solo_check_months:
  assumes "solo_check I db now s t blocked m = (r, db')"
  shows "only_months db db'"
proof -
  have "only_months db (snd (hasActivePro db u t now))" for u
    using release_months [of "(db, 0)"] by (simp add: hasActivePro_def Let_def releaseInviterMonths_def)
  then have "only_months db d" if "hasActivePro db u t now = (b, d)" for u b d
    using that by (metis snd_conv)
  then show ?thesis
    using assms unfolding solo_check_def
    by (auto split: option.splits if_splits prod.splits)
qed

lemma solo_booking_months: "assertSoloBookingAllowed I db now s t = (r, db') \<Longrightarrow> only_months db db'"
  unfolding assertSoloBookingAllowed_def by (rule solo_check_months)

lemma solo_sale_months: "assertSoloProductSaleAllowed I db now s t n = (r, db') \<Longrightarrow> only_months db db'"
  by (auto simp: assertSoloProductSaleAllowed_def split: if_split_asm dest: solo_check_months)

lemma solo_booking_frame:
  assumes "assertSoloBookingAllowed I db now s t = (r, db')"
  shows "barbers db' = barbers db \<and> appointments db' = appointments db"
  using solo_booking_months [OF assms] by (auto simp: only_months_def)

lemma slot_free_apart:
  assumes ok: "agenda_ok db" and link: "link_at db s i" and free: "slot_free db s i res st en excl = Inr ()"
    and a: "a \<in> set (rows (appointments db))" "Some (ap_id a) \<noteq> excl" "holds_agenda a" "ap_startAt a < en" "st < ap_endAt a"
  shows "ap_barberId a \<notin> set (personOf db i) \<and> \<not> (truthy res \<and> ap_barbershopId a = s \<and> ap_resourceId a = res)"
proof -
  obtain b where b: "b \<in> set (rows (barbers db))" "bb_id b = i" "bb_barbershopId b = s" using link by (auto simp: link_at_def)
  have tab: "table_ok bb_id (barbers db)" using ok by (simp add: agenda_ok_def)
  have "find_first (\<lambda>b. bb_id b = i \<and> bb_barbershopId b = s) (barbers db) = Some b"
  proof (cases "find_first (\<lambda>b. bb_id b = i \<and> bb_barbershopId b = s) (barbers db)")
    case None
    then show ?thesis using b by (auto simp: find_first_None)
  next
    case (Some c)
    with find_first_Some [OF Some] show ?thesis using barber_tab.key_inj [OF tab _ b(1), of c] b(2) by simp
  qed
  moreover have "barberById db i = Some b"
    using barber_tab.find_by_key [OF tab b(1)] b(2) by (simp add: barberById_def)
  then have "personOf db i = samePersonBarberIds db i (bb_userId b) (bb_professionalId b)" by (simp add: personOf_def)
  moreover have "ensureBarberAvailable db s i st en excl = Inr ()"
    "truthy res \<Longrightarrow> ensureResourceAvailable db s (the res) st en excl = Inr ()"
    using free by (auto simp: slot_free_def bindE_eq_Inr)
  moreover have "res = Some (the res)" if "truthy res" using that by (cases res) (simp_all add: truthy_def)
  ultimately show ?thesis
    using a by (auto simp: ensureBarberAvailable_def ensureResourceAvailable_def Let_def find_first_None
        split: if_splits option.split_asm)
qed

lemma holds_frame: "appointments db' = appointments db \<Longrightarrow> barbers db' = barbers db \<Longrightarrow> agenda_ok db' = agenda_ok db"
proof -
  assume eq: "appointments db' = appointments db" "barbers db' = barbers db"
  have "clash db' a b = clash db a b" for a b using personOf_frame [OF eq(2)] by (simp add: clash_def)
  with eq show ?thesis by (simp add: agenda_ok_def links_ok_def link_at_def)
qed

text \<open>Putting one appointment \<open>y\<close> in a free slot keeps the agenda, whether it is new or was moved.\<close>

lemma placed_ok:
  assumes ok: "agenda_ok db" and link: "link_at db (ap_barbershopId y) (ap_barberId y)"
    and free: "holds_agenda y \<Longrightarrow> slot_free db (ap_barbershopId y) (ap_barberId y) (ap_resourceId y) (ap_startAt y) (ap_endAt y) excl = Inr ()"
    and tab: "table_ok ap_id t"
    and rows: "\<And>a. a \<in> set (rows t) \<Longrightarrow> a = y \<or> a \<in> set (rows (appointments db)) \<and> Some (ap_id a) \<noteq> excl"
  shows "agenda_ok (db\<lparr>appointments := t\<rparr>)"
proof -
  let ?d = "db\<lparr>appointments := t\<rparr>"
  have eq: "clash ?d a b = clash db a b" for a b using personOf_frame [of ?d db] by (simp add: clash_def)
  have new: "\<not> clash db y b" if "b \<in> set (rows (appointments db))" "Some (ap_id b) \<noteq> excl" for b
  proof
    assume c: "clash db y b"
    then have h: "holds_agenda y" "holds_agenda b" "ap_startAt b < ap_endAt y" "ap_startAt y < ap_endAt b"
      by (simp_all add: clash_def)
    from slot_free_apart [OF ok link free [OF h(1)] that h(2-4)] c show False by (auto simp: clash_def)
  qed
  have "\<not> clash db a b" if a: "a \<in> set (rows t)" and b: "b \<in> set (rows t)" for a b
  proof -
    consider "a = y" "b = y" | "a = y" "b \<in> set (rows (appointments db))" "Some (ap_id b) \<noteq> excl"
      | "b = y" "a \<in> set (rows (appointments db))" "Some (ap_id a) \<noteq> excl"
      | "a \<in> set (rows (appointments db))" "b \<in> set (rows (appointments db))"
      using rows [OF a] rows [OF b] by blast
    then show ?thesis
    proof cases
      case 1 then show ?thesis by (simp add: clash_def)
    next
      case 2 then show ?thesis using new by simp
    next
      case 3
      then have "link_at db (ap_barbershopId a) (ap_barberId a)" using ok by (simp add: agenda_ok_def)
      with 3 new [of a] clash_sym [OF ok, of _ a _ y] link show ?thesis by blast
    next
      case 4 then show ?thesis using ok by (simp add: agenda_ok_def)
    qed
  qed
  moreover have "link_at db (ap_barbershopId a) (ap_barberId a)" if "a \<in> set (rows t)" for a
    using rows [OF that] link ok by (auto simp: agenda_ok_def)
  ultimately show ?thesis
    using ok tab by (simp add: agenda_ok_def links_ok_def link_at_def eq)
qed

lemma book_ok:
  assumes ok: "agenda_ok db" and link: "link_at db s (ai_barberId d)" and run: "book db u s d slot dep rec = (r, db')"
  shows "agenda_ok db'"
proof (cases "slot_free db s (ai_barberId d) (ai_resourceId d) (fst slot) (fst (snd slot)) None")
  case (Inl e)
  then show ?thesis using run ok by (simp add: book_def)
next
  case (Inr x)
  let ?mk = "\<lambda>i. new_appointment i u s d slot dep rec"
  let ?y = "?mk (seq (appointments db))"
  have db': "db' = db\<lparr>appointments := create_row ?mk (appointments db)\<rparr>" using run Inr by (simp add: book_def)
  have y: "ap_barbershopId ?y = s" "ap_barberId ?y = ai_barberId d" "ap_resourceId ?y = ai_resourceId d"
    "ap_startAt ?y = fst slot" "ap_endAt ?y = fst (snd slot)" "ap_id ?y = seq (appointments db)"
    by (simp_all add: new_appointment_def split: prod.split)
  have "table_ok ap_id (create_row ?mk (appointments db))"
    using ok y(6) by (intro appointment_tab.ok_create) (simp_all add: agenda_ok_def)
  then show ?thesis
    unfolding db' using link Inr y(6) by (intro placed_ok [OF ok, of ?y None]) (auto simp: y(1-5))
qed

lemma apply_patch_simps [simp]:
  "ap_id (apply_patch P now a dropHold p x) = ap_id x"
  "ap_barbershopId (apply_patch P now a dropHold p x) = ap_barbershopId x"
  "ap_barberId (apply_patch P now a dropHold p x) = or_else (up_barberId p) (ap_barberId x)"
  "ap_resourceId (apply_patch P now a dropHold p x) = (if up_resourceId p = None then ap_resourceId x else up_resourceId p)"
  "ap_startAt (apply_patch P now a dropHold p x) = or_else (up_startAt p) (ap_startAt x)"
  "ap_endAt (apply_patch P now a dropHold p x) = or_else (up_endAt p) (ap_endAt x)"
  "ap_status (apply_patch P now a dropHold p x) = or_else (up_status p) (ap_status x)"
  by (simp_all add: apply_patch_def)

lemma move_tips_frame [simp]:
  "appointments (move_tips i b db) = appointments db" "barbers (move_tips i b db) = barbers db"
  by (simp_all add: move_tips_def Let_def)

lemma rewrite_ok:
  assumes ok: "agenda_ok db" and x: "x \<in> set (rows (appointments db))" "place x = place a"
    and status: "up_status p = None \<Longrightarrow> ap_status x = ap_status a" and s: "ap_barbershopId a = s"
    and link: "link_at db s (or_else (up_barberId p) (ap_barberId a))"
    and run: "rewrite P now s a0 a dropHold p db = (r, db')"
  shows "agenda_ok db'"
proof (cases r)
  case (Inl e)
  then show ?thesis using run ok by (auto simp: rewrite_def Let_def split: sum.split_asm if_split_asm)
next
  case (Inr u)
  let ?y = "apply_patch P now a dropHold p x"
  have xa: "ap_id x = ap_id a" "ap_barbershopId x = s" "ap_barberId x = ap_barberId a" "ap_resourceId x = ap_resourceId a"
    "ap_startAt x = ap_startAt a" "ap_endAt x = ap_endAt a" using x(2) s by (simp_all add: place_eq)
  define db1 where "db1 = (if truthy (up_barberId p) \<and> up_barberId p \<noteq> Some (ap_barberId a0)
    then move_tips (ap_id a) (or_else (up_barberId p) (ap_barberId a)) db else db)"
  have frame: "appointments db1 = appointments db" "barbers db1 = barbers db" by (simp_all add: db1_def)
  let ?t = "update_many (\<lambda>x. ap_id x = ap_id a) (apply_patch P now a dropHold p) (appointments db)"
  have db': "db' = db1\<lparr>appointments := ?t\<rparr>"
    and free: "or_else (up_status p) (ap_status a) \<notin> {''CANCELLED'', ''NO_SHOW''} \<Longrightarrow>
      slot_free db s (or_else (up_barberId p) (ap_barberId a)) (if up_resourceId p = None then ap_resourceId a else up_resourceId p)
        (or_else (up_startAt p) (ap_startAt a)) (or_else (up_endAt p) (ap_endAt a)) (Some (ap_id a)) = Inr ()"
    using run Inr frame by (auto simp: rewrite_def Let_def db1_def split: sum.split_asm if_split_asm)
  have tab: "table_ok ap_id (appointments db)" using ok by (simp add: agenda_ok_def)
  have only: "b = x" if "b \<in> set (rows (appointments db))" "ap_id b = ap_id a" for b
    using appointment_tab.key_inj [OF tab that(1) x(1)] that(2) xa(1) by simp
  have "agenda_ok (db\<lparr>appointments := ?t\<rparr>)"
  proof (rule placed_ok [OF ok, of ?y "Some (ap_id a)"])
    show "link_at db (ap_barbershopId ?y) (ap_barberId ?y)" using link xa by simp
    show "table_ok ap_id ?t" using tab by (simp add: appointment_tab.ok_update)
    show "b = ?y \<or> b \<in> set (rows (appointments db)) \<and> Some (ap_id b) \<noteq> Some (ap_id a)" if "b \<in> set (rows ?t)" for b
      using that only by auto
    assume "holds_agenda ?y"
    then have "or_else (up_status p) (ap_status a) \<notin> {''CANCELLED'', ''NO_SHOW''}"
      using status by (cases "up_status p") (auto simp: holds_agenda_def or_else_def)
    from free [OF this] show "slot_free db (ap_barbershopId ?y) (ap_barberId ?y) (ap_resourceId ?y) (ap_startAt ?y) (ap_endAt ?y)
        (Some (ap_id a)) = Inr ()"
      by (simp only: xa apply_patch_simps)
  qed
  then show ?thesis
    using holds_frame [of db' "db\<lparr>appointments := ?t\<rparr>"] frame by (simp add: db')
qed

lemma retain_frees:
  assumes "retainFeeFromPrepayment create now s a st db = (r, db')"
  shows "only_frees db db'"
  using assms unfolding retainFeeFromPrepayment_def
  by (auto simp: Let_def split: option.split_asm if_split_asm elim!: and_thenE dest: refundPrepayment_frees)

lemma record_frame [simp]:
  "appointments (recordNoShowFee now s a st r db) = appointments db" "barbers (recordNoShowFee now s a st r db) = barbers db"
  by (simp_all add: recordNoShowFee_def Let_def split: option.split)

lemma keep_fee_frees: "only_frees db (snd (keep_fee P now s a p cancelledBy db))"
proof -
  have "only_frees db (snd (ignore_error None (retainFeeFromPrepayment create now s u st db)))" for create u st
    using retain_frees [of create now s u st db]
    by (cases "retainFeeFromPrepayment create now s u st db") (auto simp: ignore_error_def split: sum.split)
  then show ?thesis by (simp add: keep_fee_def split: option.split)
qed

lemma give_back_frees: "only_frees db (give_back P now a p back retained db)"
proof -
  have dep: "only_frees d (snd (refundOnlineDeposit create now i d))" for create i and d :: "'b shop_db_scheme"
    using refundOnlineDeposit_frees [of create now i d] by (metis surjective_pairing)
  have pre: "only_frees d (snd (refundPrepayment create now i m d))" for create i m and d :: "'b shop_db_scheme"
    using refundPrepayment_frees [of create now i m d] by (metis surjective_pairing)
  show ?thesis by (auto simp: give_back_def Let_def dep pre intro: only_frees_trans [OF dep pre])
qed

lemma settle_money_frees: "only_frees db (settle_money P now s a p cancelledBy back db)"
proof -
  obtain r d where k: "keep_fee P now s a p cancelledBy db = (r, d)" by fastforce
  have "only_frees db (give_back P now a p back r d)"
    using keep_fee_frees [of db P now s a p cancelledBy] give_back_frees only_frees_trans by (fastforce simp: k)
  moreover have "appointments (settle_money P now s a p cancelledBy back db) = appointments (give_back P now a p back r d)
      \<and> barbers (settle_money P now s a p cancelledBy back db) = barbers (give_back P now a p back r d)"
    by (simp add: settle_money_def k fee_due_def fee_undone_def split: option.split)
  ultimately show ?thesis by (simp add: only_frees_def)
qed

lemma bindE_ok: "bindE r f = Inr x \<Longrightarrow> is_ok r"
  by (cases r) (simp_all add: is_ok_def)

lemma bookable_link: "ensureBarberOfBarbershop db s i act = Inr j \<Longrightarrow> link_at db s i"
  using find_first_Some [of _ "barbers db"]
  by (fastforce simp: ensureBarberOfBarbershop_def link_at_def split: option.split_asm)

lemma create_request_facts:
  assumes "create_request I db now u s d = (r, db')"
  shows "barbers db' = barbers db \<and> appointments db' = appointments db
    \<and> (is_ok r \<longrightarrow> link_at db s (ai_barberId d))"
proof -
  have link: "link_at db1 s (ai_barberId d)" if "create_checks db1 u shop s d = Inr x" for db1 :: "'a shop_db_scheme" and shop x
    using that bookable_link [of db1 s "ai_barberId d" True]
    by (auto simp: create_checks_def Let_def bindE_eq_Inr)
  have frame: "link_at db1 s (ai_barberId d) \<Longrightarrow> barbers db1 = barbers db \<Longrightarrow> link_at db s (ai_barberId d)"
    for db1 :: "'a shop_db_scheme" by (simp add: link_at_def)
  show ?thesis
    using assms unfolding create_request_def
    by (elim and_thenE) (auto simp: is_ok_def split: if_split_asm dest: solo_booking_frame link intro: frame)
qed

lemma create_ok:
  assumes ok: "agenda_ok db" and run: "createAppointment I db now u s d = (r, db')"
  shows "agenda_ok db'"
  using run unfolding createAppointment_def
proof (cases rule: and_thenE)
  case (stop e)
  then show ?thesis using create_request_facts [OF stop(1)] holds_frame ok by blast
next
  case (go x db1)
  note facts = create_request_facts [OF go(1)]
  then have ok1: "agenda_ok db1" using ok holds_frame by blast
  have link: "link_at db1 s (ai_barberId d)" using facts by (simp add: link_at_def is_ok_def)
  show ?thesis
    using go(2) by (cases x) (auto elim!: and_thenE dest: book_ok [OF ok1 link])
qed

lemma update_request_facts:
  assumes run: "update_request I db now u s i patch by = (r, db')"
  shows "barbers db' = barbers db \<and> appointments db' = appointments db
    \<and> (\<forall>shop a p. r = Inr (shop, a, p) \<longrightarrow> a \<in> set (rows (appointments db)) \<and> ap_barbershopId a = s
        \<and> up_barberId p = up_barberId patch
        \<and> (truthy (up_barberId p) \<and> up_barberId p \<noteq> Some (ap_barberId a) \<longrightarrow> link_at db s (the (up_barberId p))))"
proof -
  have checks: "a \<in> set (rows (appointments db)) \<and> ap_barbershopId a = s \<and> up_barberId p = up_barberId patch
      \<and> (truthy (up_barberId p) \<and> up_barberId p \<noteq> Some (ap_barberId a) \<longrightarrow> link_at db s (the (up_barberId p)))"
    if c: "update_checks db u shop s i patch = Inr (a, p)" for shop a p
  proof -
    obtain a' where a': "find_first (\<lambda>a. ap_id a = i \<and> ap_barbershopId a = s) (appointments db) = Some a'"
      using c by (auto simp: update_checks_def split: option.split_asm)
    have keep: "up_barberId (keep_duration a' patch) = up_barberId patch" by (simp add: keep_duration_def split: option.split)
    have "a = a' \<and> p = keep_duration a' patch
        \<and> (truthy (up_barberId patch) \<and> up_barberId patch \<noteq> Some (ap_barberId a')
             \<longrightarrow> is_ok (ensureBarberOfBarbershop db s (the (up_barberId patch)) True))"
      using c unfolding update_checks_def a' option.simps(5) Let_def bindE_eq_Inr throwIf_eq_Inr
      by (elim exE conjE) (auto dest: bindE_ok split: if_split_asm)
    then show ?thesis
      using find_first_Some [OF a'] bookable_link [of db s "the (up_barberId patch)" True] keep
      by (auto elim: is_okE)
  qed
  show ?thesis
    using run unfolding update_request_def
    by (elim and_thenE) (auto simp: Let_def split: if_split_asm dest: solo_booking_frame checks elim!: and_thenE)
qed

lemma only_frees_row:
  assumes ok: "agenda_ok db" and frees: "only_frees db db'" and a: "a \<in> set (rows (appointments db))"
  shows "\<exists>x \<in> set (rows (appointments db')). place x = place a"
    and "b \<in> set (rows (appointments db')) \<Longrightarrow> ap_id b = ap_id a \<Longrightarrow> place b = place a"
proof -
  have all: "list_all2 (\<lambda>a b. place b = place a \<and> (holds_agenda b \<longrightarrow> holds_agenda a))
      (rows (appointments db)) (rows (appointments db'))" using frees by (simp add: only_frees_def)
  obtain i where i: "i < length (rows (appointments db))" "a = rows (appointments db) ! i"
    using a by (auto simp: in_set_conv_nth)
  with all show "\<exists>x \<in> set (rows (appointments db')). place x = place a"
    by (intro bexI [of _ "rows (appointments db') ! i"]) (auto simp: list_all2_conv_all_nth)
  assume b: "b \<in> set (rows (appointments db'))" "ap_id b = ap_id a"
  then obtain j where j: "j < length (rows (appointments db'))" "b = rows (appointments db') ! j"
    by (auto simp: in_set_conv_nth)
  define c where "c = rows (appointments db) ! j"
  have c: "c \<in> set (rows (appointments db))" "place b = place c"
    using all j by (auto simp: c_def list_all2_conv_all_nth)
  have "table_ok ap_id (appointments db)" using ok by (simp add: agenda_ok_def)
  from appointment_tab.key_inj [OF this c(1) a] c(2) b(2) show "place b = place a" by (simp add: place_eq)
qed

lemma settle_hold_facts:
  assumes ok: "agenda_ok db" and a0: "a0 \<in> set (rows (appointments db))" and run: "settle_hold P now a0 p db = (r, db')"
  shows "only_frees db db' \<and> (\<forall>a drop. r = Inr (a, drop) \<longrightarrow> place a = place a0
    \<and> (\<exists>x \<in> set (rows (appointments db')). place x = place a \<and> (up_status p = None \<longrightarrow> ap_status x = ap_status a)))"
proof (cases "ap_status a0 = ''PENDING_PAYMENT'' \<and> changes_to (up_status p) ''PENDING_PAYMENT''")
  case False
  then show ?thesis using run a0 by (auto simp: settle_hold_def)
next
  case True
  then have given: "up_status p \<noteq> None" by (simp add: changes_to_def)
  obtain answer calls d where settle: "settleForStaff (pv_retrieve P) (pv_cancel P) now (ap_id a0) db = (answer, calls, d)"
    by (metis prod_cases3)
  note frees = settleForStaff_frees [OF settle]
  note row = only_frees_row [OF ok frees a0]
  have found: "b \<in> set (rows (appointments d)) \<and> place b = place a0" if "appointmentById d (ap_id a0) = Some b" for b
    using find_first_Some [OF that [unfolded appointmentById_def]] row(2) [of b] by auto
  have "db' = d" using run True by (auto simp: settle_hold_def settle split: sum.split_asm)
  moreover have "place a = place a0 \<and> (\<exists>x \<in> set (rows (appointments d)). place x = place a)"
    if "r = Inr (a, dropHold)" for a dropHold
  proof -
    have "a = a0 \<or> appointmentById d (ap_id a0) = Some a"
      using run True that by (auto simp: settle_hold_def settle split: sum.split_asm if_split_asm option.split_asm)
    then show ?thesis using found row(1) by metis
  qed
  ultimately show ?thesis by (intro conjI allI impI, use frees in simp, blast, use given in metis)
qed

lemma update_ok:
  assumes ok: "agenda_ok db" and id: "up_barberId patch \<noteq> Some 0"
    and run: "updateAppointment P I db now u s i patch back by = (r, db')"
  shows "agenda_ok db'"
  using run unfolding updateAppointment_def
proof (cases rule: and_thenE)
  case (stop e)
  then show ?thesis using update_request_facts [OF stop(1)] holds_frame ok by blast
next
  case (go x db1)
  obtain shop a0 p where x: "x = (shop, a0, p)" by (cases x) auto
  note facts = update_request_facts [OF go(1)]
  then have frame: "barbers db1 = barbers db" "appointments db1 = appointments db" by simp_all
  then have ok1: "agenda_ok db1" using ok holds_frame by blast
  have link: "link_at db1 j i = link_at db j i" for j i by (simp add: link_at_def frame)
  have a0: "a0 \<in> set (rows (appointments db1))" "ap_barbershopId a0 = s" "up_barberId p = up_barberId patch"
    "truthy (up_barberId p) \<Longrightarrow> up_barberId p \<noteq> Some (ap_barberId a0) \<Longrightarrow> link_at db1 s (the (up_barberId p))"
    using facts [THEN conjunct2, THEN conjunct2, rule_format, of shop a0 p, unfolded x, OF refl]
    unfolding frame(2) link by blast+
  have link1: "link_at db1 s (or_else (up_barberId p) (ap_barberId a0))"
  proof (cases "up_barberId p = None \<or> up_barberId p = Some (ap_barberId a0)")
    case True
    then show ?thesis using a0(1,2) ok1 by (auto simp: agenda_ok_def or_else_def)
  next
    case False
    then show ?thesis using a0(3,4) id by (auto simp: or_else_def truthy_def)
  qed
  from go(2) [unfolded x prod.case] show ?thesis
  proof (cases rule: and_thenE)
    case (stop e)
    then show ?thesis using settle_hold_facts [OF ok1 a0(1) stop(1)] only_frees_ok [OF ok1] by blast
  next
    case (go y db2)
    obtain a dropHold where y: "y = (a, dropHold)" by (cases y) auto
    note h = settle_hold_facts [OF ok1 a0(1) go(1)]
    then have ok2: "agenda_ok db2" using only_frees_ok [OF ok1] by blast
    obtain z where z: "z \<in> set (rows (appointments db2))" "place z = place a" "up_status p = None \<longrightarrow> ap_status z = ap_status a"
      and place: "place a = place a0" using h y by blast
    have s: "ap_barbershopId a = s" "ap_barberId a = ap_barberId a0" using place a0(2) by (simp_all add: place_eq)
    have "link_at db2 s (or_else (up_barberId p) (ap_barberId a))"
      using link1 h s by (simp add: link_at_def only_frees_def)
    note rw = rewrite_ok [OF ok2 z(1,2) _ s(1) this]
    show ?thesis
      using go(2) [unfolded y prod.case]
    proof (cases rule: and_thenE)
      case (stop e)
      show ?thesis by (rule rw [OF _ stop(1)]) (use z(3) in blast)
    next
      case (go w db3)
      have "agenda_ok db3" by (rule rw [OF _ go(1)]) (use z(3) in blast)
      moreover have "db' = settle_money P now s a p by back db3" using go(2) by (simp add: Let_def)
      ultimately show ?thesis using only_frees_ok settle_money_frees by blast
    qed
  qed
qed


lemma expireHolds_frees:
  assumes "expireHolds retrieve now db = (n, calls, db')"
  shows "only_frees db db'"
proof -
  have one: "only_frees (snd (snd st)) (snd (snd (expire_one retrieve now a st)))" for a st
    using releaseUnpaidHold_frees [of retrieve now "ap_id a" "snd (snd st)"]
    by (cases st) (auto simp: expire_one_def split: prod.splits)
  have "only_frees (snd (snd st)) (snd (snd (fold (expire_one retrieve now) holds st)))" for holds st
  proof (induction holds arbitrary: st)
    case (Cons a holds)
    show ?case using only_frees_trans [OF one [of st a] Cons.IH] by simp
  qed simp
  then show ?thesis using assms unfolding expireHolds_def by (metis snd_conv)
qed

lemma setAppointmentDepositPaid_cases:
  assumes "setAppointmentDepositPaid db now u s i paid m = Inr db'"
  obtains (same) "db' = db"
  | (received) shop a r where "find_first (\<lambda>a. ap_id a = i \<and> ap_barbershopId a = s) (appointments db) = Some a"
      "\<not> ap_depositPaid a" "manualDepositReceipt db now u shop m = Inr r"
      "db' = db\<lparr>appointments := update_many (\<lambda>x. ap_id x = i) (mark_received r) (appointments db)\<rparr>"
  | (undone) a where "find_first (\<lambda>a. ap_id a = i \<and> ap_barbershopId a = s) (appointments db) = Some a"
      "ap_depositCashSessionId a = None \<or> map_option cs_status
         (find_first (\<lambda>s. Some (cs_id s) = ap_depositCashSessionId a) (cashSessions db)) = Some ''OPEN''"
      "db' = db\<lparr>appointments := update_many (\<lambda>x. ap_id x = i) unmark_received (appointments db)\<rparr>"
proof (cases "find_first (\<lambda>a. ap_id a = i \<and> ap_barbershopId a = s) (appointments db)")
  case None
  then show ?thesis using assms by (auto simp: setAppointmentDepositPaid_def bindE_eq_Inr)
next
  case (Some a)
  obtain shop where run: "(if paid = ap_depositPaid a then Inr db
     else if paid then bindE (manualDepositReceipt db now u shop m) (\<lambda>r.
       Inr (db\<lparr>appointments := update_many (\<lambda>x. ap_id x = i) (mark_received r) (appointments db)\<rparr>))
     else if ACCESS_RANK (sa_accessLevel shop) < ACCESS_RANK Reception then Inl (Forbidden DEPOSIT_RECEPTION_MESSAGE)
     else if ap_depositCashSessionId a \<noteq> None
         \<and> map_option cs_status (find_first (\<lambda>s. Some (cs_id s) = ap_depositCashSessionId a) (cashSessions db)) \<noteq> Some ''OPEN''
       then Inl (BadRequest DEPOSIT_CASH_CLOSED_MESSAGE)
     else Inr (db\<lparr>appointments := update_many (\<lambda>x. ap_id x = i) unmark_received (appointments db)\<rparr>)) = Inr db'"
    using assms unfolding setAppointmentDepositPaid_def bindE_eq_Inr Some option.simps(5)
    by (elim exE conjE) (simp split: if_split_asm)
  consider "paid = ap_depositPaid a" | "paid" "\<not> ap_depositPaid a" | "\<not> paid" "ap_depositPaid a" by blast
  then show ?thesis
  proof cases
    case 1
    with run show ?thesis by (intro same) simp
  next
    case 2
    with run obtain r where "manualDepositReceipt db now u shop m = Inr r"
      "db' = db\<lparr>appointments := update_many (\<lambda>x. ap_id x = i) (mark_received r) (appointments db)\<rparr>"
      by (auto simp: bindE_eq_Inr)
    with Some 2 show ?thesis by (intro received)
  next
    case 3
    with run Some show ?thesis by (intro undone) (auto split: if_split_asm)
  qed
qed

lemma setAppointmentDepositPaid_frees:
  assumes "setAppointmentDepositPaid db now u s i paid m = Inr db'"
  shows "only_frees db db'"
  using assms
proof (cases rule: setAppointmentDepositPaid_cases)
  case (received shop a r)
  show ?thesis unfolding received(4) by (rule only_frees_update) (simp add: mark_received_def place_eq holds_agenda_def)
next
  case (undone a)
  show ?thesis unfolding undone(3) by (rule only_frees_update) (simp add: unmark_received_def place_eq holds_agenda_def)
qed simp

text \<open>
  The operations that write an appointment, one whole call at a time; removing one is in \<open>Cash_Desk\<close>. A patch
  with barber 0 would fail on the foreign key of the table, so it is no step.
\<close>

inductive agenda_step :: "providers \<Rightarrow> intl \<Rightarrow> shop_db \<Rightarrow> shop_db \<Rightarrow> bool" for P I where
  Create: "createAppointment I db now u s d = (r, db') \<Longrightarrow> agenda_step P I db db'"
| Update: "up_barberId patch \<noteq> Some 0 \<Longrightarrow> updateAppointment P I db now u s i patch back by = (r', db')
    \<Longrightarrow> agenda_step P I db db'"
| Receive: "setAppointmentDepositPaid db now u s i paid m = Inr db' \<Longrightarrow> agenda_step P I db db'"
| Webhook: "finalize now intent db = (answer, calls, db') \<Longrightarrow> agenda_step P I db db'"
| Release: "releaseUnpaidHold (pv_retrieve P) now i db = (released, calls, db') \<Longrightarrow> agenda_step P I db db'"
| Expire: "expireHolds (pv_retrieve P) now db = (n, calls, db') \<Longrightarrow> agenda_step P I db db'"
| Refund_Deposit: "refundOnlineDeposit (pv_refund P) now i db = (done, db') \<Longrightarrow> agenda_step P I db db'"
| Refund_Prepayment: "refundPrepayment (pv_refund P) now i amount db = (back', db') \<Longrightarrow> agenda_step P I db db'"

lemma agenda_step_ok: "agenda_step P I db db' \<Longrightarrow> agenda_ok db \<Longrightarrow> agenda_ok db'"
proof (induction rule: agenda_step.induct)
  case Create
  then show ?case using create_ok by blast
next
  case Update
  then show ?case using update_ok by blast
qed (blast intro: only_frees_ok setAppointmentDepositPaid_frees finalize_frees releaseUnpaidHold_frees
    expireHolds_frees refundOnlineDeposit_frees refundPrepayment_frees)+

lemma agenda_steps_ok: "(agenda_step P I)\<^sup>*\<^sup>* db db' \<Longrightarrow> agenda_ok db \<Longrightarrow> agenda_ok db'"
  by (induction rule: rtranclp_induct) (blast intro: agenda_step_ok)+

text \<open>
  C24. The agenda is never double booked. From an agenda without collisions, whatever sequence of
  bookings, changes, payments, expirations and refunds the team and the payment provider run, two
  appointments that were neither cancelled nor missed and that share a minute are of different people
  (over all the shops where a person works) and in different rooms.
\<close>

theorem no_double_booking:
  assumes "agenda_ok db" and "(agenda_step P I)\<^sup>*\<^sup>* db db'"
    and "a \<in> set (rows (appointments db'))" and "b \<in> set (rows (appointments db'))" and "ap_id a \<noteq> ap_id b"
    and "ap_status a \<notin> {''CANCELLED'', ''NO_SHOW''}" and "ap_status b \<notin> {''CANCELLED'', ''NO_SHOW''}"
    and "ap_startAt a < ap_endAt b" and "ap_startAt b < ap_endAt a"
  shows "ap_barberId b \<notin> set (personOf db' (ap_barberId a))
    \<and> \<not> (ap_barbershopId a = ap_barbershopId b \<and> truthy (ap_resourceId a) \<and> ap_resourceId a = ap_resourceId b)"
  using agenda_steps_ok [OF assms(2,1)] assms(3-) by (auto simp: agenda_ok_def clash_def holds_agenda_def)

text \<open>
  C25. The locks are enough: two bookings that could collide, by the person or by the room, take a lock in
  common, so \<open>lockSchedule\<close> runs their checks one after the other. It rests on one account having one
  professional (\<open>links_ok\<close>); the room's lock is shared whatever the shop.
\<close>

theorem lock_covers_conflicts:
  assumes "links_ok db" and "table_ok bb_id (barbers db)"
    and "b \<in> set (rows (barbers db))" and "c \<in> set (rows (barbers db))" and "bb_userId b \<noteq> Some 0"
    and "bb_id c \<in> set (personOf db (bb_id b)) \<or> truthy room \<and> room = room'"
  shows "set (lockSchedule db (bb_id b) room) \<inter> set (lockSchedule db (bb_id c) room') \<noteq> {}"
proof (cases "truthy room \<and> room = room'")
  case True
  then show ?thesis by (auto simp: lockSchedule_def)
next
  case False
  have row: "barberById db (bb_id b) = Some b" "barberById db (bb_id c) = Some c"
    using barber_tab.find_by_key [OF assms(2)] assms(3,4) by (simp_all add: barberById_def)
  from False assms(6) personOf_iff [OF assms(1-4)]
  have "c = b \<or> bb_userId b \<noteq> None \<and> bb_userId c = bb_userId b" by blast
  then have "hd (lockSchedule db (bb_id b) room) = hd (lockSchedule db (bb_id c) room')"
  proof (elim disjE conjE exE)
    assume "bb_userId b \<noteq> None" "bb_userId c = bb_userId b"
    with row assms(5) show ?thesis by (cases "bb_userId b") (simp_all add: lockSchedule_def)
  qed (simp add: lockSchedule_def)
  then show ?thesis unfolding lockSchedule_def list.sel by (auto simp del: simp_thms)
qed

section \<open>The fee is charged once\<close>

lemma roundMoney_mono: "x \<le> y \<Longrightarrow> roundMoney x c \<le> roundMoney y c"
  by (simp add: roundMoney_def fromMinorUnits_mono toMinorUnits_mono)

definition whole_money :: "rat \<Rightarrow> string option \<Rightarrow> bool" where
  "whole_money x c \<longleftrightarrow> roundMoney x c = x"

lemma whole_money_round [simp]: "whole_money (roundMoney x c) c"
  by (simp add: whole_money_def roundMoney_def toMinorUnits_from)

lemma whole_money_iff: "whole_money x c \<longleftrightarrow> (\<exists>n. x = fromMinorUnits n c)"
  by (metis roundMoney_def toMinorUnits_from whole_money_def)

lemma whole_money_diff: "whole_money x c \<Longrightarrow> whole_money y c \<Longrightarrow> whole_money (x - y) c"
  by (auto simp: whole_money_iff fromMinorUnits_def diff_divide_distrib [symmetric] simp flip: of_int_diff)

lemma whole_money_0 [simp]: "whole_money 0 c"
  by (auto simp: whole_money_iff fromMinorUnits_def intro: exI [of _ 0])

lemma refundPrepayment_frame:
  fixes db :: "'a shop_db_scheme"
  assumes "refundPrepayment create now i amount db = (r, db')"
  shows "barbershops db' = barbershops db \<and> networks db' = networks db \<and> noShowFees db' = noShowFees db"
  using assms unfolding refundPrepayment_def prepay_take_def prepay_undo_def
  by (auto simp: Let_def split: sum.split_asm option.split_asm prod.split_asm if_split_asm bool.split_asm refund_answer.split_asm)

lemma noShowFeeFor_frame:
  "barbershops db' = barbershops db \<Longrightarrow> networks db' = networks db
    \<Longrightarrow> noShowFeeFor db' now s a st = noShowFeeFor db now s a st"
  by (simp only: noShowFeeFor_def shopById_def networkOf_def [abs_def])

lemma noShowFeeFor_bounds:
  assumes "noShowFeeFor db now s a st = Some fee" and "whole_money (amount_or_0 (ap_depositAmount a)) (Some (fe_currency fee))"
  shows "0 < fe_amount fee \<and> whole_money (fe_amount fee) (Some (fe_currency fee))
    \<and> fe_amount fee + (if depositKept a then amount_or_0 (ap_depositAmount a) else 0)
        \<le> roundMoney (services_value a) (Some (fe_currency fee))"
proof -
  obtain n c where amount: "fe_amount fee = roundMoney (roundMoney (fee_rule n (services_value a)) c
       - (if depositKept a then amount_or_0 (ap_depositAmount a) else 0)) c"
    and c: "c = Some (fe_currency fee)" and pos: "0 < fe_amount fee"
    using assms(1) by (auto simp: noShowFeeFor_def Let_def split: option.split_asm if_split_asm)
  have "roundMoney (fee_rule n (services_value a)) c \<le> roundMoney (services_value a) c"
    by (rule roundMoney_mono) (simp add: fee_rule_def Let_def)
  moreover have "fe_amount fee = roundMoney (fee_rule n (services_value a)) c
       - (if depositKept a then amount_or_0 (ap_depositAmount a) else 0)"
    unfolding amount using assms(2) whole_money_diff whole_money_round whole_money_0 unfolding c whole_money_def by metis
  moreover have "whole_money (fe_amount fee) c" by (simp add: amount)
  ultimately show ?thesis using pos c by simp
qed


section \<open>Samples\<close>

text \<open>
  A shop with two professionals: the appointment 1 is with the professional 11, was paid through the app
  and starts at 1000000; the owner then books the professional 13 for the same minutes.
\<close>

definition sample_salon :: shop_db where
  "sample_salon = solo_db.extend (sample_solo\<lparr>barbers := \<lparr>rows = [sample_barber 11 2 ''barber'' None,
       sample_barber 13 3 ''barber'' None], seq = 14\<rparr>,
     appointments := \<lparr>rows = [(sample_visit 1 1000000 ''CONFIRMED'')\<lparr>ap_prepaidAmount := Some 50, ap_prepaidAt := Some 5,
       ap_prepaidPaymentIntentId := Some ''pi_1''\<rparr>], seq = 2\<rparr>\<rparr>)
     (shop_db.fields empty_table empty_table empty_table empty_table empty_table empty_table empty_table
        empty_table empty_table empty_table)"

definition sample_request :: appointment_input where
  "sample_request = \<lparr>ai_customerId = 1, ai_barberId = 13, ai_resourceId = None, ai_startAt = Some 1000000,
     ai_endAt = Some 2000000, ai_status = None, ai_notes = None, ai_source = Some ''HISTORY'',
     ai_depositAmount = None, ai_depositPaid = False, ai_depositPaymentMethod = None,
     ai_services = [\<lparr>li_serviceId = 1, li_quantity = None, li_unitPrice = 50\<rparr>]\<rparr>"

definition sample_providers :: providers where
  "sample_providers = \<lparr>pv_retrieve = sample_intent, pv_cancel = (\<lambda>_. True), pv_refund = (\<lambda>_ _ _. Refund_made),
     pv_whatsapp = False\<rparr>"

lemma sample_salon_ok: "agenda_ok sample_salon"
  unfolding agenda_ok_def by (intro conjI; code_simp)

lemma sample_booked:
  "is_ok (fst (createAppointment fixed_zone sample_salon 100 1 7 sample_request))"
  "map ap_id (rows (appointments (snd (createAppointment fixed_zone sample_salon 100 1 7 sample_request)))) = [1, 2]"
  by code_simp+

definition sample_booked_db :: shop_db where
  "sample_booked_db = snd (createAppointment fixed_zone sample_salon 100 1 7 sample_request)"

lemma sample_booked_step: "(agenda_step sample_providers fixed_zone)\<^sup>*\<^sup>* sample_salon sample_booked_db"
  by (rule r_into_rtranclp, rule Create) (simp add: sample_booked_db_def prod_eq_iff)

lemma no_double_booking_witness:
  "ap_startAt (rows (appointments sample_booked_db) ! 1) < ap_endAt (hd (rows (appointments sample_booked_db)))
    \<and> ap_barberId (rows (appointments sample_booked_db) ! 1)
        \<notin> set (personOf sample_booked_db (ap_barberId (hd (rows (appointments sample_booked_db)))))"
proof -
  let ?a = "hd (rows (appointments sample_booked_db))" and ?b = "rows (appointments sample_booked_db) ! 1"
  have "length (rows (appointments sample_booked_db)) = 2" by code_simp
  then have "?a \<in> set (rows (appointments sample_booked_db))" "?b \<in> set (rows (appointments sample_booked_db))"
    by (cases "rows (appointments sample_booked_db)"; simp)+
  moreover have "ap_id ?a \<noteq> ap_id ?b" "ap_status ?a \<notin> {''CANCELLED'', ''NO_SHOW''}"
    "ap_status ?b \<notin> {''CANCELLED'', ''NO_SHOW''}" by code_simp+
  moreover have "ap_startAt ?a < ap_endAt ?b" "ap_startAt ?b < ap_endAt ?a" by code_simp+
  ultimately show ?thesis using no_double_booking [OF sample_salon_ok sample_booked_step] by blast
qed

lemma lock_covers_conflicts_witness:
  "set (lockSchedule sample_salon 11 (Some 4)) \<inter> set (lockSchedule sample_salon 13 (Some 4)) \<noteq> {}"
proof -
  have "links_ok sample_salon" "table_ok bb_id (barbers sample_salon)" using sample_salon_ok by (simp_all add: agenda_ok_def)
  moreover have "sample_barber 11 2 ''barber'' None \<in> set (rows (barbers sample_salon))"
    "sample_barber 13 3 ''barber'' None \<in> set (rows (barbers sample_salon))" by code_simp+
  ultimately show ?thesis
    using lock_covers_conflicts [of sample_salon "sample_barber 11 2 ''barber'' None" "sample_barber 13 3 ''barber'' None" "Some 4" "Some 4"]
    by (simp add: sample_barber_def truthy_def)
qed


section \<open>Two changes of one appointment\<close>

text \<open>
  \<open>updateAppointment\<close> reads the appointment before its transaction and locks the person it read. Below,
  two changes of the appointment 1 read it at the same time: one moves it to 2000000 (the professional
  11 is free then), the other gives it to the professional 13 (free at 1000000, busy at 2000000).
\<close>

definition sample_two :: shop_db where
  "sample_two = sample_salon\<lparr>appointments := \<lparr>rows = [(sample_visit 1 1000000 ''CONFIRMED'')\<lparr>ap_endAt := 1900000, ap_source := ''HISTORY''\<rparr>,
     (sample_visit 2 2000000 ''CONFIRMED'')\<lparr>ap_barberId := 13\<rparr>], seq = 3\<rparr>\<rparr>"

definition no_patch :: appointment_patch where
  "no_patch = \<lparr>up_customerId = None, up_barberId = None, up_resourceId = None, up_startAt = None, up_endAt = None,
     up_notes = None, up_status = None\<rparr>"

lemma sample_two_ok: "agenda_ok sample_two"
  unfolding agenda_ok_def by (intro conjI; code_simp)

definition accepted :: "appointment_patch \<Rightarrow> appointment_patch \<Rightarrow> bool" where
  "accepted p q \<longleftrightarrow> (case update_request fixed_zone sample_two 100 1 7 1 p None of
       (Inr (_, a, p'), db) \<Rightarrow> a = hd (rows (appointments sample_two)) \<and> p' = q \<and> appointments db = appointments sample_two
     | _ \<Rightarrow> False)"

lemma sample_two_moves:
  "accepted (no_patch\<lparr>up_startAt := Some 2000000\<rparr>) (no_patch\<lparr>up_startAt := Some 2000000, up_endAt := Some 2900000\<rparr>)"
  "accepted (no_patch\<lparr>up_barberId := Some 13\<rparr>) (no_patch\<lparr>up_barberId := Some 13\<rparr>)"
  by code_simp+

text \<open>
  C27. Two changes of one appointment can double book. \<open>updateAppointment\<close> reads the appointment before its
  transaction, and each change locks and checks the person and the time it read, so two changes that
  were both accepted (one of the time, one of the professional) write one after the other without either
  seeing the other: the appointment ends at the new time with the new professional, who is already busy then.
\<close>

theorem stale_update_double_books:
  "accepted (no_patch\<lparr>up_startAt := Some 2000000\<rparr>) (no_patch\<lparr>up_startAt := Some 2000000, up_endAt := Some 2900000\<rparr>)
    \<and> accepted (no_patch\<lparr>up_barberId := Some 13\<rparr>) (no_patch\<lparr>up_barberId := Some 13\<rparr>)
    \<and> (let a = hd (rows (appointments sample_two));
          (moved, db1) = rewrite sample_providers 100 7 a a False (no_patch\<lparr>up_startAt := Some 2000000, up_endAt := Some 2900000\<rparr>) sample_two;
          (given, db2) = rewrite sample_providers 100 7 a a False (no_patch\<lparr>up_barberId := Some 13\<rparr>) db1
        in moved = Inr () \<and> given = Inr () \<and> agenda_ok sample_two \<and> agenda_ok db1
          \<and> (\<exists>x \<in> set (rows (appointments db2)). \<exists>y \<in> set (rows (appointments db2)). clash db2 x y))"
proof -
  let ?a = "hd (rows (appointments sample_two))"
  let ?r1 = "rewrite sample_providers 100 7 ?a ?a False (no_patch\<lparr>up_startAt := Some 2000000, up_endAt := Some 2900000\<rparr>) sample_two"
  let ?r2 = "rewrite sample_providers 100 7 ?a ?a False (no_patch\<lparr>up_barberId := Some 13\<rparr>) (snd ?r1)"
  have "fst ?r1 = Inr ()" "fst ?r2 = Inr ()" by code_simp+
  moreover have "agenda_ok (snd ?r1)" unfolding agenda_ok_def by (intro conjI; code_simp)
  moreover have "list_ex (\<lambda>x. list_ex (clash (snd ?r2) x) (rows (appointments (snd ?r2)))) (rows (appointments (snd ?r2)))" by code_simp
  ultimately show ?thesis using sample_two_moves sample_two_ok by (simp add: case_prod_beta list_ex_iff)
qed

end
