(* ===== verification/Walk_Ins.thy ===== *)
theory Walk_Ins
  imports Booking
begin

text \<open>
  The queue of customers without an appointment (\<open>createWalkIn\<close>, \<open>getWalkIns\<close>, \<open>updateWalkInStatus\<close>
  and \<open>closeStaleWalkIns\<close> of \<open>barbershop.service.ts\<close>).

  The lines of an entry are part of its row. \<open>updateWalkInStatus\<close> reads the entry before its transaction,
  so the model splits it in \<open>walk_in_read\<close> and \<open>walk_in_write\<close>; \<open>updateWalkInStatus\<close> runs one after the
  other. \<open>closeStaleWalkIns\<close> is one SQL statement; a zone the database does not know counts as UTC there.
\<close>

section \<open>Operations\<close>

definition WALK_IN_OWN_QUEUE_MESSAGE :: string where
  "WALK_IN_OWN_QUEUE_MESSAGE = ''Seu cargo so permite por clientes na sua propria fila.''"

definition WALK_IN_TRANSITION_MESSAGE :: string where
  "WALK_IN_TRANSITION_MESSAGE = ''Essa mudanca de situacao nao vale para este cliente da fila.''"

definition WALK_IN_STATUSES :: "string list" where
  "WALK_IN_STATUSES = [''WAITING'', ''IN_PROGRESS'', ''COMPLETED'', ''CANCELLED'', ''NOT_SERVED'']"

definition WALK_IN_NEXT :: "string \<Rightarrow> string list" where
  "WALK_IN_NEXT status =
     (if status = ''WAITING'' then [''IN_PROGRESS'', ''CANCELLED'', ''NOT_SERVED'']
      else if status = ''IN_PROGRESS'' then [''COMPLETED'', ''CANCELLED'', ''WAITING'', ''NOT_SERVED'']
      else [])"

definition queueDayStart :: "intl \<Rightarrow> string \<Rightarrow> int \<Rightarrow> int option" where
  "queueDayStart I timezone now = (let tz = safeTimeZone I (Some timezone)
     in zonedTimeToUtc I (z_dateStr (toZonedParts I now tz)) 0 tz)"

text \<open>An invalid date in a filter is an error of the database client.\<close>

definition day_or_fail :: "int option \<Rightarrow> int result" where
  "day_or_fail d = (case d of None \<Rightarrow> Inl (PlainError ''Invalid Date'') | Some t \<Rightarrow> Inr t)"

definition waiting_since :: "int \<Rightarrow> int \<Rightarrow> walk_in \<Rightarrow> bool" where
  "waiting_since barbershopId day w \<longleftrightarrow>
     wi_barbershopId w = barbershopId \<and> wi_status w = ''WAITING'' \<and> day \<le> wi_createdAt w"

definition nextQueuePosition :: "intl \<Rightarrow> 'a solo_db_scheme \<Rightarrow> int \<Rightarrow> int \<Rightarrow> string \<Rightarrow> int result" where
  "nextQueuePosition I db now barbershopId timezone =
     bindE (day_or_fail (queueDayStart I timezone now)) (\<lambda>day. let
       positions = map wi_queuePosition (find_many (waiting_since barbershopId day) (walkIns db))
     in Inr ((if positions = [] then 0 else Max (set positions)) + 1))"

record walk_in_input =
  qi_customerId :: "int option"
  qi_barberId :: "int option"
  qi_customerName :: string
  qi_customerPhone :: "string option"
  qi_services :: "(int \<times> int option \<times> string option) list"

definition hideWalkInContact :: "(int option \<Rightarrow> bool) \<Rightarrow> walk_in \<times> customer option \<Rightarrow> walk_in \<times> customer option" where
  "hideWalkInContact canSee v = (case v of (w, customer') \<Rightarrow>
     if canSee (wi_customerId w) then (w, customer')
     else (w\<lparr>wi_customerPhone := None\<rparr>, hideContact canSee customer'))"

definition walk_in_view :: "'a solo_db_scheme \<Rightarrow> int \<Rightarrow> shop_access \<Rightarrow> walk_in \<Rightarrow> walk_in \<times> customer option" where
  "walk_in_view db userId shop w = hideWalkInContact (contactVisibility db userId shop)
     (w, find_first (\<lambda>c. Some (cu_id c) = wi_customerId w) (customers db))"

definition walk_in_checks :: "'a shop_db_scheme \<Rightarrow> int \<Rightarrow> shop_access \<Rightarrow> int \<Rightarrow> walk_in_input \<Rightarrow> unit result" where
  "walk_in_checks db userId shop barbershopId d = (let own = ownBarberIdIfBarber db userId shop in
     bindE (if truthy (qi_customerId d) then ensureCustomerOfNetwork db (bs_networkId (sa_shop shop)) (the (qi_customerId d))
       else Inr ()) (\<lambda>_.
     bindE (if truthy (qi_barberId d) then bindE (ensureBarberOfBarbershop db barbershopId (the (qi_barberId d)) True) (\<lambda>_. Inr ())
       else Inr ()) (\<lambda>_.
     bindE (throwIf (own \<noteq> None \<and> truthy (qi_barberId d) \<and> qi_barberId d \<noteq> own) (Forbidden WALK_IN_OWN_QUEUE_MESSAGE)) (\<lambda>_.
     ensureItemsOfBarbershop db barbershopId (map fst (qi_services d)) [] True))))"

definition new_walk_in :: "int \<Rightarrow> int \<Rightarrow> int \<Rightarrow> walk_in_input \<Rightarrow> int \<Rightarrow> walk_in" where
  "new_walk_in i now barbershopId d position = \<lparr>wi_id = i, wi_createdAt = now, wi_barbershopId = barbershopId,
     wi_customerId = qi_customerId d, wi_barberId = qi_barberId d, wi_customerName = qi_customerName d,
     wi_customerPhone = qi_customerPhone d, wi_status = ''WAITING'', wi_queuePosition = position, wi_servedAt = None,
     wi_services = map (\<lambda>(s, q, notes). \<lparr>wl_serviceId = s, wl_quantity = or_else q 1, wl_notes = notes\<rparr>) (qi_services d)\<rparr>"

definition enqueue :: "intl \<Rightarrow> 'a solo_db_scheme \<Rightarrow> int \<Rightarrow> int \<Rightarrow> string \<Rightarrow> walk_in_input \<Rightarrow> int result \<times> 'a solo_db_scheme" where
  "enqueue I db now barbershopId timezone d = (case nextQueuePosition I db now barbershopId timezone of
       Inl e \<Rightarrow> (Inl e, db)
     | Inr position \<Rightarrow> (Inr (seq (walkIns db)),
         db\<lparr>walkIns := create_row (\<lambda>i. new_walk_in i now barbershopId d position) (walkIns db)\<rparr>))"

definition walkInById :: "'a solo_db_scheme \<Rightarrow> int \<Rightarrow> walk_in option" where
  "walkInById db i = find_first (\<lambda>w. wi_id w = i) (walkIns db)"

definition createWalkIn :: "intl \<Rightarrow> 'a shop_db_scheme \<Rightarrow> int \<Rightarrow> int \<Rightarrow> int \<Rightarrow> walk_in_input
    \<Rightarrow> ((walk_in \<times> customer option) option) result \<times> 'a shop_db_scheme" where
  "createWalkIn I db now userId barbershopId d =
     and_then (ensureBarbershopAccess db now userId barbershopId Barber, db) (\<lambda>shop db.
     and_then (walk_in_checks db userId shop barbershopId d, db) (\<lambda>_ db.
     and_then (assertSoloBookingAllowed I db now barbershopId now) (\<lambda>_ db.
     and_then (enqueue I db now barbershopId (bs_timezone (sa_shop shop)) d) (\<lambda>i db.
       (Inr (map_option (walk_in_view db userId shop) (walkInById db i)), db)))))"

definition pageTake :: "int option \<Rightarrow> int \<Rightarrow> int \<Rightarrow> int result" where
  "pageTake limit fallback cap = (case limit of
       None \<Rightarrow> Inr (min fallback cap)
     | Some l \<Rightarrow> if l < 1 then Inl (BadRequest ''Informe um limite entre 1 e 200.'') else Inr (min l cap))"

definition LIST_PAGE_MAX :: int where "LIST_PAGE_MAX = 200"

definition walk_in_rank :: "walk_in \<Rightarrow> int" where
  "walk_in_rank w = (if wi_status w = ''WAITING'' then 0 else if wi_status w = ''IN_PROGRESS'' then 1 else 2)"

text \<open>The page is cut by position; only then waiting entries go first.\<close>

definition getWalkIns :: "intl \<Rightarrow> 'a solo_db_scheme \<Rightarrow> int \<Rightarrow> int \<Rightarrow> int \<Rightarrow> string option \<Rightarrow> int option \<Rightarrow> int option
    \<Rightarrow> ((walk_in \<times> customer option) list) result" where
  "getWalkIns I db now userId barbershopId status limit offset =
     bindE (ensureBarbershopAccess db now userId barbershopId Barber) (\<lambda>shop.
     bindE (pageTake limit LIST_PAGE_MAX LIST_PAGE_MAX) (\<lambda>size.
     bindE (day_or_fail (queueDayStart I (bs_timezone (sa_shop shop)) now)) (\<lambda>day. let
       found = find_many (\<lambda>w. wi_barbershopId w = barbershopId \<and> day \<le> wi_createdAt w
         \<and> (given status \<longrightarrow> Some (wi_status w) = status)) (walkIns db);
       page = take (nat size) (drop (nat (or_else offset 0)) (sort_key wi_queuePosition found))
     in Inr (map (walk_in_view db userId shop) (sort_key (\<lambda>w. (walk_in_rank w, wi_queuePosition w)) page)))))"

text \<open>What \<open>updateWalkInStatus\<close> decides before its transaction: the entry as read, and the professional to write, if any.\<close>

record walk_in_change =
  wc_read :: walk_in
  wc_status :: string
  wc_serving :: "(int option) option"

definition walk_in_read :: "'a shop_db_scheme \<Rightarrow> int \<Rightarrow> shop_access \<Rightarrow> int \<Rightarrow> int \<Rightarrow> string \<Rightarrow> int option
    \<Rightarrow> walk_in_change result" where
  "walk_in_read db userId shop barbershopId walkInId status barberId =
     (if status \<notin> set WALK_IN_STATUSES then Inl (BadRequest ''Status invalido'')
      else (case find_first (\<lambda>w. wi_id w = walkInId \<and> wi_barbershopId w = barbershopId) (walkIns db) of
          None \<Rightarrow> Inl (NotFound ''Cliente da fila nao encontrado'')
        | Some w \<Rightarrow> (let own = ownBarberIdIfBarber db userId shop in
            bindE (throwIf (own \<noteq> None \<and> wi_barberId w \<noteq> None \<and> wi_barberId w \<noteq> own)
              (NotFound ''Cliente da fila nao encontrado'')) (\<lambda>_.
            bindE (throwIf (own \<noteq> None \<and> barberId \<noteq> None \<and> barberId \<noteq> own) (Forbidden WALK_IN_OWN_QUEUE_MESSAGE)) (\<lambda>_.
            bindE (throwIf (status \<noteq> wi_status w \<and> status \<notin> set (WALK_IN_NEXT (wi_status w)))
              (BadRequest WALK_IN_TRANSITION_MESSAGE)) (\<lambda>_.
            if status = ''IN_PROGRESS'' \<and> wi_status w \<noteq> ''IN_PROGRESS'' then (let
                serving = (if barberId \<noteq> None then barberId else if wi_barberId w \<noteq> None then wi_barberId w else own)
              in bindE (if serving \<noteq> None \<and> serving \<noteq> wi_barberId w
                   then ensureBarberOfBarbershop db barbershopId (the serving) True else Inr 0) (\<lambda>_.
                 Inr \<lparr>wc_read = w, wc_status = status, wc_serving = Some serving\<rparr>))
            else Inr \<lparr>wc_read = w, wc_status = status, wc_serving = None\<rparr>))))))"

definition write_walk_in :: "int \<Rightarrow> walk_in_change \<Rightarrow> int option \<Rightarrow> walk_in \<Rightarrow> walk_in" where
  "write_walk_in now c position w = w\<lparr>
     wi_status := wc_status c,
     wi_servedAt := (if wc_serving c \<noteq> None then Some now else if position \<noteq> None then None else wi_servedAt w),
     wi_barberId := (case wc_serving c of None \<Rightarrow> wi_barberId w | Some b \<Rightarrow> b),
     wi_queuePosition := or_else position (wi_queuePosition w)\<rparr>"

text \<open>The history of a finished entry: one row per line, with the price of the service today.\<close>

definition history_of :: "'a agenda_db_scheme \<Rightarrow> int \<Rightarrow> int \<Rightarrow> walk_in \<Rightarrow> int \<Rightarrow> int \<Rightarrow> (int \<Rightarrow> service_history) list" where
  "history_of db now barbershopId w customerId servedBy = List.map_filter (\<lambda>l. map_option
     (\<lambda>s i. \<lparr>hi_id = i, hi_barbershopId = barbershopId, hi_customerId = customerId, hi_barberId = servedBy,
        hi_walkInId = Some (wi_id w), hi_serviceId = wl_serviceId l, hi_performedAt = now, hi_priceCharged = sv_price s,
        hi_durationMinutes = Some (sv_durationMinutes s), hi_notes = wl_notes l\<rparr>)
     (find_first (\<lambda>s. sv_id s = wl_serviceId l) (services db))) (wi_services w)"

definition serve :: "int \<Rightarrow> int \<Rightarrow> walk_in_change \<Rightarrow> 'a shop_db_scheme \<Rightarrow> 'a shop_db_scheme" where
  "serve now barbershopId c db = (let
       read = wc_read c;
       servedBy = (case wc_serving c of Some (Some b) \<Rightarrow> Some b | _ \<Rightarrow> wi_barberId read)
     in if wc_status c = ''COMPLETED'' \<and> wi_status read \<noteq> ''COMPLETED'' \<and> truthy (wi_customerId read) \<and> truthy servedBy
        then (case walkInById db (wi_id read) of
            None \<Rightarrow> db
          | Some w \<Rightarrow> db\<lparr>serviceHistories := fold create_row
              (history_of db now barbershopId w (the (wi_customerId read)) (the servedBy)) (serviceHistories db)\<rparr>)
        else db)"

definition walk_in_write :: "intl \<Rightarrow> 'a shop_db_scheme \<Rightarrow> int \<Rightarrow> int \<Rightarrow> string \<Rightarrow> walk_in_change
    \<Rightarrow> walk_in result \<times> 'a shop_db_scheme" where
  "walk_in_write I db now barbershopId timezone c =
     (case (if wc_status c = ''WAITING'' \<and> wi_status (wc_read c) \<noteq> ''WAITING''
            then bindE (nextQueuePosition I db now barbershopId timezone) (\<lambda>p. Inr (Some p)) else Inr None) of
        Inl e \<Rightarrow> (Inl e, db)
      | Inr position \<Rightarrow> (let
            mine = (\<lambda>w. wi_id w = wi_id (wc_read c));
            db1 = db\<lparr>walkIns := update_many mine (write_walk_in now c position) (walkIns db)\<rparr>
          in case walkInById db1 (wi_id (wc_read c)) of
               None \<Rightarrow> (Inl (PlainError ''P2025''), db)
             | Some w \<Rightarrow> (Inr w, serve now barbershopId c db1)))"

definition updateWalkInStatus :: "intl \<Rightarrow> 'a shop_db_scheme \<Rightarrow> int \<Rightarrow> int \<Rightarrow> int \<Rightarrow> int \<Rightarrow> string \<Rightarrow> int option
    \<Rightarrow> (walk_in \<times> customer option) result \<times> 'a shop_db_scheme" where
  "updateWalkInStatus I db now userId barbershopId walkInId status barberId =
     and_then (ensureBarbershopAccess db now userId barbershopId Barber, db) (\<lambda>shop db.
     and_then (walk_in_read db userId shop barbershopId walkInId status barberId, db) (\<lambda>c db.
     and_then (walk_in_write I db now barbershopId (bs_timezone (sa_shop shop)) c) (\<lambda>w db.
       (Inr (hideWalkInContact (contactVisibility db userId shop) (w, None)), db))))"

definition sql_day :: "intl \<Rightarrow> string \<Rightarrow> int \<Rightarrow> string" where
  "sql_day I timezone t = z_dateStr (toZonedParts I t (if zoneKnown I timezone then timezone else ''UTC''))"

definition stale :: "intl \<Rightarrow> 'a solo_db_scheme \<Rightarrow> int \<Rightarrow> walk_in \<Rightarrow> bool" where
  "stale I db now w \<longleftrightarrow> wi_status w \<in> {''WAITING'', ''IN_PROGRESS''}
     \<and> (case shopById db (wi_barbershopId w) of
          None \<Rightarrow> False
        | Some b \<Rightarrow> sql_day I (bs_timezone b) (wi_createdAt w) < sql_day I (bs_timezone b) now)"

definition closeStaleWalkIns :: "intl \<Rightarrow> int \<Rightarrow> 'a solo_db_scheme \<Rightarrow> int \<times> 'a solo_db_scheme" where
  "closeStaleWalkIns I now db = (count_where (stale I db now) (walkIns db),
     db\<lparr>walkIns := update_many (stale I db now) (\<lambda>w. w\<lparr>wi_status := ''NOT_SERVED''\<rparr>) (walkIns db)\<rparr>)"

section \<open>An entry is served once\<close>

definition finished :: "walk_in \<Rightarrow> bool" where
  "finished w \<longleftrightarrow> wi_status w \<in> {''COMPLETED'', ''CANCELLED'', ''NOT_SERVED''}"

lemma finished_next: "finished w \<longleftrightarrow> wi_status w \<in> set WALK_IN_STATUSES \<and> WALK_IN_NEXT (wi_status w) = []"
  by (auto simp: finished_def WALK_IN_STATUSES_def WALK_IN_NEXT_def)

lemma completed_last: "WALK_IN_NEXT ''COMPLETED'' = []"
  by (simp add: WALK_IN_NEXT_def)

definition records_of :: "'a shop_db_scheme \<Rightarrow> int \<Rightarrow> int" where
  "records_of db i = count_where (\<lambda>h. hi_walkInId h = Some i) (serviceHistories db)"

definition allowance :: "walk_in \<Rightarrow> int" where
  "allowance w = (if wi_status w = ''COMPLETED'' then int (length (wi_services w)) else 0)"

definition queue_ok :: "'a shop_db_scheme \<Rightarrow> bool" where
  "queue_ok db \<longleftrightarrow> table_ok wi_id (walkIns db)
     \<and> (\<forall>w \<in> set (rows (walkIns db)). records_of db (wi_id w) \<le> allowance w)
     \<and> (\<forall>i \<ge> seq (walkIns db). records_of db i = 0)"

lemma count_fold_create:
  assumes "\<And>f i. f \<in> set fs \<Longrightarrow> p (f i) = q"
  shows "count_where p (fold create_row fs t) = count_where p t + (if q then int (length fs) else 0)"
  using assms by (induction fs arbitrary: t) (auto simp: count_where_def)

lemma history_of_walk_in:
  "f \<in> set (history_of db now s w c b) \<Longrightarrow> hi_walkInId (f i) = Some (wi_id w)"
  by (auto simp: history_of_def map_filter_def)

lemma history_of_length: "length (history_of db now s w c b) \<le> length (wi_services w)"
  by (simp add: history_of_def map_filter_def order.trans [OF length_filter_le])

lemma serve_frame [simp]: "walkIns (serve now s c db) = walkIns db"
  by (simp add: serve_def Let_def split: option.split)

lemma serve_records:
  "records_of (serve now s c db) i \<le> records_of db i
     + (if i = wi_id (wc_read c) \<and> wc_status c = ''COMPLETED'' \<and> wi_status (wc_read c) \<noteq> ''COMPLETED''
        then (case walkInById db i of None \<Rightarrow> 0 | Some w \<Rightarrow> int (length (wi_services w))) else 0)"
proof (cases "walkInById db (wi_id (wc_read c))")
  case None
  then show ?thesis by (simp add: serve_def Let_def)
next
  case (Some w)
  then have id: "wi_id w = wi_id (wc_read c)" using find_first_Some by (fastforce simp: walkInById_def)
  show ?thesis
    using history_of_length Some id
    by (auto simp: serve_def records_of_def Let_def
        count_fold_create [where q = "wi_id w = i", OF arg_cong2 [where f = "(=)", OF history_of_walk_in refl, THEN trans]])
qed

lemma walk_in_read_facts:
  assumes "walk_in_read db u shop s i status b = Inr c"
  shows "wc_read c \<in> set (rows (walkIns db)) \<and> wi_id (wc_read c) = i \<and> wc_status c = status
    \<and> (status = wi_status (wc_read c) \<or> status \<in> set (WALK_IN_NEXT (wi_status (wc_read c))))
    \<and> (wc_serving c \<noteq> None \<longrightarrow> status = ''IN_PROGRESS'' \<and> wi_status (wc_read c) \<noteq> ''IN_PROGRESS'')"
proof -
  obtain w where w: "find_first (\<lambda>w. wi_id w = i \<and> wi_barbershopId w = s) (walkIns db) = Some w"
  proof (cases "find_first (\<lambda>w. wi_id w = i \<and> wi_barbershopId w = s) (walkIns db)")
    case None
    with assms show ?thesis unfolding walk_in_read_def None option.simps(4) by (simp split: if_split_asm)
  qed
  note run = assms [unfolded walk_in_read_def w option.simps(5) Let_def bindE_throwIf]
  have "status = wi_status w \<or> status \<in> set (WALK_IN_NEXT (wi_status w))"
    using run by (simp split: if_split_asm)
  moreover have "wc_read c = w \<and> wc_status c = status
      \<and> (wc_serving c \<noteq> None \<longrightarrow> status = ''IN_PROGRESS'' \<and> wi_status w \<noteq> ''IN_PROGRESS'')"
  proof (cases "status = ''IN_PROGRESS'' \<and> wi_status w \<noteq> ''IN_PROGRESS''")
    case True
    with run show ?thesis by (auto simp: bindE_eq_Inr split: if_split_asm)
  next
    case False
    with run show ?thesis unfolding if_not_P [OF False] by (auto split: if_split_asm)
  qed
  ultimately show ?thesis using find_first_Some [OF w] by simp
qed

lemma write_keeps [simp]:
  "wi_id (write_walk_in now c p w) = wi_id w" "wi_services (write_walk_in now c p w) = wi_services w"
  "wi_status (write_walk_in now c p w) = wc_status c"
  by (simp_all add: write_walk_in_def)

lemma walk_in_write_cases:
  assumes "walk_in_write I db now s tz c = (r, db')"
  obtains (refused) "db' = db"
  | (written) p where "wc_status c = ''WAITING'' \<and> wi_status (wc_read c) \<noteq> ''WAITING'' \<or> p = None"
      "db' = serve now s c (db\<lparr>walkIns := update_many (\<lambda>w. wi_id w = wi_id (wc_read c)) (write_walk_in now c p) (walkIns db)\<rparr>)"
proof (cases "if wc_status c = ''WAITING'' \<and> wi_status (wc_read c) \<noteq> ''WAITING''
    then bindE (nextQueuePosition I db now s tz) (\<lambda>p. Inr (Some p)) else Inr None")
  case (Inl e)
  with assms refused show ?thesis unfolding walk_in_write_def by simp
next
  case (Inr p)
  then have p: "wc_status c = ''WAITING'' \<and> wi_status (wc_read c) \<noteq> ''WAITING'' \<or> p = None" by (simp split: if_split_asm)
  note run = assms [unfolded walk_in_write_def Inr sum.case Let_def]
  show ?thesis
  proof (cases "walkInById (db\<lparr>walkIns := update_many (\<lambda>w. wi_id w = wi_id (wc_read c)) (write_walk_in now c p) (walkIns db)\<rparr>)
      (wi_id (wc_read c))")
    case None
    with run show ?thesis by (intro refused) simp
  next
    case (Some w)
    with run show ?thesis by (intro written [OF p]) simp
  qed
qed

lemma records_walkIns [simp]: "records_of (db\<lparr>walkIns := t\<rparr>) i = records_of db i"
  by (simp add: records_of_def)

lemma records_nonneg: "0 \<le> records_of db i"
  by (simp add: records_of_def count_where_nonneg)

text \<open>A change that was read from the present state is written over the row it read.\<close>

definition fresh :: "'a solo_db_scheme \<Rightarrow> walk_in_change \<Rightarrow> bool" where
  "fresh db c \<longleftrightarrow> wc_read c \<in> set (rows (walkIns db))
     \<and> (wc_status c = wi_status (wc_read c) \<or> wc_status c \<in> set (WALK_IN_NEXT (wi_status (wc_read c))))
     \<and> (wc_serving c \<noteq> None \<longrightarrow> wc_status c = ''IN_PROGRESS'' \<and> wi_status (wc_read c) \<noteq> ''IN_PROGRESS'')"

lemma write_finished:
  assumes "fresh db c" and "finished (wc_read c)" and "wc_status c = ''WAITING'' \<and> wi_status (wc_read c) \<noteq> ''WAITING'' \<or> p = None"
  shows "write_walk_in now c p (wc_read c) = wc_read c"
proof -
  have same: "wc_status c = wi_status (wc_read c)" using assms(1,2) by (simp add: fresh_def finished_next)
  then have "wc_serving c = None" "p = None" using assms(1,3) unfolding fresh_def by metis+
  with same show ?thesis by (simp add: write_walk_in_def or_else_def)
qed

lemma walk_in_write_ok:
  assumes ok: "queue_ok db" and fresh: "fresh db c" and run: "walk_in_write I db now s tz c = (r, db')"
  shows "queue_ok db' \<and> (\<forall>w \<in> set (rows (walkIns db)). finished w \<longrightarrow> w \<in> set (rows (walkIns db')))"
  using run
proof (cases rule: walk_in_write_cases)
  case refused
  then show ?thesis using ok by simp
next
  case (written p)
  let ?i = "wi_id (wc_read c)"
  let ?db1 = "db\<lparr>walkIns := update_many (\<lambda>w. wi_id w = ?i) (write_walk_in now c p) (walkIns db)\<rparr>"
  have tab: "table_ok wi_id (walkIns db)" using ok by (simp add: queue_ok_def)
  have only: "w = wc_read c" if "w \<in> set (rows (walkIns db))" "wi_id w = ?i" for w
    using walk_in_tab.key_inj [OF tab that(1) _ that(2)] fresh by (simp add: fresh_def)
  have tab': "table_ok wi_id (walkIns ?db1)" using tab by (simp add: walk_in_tab.ok_update)
  have row: "walkInById ?db1 ?i = Some (write_walk_in now c p (wc_read c))"
    using walk_in_tab.find_by_key [OF tab', of "write_walk_in now c p (wc_read c)"] fresh
    by (force simp: walkInById_def fresh_def)
  have before: "records_of db ?i \<le> allowance (wc_read c)" using ok fresh by (simp add: queue_ok_def fresh_def)
  have done': "wi_status (wc_read c) = ''COMPLETED'' \<longrightarrow> wc_status c = ''COMPLETED''"
    using fresh completed_last by (metis empty_iff empty_set fresh_def)
  have after: "records_of db' ?i \<le> allowance (write_walk_in now c p (wc_read c))"
    using serve_records [of now s c ?db1 ?i] before done' row written(2) by (auto simp: allowance_def split: if_split_asm)
  have others: "records_of db' j \<le> records_of db j" if "j \<noteq> ?i" for j
    using serve_records [of now s c ?db1 j] that written(2) by simp
  have "records_of db' (wi_id w) \<le> allowance w" if "w \<in> set (rows (walkIns db'))" for w
    using that written(2) only after others [of "wi_id w"] ok by (force simp: queue_ok_def)
  moreover have "records_of db' j = 0" if "seq (walkIns db') \<le> j" for j
  proof -
    have "?i < seq (walkIns db)" using tab fresh by (auto simp: table_ok_def fresh_def)
    with that written(2) others [of j] ok records_nonneg [of db' j] show ?thesis by (auto simp: queue_ok_def)
  qed
  moreover have "w \<in> set (rows (walkIns db'))" if "w \<in> set (rows (walkIns db))" "finished w" for w
    using that only [of w] write_finished [OF fresh _ written(1), of now] written(2) by (force simp: image_iff)
  ultimately show ?thesis using tab' written(2) by (simp add: queue_ok_def)
qed

text \<open>The queue as its operations run one at a time; a customer is served, put back, cancelled or left behind.\<close>

inductive queue_step :: "intl \<Rightarrow> shop_db \<Rightarrow> shop_db \<Rightarrow> bool" for I where
  Arrive: "createWalkIn I db now u s d = (r, db') \<Longrightarrow> queue_step I db db'"
| Change: "updateWalkInStatus I db now u s i status b = (r', db') \<Longrightarrow> queue_step I db db'"
| Close: "closeStaleWalkIns I now db = (n, db') \<Longrightarrow> queue_step I db db'"

definition queue_kept :: "'a shop_db_scheme \<Rightarrow> 'a shop_db_scheme \<Rightarrow> bool" where
  "queue_kept db db' \<longleftrightarrow> queue_ok db' \<and> (\<forall>w \<in> set (rows (walkIns db)). finished w \<longrightarrow> w \<in> set (rows (walkIns db')))"

lemma queue_frame:
  "walkIns db' = walkIns db \<Longrightarrow> serviceHistories db' = serviceHistories db \<Longrightarrow> queue_ok db' = queue_ok db"
  by (simp add: queue_ok_def records_of_def)

lemma solo_queue_frame:
  fixes db :: "'a shop_db_scheme"
  assumes "assertSoloBookingAllowed I db now s t = (r, db')"
  shows "walkIns db' = walkIns db \<and> serviceHistories db' = serviceHistories db"
  using solo_booking_months [OF assms] by (auto simp: only_months_def)

lemma enqueue_ok:
  fixes db :: "'a shop_db_scheme"
  assumes ok: "queue_ok db" and run: "enqueue I db now s tz d = (r, db')"
  shows "queue_kept db db'"
proof (cases "nextQueuePosition I db now s tz")
  case (Inl e)
  then show ?thesis using ok run by (simp add: enqueue_def queue_kept_def)
next
  case (Inr p)
  have db': "db' = db\<lparr>walkIns := create_row (\<lambda>i. new_walk_in i now s d p) (walkIns db)\<rparr>"
    using run Inr by (simp add: enqueue_def)
  have "table_ok wi_id (walkIns db')"
    using ok by (simp add: db' queue_ok_def walk_in_tab.ok_create new_walk_in_def)
  moreover have "allowance (new_walk_in i now s d p) = 0" for i by (simp add: allowance_def new_walk_in_def)
  moreover have "wi_id (new_walk_in i now s d p) = i" for i by (simp add: new_walk_in_def)
  ultimately show ?thesis using ok by (auto simp: db' queue_ok_def queue_kept_def)
qed

lemma create_queue_ok:
  fixes db :: "'a shop_db_scheme"
  assumes ok: "queue_ok db" and run: "createWalkIn I db now u s d = (r, db')"
  shows "queue_kept db db'"
proof -
  have same: "queue_kept db d" if "walkIns d = walkIns db" "serviceHistories d = serviceHistories db" for d
    using queue_frame [OF that] ok that by (simp add: queue_kept_def)
  have step: "queue_kept db d'" if "assertSoloBookingAllowed I db now s now = (r1, d)" "enqueue I d now s tz x = (r2, d')"
    for r1 d tz x r2 d'
    using enqueue_ok [OF _ that(2)] solo_queue_frame [OF that(1)] queue_frame [of d db] ok by (simp add: queue_kept_def)
  have refl: "queue_ok d \<Longrightarrow> queue_kept d d" for d :: "'a shop_db_scheme" by (simp add: queue_kept_def)
  show ?thesis
    using run ok unfolding createWalkIn_def
    by (auto elim!: and_thenE intro: step same refl dest: solo_queue_frame)
qed

lemma closeStale_ok:
  fixes db :: "'a shop_db_scheme"
  assumes ok: "queue_ok db" and run: "closeStaleWalkIns I now db = (n, db')"
  shows "queue_kept db db'"
proof -
  have db': "db' = db\<lparr>walkIns := update_many (stale I db now) (\<lambda>w. w\<lparr>wi_status := ''NOT_SERVED''\<rparr>) (walkIns db)\<rparr>"
    using run by (simp add: closeStaleWalkIns_def)
  have "table_ok wi_id (walkIns db')" using ok by (simp add: db' queue_ok_def walk_in_tab.ok_update)
  moreover have "stale I db now w \<Longrightarrow> allowance w = 0 \<and> \<not> finished w" for w
    by (auto simp: stale_def allowance_def finished_def)
  moreover have "allowance (w\<lparr>wi_status := ''NOT_SERVED''\<rparr>) = 0" for w by (simp add: allowance_def)
  ultimately show ?thesis using ok by (force simp: db' queue_ok_def queue_kept_def image_iff)
qed

lemma update_queue_ok:
  fixes db :: "'a shop_db_scheme"
  assumes ok: "queue_ok db" and run: "updateWalkInStatus I db now u s i status b = (r, db')"
  shows "queue_kept db db'"
proof -
  have refl: "queue_ok d \<Longrightarrow> queue_kept d d" for d :: "'a shop_db_scheme" by (simp add: queue_kept_def)
  have "queue_kept db d" if "walk_in_read db u shop s i status b = Inr c" "walk_in_write I db now s tz c = (r', d)"
    for shop c tz r' d
    using walk_in_write_ok [OF ok _ that(2)] walk_in_read_facts [OF that(1)] by (auto simp: queue_kept_def fresh_def)
  then show ?thesis
    using run ok unfolding updateWalkInStatus_def by (auto elim!: and_thenE intro: refl)
qed

lemma queue_step_kept: "queue_step I db db' \<Longrightarrow> queue_ok db \<Longrightarrow> queue_kept db db'"
  by (induction rule: queue_step.induct) (blast intro: create_queue_ok update_queue_ok closeStale_ok)+

lemma queue_steps_kept: "(queue_step I)\<^sup>*\<^sup>* db db' \<Longrightarrow> queue_ok db \<Longrightarrow> queue_kept db db'"
proof (induction rule: rtranclp_induct)
  case base
  then show ?case by (simp add: queue_kept_def)
next
  case (step d d')
  then show ?case using queue_step_kept [OF step(2)] by (auto simp: queue_kept_def)
qed


section \<open>Samples\<close>

text \<open>The entry 1 of the queue of \<open>sample_salon\<close> is with the professional 11 and in progress.\<close>

definition sample_queue :: shop_db where
  "sample_queue = sample_salon\<lparr>walkIns := \<lparr>rows = [\<lparr>wi_id = 1, wi_createdAt = 50, wi_barbershopId = 7, wi_customerId = Some 1,
     wi_barberId = Some 11, wi_customerName = ''Ana'', wi_customerPhone = None, wi_status = ''IN_PROGRESS'',
     wi_queuePosition = 1, wi_servedAt = Some 60,
     wi_services = [\<lparr>wl_serviceId = 1, wl_quantity = 1, wl_notes = None\<rparr>]\<rparr>], seq = 2\<rparr>\<rparr>"

lemma sample_queue_ok: "queue_ok sample_queue"
proof -
  have "table_ok wi_id (walkIns sample_queue)" by code_simp
  moreover have "rows (serviceHistories sample_queue) = []" by code_simp
  ultimately show ?thesis by (auto simp: queue_ok_def records_of_def count_where_def allowance_def)
qed

definition sample_served :: shop_db where
  "sample_served = snd (updateWalkInStatus fixed_zone sample_queue 100 1 7 1 ''COMPLETED'' None)"


text \<open>
  \<open>updateWalkInStatus\<close> reads the entry before its transaction and the update is not conditional: two
  clicks on "completed" that read the entry at the same time both record the service.
\<close>

lemma double_completion_recorded_twice:
  "\<exists>c. walk_in_read sample_queue 1 (projr (ensureBarbershopAccess sample_queue 100 1 7 Barber)) 7 1 ''COMPLETED'' None = Inr c
    \<and> records_of (snd (walk_in_write fixed_zone (snd (walk_in_write fixed_zone sample_queue 100 7 ''UTC'' c)) 101 7 ''UTC'' c)) 1 = 2"
proof -
  let ?c = "walk_in_read sample_queue 1 (projr (ensureBarbershopAccess sample_queue 100 1 7 Barber)) 7 1 ''COMPLETED'' None"
  have "is_ok ?c" by code_simp
  moreover have "records_of (snd (walk_in_write fixed_zone (snd (walk_in_write fixed_zone sample_queue 100 7 ''UTC'' (projr ?c)))
      101 7 ''UTC'' (projr ?c))) 1 = 2" by code_simp
  ultimately show ?thesis by (auto elim: is_okE)
qed

end
