(* ===== verification/Cash_Desk.thy ===== *)
theory Cash_Desk
  imports Walk_Ins
begin

text \<open>
  The cash desk of a shop (\<open>barbershop.service.ts\<close>): opening and closing it, the expenses, and the removal of an
  appointment, which refuses when money depends on it.

  Opening checks and creates under one lock, so it is one step. Closing reads the sums (\<open>close_read\<close>) and
  writes them later (\<open>close_write\<close>); \<open>closeCashSession\<close> runs one after the other. An expense date is
  trimmed text. What a removal looks up in tables outside the model (reviews, ratings, reported chats) is one
  flag of the call.
\<close>

section \<open>Opening and closing\<close>

definition getCurrentCashSession :: "'a shop_db_scheme \<Rightarrow> int \<Rightarrow> int \<Rightarrow> int \<Rightarrow> (cash_session option) result" where
  "getCurrentCashSession db now userId barbershopId =
     bindE (ensureBarbershopAccess db now userId barbershopId Barber) (\<lambda>_.
     bindE (ensureModuleAccess db now barbershopId Mod_cashFlow) (\<lambda>_. Inr (openSession db barbershopId)))"

definition getCashSessions :: "'a shop_db_scheme \<Rightarrow> int \<Rightarrow> int \<Rightarrow> int \<Rightarrow> int \<Rightarrow> (cash_session list) result" where
  "getCashSessions db now userId barbershopId limit =
     bindE (ensureBarbershopAccess db now userId barbershopId Manager) (\<lambda>_.
     bindE (ensureModuleAccess db now barbershopId Mod_cashFlow) (\<lambda>_.
       Inr (take (nat limit) (sort_key (\<lambda>s. - cs_openedAt s)
         (find_many (\<lambda>s. cs_barbershopId s = barbershopId) (cashSessions db))))))"

definition new_session :: "int \<Rightarrow> int \<Rightarrow> int \<Rightarrow> int \<Rightarrow> rat \<Rightarrow> cash_session" where
  "new_session i now userId barbershopId balance = \<lparr>cs_id = i, cs_barbershopId = barbershopId, cs_openedByUserId = userId,
     cs_openedAt = now, cs_openingBalance = balance, cs_closedByUserId = None, cs_closedAt = None,
     cs_countedBalance = None, cs_expectedBalance = None, cs_difference = None, cs_status = ''OPEN'', cs_notes = None\<rparr>"

definition openCashSession :: "'a shop_db_scheme \<Rightarrow> int \<Rightarrow> int \<Rightarrow> int \<Rightarrow> rat \<Rightarrow> ('a shop_db_scheme) result" where
  "openCashSession db now userId barbershopId openingBalance =
     bindE (ensureBarbershopAccess db now userId barbershopId Reception) (\<lambda>shop.
     bindE (ensureModuleAccess db now barbershopId Mod_cashFlow) (\<lambda>_.
     bindE (checkMoney ''Troco inicial'' (Some openingBalance) (Some (bs_currency (sa_shop shop)))) (\<lambda>_.
     bindE (throwIf (openSession db barbershopId \<noteq> None) (BadRequest ''Ja existe um caixa aberto para esta unidade'')) (\<lambda>_.
       Inr (db\<lparr>cashSessions := create_row (\<lambda>i. new_session i now userId barbershopId openingBalance) (cashSessions db)\<rparr>)))))"

text \<open>\<open>_sum\<close> of a filtered table, 0 where no row matches.\<close>

definition sum_where :: "('r \<Rightarrow> bool) \<Rightarrow> ('r \<Rightarrow> rat) \<Rightarrow> 'r table \<Rightarrow> rat" where
  "sum_where p f t = sum_list (map f (find_many p t))"

definition cashSales :: "'a shop_db_scheme \<Rightarrow> int \<Rightarrow> rat" where
  "cashSales db i = sum_where (\<lambda>s. se_cashSessionId s = Some i \<and> se_paymentMethod s = Some ''CASH'' \<and> se_paymentStatus s = ''PAID'')
     se_total (sales db)"

definition cashExpenses :: "'a shop_db_scheme \<Rightarrow> int \<Rightarrow> rat" where
  "cashExpenses db i = sum_where (\<lambda>e. ex_cashSessionId e = Some i \<and> ex_paymentMethod e = Some ''CASH'') ex_amount (expenses db)"

definition cashRent :: "'a shop_db_scheme \<Rightarrow> int \<Rightarrow> rat" where
  "cashRent db i = sum_where (\<lambda>r. rp_cashSessionId r = Some i \<and> rp_method r = ''CASH'' \<and> rp_status r = ''SUCCEEDED'')
     rp_amount (rentPayments db)"

definition cashTips :: "'a shop_db_scheme \<Rightarrow> int \<Rightarrow> rat" where
  "cashTips db i = sum_where (\<lambda>t. tp_cashSessionId t = Some i \<and> tp_method t = ''CASH'') tp_amount (tips db)"

definition cashDeposits :: "'a shop_db_scheme \<Rightarrow> int \<Rightarrow> rat" where
  "cashDeposits db i = sum_where (\<lambda>a. ap_depositCashSessionId a = Some i \<and> ap_depositPaid a \<and> ap_depositManualMethod a = Some ''CASH'')
     (amount_or_0 \<circ> ap_depositAmount) (appointments db)"

definition expected_balance :: "'a shop_db_scheme \<Rightarrow> cash_session \<Rightarrow> rat" where
  "expected_balance db s = (let
       cashIn = cashSales db (cs_id s) + cashRent db (cs_id s) + cashTips db (cs_id s) + cashDeposits db (cs_id s);
       cashOut = cashExpenses db (cs_id s)
     in cs_openingBalance s + cashIn - cashOut)"

definition close_read :: "'a shop_db_scheme \<Rightarrow> int \<Rightarrow> int \<Rightarrow> int \<Rightarrow> rat \<Rightarrow> (cash_session \<times> rat) result" where
  "close_read db now userId barbershopId counted =
     bindE (ensureBarbershopAccess db now userId barbershopId Reception) (\<lambda>shop.
     bindE (ensureModuleAccess db now barbershopId Mod_cashFlow) (\<lambda>_.
     bindE (checkMoney ''Valor contado'' (Some counted) (Some (bs_currency (sa_shop shop)))) (\<lambda>_.
       case openSession db barbershopId of
         None \<Rightarrow> Inl (NotFound ''Nenhum caixa aberto para esta unidade'')
       | Some s \<Rightarrow> Inr (s, expected_balance db s))))"

definition close_row :: "int \<Rightarrow> int \<Rightarrow> rat \<Rightarrow> string option \<Rightarrow> rat \<Rightarrow> cash_session \<Rightarrow> cash_session" where
  "close_row now userId counted notes expected s = s\<lparr>cs_closedByUserId := Some userId, cs_closedAt := Some now,
     cs_countedBalance := Some counted, cs_expectedBalance := Some expected,
     cs_difference := Some (counted - expected), cs_status := ''CLOSED'',
     cs_notes := (if notes = None then cs_notes s else notes)\<rparr>"

definition close_write :: "'a shop_db_scheme \<Rightarrow> int \<Rightarrow> int \<Rightarrow> rat \<Rightarrow> string option \<Rightarrow> cash_session \<times> rat
    \<Rightarrow> ('a shop_db_scheme) result" where
  "close_write db now userId counted notes r = (let mine = (\<lambda>s. cs_id s = cs_id (fst r) \<and> cs_status s = ''OPEN'') in
     if count_where mine (cashSessions db) = 0 then Inl (BadRequest ''Este caixa ja foi fechado'')
     else Inr (db\<lparr>cashSessions := update_many mine (close_row now userId counted notes (snd r)) (cashSessions db)\<rparr>))"

definition closeCashSession :: "'a shop_db_scheme \<Rightarrow> int \<Rightarrow> int \<Rightarrow> int \<Rightarrow> rat \<Rightarrow> string option \<Rightarrow> ('a shop_db_scheme) result" where
  "closeCashSession db now userId barbershopId counted notes =
     bindE (close_read db now userId barbershopId counted) (close_write db now userId counted notes)"

section \<open>Expenses\<close>

definition EXPENSE_CATEGORIES :: "string list" where
  "EXPENSE_CATEGORIES = [''RENT'', ''UTILITIES'', ''SUPPLIES'', ''SALARY'', ''MAINTENANCE'', ''OTHER'']"

definition EXPENSE_DATE_INVALID_MESSAGE :: string where
  "EXPENSE_DATE_INVALID_MESSAGE = ''Data da despesa invalida''"

definition EXPENSE_DESCRIPTION_MAX :: int where "EXPENSE_DESCRIPTION_MAX = 300"

record expense_input =
  xi_category :: string
  xi_description :: string
  xi_amount :: rat
  xi_paymentMethod :: "string option"
  xi_expenseDate :: "string option"

text \<open>The day of the expense and the instant to write; a day that is no date at all is a RangeError.\<close>

definition expense_day :: "intl \<Rightarrow> int \<Rightarrow> string \<Rightarrow> string option \<Rightarrow> (string \<times> int) result" where
  "expense_day I now timeZone date = (let today = z_dateStr (toZonedParts I now timeZone) in
     if \<not> given date then Inr (today, now)
     else (let v = js_trim (text_of date) in
       case isCalendarDay v of
         None \<Rightarrow> Inl (PlainError ''RangeError'')
       | Some valid \<Rightarrow>
           if \<not> valid \<or> v > today then Inl (BadRequest EXPENSE_DATE_INVALID_MESSAGE)
           else if v = today then Inr (v, now)
           else (case zonedTimeToUtc I v (12 * 60) timeZone of
               None \<Rightarrow> Inl (PlainError ''Invalid Date'')
             | Some t \<Rightarrow> Inr (v, t))))"

definition expense_checks :: "shop_access \<Rightarrow> expense_input \<Rightarrow> (string option \<times> string) result" where
  "expense_checks shop d = (let
       paymentMethod = (let m = js_trim (text_of (xi_paymentMethod d)) in if m = [] then None else Some m);
       description = js_trim (xi_description d)
     in bindE (throwIf (xi_amount d \<le> 0) (BadRequest ''Valor da despesa invalido'')) (\<lambda>_.
     bindE (checkMoney ''Valor da despesa'' (Some (xi_amount d)) (Some (bs_currency (sa_shop shop)))) (\<lambda>_.
     bindE (throwIf (xi_category d \<notin> set EXPENSE_CATEGORIES) (BadRequest ''Categoria da despesa invalida'')) (\<lambda>_.
     bindE (throwIf (case paymentMethod of None \<Rightarrow> False | Some m \<Rightarrow> m \<notin> set SALE_PAYMENT_METHODS)
       (BadRequest ''Forma de pagamento invalida'')) (\<lambda>_.
     bindE (throwIf (description = [] \<or> int (length description) > EXPENSE_DESCRIPTION_MAX)
       (BadRequest ''Descreva a despesa (ate 300 caracteres)'')) (\<lambda>_. Inr (paymentMethod, description)))))))"

definition createExpense :: "intl \<Rightarrow> 'a shop_db_scheme \<Rightarrow> int \<Rightarrow> int \<Rightarrow> int \<Rightarrow> expense_input
    \<Rightarrow> ('a shop_db_scheme) result" where
  "createExpense I db now userId barbershopId d =
     bindE (ensureBarbershopAccess db now userId barbershopId Manager) (\<lambda>shop.
     bindE (ensureModuleAccess db now barbershopId Mod_cashFlow) (\<lambda>_.
     bindE (expense_checks shop d) (\<lambda>(paymentMethod, description). let
       timeZone = safeTimeZone I (Some (bs_timezone (sa_shop shop)));
       today = z_dateStr (toZonedParts I now timeZone)
     in bindE (expense_day I now timeZone (xi_expenseDate d)) (\<lambda>(day, expenseDate).
       Inr (db\<lparr>expenses := create_row (\<lambda>i. \<lparr>ex_id = i, ex_barbershopId = barbershopId,
         ex_cashSessionId = (if day = today then map_option cs_id (openSession db barbershopId) else None),
         ex_category = xi_category d, ex_description = description, ex_amount = xi_amount d,
         ex_paymentMethod = paymentMethod, ex_expenseDate = expenseDate, ex_createdByUserId = userId\<rparr>) (expenses db)\<rparr>)))))"

definition getExpenses :: "'a shop_db_scheme \<Rightarrow> int \<Rightarrow> int \<Rightarrow> int \<Rightarrow> int option \<Rightarrow> int option \<Rightarrow> string option
    \<Rightarrow> (expense list) result" where
  "getExpenses db now userId barbershopId from' to' category =
     bindE (ensureBarbershopAccess db now userId barbershopId Manager) (\<lambda>_.
     bindE (ensureModuleAccess db now barbershopId Mod_cashFlow) (\<lambda>_.
       Inr (sort_key (\<lambda>e. - ex_expenseDate e) (find_many (\<lambda>e. ex_barbershopId e = barbershopId
         \<and> (given category \<longrightarrow> Some (ex_category e) = category)
         \<and> (case from' of None \<Rightarrow> True | Some t \<Rightarrow> t \<le> ex_expenseDate e)
         \<and> (case to' of None \<Rightarrow> True | Some t \<Rightarrow> ex_expenseDate e \<le> t)) (expenses db)))))"

definition deleteExpense :: "'a shop_db_scheme \<Rightarrow> int \<Rightarrow> int \<Rightarrow> int \<Rightarrow> int \<Rightarrow> ('a shop_db_scheme) result" where
  "deleteExpense db now userId barbershopId expenseId =
     bindE (ensureBarbershopAccess db now userId barbershopId Manager) (\<lambda>_.
     bindE (ensureModuleAccess db now barbershopId Mod_cashFlow) (\<lambda>_.
     case find_first (\<lambda>e. ex_id e = expenseId \<and> ex_barbershopId e = barbershopId) (expenses db) of
       None \<Rightarrow> Inl (NotFound ''Despesa nao encontrada'')
     | Some e \<Rightarrow>
     bindE (throwIf (\<exists>s \<in> set (rows (cashSessions db)). ex_cashSessionId e = Some (cs_id s) \<and> cs_status s = ''CLOSED'')
       (BadRequest ''Essa despesa e de um caixa ja fechado. Lance a correcao no caixa aberto.'')) (\<lambda>_.
     bindE (throwIf (count_where (\<lambda>p. pe_expenseId p = Some expenseId) (payEntries db) > 0
         \<or> count_where (\<lambda>p. po_expenseId p = Some expenseId) (payouts db) > 0)
       (BadRequest ''Essa despesa veio do pagamento da equipe. Desfaca por la (Pagamento da equipe).'')) (\<lambda>_.
     bindE (throwIf (count_where (\<lambda>r. rp_memberExpenseId r = Some expenseId) (rentPayments db) > 0)
       (BadRequest ''Essa despesa veio do aluguel da cadeira. Desfaca o pagamento do aluguel por la.'')) (\<lambda>_.
       Inr (db\<lparr>expenses := delete_many (\<lambda>x. ex_id x = expenseId) (expenses db)\<rparr>))))))"

section \<open>Removing an appointment\<close>

definition DEPOSIT_RECEIVED_DELETE_MESSAGE :: string where
  "DEPOSIT_RECEIVED_DELETE_MESSAGE = ''Este horario tem sinal recebido pela equipe. Cancele em vez de excluir, ou desmarque o sinal antes (com o caixa aberto).''"

text \<open>\<open>linked\<close>: a review, a rating or a chat that was reported or closed.\<close>

definition delete_checks :: "'a shop_db_scheme \<Rightarrow> appointment \<Rightarrow> bool \<Rightarrow> bool \<Rightarrow> unit result" where
  "delete_checks db a paidMeanwhile linked =
     bindE (throwIf (paidMeanwhile \<or> ap_depositPaid a \<and> ap_depositPaidAt a \<noteq> None)
       (BadRequest ''Este horario tem sinal pago online. Cancele (o sinal e estornado) em vez de excluir.'')) (\<lambda>_.
     bindE (throwIf (ap_depositPaid a) (BadRequest DEPOSIT_RECEIVED_DELETE_MESSAGE)) (\<lambda>_.
     throwIf (ap_status a \<in> {''COMPLETED'', ''IN_PROGRESS'', ''NO_SHOW''} \<or> saleOf db (ap_id a) \<noteq> None
         \<or> count_where (\<lambda>t. tp_appointmentId t = ap_id a) (tips db) > 0
         \<or> count_where (\<lambda>f. nf_appointmentId f = ap_id a) (noShowFees db) > 0
         \<or> ap_prepaidAt a \<noteq> None \<or> linked)
       (BadRequest ''Este horario ja aconteceu ou tem registro ligado. Cancele (ou marque falta) em vez de excluir.'')))"

text \<open>A hold is settled with the provider before it goes; paid in the meantime, it stays.\<close>

definition paid_meanwhile :: "providers \<Rightarrow> int \<Rightarrow> appointment \<Rightarrow> 'a shop_db_scheme \<Rightarrow> bool result \<times> 'a shop_db_scheme" where
  "paid_meanwhile P now a db = (if ap_status a = ''PENDING_PAYMENT''
     then (case settleForStaff (pv_retrieve P) (pv_cancel P) now (ap_id a) db of
         (Inl e, _, db1) \<Rightarrow> (Inl e, db1) | (Inr answer, _, db1) \<Rightarrow> (Inr (answer = ''paid''), db1))
     else (Inr False, db))"

definition deleteAppointment :: "providers \<Rightarrow> 'a shop_db_scheme \<Rightarrow> int \<Rightarrow> int \<Rightarrow> int \<Rightarrow> int \<Rightarrow> bool
    \<Rightarrow> unit result \<times> 'a shop_db_scheme" where
  "deleteAppointment P db now userId barbershopId appointmentId linked =
     and_then (ensureBarbershopAccess db now userId barbershopId Manager, db) (\<lambda>_ db.
     case find_first (\<lambda>a. ap_id a = appointmentId \<and> ap_barbershopId a = barbershopId) (appointments db) of
       None \<Rightarrow> (Inl (NotFound ''Agendamento nao encontrado''), db)
     | Some a \<Rightarrow>
     and_then (paid_meanwhile P now a db) (\<lambda>paidMeanwhile db.
     and_then (delete_checks db a paidMeanwhile linked, db) (\<lambda>_ db.
       (Inr (), db\<lparr>appointments := delete_many (\<lambda>x. ap_id x = appointmentId) (appointments db)\<rparr>))))"

section \<open>Sums of a table\<close>

lemma sum_where_update:
  assumes "\<And>r. r \<in> set (rows t) \<Longrightarrow> q r \<Longrightarrow> (p (g r) \<longleftrightarrow> p r) \<and> (p r \<longrightarrow> f (g r) = f r)"
  shows "sum_where p f (update_many q g t) = sum_where p f t"
proof -
  have "sum_list (map f (filter p (map (\<lambda>r. if q r then g r else r) xs))) = sum_list (map f (filter p xs))"
    if "set xs \<subseteq> set (rows t)" for xs
    using that assms by (induction xs) auto
  from this [of "rows t"] show ?thesis by (simp add: sum_where_def find_many_def)
qed

lemma sum_where_create: "sum_where p f (create_row mk t) = sum_where p f t + (if p (mk (seq t)) then f (mk (seq t)) else 0)"
  by (simp add: sum_where_def find_many_def)

lemma sum_where_delete:
  assumes "\<And>r. r \<in> set (rows t) \<Longrightarrow> q r \<Longrightarrow> \<not> p r"
  shows "sum_where p f (delete_many q t) = sum_where p f t"
proof -
  have "filter p (filter (\<lambda>r. \<not> q r) (rows t)) = filter p (rows t)"
    using assms by (auto simp: filter_filter intro: filter_cong)
  then show ?thesis by (simp add: sum_where_def find_many_def)
qed

section \<open>The books of a closed cash desk stay true\<close>

interpretation expense_tab: row_table ex_id "table_ok ex_id"
  by unfold_locales (rule table_ok_def)

text \<open>The session of a closed desk recorded what the tables add up to.\<close>

definition settled :: "'a shop_db_scheme \<Rightarrow> cash_session \<Rightarrow> bool" where
  "settled db s \<longleftrightarrow> cs_status s = ''CLOSED'' \<and> cs_expectedBalance s = Some (expected_balance db s)
     \<and> (\<exists>counted. cs_countedBalance s = Some counted \<and> cs_difference s = Some (counted - expected_balance db s))"

definition cash_ok :: "'a shop_db_scheme \<Rightarrow> bool" where
  "cash_ok db \<longleftrightarrow> table_ok cs_id (cashSessions db) \<and> table_ok ex_id (expenses db) \<and> table_ok ap_id (appointments db)
     \<and> (\<forall>s \<in> set (rows (cashSessions db)). cs_status s = ''OPEN'' \<or> settled db s)
     \<and> (\<forall>s \<in> set (rows (cashSessions db)). \<forall>t \<in> set (rows (cashSessions db)).
          cs_status s = ''OPEN'' \<and> cs_status t = ''OPEN'' \<and> cs_barbershopId s = cs_barbershopId t \<longrightarrow> s = t)
     \<and> (\<forall>a \<in> set (rows (appointments db)). ap_depositPaid a \<or> ap_depositCashSessionId a = None)"

text \<open>A change of the other tables that moves no money of a closed session.\<close>

definition books_kept :: "'a shop_db_scheme \<Rightarrow> 'a shop_db_scheme \<Rightarrow> bool" where
  "books_kept db db' \<longleftrightarrow> cashSessions db' = cashSessions db \<and> table_ok ex_id (expenses db') \<and> table_ok ap_id (appointments db')
     \<and> (\<forall>a \<in> set (rows (appointments db')). ap_depositPaid a \<or> ap_depositCashSessionId a = None)
     \<and> (\<forall>s \<in> set (rows (cashSessions db)). cs_status s \<noteq> ''OPEN'' \<longrightarrow> expected_balance db' s = expected_balance db s)"

lemma books_kept_ok:
  assumes "cash_ok db" and "books_kept db db'"
  shows "cash_ok db'"
proof -
  have "settled db' s" if "s \<in> set (rows (cashSessions db))" "cs_status s \<noteq> ''OPEN''" for s
    using that assms by (auto simp: cash_ok_def books_kept_def settled_def)
  then have "\<forall>s \<in> set (rows (cashSessions db)). cs_status s = ''OPEN'' \<or> settled db' s" by blast
  with assms show ?thesis unfolding cash_ok_def books_kept_def by simp
qed

lemma open_session_row:
  assumes "openSession db b = Some s"
  shows "s \<in> set (rows (cashSessions db)) \<and> cs_barbershopId s = b \<and> cs_status s = ''OPEN''"
  using find_first_Some [OF assms [unfolded openSession_def]] by simp

lemma open_session_id:
  assumes "cash_ok db" and "openSession db b = Some s" and "t \<in> set (rows (cashSessions db))" and "cs_status t \<noteq> ''OPEN''"
  shows "cs_id s \<noteq> cs_id t"
proof -
  have "table_ok cs_id (cashSessions db)" using assms(1) by (simp add: cash_ok_def)
  from session_tab.key_inj [OF this _ assms(3)] open_session_row [OF assms(2)] assms(4) show ?thesis by blast
qed

lemma open_ok:
  assumes ok: "cash_ok db" and run: "openCashSession db now u b x = Inr db'"
  shows "cash_ok db'"
proof -
  have db': "db' = db\<lparr>cashSessions := create_row (\<lambda>i. new_session i now u b x) (cashSessions db)\<rparr>"
    and none: "openSession db b = None"
    using run by (auto simp: openCashSession_def bindE_eq_Inr)
  have alone: "\<not> (cs_barbershopId s = b \<and> cs_status s = ''OPEN'')" if "s \<in> set (rows (cashSessions db))" for s
    using none that by (simp add: openSession_def find_first_None)
  have "expected_balance db' s = expected_balance db s" for s
    by (simp add: db' expected_balance_def cashSales_def cashRent_def cashTips_def cashDeposits_def cashExpenses_def)
  then show ?thesis
    using ok alone unfolding cash_ok_def settled_def
    by (auto simp: db' new_session_def session_tab.ok_create)
qed

lemma close_ok:
  assumes ok: "cash_ok db" and run: "closeCashSession db now u b x notes = Inr db'"
  shows "cash_ok db'"
proof -
  obtain s where s: "openSession db b = Some s"
    and saved: "close_write db now u x notes (s, expected_balance db s) = Inr db'"
    using run by (auto simp: closeCashSession_def close_read_def bindE_eq_Inr split: option.split_asm)
  define mine where "mine = (\<lambda>t :: cash_session. cs_id t = cs_id s \<and> cs_status t = ''OPEN'')"
  define g where "g = close_row now u x notes (expected_balance db s)"
  have db': "db' = db\<lparr>cashSessions := update_many mine g (cashSessions db)\<rparr>"
    using saved by (auto simp: close_write_def mine_def g_def Let_def split: if_split_asm)
  have same: "expected_balance db' t = expected_balance db t" for t
    by (simp add: db' expected_balance_def cashSales_def cashRent_def cashTips_def cashDeposits_def cashExpenses_def)
  have g: "cs_id (g t) = cs_id t" "cs_status (g t) = ''CLOSED''" "cs_barbershopId (g t) = cs_barbershopId t"
    "cs_openingBalance (g t) = cs_openingBalance t" for t
    by (simp_all add: g_def close_row_def)
  have tab: "table_ok cs_id (cashSessions db)" using ok by (simp add: cash_ok_def)
  have only: "t = s" if "t \<in> set (rows (cashSessions db))" "mine t" for t
    using session_tab.key_inj [OF tab that(1)] open_session_row [OF s] that(2) by (simp add: mine_def)
  have "settled db' (g s)"
    unfolding settled_def same by (simp add: g_def close_row_def expected_balance_def)
  moreover have "table_ok cs_id (cashSessions db')" using tab g(1) by (simp add: db' session_tab.ok_update)
  ultimately show ?thesis
    using ok only g(2) same unfolding cash_ok_def settled_def by (auto simp: db')
qed

lemma spend_ok:
  assumes ok: "cash_ok db" and run: "createExpense I db now u b d = Inr db'"
  shows "cash_ok db'"
proof -
  obtain e where db': "db' = db\<lparr>expenses := create_row e (expenses db)\<rparr>"
    and key: "\<And>i. ex_id (e i) = i"
    and session: "\<And>i. ex_cashSessionId (e i) = None \<or> ex_cashSessionId (e i) = map_option cs_id (openSession db b)"
    using run by (auto simp: createExpense_def bindE_eq_Inr Let_def)
  have "table_ok ex_id (expenses db')" using ok key by (simp add: db' cash_ok_def expense_tab.ok_create)
  moreover have "expected_balance db' s = expected_balance db s"
    if "s \<in> set (rows (cashSessions db))" "cs_status s \<noteq> ''OPEN''" for s
  proof -
    have "ex_cashSessionId (e i) \<noteq> Some (cs_id s)" for i
      using session [of i] open_session_id [OF ok _ that] by auto
    then show ?thesis
      by (simp add: db' expected_balance_def cashSales_def cashRent_def cashTips_def cashDeposits_def cashExpenses_def
          sum_where_create)
  qed
  ultimately show ?thesis using ok by (intro books_kept_ok [OF ok]) (simp add: books_kept_def db' cash_ok_def)
qed

lemma unspend_ok:
  assumes ok: "cash_ok db" and run: "deleteExpense db now u b i = Inr db'"
  shows "cash_ok db'"
proof -
  obtain e where e: "find_first (\<lambda>e. ex_id e = i \<and> ex_barbershopId e = b) (expenses db) = Some e"
    and open': "\<not> (\<exists>s \<in> set (rows (cashSessions db)). ex_cashSessionId e = Some (cs_id s) \<and> cs_status s = ''CLOSED'')"
    and db': "db' = db\<lparr>expenses := delete_many (\<lambda>x. ex_id x = i) (expenses db)\<rparr>"
    using run unfolding deleteExpense_def bindE_eq_Inr
    by (elim exE conjE) (auto simp: bindE_throwIf split: option.split_asm if_split_asm)
  have tab: "table_ok ex_id (expenses db)" using ok by (simp add: cash_ok_def)
  have only: "x = e" if "x \<in> set (rows (expenses db))" "ex_id x = i" for x
    using expense_tab.key_inj [OF tab that(1)] find_first_Some [OF e] that(2) by simp
  have "expected_balance db' s = expected_balance db s"
    if "s \<in> set (rows (cashSessions db))" "cs_status s \<noteq> ''OPEN''" for s
  proof -
    have "cs_status s = ''CLOSED''" using that ok by (auto simp: cash_ok_def settled_def)
    then have "ex_cashSessionId e \<noteq> Some (cs_id s)" using open' that by blast
    then have "cashExpenses db' (cs_id s) = cashExpenses db (cs_id s)"
      unfolding cashExpenses_def db' by (simp, intro sum_where_delete) (use only in auto)
    then show ?thesis
      by (simp add: db' expected_balance_def cashSales_def cashRent_def cashTips_def cashDeposits_def)
  qed
  then show ?thesis using ok
    by (intro books_kept_ok [OF ok]) (simp add: books_kept_def db' cash_ok_def expense_tab.ok_delete)
qed

text \<open>A change of appointments that moves no deposit of a cash desk.\<close>

definition same_till :: "appointment \<Rightarrow> appointment \<Rightarrow> bool" where
  "same_till a b \<longleftrightarrow> ap_id b = ap_id a \<and> ap_depositCashSessionId b = ap_depositCashSessionId a
     \<and> ap_depositManualMethod b = ap_depositManualMethod a \<and> ap_depositAmount b = ap_depositAmount a
     \<and> (ap_depositPaid a \<longrightarrow> ap_depositPaid b)"

definition tills_kept :: "'a shop_db_scheme \<Rightarrow> 'a shop_db_scheme \<Rightarrow> bool" where
  "tills_kept db db' \<longleftrightarrow> (\<exists>ts. db' = db\<lparr>appointments := ts\<rparr> \<and> seq ts = seq (appointments db)
     \<and> list_all2 same_till (rows (appointments db)) (rows ts))"

lemma tills_kept_refl [simp]: "tills_kept db db"
  unfolding tills_kept_def by (rule exI [of _ "appointments db"]) (simp add: list_all2_refl same_till_def)

lemma tills_kept_trans:
  assumes "tills_kept a b" and "tills_kept b c"
  shows "tills_kept a c"
proof -
  obtain ts us where "b = a\<lparr>appointments := ts\<rparr>" "c = b\<lparr>appointments := us\<rparr>" "seq ts = seq (appointments a)" "seq us = seq ts"
    "list_all2 same_till (rows (appointments a)) (rows ts)" "list_all2 same_till (rows ts) (rows us)"
    using assms unfolding tills_kept_def by auto
  then show ?thesis unfolding tills_kept_def
    by (intro exI [of _ us]) (auto simp: list_all2_conv_all_nth same_till_def)
qed

lemma tills_kept_update:
  assumes "\<And>a. p a \<Longrightarrow> same_till a (f a)"
  shows "tills_kept db (db\<lparr>appointments := update_many p f (appointments db)\<rparr>)"
  unfolding tills_kept_def using assms
  by (intro exI [of _ "update_many p f (appointments db)"]) (auto simp: list_all2_conv_all_nth same_till_def)

lemma finalize_tills: "finalize now intent db = (s, calls, db') \<Longrightarrow> tills_kept db db'"
  by (auto simp: finalize_def Let_def confirm_paid_def mark_returned_def same_till_def intro!: tills_kept_update split: option.splits if_splits)

lemma settleForStaff_tills: "settleForStaff retrieve cancel now i db = (r, calls, db') \<Longrightarrow> tills_kept db db'"
  using finalize_tills [of now _ db]
  by (auto simp: settleForStaff_def split: option.splits if_splits prod.splits)

lemma releaseUnpaidHold_tills:
  assumes "releaseUnpaidHold retrieve now i db = (r, calls, db')"
  shows "tills_kept db db'"
proof -
  have "tills_kept db (snd (release_hold i db))"
    by (auto simp: release_hold_def Let_def drop_hold_def same_till_def intro!: tills_kept_update)
  with assms finalize_tills [of now _ db] show ?thesis
    by (auto simp: releaseUnpaidHold_def split: option.splits if_splits prod.splits)
qed

lemma expireHolds_tills:
  assumes "expireHolds retrieve now db = (n, calls, db')"
  shows "tills_kept db db'"
proof -
  have one: "tills_kept (snd (snd st)) (snd (snd (expire_one retrieve now a st)))" for a and st :: "int \<times> string list \<times> 'a shop_db_scheme"
    using releaseUnpaidHold_tills [of retrieve now "ap_id a" "snd (snd st)"]
    by (cases st) (auto simp: expire_one_def split: prod.splits)
  have "tills_kept (snd (snd st)) (snd (snd (fold (expire_one retrieve now) holds st)))"
    for holds and st :: "int \<times> string list \<times> 'a shop_db_scheme"
  proof (induction holds arbitrary: st)
    case (Cons a holds)
    show ?case using tills_kept_trans [OF one [of st a] Cons.IH] by simp
  qed simp
  then show ?thesis using assms unfolding expireHolds_def by (metis snd_conv)
qed

text \<open>The deposits of a session, and when a change of appointments keeps the books.\<close>

definition in_till :: "int \<Rightarrow> appointment \<Rightarrow> bool" where
  "in_till i a \<longleftrightarrow> ap_depositCashSessionId a = Some i \<and> ap_depositPaid a \<and> ap_depositManualMethod a = Some ''CASH''"

lemma cashDeposits_till: "cashDeposits db i = sum_where (in_till i) (amount_or_0 \<circ> ap_depositAmount) (appointments db)"
  by (simp add: cashDeposits_def in_till_def [abs_def])

lemma appointments_kept:
  assumes ok: "cash_ok db" and db': "db' = db\<lparr>appointments := ts\<rparr>" and tab: "table_ok ap_id ts"
    and clear: "\<And>a. a \<in> set (rows ts) \<Longrightarrow> ap_depositPaid a \<or> ap_depositCashSessionId a = None"
    and till: "\<And>s. s \<in> set (rows (cashSessions db)) \<Longrightarrow> cs_status s \<noteq> ''OPEN'' \<Longrightarrow>
      sum_where (in_till (cs_id s)) (amount_or_0 \<circ> ap_depositAmount) ts
        = sum_where (in_till (cs_id s)) (amount_or_0 \<circ> ap_depositAmount) (appointments db)"
  shows "cash_ok db'"
proof (rule books_kept_ok [OF ok])
  have "expected_balance db' s = expected_balance db s" if "s \<in> set (rows (cashSessions db))" "cs_status s \<noteq> ''OPEN''" for s
    using till [OF that] by (simp add: db' expected_balance_def cashDeposits_till cashSales_def cashRent_def cashTips_def cashExpenses_def)
  then show "books_kept db db'" using ok tab clear by (auto simp: books_kept_def db' cash_ok_def)
qed

lemma tills_kept_ok:
  assumes ok: "cash_ok db" and kept: "tills_kept db db'"
  shows "cash_ok db'"
proof -
  obtain ts where db': "db' = db\<lparr>appointments := ts\<rparr>" and seq: "seq ts = seq (appointments db)"
    and rel: "list_all2 same_till (rows (appointments db)) (rows ts)" using kept by (auto simp: tills_kept_def)
  have clear: "ap_depositPaid a \<or> ap_depositCashSessionId a = None" if "a \<in> set (rows (appointments db))" for a
    using ok that by (simp add: cash_ok_def)
  have keys: "map ap_id (rows ts) = map ap_id (rows (appointments db))"
    using rel by (intro nth_equalityI) (auto simp: list_all2_conv_all_nth same_till_def)
  have tab: "table_ok ap_id ts"
    using ok seq keys table_ok_keys unfolding cash_ok_def by blast
  have same: "in_till i b = in_till i a" "ap_depositAmount b = ap_depositAmount a"
    if "same_till a b" "a \<in> set (rows (appointments db))" for a b i
    using that(1) clear [OF that(2)] by (auto simp: same_till_def in_till_def)
  have sums: "sum_list (map (amount_or_0 \<circ> ap_depositAmount) (filter (in_till i) ys))
      = sum_list (map (amount_or_0 \<circ> ap_depositAmount) (filter (in_till i) xs))"
    if "list_all2 same_till xs ys" "set xs \<subseteq> set (rows (appointments db))" for xs ys i
    using that by (induction xs ys rule: list_all2_induct) (auto simp: same)
  have "ap_depositPaid b \<or> ap_depositCashSessionId b = None" if "b \<in> set (rows ts)" for b
  proof -
    obtain j where "j < length (rows ts)" "b = rows ts ! j" using \<open>b \<in> set (rows ts)\<close> by (auto simp: in_set_conv_nth)
    with rel clear [of "rows (appointments db) ! j"] show ?thesis by (auto simp: list_all2_conv_all_nth same_till_def)
  qed
  with sums [OF rel] show ?thesis
    by (intro appointments_kept [OF ok db' tab]) (auto simp: sum_where_def find_many_def)
qed

lemma receipt_session:
  assumes "manualDepositReceipt db now u shop m = Inr r" and "rc_cashSessionId r = Some i"
  shows "\<exists>s. openSession db (bs_id (sa_shop shop)) = Some s \<and> cs_id s = i"
  using assms by (auto simp: manualDepositReceipt_def split: if_split_asm option.split_asm)

lemma deposit_write_ok:
  assumes ok: "cash_ok db" and a: "find_first (\<lambda>a. ap_id a = i \<and> ap_barbershopId a = b) (appointments db) = Some a"
    and db': "db' = db\<lparr>appointments := update_many (\<lambda>x. ap_id x = i) f (appointments db)\<rparr>"
    and f: "\<And>x. ap_id (f x) = ap_id x" "\<And>x. ap_depositPaid (f x) \<or> ap_depositCashSessionId (f x) = None"
    and till: "\<And>s. s \<in> set (rows (cashSessions db)) \<Longrightarrow> cs_status s \<noteq> ''OPEN'' \<Longrightarrow>
      \<not> in_till (cs_id s) a \<and> \<not> in_till (cs_id s) (f a)"
  shows "cash_ok db'"
proof (rule appointments_kept [OF ok db'])
  have tab: "table_ok ap_id (appointments db)" using ok by (simp add: cash_ok_def)
  then show "table_ok ap_id (update_many (\<lambda>x. ap_id x = i) f (appointments db))"
    using f(1) by (simp add: appointment_tab.ok_update)
  have only: "x = a" if "x \<in> set (rows (appointments db))" "ap_id x = i" for x
    using appointment_tab.key_inj [OF tab that(1)] find_first_Some [OF a] that(2) by simp
  fix s assume s: "s \<in> set (rows (cashSessions db))" "cs_status s \<noteq> ''OPEN''"
  show "sum_where (in_till (cs_id s)) (amount_or_0 \<circ> ap_depositAmount) (update_many (\<lambda>x. ap_id x = i) f (appointments db))
      = sum_where (in_till (cs_id s)) (amount_or_0 \<circ> ap_depositAmount) (appointments db)"
    using only till [OF s] by (intro sum_where_update) auto
next
  fix x assume "x \<in> set (rows (update_many (\<lambda>x. ap_id x = i) f (appointments db)))"
  then consider "x \<in> set (rows (appointments db))" | y where "x = f y" by auto
  then show "ap_depositPaid x \<or> ap_depositCashSessionId x = None"
  proof cases
    case 1
    then show ?thesis using ok by (simp add: cash_ok_def)
  next
    case (2 y)
    then show ?thesis using f(2) [of y] by simp
  qed
qed

lemma receive_ok:
  assumes ok: "cash_ok db" and run: "setAppointmentDepositPaid db now u b i paid m = Inr db'"
  shows "cash_ok db'"
  using run
proof (cases rule: setAppointmentDepositPaid_cases)
  case same
  then show ?thesis using ok by simp
next
  case (received shop a r)
  have "rc_cashSessionId r \<noteq> Some (cs_id s)" if "s \<in> set (rows (cashSessions db))" "cs_status s \<noteq> ''OPEN''" for s
    using receipt_session [OF received(3)] open_session_id [OF ok _ that] by blast
  with received(2) show ?thesis
    by (intro deposit_write_ok [OF ok received(1,4)]) (auto simp: in_till_def mark_received_def)
next
  case (undone a)
  have "table_ok cs_id (cashSessions db)" using ok by (simp add: cash_ok_def)
  from session_tab.find_by_key [OF this] undone(2)
  have "ap_depositCashSessionId a \<noteq> Some (cs_id s)" if "s \<in> set (rows (cashSessions db))" "cs_status s \<noteq> ''OPEN''" for s
    using that by auto
  then show ?thesis
    by (intro deposit_write_ok [OF ok undone(1,3)]) (auto simp: in_till_def unmark_received_def)
qed

lemma paid_meanwhile_tills: "paid_meanwhile P now a db = (r, db') \<Longrightarrow> tills_kept db db'"
  using settleForStaff_tills [of "pv_retrieve P" "pv_cancel P" now "ap_id a" db]
  by (auto simp: paid_meanwhile_def split: if_split_asm prod.split_asm sum.split_asm)

lemma remove_ok:
  assumes ok: "cash_ok db" and run: "deleteAppointment P db now u b i linked = (r, db')"
  shows "cash_ok db'"
proof -
  have gone: "cash_ok (d\<lparr>appointments := delete_many (\<lambda>x. ap_id x = i) (appointments d)\<rparr>)"
    if d: "tills_kept db d" and a: "a \<in> set (rows (appointments db))" "ap_id a = i" "\<not> ap_depositPaid a" for d a
  proof -
    have okd: "cash_ok d" using tills_kept_ok [OF ok d] .
    have tab: "table_ok ap_id (appointments db)" "table_ok ap_id (appointments d)" using ok okd by (simp_all add: cash_ok_def)
    have free: "ap_depositCashSessionId x = None" if "x \<in> set (rows (appointments d))" "ap_id x = i" for x
    proof -
      obtain j where "j < length (rows (appointments d))" "x = rows (appointments d) ! j"
        using \<open>x \<in> set (rows (appointments d))\<close> by (auto simp: in_set_conv_nth)
      then have y: "rows (appointments db) ! j \<in> set (rows (appointments db))" "same_till (rows (appointments db) ! j) x"
        using d by (auto simp: tills_kept_def list_all2_conv_all_nth)
      with appointment_tab.key_inj [OF tab(1) y(1) a(1)] a that(2) ok show ?thesis by (auto simp: same_till_def cash_ok_def)
    qed
    show ?thesis
      using okd tab(2) free
      by (intro appointments_kept [OF okd refl]) (auto simp: cash_ok_def appointment_tab.ok_delete in_till_def intro!: sum_where_delete)
  qed
  show ?thesis
  proof (cases "find_first (\<lambda>a. ap_id a = i \<and> ap_barbershopId a = b) (appointments db)")
    case None
    with run ok show ?thesis by (auto simp: deleteAppointment_def elim!: and_thenE)
  next
    case (Some a)
    then have a: "a \<in> set (rows (appointments db))" "ap_id a = i" using find_first_Some [OF Some] by simp_all
    show ?thesis
      using run ok unfolding deleteAppointment_def
      by (auto simp: Some delete_checks_def bindE_throwIf elim!: and_thenE split: if_split_asm
          dest!: paid_meanwhile_tills; metis ok tills_kept_ok gone [OF _ a])
  qed
qed

lemma months_ok: "only_months db db' \<Longrightarrow> cash_ok db \<Longrightarrow> cash_ok db'"
  by (auto simp: only_months_def cash_ok_def settled_def expected_balance_def cashSales_def cashRent_def cashTips_def
      cashDeposits_def cashExpenses_def)

lemma create_request_money:
  assumes "create_request I db now u b d = (r, db1)"
  shows "only_months db db1 \<and> (\<forall>shop slot dep rec. r = Inr (shop, slot, dep, rec) \<longrightarrow>
      (if ai_depositPaid d then \<exists>x. rec = Some x \<and> manualDepositReceipt db1 now u shop (ai_depositPaymentMethod d) = Inr x
       else rec = None))"
  using assms unfolding create_request_def
  by (elim and_thenE) (auto simp: bindE_eq_Inr bindE_eq_Inl split: if_split_asm dest: solo_booking_months)

lemma book_cash_ok:
  assumes ok: "cash_ok db" and run: "createAppointment I db now u b d = (r, db')"
  shows "cash_ok db'"
  using run unfolding createAppointment_def
proof (cases rule: and_thenE)
  case (stop e)
  then show ?thesis using create_request_money [OF stop(1)] months_ok ok by blast
next
  case (go x db1)
  obtain shop slot dep rec where x: "x = (shop, slot, dep, rec)" by (metis prod_cases4)
  have money: "only_months db db1" "if ai_depositPaid d then \<exists>x. rec = Some x
      \<and> manualDepositReceipt db1 now u shop (ai_depositPaymentMethod d) = Inr x else rec = None"
    using create_request_money [OF go(1)] unfolding x by blast+
  have ok1: "cash_ok db1" using months_ok [OF money(1) ok] .
  define row where "row = (\<lambda>i. new_appointment i u b d slot dep rec)"
  have row: "ap_id (row i) = i" "ap_depositPaid (row i) \<or> ap_depositCashSessionId (row i) = None" for i
    using money(2) by (auto simp: row_def new_appointment_def split: prod.split if_split_asm)
  have "cash_ok (db1\<lparr>appointments := create_row row (appointments db1)\<rparr>)"
  proof (rule appointments_kept [OF ok1 refl])
    show "table_ok ap_id (create_row row (appointments db1))"
      using ok1 row(1) by (simp add: cash_ok_def appointment_tab.ok_create)
    fix s assume s: "s \<in> set (rows (cashSessions db1))" "cs_status s \<noteq> ''OPEN''"
    have "\<not> in_till (cs_id s) (row i)" for i
    proof (cases "ai_depositPaid d")
      case True
      with money(2) obtain x where x: "rec = Some x" "manualDepositReceipt db1 now u shop (ai_depositPaymentMethod d) = Inr x" by auto
      then have "rc_cashSessionId x \<noteq> Some (cs_id s)" using receipt_session [OF x(2)] open_session_id [OF ok1 _ s] by blast
      with x show ?thesis by (auto simp: row_def new_appointment_def in_till_def split: prod.split)
    qed (auto simp: row_def new_appointment_def in_till_def split: prod.split)
    then show "sum_where (in_till (cs_id s)) (amount_or_0 \<circ> ap_depositAmount) (create_row row (appointments db1))
        = sum_where (in_till (cs_id s)) (amount_or_0 \<circ> ap_depositAmount) (appointments db1)"
      by (simp add: sum_where_create)
  next
    fix a assume "a \<in> set (rows (create_row row (appointments db1)))"
    then consider "a \<in> set (rows (appointments db1))" | i where "a = row i" by auto
    then show "ap_depositPaid a \<or> ap_depositCashSessionId a = None"
      by cases (use ok1 row(2) in \<open>auto simp: cash_ok_def\<close>)
  qed
  with go(2) ok1 show ?thesis
    by (auto simp: x book_def row_def elim!: and_thenE split: sum.split_asm)
qed

text \<open>
  What moves money of the desk: opening and closing it, expenses, deposits received by hand, bookings and their
  removal, and the payments and expirations of holds. Refunds of online deposits are left out (see below).
\<close>

inductive cash_step :: "providers \<Rightarrow> intl \<Rightarrow> shop_db \<Rightarrow> shop_db \<Rightarrow> bool" for P I where
  Open: "openCashSession db now u b x = Inr db' \<Longrightarrow> cash_step P I db db'"
| Count: "closeCashSession db now u b x notes = Inr db' \<Longrightarrow> cash_step P I db db'"
| Spend: "createExpense I db now u b e = Inr db' \<Longrightarrow> cash_step P I db db'"
| Unspend: "deleteExpense db now u b i = Inr db' \<Longrightarrow> cash_step P I db db'"
| Book: "createAppointment I db now u b d = (r, db') \<Longrightarrow> cash_step P I db db'"
| Received: "setAppointmentDepositPaid db now u b i paid m = Inr db' \<Longrightarrow> cash_step P I db db'"
| Remove: "deleteAppointment P db now u b i linked = (r', db') \<Longrightarrow> cash_step P I db db'"
| Paid: "finalize now intent db = (answer, calls, db') \<Longrightarrow> cash_step P I db db'"
| Released: "releaseUnpaidHold (pv_retrieve P) now i db = (ok, calls, db') \<Longrightarrow> cash_step P I db db'"
| Expired: "expireHolds (pv_retrieve P) now db = (n, calls, db') \<Longrightarrow> cash_step P I db db'"

lemma cash_step_ok: "cash_step P I db db' \<Longrightarrow> cash_ok db \<Longrightarrow> cash_ok db'"
  by (induction rule: cash_step.induct)
    (blast intro: open_ok close_ok spend_ok unspend_ok book_cash_ok receive_ok remove_ok tills_kept_ok finalize_tills
      releaseUnpaidHold_tills expireHolds_tills)+

lemma cash_steps_ok: "(cash_step P I)\<^sup>*\<^sup>* db db' \<Longrightarrow> cash_ok db \<Longrightarrow> cash_ok db'"
  by (induction rule: rtranclp_induct) (blast intro: cash_step_ok)+

text \<open>
  C29. The books of the cash desk stay true. Whatever sequence of openings, closings, expenses, deposits by
  hand, bookings, removals and payments of holds runs, a shop has at most one open cash desk, and every closed one
  still shows what the tables add up to: its expected balance is the opening balance plus the cash
  sales, rents, tips and deposits of it minus its cash expenses, and its difference is what was counted minus that.
\<close>

theorem cash_books_stay_true:
  assumes "cash_ok db" and "(cash_step P I)\<^sup>*\<^sup>* db db'"
    and "s \<in> set (rows (cashSessions db'))" and "t \<in> set (rows (cashSessions db'))"
  shows "(cs_status s = ''OPEN'' \<and> cs_status t = ''OPEN'' \<and> cs_barbershopId s = cs_barbershopId t \<longrightarrow> s = t)
    \<and> (cs_status s \<noteq> ''OPEN'' \<longrightarrow> cs_status s = ''CLOSED'' \<and> (\<exists>counted. cs_countedBalance s = Some counted
         \<and> cs_difference s = Some (counted - expected_balance db' s)) \<and> cs_expectedBalance s = Some (cs_openingBalance s
             + (cashSales db' (cs_id s) + cashRent db' (cs_id s) + cashTips db' (cs_id s) + cashDeposits db' (cs_id s))
             - cashExpenses db' (cs_id s)))"
  using cash_steps_ok [OF assms(2,1)] assms(3,4) unfolding cash_ok_def settled_def expected_balance_def Let_def by blast

section \<open>Samples\<close>

text \<open>The owner opens the desk with 50, receives a deposit of 20 in cash, counts 65 and closes.\<close>

definition sample_deposit :: shop_db where
  "sample_deposit = sample_salon\<lparr>appointments := \<lparr>rows = [(sample_visit 1 1000000 ''CONFIRMED'')\<lparr>ap_depositAmount := Some 20\<rparr>],
     seq = 2\<rparr>\<rparr>"

definition sample_open :: shop_db where
  "sample_open = projr (openCashSession sample_deposit 100 1 7 50)"

definition sample_received :: shop_db where
  "sample_received = projr (setAppointmentDepositPaid sample_open 200 1 7 1 True (Some ''CASH''))"

definition sample_closed :: shop_db where
  "sample_closed = projr (closeCashSession sample_received 300 1 7 65 None)"

lemma sample_desk_runs:
  "openCashSession sample_deposit 100 1 7 50 = Inr sample_open"
  "setAppointmentDepositPaid sample_open 200 1 7 1 True (Some ''CASH'') = Inr sample_received"
  "closeCashSession sample_received 300 1 7 65 None = Inr sample_closed"
proof -
  have "is_ok (openCashSession sample_deposit 100 1 7 50)" by code_simp
  then show "openCashSession sample_deposit 100 1 7 50 = Inr sample_open" by (auto simp: sample_open_def elim: is_okE)
  have "is_ok (setAppointmentDepositPaid sample_open 200 1 7 1 True (Some ''CASH''))" by code_simp
  then show "setAppointmentDepositPaid sample_open 200 1 7 1 True (Some ''CASH'') = Inr sample_received"
    by (auto simp: sample_received_def elim: is_okE)
  have "is_ok (closeCashSession sample_received 300 1 7 65 None)" by code_simp
  then show "closeCashSession sample_received 300 1 7 65 None = Inr sample_closed" by (auto simp: sample_closed_def elim: is_okE)
qed

lemma sample_deposit_ok: "cash_ok sample_deposit"
proof -
  have "table_ok ap_id (appointments sample_deposit)" "cashSessions sample_deposit = empty_table" "expenses sample_deposit = empty_table"
    "map (\<lambda>a. ap_depositCashSessionId a) (rows (appointments sample_deposit)) = [None]" by code_simp+
  then show ?thesis by (auto simp: cash_ok_def table_ok_def)
qed

lemma sample_desk_steps: "(cash_step sample_providers fixed_zone)\<^sup>*\<^sup>* sample_deposit sample_closed"
  using sample_desk_runs by (meson Open Received Count rtranclp.rtrancl_into_rtrancl rtranclp.rtrancl_refl)

lemma cash_books_stay_true_witness:
  "\<exists>s \<in> set (rows (cashSessions sample_closed)). cs_expectedBalance s = Some (50
      + (cashSales sample_closed 1 + cashRent sample_closed 1 + cashTips sample_closed 1 + cashDeposits sample_closed 1)
      - cashExpenses sample_closed 1) \<and> cashDeposits sample_closed 1 = 20 \<and> cs_difference s = Some (- 5)"
proof -
  let ?s = "hd (rows (cashSessions sample_closed))"
  have row: "map cs_id (rows (cashSessions sample_closed)) = [1]" by code_simp
  then have s: "?s \<in> set (rows (cashSessions sample_closed))" "cs_id ?s = 1" by (cases "rows (cashSessions sample_closed)"; simp)+
  have "cs_status ?s = ''CLOSED''" "cs_openingBalance ?s = 50" "cs_difference ?s = Some (- 5)" "cashDeposits sample_closed 1 = 20" by code_simp+
  with cash_books_stay_true [OF sample_deposit_ok sample_desk_steps s(1) s(1)] s show ?thesis by (intro bexI [of _ ?s]) simp_all
qed

section \<open>What the invariant needs\<close>

text \<open>
  \<open>closeCashSession\<close> reads the sums before the update that closes the desk: a deposit received between the two
  belongs to the closed desk and is not in its expected balance.
\<close>

lemma late_deposit_not_counted:
  "close_read sample_open 300 1 7 50 = Inr (hd (rows (cashSessions sample_open)), 50)
    \<and> is_ok (close_write sample_received 300 1 50 None (hd (rows (cashSessions sample_open)), 50))
    \<and> (let db = projr (close_write sample_received 300 1 50 None (hd (rows (cashSessions sample_open)), 50));
           s = hd (rows (cashSessions db))
        in cs_status s = ''CLOSED'' \<and> cs_expectedBalance s = Some 50 \<and> expected_balance db s = 70)"
  unfolding Let_def by (intro conjI; code_simp)

text \<open>
  \<open>setAppointmentDepositPaid\<close> does not look at the situation of the appointment: a hold that waits for the
  online deposit stays a hold when the deposit is received by hand, and the expiration routine cancels it.
\<close>

definition sample_waiting :: shop_db where
  "sample_waiting = sample_open\<lparr>appointments := \<lparr>rows = [sample_hold 1 ''PENDING_PAYMENT'' None], seq = 2\<rparr>\<rparr>"

lemma hand_paid_hold_expires:
  "is_ok (setAppointmentDepositPaid sample_waiting 50 1 7 1 True (Some ''CASH''))
    \<and> map (\<lambda>a. (ap_status a, ap_depositPaid a, ap_depositAmount a)) (rows (appointments (snd (snd (expireHolds sample_intent 200
        (projr (setAppointmentDepositPaid sample_waiting 50 1 7 1 True (Some ''CASH'')))))))) = [(''CANCELLED'', True, Some 20)]"
  by (intro conjI; code_simp)

text \<open>\<open>isCalendarDay\<close> throws for a month that does not exist, so \<open>createExpense\<close> fails with an internal error.\<close>

lemma expense_of_month_13:
  "createExpense fixed_zone sample_deposit 100 1 7 \<lparr>xi_category = ''RENT'', xi_description = ''Aluguel'', xi_amount = 10,
     xi_paymentMethod = None, xi_expenseDate = Some ''2026-13-01''\<rparr> = Inl (PlainError ''RangeError'')"
  by code_simp

end
