(* ===== verification/Approvals.thy ===== *)
theory Approvals
  imports Staff_Access
begin

text \<open>
  Confirmation of the actions of the back office that cannot be undone (\<open>backoffice/approval.service.ts\<close>): a
  request by someone who is not an administrator, its confirmation by another administrator, its
  execution, and the limits under which no confirmation is needed.

  The three actions themselves are a parameter (\<open>None\<close> when the action went through, the message of its
  error otherwise). A request decided through this service is claimed, executed and closed; one confirmed
  through the separate API of the back office is executed when its command arrives, and commands can be delivered
  again. \<open>approval_step\<close> interleaves all of it, crashes included.
\<close>

section \<open>Numbers of the environment\<close>

text \<open>
  \<open>Number(text)\<close>: \<open>None\<close> is NaN or an infinite value. Decimal literals with a sign, a fraction and an exponent
  are read, and whole literals with a radix prefix.
\<close>

definition js_fraction :: "string \<Rightarrow> rat option" where
  "js_fraction s = (case js_split (CHR ''.'') s of
       [w] \<Rightarrow> if w \<noteq> [] then map_option of_int (js_number w) else None
     | [w, f] \<Rightarrow> if w = [] \<and> f = [] then None
         else (case (js_number w, js_number f) of
             (Some a, Some b) \<Rightarrow> Some (of_int a + of_int b / 10 ^ length f)
           | _ \<Rightarrow> None)
     | _ \<Rightarrow> None)"

definition signed :: "(string \<Rightarrow> rat option) \<Rightarrow> string \<Rightarrow> rat option" where
  "signed read s = (case s of
       [] \<Rightarrow> read s
     | c # cs \<Rightarrow> if c = CHR ''-'' then map_option uminus (read cs) else if c = CHR ''+'' then read cs else read s)"

definition js_exponent :: "string \<Rightarrow> rat option" where
  "js_exponent e = signed (\<lambda>d. if d = [] then None else map_option of_int (js_number d)) e"

definition js_decimal :: "string \<Rightarrow> rat option" where
  "js_decimal s = (case js_split (CHR ''e'') (js_lower s) of
       [m] \<Rightarrow> signed js_fraction m
     | [m, e] \<Rightarrow> (case (signed js_fraction m, js_exponent e) of
           (Some a, Some k) \<Rightarrow> Some (if k \<ge> 0 then a * 10 ^ nat \<lfloor>k\<rfloor> else a / 10 ^ nat \<lfloor>- k\<rfloor>)
         | _ \<Rightarrow> None)
     | _ \<Rightarrow> None)"

definition radix_digit :: "char \<Rightarrow> int" where
  "radix_digit c = (if is_digit c then digit_val c else (of_char (char_lower c) :: int) - 87)"

definition js_radix :: "int \<Rightarrow> string \<Rightarrow> rat option" where
  "js_radix base s = (if s \<noteq> [] \<and> list_all (\<lambda>c. (is_digit c \<or> is_letter c) \<and> radix_digit c < base) s
     then Some (of_int (foldl (\<lambda>n c. base * n + radix_digit c) 0 s)) else None)"

definition js_Number :: "string \<Rightarrow> rat option" where
  "js_Number s = (let t = js_trim s in case t of
       [] \<Rightarrow> Some 0
     | z # x # ds \<Rightarrow> if z = CHR ''0'' \<and> char_lower x = CHR ''x'' then js_radix 16 ds
         else if z = CHR ''0'' \<and> char_lower x = CHR ''o'' then js_radix 8 ds
         else if z = CHR ''0'' \<and> char_lower x = CHR ''b'' then js_radix 2 ds
         else js_decimal t
     | _ \<Rightarrow> js_decimal t)"

lemma js_Number_samples:
  "js_Number ''500'' = Some 500" "js_Number '' 12.5 '' = Some (25 / 2)" "js_Number ''-1e2'' = Some (- 100)"
  "js_Number ''0xff'' = Some 255" "js_Number ''abc'' = None" "js_Number ''.5'' = Some (1 / 2)"
  "js_Number ''Infinity'' = None" "js_Number ''1.2.3'' = None"
  by code_simp+

section \<open>Limits\<close>

record environment =
  env_limit :: "string option"
  env_limits :: "string option"

definition refundApprovalLimit :: "environment \<Rightarrow> rat" where
  "refundApprovalLimit env = (case env_limit env of
       None \<Rightarrow> 500
     | Some raw \<Rightarrow> (case js_Number raw of
           Some value \<Rightarrow> if raw \<noteq> [] \<and> value \<ge> 0 then value else 500
         | None \<Rightarrow> 500))"

text \<open>Code and amount of one entry; without a colon the amount is undefined, which is no number.\<close>

definition limit_entry :: "string \<Rightarrow> (string \<times> rat) option" where
  "limit_entry part = (case map js_trim (js_split (CHR '':'') part) of
       code # amount # _ \<Rightarrow> (case js_Number amount of
           Some value \<Rightarrow> if length code = 3 \<and> list_all is_letter code \<and> value \<ge> 0 then Some (js_upper code, value) else None
         | None \<Rightarrow> None)
     | _ \<Rightarrow> None)"

definition refundLimitsByCurrency :: "environment \<Rightarrow> string \<rightharpoonup> rat" where
  "refundLimitsByCurrency env = map_of (rev (List.map_filter limit_entry
     (js_split (CHR '','') (case env_limits env of None \<Rightarrow> [] | Some s \<Rightarrow> s))))"

definition refundExceedsLimit :: "rat \<Rightarrow> string \<Rightarrow> environment \<Rightarrow> bool" where
  "refundExceedsLimit amount currency env = (let
       code = (let c = js_upper (js_trim currency) in if c = [] then ''BRL'' else c)
     in case refundLimitsByCurrency env code of
          Some limit \<Rightarrow> amount > limit
        | None \<Rightarrow> if code = ''BRL'' then amount > refundApprovalLimit env else True)"

section \<open>Data\<close>

datatype payload =
    User_delete int
  | Payment_refund string int "rat option" string
  | Email_mass "int list" string string "string option" "string option" "string option"

record approval =
  aq_id :: int
  aq_createdAt :: int
  aq_action :: string
  aq_payload :: payload
  aq_summary :: string
  aq_reason :: string
  aq_status :: string
  aq_requestedById :: "int option"
  aq_requestedByEmail :: string
  aq_requestedByRole :: string
  aq_decidedById :: "int option"
  aq_decidedByEmail :: "string option"
  aq_decidedAt :: "int option"
  aq_decisionNote :: "string option"
  aq_error :: "string option"

record email_send =
  es_id :: int
  es_createdAt :: int
  es_requestedByEmail :: string
  es_recipients :: int

record approval_db = staff_db +
  approvals :: "approval table"
  emailSends :: "email_send table"

record staff_actor =
  ac_id :: int
  ac_email :: string
  ac_role :: string
  ac_admin :: bool

definition MASS_EMAIL_LIMIT :: int where "MASS_EMAIL_LIMIT = 1000"
definition MASS_EMAIL_WINDOW_MS :: int where "MASS_EMAIL_WINDOW_MS = 24 * 60 * 60000"
definition APPROVAL_TTL_MS :: int where "APPROVAL_TTL_MS = 7 * 24 * 60 * 60 * 1000"
definition TEAM_ROLES :: "string list" where "TEAM_ROLES = [''SystemAdmin'', ''SystemManager'']"

section \<open>E-mail without confirmation\<close>

text \<open>What a person sent since an instant.\<close>

definition sent_since :: "'a approval_db_scheme \<Rightarrow> string \<Rightarrow> int \<Rightarrow> int" where
  "sent_since db email since = sum_list (map es_recipients
     (find_many (\<lambda>r. es_requestedByEmail r = email \<and> since \<le> es_createdAt r) (emailSends db)))"

definition reserveDirectEmail :: "'a approval_db_scheme \<Rightarrow> int \<Rightarrow> staff_actor \<Rightarrow> int \<Rightarrow> int option \<times> 'a approval_db_scheme" where
  "reserveDirectEmail db now actor recipients =
     (if recipients > MASS_EMAIL_LIMIT then (None, db)
      else if sent_since db (ac_email actor) (now - MASS_EMAIL_WINDOW_MS) + recipients > MASS_EMAIL_LIMIT then (None, db)
      else (Some (seq (emailSends db)), db\<lparr>emailSends := create_row (\<lambda>i. \<lparr>es_id = i, es_createdAt = now,
        es_requestedByEmail = ac_email actor, es_recipients = recipients\<rparr>) (emailSends db)\<rparr>))"

definition releaseDirectEmail :: "int \<Rightarrow> 'a approval_db_scheme \<Rightarrow> 'a approval_db_scheme" where
  "releaseDirectEmail i db = db\<lparr>emailSends := delete_many (\<lambda>r. es_id r = i) (emailSends db)\<rparr>"

section \<open>Requests\<close>

definition sameApprovalTarget :: "string \<Rightarrow> payload \<Rightarrow> payload \<Rightarrow> bool" where
  "sameApprovalTarget action a b = (case (a, b) of
       (Payment_refund kind i _ _, Payment_refund kind' i' _ _) \<Rightarrow> action = ''payment.refund'' \<and> kind = kind' \<and> i = i'
     | (User_delete u, User_delete u') \<Rightarrow> action = ''user.delete'' \<and> u = u'
     | (Email_mass ids subject _ _ _ _, Email_mass ids' subject' _ _ _ _) \<Rightarrow>
         action = ''email.mass'' \<and> sort ids = sort ids' \<and> subject = subject'
     | _ \<Rightarrow> False)"

text \<open>The action of a payload, as its type says.\<close>

definition action_of :: "payload \<Rightarrow> string" where
  "action_of p = (case p of User_delete _ \<Rightarrow> ''user.delete'' | Payment_refund _ _ _ _ \<Rightarrow> ''payment.refund''
     | Email_mass _ _ _ _ _ _ \<Rightarrow> ''email.mass'')"

definition expireStale :: "int \<Rightarrow> 'a approval_db_scheme \<Rightarrow> 'a approval_db_scheme" where
  "expireStale now db = db\<lparr>approvals := update_many
     (\<lambda>r. aq_status r = ''pending'' \<and> aq_createdAt r < now - APPROVAL_TTL_MS)
     (\<lambda>r. r\<lparr>aq_status := ''expired'', aq_decidedAt := Some now\<rparr>) (approvals db)\<rparr>"

definition or_zero_null :: "int \<Rightarrow> int option" where
  "or_zero_null i = (if i = 0 then None else Some i)"

definition new_approval :: "int \<Rightarrow> int \<Rightarrow> payload \<Rightarrow> string \<Rightarrow> string \<Rightarrow> staff_actor \<Rightarrow> approval" where
  "new_approval i now p summary reason actor = \<lparr>aq_id = i, aq_createdAt = now, aq_action = action_of p, aq_payload = p,
     aq_summary = take 300 summary, aq_reason = take 1000 (js_trim reason), aq_status = ''pending'',
     aq_requestedById = or_zero_null (ac_id actor), aq_requestedByEmail = ac_email actor,
     aq_requestedByRole = ac_role actor, aq_decidedById = None, aq_decidedByEmail = None, aq_decidedAt = None,
     aq_decisionNote = None, aq_error = None\<rparr>"

definition request :: "'a approval_db_scheme \<Rightarrow> int \<Rightarrow> payload \<Rightarrow> string \<Rightarrow> string \<Rightarrow> staff_actor
    \<Rightarrow> int result \<times> 'a approval_db_scheme" where
  "request db now p summary reason actor =
     (if length (js_trim reason) < 5 then (Inl (BadRequest ''Informe o motivo''), db)
      else (let
          db1 = expireStale now db;
          pending = find_many (\<lambda>r. aq_action r = action_of p \<and> aq_status r = ''pending'') (approvals db1)
        in if list_ex (\<lambda>r. sameApprovalTarget (action_of p) p (aq_payload r)) pending
           then (Inl (BadRequest ''Ja existe um pedido igual pendente.''), db1)
           else (Inr (seq (approvals db1)),
             db1\<lparr>approvals := create_row (\<lambda>i. new_approval i now p summary reason actor) (approvals db1)\<rparr>)))"

text \<open>\<open>list\<close> of the code.\<close>

definition list_approvals :: "'a approval_db_scheme \<Rightarrow> staff_actor \<Rightarrow> string option \<Rightarrow> approval list" where
  "list_approvals db actor status = take 100 (sort_key (\<lambda>r. - aq_createdAt r) (find_many
     (\<lambda>r. (case status of None \<Rightarrow> True | Some s \<Rightarrow> s = [] \<or> aq_status r = s)
        \<and> (ac_admin actor \<or> aq_requestedByEmail r = ac_email actor)) (approvals db)))"

definition pendingCount :: "'a approval_db_scheme \<Rightarrow> staff_actor \<Rightarrow> int" where
  "pendingCount db actor = (if \<not> ac_admin actor then 0 else count_where (\<lambda>r. aq_status r = ''pending'') (approvals db))"

section \<open>Decision and execution\<close>

text \<open>Emails are compared without case; \<open>findFirst\<close> by email takes the first row.\<close>

definition same_email :: "string \<Rightarrow> string \<Rightarrow> bool" where
  "same_email a b \<longleftrightarrow> js_lower a = js_lower b"

definition requesterOnTeam :: "'a approval_db_scheme \<Rightarrow> int option \<Rightarrow> string \<Rightarrow> bool" where
  "requesterOnTeam db userId email = (let
       who = (case userId of
           Some i \<Rightarrow> if i \<noteq> 0 then userById db i else find_first (\<lambda>u. same_email (us_email u) email) (users db)
         | None \<Rightarrow> find_first (\<lambda>u. same_email (us_email u) email) (users db))
     in case who of
          None \<Rightarrow> True
        | Some u \<Rightarrow> us_isActive u \<and> us_deleted_at u = None
            \<and> (case us_roleName u of None \<Rightarrow> False | Some r \<Rightarrow> r \<in> set TEAM_ROLES))"

definition approvalById :: "'a approval_db_scheme \<Rightarrow> int \<Rightarrow> approval option" where
  "approvalById db i = find_first (\<lambda>r. aq_id r = i) (approvals db)"

definition pending_row :: "int \<Rightarrow> approval \<Rightarrow> bool" where
  "pending_row i r \<longleftrightarrow> aq_id r = i \<and> aq_status r = ''pending''"

text \<open>The checks of \<open>decide\<close>; the flag tells that the request expired and is marked so.\<close>

definition decide_checks :: "'a approval_db_scheme \<Rightarrow> int \<Rightarrow> int \<Rightarrow> staff_actor \<Rightarrow> (approval \<times> bool) result" where
  "decide_checks db now i actor =
     (if \<not> ac_admin actor then Inl (Forbidden ''So um Administrador confirma'')
      else (case approvalById db i of
          None \<Rightarrow> Inl (NotFound ''Pedido nao encontrado'')
        | Some row \<Rightarrow>
            bindE (throwIf (aq_status row \<noteq> ''pending'') (BadRequest ''Este pedido ja foi decidido'')) (\<lambda>_.
            bindE (throwIf (same_email (aq_requestedByEmail row) (ac_email actor))
              (Forbidden ''Quem pediu nao confirma o proprio pedido'')) (\<lambda>_.
            if aq_createdAt row < now - APPROVAL_TTL_MS then Inr (row, True)
            else bindE (throwIf (\<not> requesterOnTeam db (aq_requestedById row) (aq_requestedByEmail row))
              (BadRequest ''Quem pediu nao esta mais na equipe.'')) (\<lambda>_. Inr (row, False))))))"

definition trimmed_note :: "string option \<Rightarrow> string option" where
  "trimmed_note note = (let n = take 1000 (js_trim (case note of None \<Rightarrow> [] | Some s \<Rightarrow> s)) in if n = [] then None else Some n)"

definition decided :: "int \<Rightarrow> staff_actor \<Rightarrow> string option \<Rightarrow> string \<Rightarrow> approval \<Rightarrow> approval" where
  "decided now actor note status r = r\<lparr>aq_status := status, aq_decidedById := or_zero_null (ac_id actor),
     aq_decidedByEmail := Some (ac_email actor), aq_decidedAt := Some now, aq_decisionNote := note\<rparr>"

text \<open>The conditional update that claims a pending request; \<open>False\<close> when someone else was faster.\<close>

definition claim_pending :: "int \<Rightarrow> (approval \<Rightarrow> approval) \<Rightarrow> 'a approval_db_scheme \<Rightarrow> bool \<times> 'a approval_db_scheme" where
  "claim_pending i f db = (count_where (pending_row i) (approvals db) = 1,
     db\<lparr>approvals := update_many (pending_row i) f (approvals db)\<rparr>)"

text \<open>\<open>decide\<close> up to the execution: the request to execute, or \<open>None\<close> when it was rejected.\<close>

definition decide_claim :: "'a approval_db_scheme \<Rightarrow> int \<Rightarrow> int \<Rightarrow> bool \<Rightarrow> string option \<Rightarrow> staff_actor
    \<Rightarrow> (approval option) result \<times> 'a approval_db_scheme" where
  "decide_claim db now i approve note actor = (case decide_checks db now i actor of
       Inl e \<Rightarrow> (Inl e, db)
     | Inr (row, True) \<Rightarrow> (Inl (BadRequest ''Este pedido venceu.''),
         snd (claim_pending i (\<lambda>r. r\<lparr>aq_status := ''expired'', aq_decidedAt := Some now\<rparr>) db))
     | Inr (row, False) \<Rightarrow> (case claim_pending i
           (decided now actor (trimmed_note note) (if approve then ''executing'' else ''rejected'')) db of
         (won, db1) \<Rightarrow> if \<not> won then (Inl (BadRequest ''Este pedido ja foi decidido''), db1)
           else (Inr (if approve then Some row else None), db1)))"

text \<open>What is written when the action went through, or failed with a message.\<close>

definition finish_row :: "int \<Rightarrow> string option \<Rightarrow> 'a approval_db_scheme \<Rightarrow> 'a approval_db_scheme" where
  "finish_row i failure db = db\<lparr>approvals := update_many (\<lambda>r. aq_id r = i) (\<lambda>r. case failure of
       None \<Rightarrow> r\<lparr>aq_status := ''executed''\<rparr>
     | Some message \<Rightarrow> r\<lparr>aq_status := ''failed'', aq_error := Some (take 500 message)\<rparr>) (approvals db)\<rparr>"

definition decide :: "(string \<Rightarrow> payload \<Rightarrow> string option) \<Rightarrow> 'a approval_db_scheme \<Rightarrow> int \<Rightarrow> int \<Rightarrow> bool \<Rightarrow> string option
    \<Rightarrow> staff_actor \<Rightarrow> (approval option) result \<times> 'a approval_db_scheme" where
  "decide execute db now i approve note actor = (case decide_claim db now i approve note actor of
       (Inl e, db1) \<Rightarrow> (Inl e, db1)
     | (Inr None, db1) \<Rightarrow> (Inr (approvalById db1 i), db1)
     | (Inr (Some row), db1) \<Rightarrow> (let db2 = finish_row i (execute (aq_action row) (aq_payload row)) db1
         in (Inr (approvalById db2 i), db2)))"

definition cancel :: "'a approval_db_scheme \<Rightarrow> int \<Rightarrow> int \<Rightarrow> staff_actor \<Rightarrow> (approval option) result \<times> 'a approval_db_scheme" where
  "cancel db now i actor = (case approvalById db i of
       None \<Rightarrow> (Inl (NotFound ''Pedido nao encontrado''), db)
     | Some row \<Rightarrow>
         if \<not> same_email (aq_requestedByEmail row) (ac_email actor)
         then (Inl (Forbidden ''So quem pediu cancela o proprio pedido.''), db)
         else (case claim_pending i (decided now actor (Some ''Cancelado por quem pediu.'') ''cancelled'') db of
             (won, db1) \<Rightarrow> if \<not> won then (Inl (BadRequest ''Este pedido ja foi decidido''), db1)
               else (Inr (approvalById db1 i), db1)))"

text \<open>\<open>executeConfirmed\<close>: the conditional update from executing to executed comes before the action.\<close>

definition confirmed_claim :: "int \<Rightarrow> 'a approval_db_scheme \<Rightarrow> approval option \<times> 'a approval_db_scheme" where
  "confirmed_claim i db = (case approvalById db i of
       None \<Rightarrow> (None, db)
     | Some row \<Rightarrow> (let mine = (\<lambda>r. aq_id r = i \<and> aq_status r = ''executing'') in
         if aq_status row \<noteq> ''executing'' \<or> count_where mine (approvals db) \<noteq> 1 then (None, db)
         else (Some row, db\<lparr>approvals := update_many mine (\<lambda>r. r\<lparr>aq_status := ''executed''\<rparr>) (approvals db)\<rparr>)))"

definition executeConfirmed :: "(string \<Rightarrow> payload \<Rightarrow> string option) \<Rightarrow> 'a approval_db_scheme \<Rightarrow> int \<Rightarrow> 'a approval_db_scheme" where
  "executeConfirmed execute db i = (case confirmed_claim i db of
       (None, db1) \<Rightarrow> db1
     | (Some row, db1) \<Rightarrow> (case execute (aq_action row) (aq_payload row) of
           None \<Rightarrow> db1
         | Some message \<Rightarrow> finish_row i (Some message) db1))"

section \<open>An approved action runs once, by the decision of another administrator\<close>

interpretation approval_tab: row_table aq_id "table_ok aq_id"
  by unfold_locales (rule table_ok_def)

text \<open>
  The service while it runs: the database; the requests the separate API confirmed (commands are only sent for
  these); the requests claimed but not yet executed, by \<open>decide\<close> and by a command; and the actions that ran.
\<close>

record service_run =
  sr_db :: approval_db
  sr_confirmed :: "int set"
  sr_deciding :: "int set"
  sr_commanded :: "int set"
  sr_ran :: "int list"

definition api_confirms :: "int \<Rightarrow> staff_actor \<Rightarrow> int \<Rightarrow> approval_db \<Rightarrow> bool" where
  "api_confirms i actor now db \<longleftrightarrow> ac_admin actor \<and> (\<exists>r. approvalById db i = Some r \<and> aq_status r = ''pending''
     \<and> \<not> same_email (aq_requestedByEmail r) (ac_email actor))"

inductive approval_step :: "service_run \<Rightarrow> service_run \<Rightarrow> bool" where
  Ask: "request (sr_db s) now p summary reason actor = (r, db') \<Longrightarrow> approval_step s (s\<lparr>sr_db := db'\<rparr>)"
| Give_up: "cancel (sr_db s) now i actor = (r', db') \<Longrightarrow> approval_step s (s\<lparr>sr_db := db'\<rparr>)"
| Api: "api_confirms i actor now (sr_db s) \<Longrightarrow> approval_step s (s\<lparr>sr_confirmed := insert i (sr_confirmed s),
     sr_db := snd (claim_pending i (decided now actor note ''executing'') (sr_db s))\<rparr>)"
| Decide: "decide_claim (sr_db s) now i approve note actor = (r'', db')
    \<Longrightarrow> approval_step s (s\<lparr>sr_db := db', sr_deciding := (case r'' of Inr (Some _) \<Rightarrow> insert i (sr_deciding s) | _ \<Rightarrow> sr_deciding s)\<rparr>)"
| Decide_run: "i \<in> sr_deciding s \<Longrightarrow> approval_step s (s\<lparr>sr_deciding := sr_deciding s - {i}, sr_ran := sr_ran s @ [i],
     sr_db := finish_row i failure (sr_db s)\<rparr>)"
| Decide_crash: "i \<in> sr_deciding s \<Longrightarrow> approval_step s (s\<lparr>sr_deciding := sr_deciding s - {i}, sr_ran := sr_ran s @ [i]\<rparr>)"
| Command: "i \<in> sr_confirmed s \<Longrightarrow> confirmed_claim i (sr_db s) = (row, db')
    \<Longrightarrow> approval_step s (s\<lparr>sr_db := db', sr_commanded := (if row = None then sr_commanded s else insert i (sr_commanded s))\<rparr>)"
| Command_run: "i \<in> sr_commanded s \<Longrightarrow> approval_step s (s\<lparr>sr_commanded := sr_commanded s - {i}, sr_ran := sr_ran s @ [i],
     sr_db := (if failure = None then sr_db s else finish_row i failure (sr_db s))\<rparr>)"
| Crash: "approval_step s (s\<lparr>sr_deciding := sr_deciding s - lost, sr_commanded := sr_commanded s - lost\<rparr>)"

text \<open>Requests that left the pending state for execution by the decision of someone else, and those still executing.\<close>

definition approved :: "approval \<Rightarrow> bool" where
  "approved r \<longleftrightarrow> aq_status r \<in> {''executing'', ''executed'', ''failed''}
     \<and> (\<exists>e. aq_decidedByEmail r = Some e \<and> \<not> same_email (aq_requestedByEmail r) e)"

definition claimed :: "'a approval_db_scheme \<Rightarrow> int \<Rightarrow> bool" where
  "claimed db i \<longleftrightarrow> (\<exists>r \<in> set (rows (approvals db)). aq_id r = i \<and> approved r)"

definition executing :: "'a approval_db_scheme \<Rightarrow> int \<Rightarrow> bool" where
  "executing db i \<longleftrightarrow> (\<exists>r \<in> set (rows (approvals db)). aq_id r = i \<and> aq_status r = ''executing'')"

definition claims_kept :: "'a approval_db_scheme \<Rightarrow> 'a approval_db_scheme \<Rightarrow> bool" where
  "claims_kept db db' \<longleftrightarrow> table_ok aq_id (approvals db')
     \<and> (\<forall>i. claimed db i \<longrightarrow> claimed db' i \<and> (executing db' i \<longrightarrow> executing db i))"

lemma claims_kept_refl: "table_ok aq_id (approvals db) \<Longrightarrow> claims_kept db db"
  by (simp add: claims_kept_def)

lemma claims_kept_trans: "claims_kept a b \<Longrightarrow> claims_kept b c \<Longrightarrow> claims_kept a c"
  by (auto simp: claims_kept_def)

text \<open>An update keeps the claims when every approved row it touches stays approved and does not start to execute.\<close>

lemma claims_kept_update:
  assumes tab: "table_ok aq_id (approvals db)"
    and f: "\<And>r. r \<in> set (rows (approvals db)) \<Longrightarrow> p r \<Longrightarrow> aq_id (f r) = aq_id r
      \<and> (approved r \<longrightarrow> approved (f r) \<and> (aq_status (f r) = ''executing'' \<longrightarrow> aq_status r = ''executing''))"
  shows "claims_kept db (db\<lparr>approvals := update_many p f (approvals db)\<rparr>)"
proof -
  let ?g = "\<lambda>r. if p r then f r else r"
  have g: "aq_id (?g r) = aq_id r" "approved r \<Longrightarrow> approved (?g r)"
    "approved r \<Longrightarrow> aq_status (?g r) = ''executing'' \<Longrightarrow> aq_status r = ''executing''"
    if "r \<in> set (rows (approvals db))" for r
    using f [OF that] by (auto split: if_split_asm)
  have "claimed (db\<lparr>approvals := update_many p f (approvals db)\<rparr>) i
      \<and> (executing (db\<lparr>approvals := update_many p f (approvals db)\<rparr>) i \<longrightarrow> executing db i)" if c: "claimed db i" for i
  proof -
    obtain r where r: "r \<in> set (rows (approvals db))" "aq_id r = i" "approved r" using c by (auto simp: claimed_def)
    have only: "x = r" if "x \<in> set (rows (approvals db))" "aq_id (?g x) = i" for x
      using approval_tab.key_inj [OF tab that(1) r(1)] g(1) [OF that(1)] that(2) r(2) by simp
    have "?g r \<in> set (rows (update_many p f (approvals db)))" using r(1) by auto
    moreover have "executing db i" if now: "executing (db\<lparr>approvals := update_many p f (approvals db)\<rparr>) i"
    proof -
      obtain x where x: "x \<in> set (rows (approvals db))" "aq_id (?g x) = i" "aq_status (?g x) = ''executing''"
        using now by (auto simp: executing_def)
      with only [OF x(1,2)] g(3) [OF r(1,3)] r show ?thesis by (auto simp: executing_def)
    qed
    ultimately show ?thesis using g(1,2) [OF r(1)] r(2,3) unfolding claimed_def by (auto simp del: rows_simps)
  qed
  then show ?thesis using tab f by (simp add: claims_kept_def approval_tab.ok_update)
qed

lemma claims_kept_create:
  assumes tab: "table_ok aq_id (approvals db)" and mk: "\<And>i. aq_id (mk i) = i"
  shows "claims_kept db (db\<lparr>approvals := create_row mk (approvals db)\<rparr>)"
proof -
  have "i < seq (approvals db)" if "claimed db i" for i using that tab by (auto simp: claimed_def table_ok_def)
  then show ?thesis using tab mk
    by (auto simp: claims_kept_def approval_tab.ok_create claimed_def executing_def)
qed

lemma not_pending: "approved r \<Longrightarrow> aq_status r \<noteq> ''pending''"
  by (auto simp: approved_def)

lemma expireStale_kept: "table_ok aq_id (approvals db) \<Longrightarrow> claims_kept db (expireStale now db)"
  unfolding expireStale_def by (rule claims_kept_update) (auto dest: not_pending)

lemma claim_pending_kept:
  assumes "table_ok aq_id (approvals db)" and "\<And>r. aq_id (f r) = aq_id r"
  shows "claims_kept db (snd (claim_pending i f db))"
  unfolding claim_pending_def snd_conv
  by (rule claims_kept_update) (use assms in \<open>auto simp: pending_row_def dest: not_pending\<close>)

lemma finish_row_kept:
  assumes "table_ok aq_id (approvals db)"
  shows "claims_kept db (finish_row i failure db)"
  unfolding finish_row_def by (rule claims_kept_update [OF assms]) (auto simp: approved_def split: option.split)

lemma confirmed_claim_kept:
  assumes "table_ok aq_id (approvals db)" and "confirmed_claim i db = (row, db')"
  shows "claims_kept db db'"
  using assms
  by (auto simp: confirmed_claim_def Let_def approved_def claims_kept_refl intro!: claims_kept_update split: option.split_asm if_split_asm)

lemma decided_id [simp]: "aq_id (decided now actor note st r) = aq_id r"
  by (simp add: decided_def)

lemma request_kept:
  assumes tab: "table_ok aq_id (approvals db)" and run: "request db now p summary reason actor = (r, db')"
  shows "claims_kept db db'"
proof -
  have stale: "claims_kept db (expireStale now db)" by (rule expireStale_kept [OF tab])
  then have tab': "table_ok aq_id (approvals (expireStale now db))" by (simp add: claims_kept_def)
  have "claims_kept db ((expireStale now db)\<lparr>approvals := create_row (\<lambda>i. new_approval i now p summary reason actor)
      (approvals (expireStale now db))\<rparr>)"
    by (rule claims_kept_trans [OF stale claims_kept_create [OF tab']]) (simp add: new_approval_def)
  then show ?thesis
    using run stale claims_kept_refl [OF tab] by (auto simp: request_def Let_def split: if_split_asm)
qed

lemma cancel_kept:
  assumes "table_ok aq_id (approvals db)" and "cancel db now i actor = (r, db')"
  shows "claims_kept db db'"
  using assms claim_pending_kept [OF assms(1), of "decided now actor (Some ''Cancelado por quem pediu.'') ''cancelled''" i]
  by (auto simp: cancel_def claims_kept_refl split: option.split_asm if_split_asm prod.split_asm)

text \<open>The requests a decision newly claims were pending before, so nobody had approved them.\<close>

lemma claim_pending_claims:
  assumes tab: "table_ok aq_id (approvals db)" and won: "count_where (pending_row i) (approvals db) = 1"
    and f: "\<And>r. pending_row i r \<Longrightarrow> r \<in> set (rows (approvals db)) \<Longrightarrow> aq_id (f r) = i \<and> approved (f r)"
  shows "\<not> claimed db i \<and> claimed (snd (claim_pending i f db)) i"
proof -
  obtain r where r: "r \<in> set (rows (approvals db))" "pending_row i r"
    using won count_where_zero [of "pending_row i" "approvals db"] by auto
  have "\<not> claimed db i"
  proof
    assume "claimed db i"
    then obtain x where "x \<in> set (rows (approvals db))" "aq_id x = i" "approved x" by (auto simp: claimed_def)
    with approval_tab.key_inj [OF tab this(1) r(1)] r(2) show False by (auto simp: pending_row_def dest: not_pending)
  qed
  moreover have "f r \<in> set (rows (approvals (snd (claim_pending i f db))))"
    using r by (auto simp: claim_pending_def image_iff)
  ultimately show ?thesis using f [OF r(2,1)] by (auto simp: claimed_def)
qed

lemma decide_checks_pending:
  assumes "decide_checks db now i actor = Inr (row, late)"
  shows "approvalById db i = Some row \<and> aq_status row = ''pending'' \<and> \<not> same_email (aq_requestedByEmail row) (ac_email actor)"
  using assms unfolding decide_checks_def
  by (auto simp: bindE_throwIf split: if_split_asm option.split_asm)

lemma decided_approved:
  assumes tab: "table_ok aq_id (approvals db)" and row: "approvalById db i = Some row"
    and other: "\<not> same_email (aq_requestedByEmail row) (ac_email actor)"
    and r: "pending_row i r" "r \<in> set (rows (approvals db))"
  shows "aq_id (decided now actor note ''executing'' r) = i \<and> approved (decided now actor note ''executing'' r)"
proof -
  have "r = row"
    using approval_tab.key_inj [OF tab r(2)] find_first_Some [OF row [unfolded approvalById_def]] r(1) by (simp add: pending_row_def)
  with other r(1) show ?thesis by (simp add: decided_def approved_def pending_row_def)
qed

lemma decide_claim_facts:
  assumes tab: "table_ok aq_id (approvals db)" and run: "decide_claim db now i approve note actor = (r, db')"
  shows "claims_kept db db' \<and> (\<forall>row. r = Inr (Some row) \<longrightarrow> \<not> claimed db i \<and> claimed db' i)"
proof (cases "decide_checks db now i actor")
  case (Inl e)
  then show ?thesis using run claims_kept_refl [OF tab] by (auto simp: decide_claim_def)
next
  case (Inr x)
  obtain row late where x: "x = (row, late)" by (cases x)
  note pending = decide_checks_pending [OF Inr [unfolded x]]
  show ?thesis
  proof (cases late)
    case True
    then show ?thesis using run Inr x claim_pending_kept [OF tab] by (auto simp: decide_claim_def)
  next
    case False
    let ?f = "decided now actor (trimmed_note note) (if approve then ''executing'' else ''rejected'')"
    have db': "db' = snd (claim_pending i ?f db)"
      "r = Inr (Some row) \<Longrightarrow> approve \<and> count_where (pending_row i) (approvals db) = 1" for row
      using run Inr x False by (auto simp: decide_claim_def claim_pending_def split: if_split_asm)
    have "claims_kept db db'" unfolding db'(1) by (rule claim_pending_kept [OF tab]) simp
    moreover have "\<not> claimed db i \<and> claimed db' i" if won: "r = Inr (Some row')" for row'
      unfolding db'(1) using db'(2) [OF won] pending decided_approved [OF tab, of i row actor] tab
      by (intro claim_pending_claims) auto
    ultimately show ?thesis by blast
  qed
qed

text \<open>What holds of the service in every moment.\<close>

definition service_ok :: "service_run \<Rightarrow> bool" where
  "service_ok s \<longleftrightarrow> table_ok aq_id (approvals (sr_db s))
     \<and> (\<forall>i \<in> sr_deciding s \<union> sr_commanded s \<union> sr_confirmed s \<union> set (sr_ran s). claimed (sr_db s) i)
     \<and> distinct (sr_ran s) \<and> sr_deciding s \<inter> set (sr_ran s) = {} \<and> sr_commanded s \<inter> set (sr_ran s) = {}
     \<and> sr_deciding s \<inter> sr_confirmed s = {} \<and> sr_commanded s \<subseteq> sr_confirmed s
     \<and> (\<forall>i \<in> sr_commanded s \<union> (set (sr_ran s) \<inter> sr_confirmed s). \<not> executing (sr_db s) i)"

lemma service_kept:
  assumes "service_ok s" and "claims_kept (sr_db s) db'"
  shows "service_ok (s\<lparr>sr_db := db'\<rparr>)"
  using assms by (auto simp: service_ok_def claims_kept_def)

lemma service_crash: "service_ok s \<Longrightarrow> service_ok (s\<lparr>sr_deciding := sr_deciding s - x, sr_commanded := sr_commanded s - y\<rparr>)"
  by (auto simp: service_ok_def)

lemma service_decided:
  assumes "service_ok s" and "claims_kept (sr_db s) db'" and "\<not> claimed (sr_db s) i" and "claimed db' i"
  shows "service_ok (s\<lparr>sr_db := db', sr_deciding := insert i (sr_deciding s)\<rparr>)"
  using assms by (auto simp: service_ok_def claims_kept_def)

lemma service_confirmed:
  assumes "service_ok s" and "claims_kept (sr_db s) db'" and "\<not> claimed (sr_db s) i" and "claimed db' i"
  shows "service_ok (s\<lparr>sr_confirmed := insert i (sr_confirmed s), sr_db := db'\<rparr>)"
  using assms by (auto simp: service_ok_def claims_kept_def)

lemma service_ran:
  assumes "service_ok s" and "i \<in> sr_deciding s \<or> i \<in> sr_commanded s" and "claims_kept (sr_db s) db'"
  shows "service_ok (s\<lparr>sr_deciding := sr_deciding s - {i}, sr_commanded := sr_commanded s - {i}, sr_ran := sr_ran s @ [i], sr_db := db'\<rparr>)"
  using assms by (auto simp: service_ok_def claims_kept_def)

lemma confirmed_claim_wins:
  assumes tab: "table_ok aq_id (approvals db)" and won: "confirmed_claim i db = (Some row, db')"
  shows "executing db i \<and> \<not> executing db' i"
proof -
  have row: "approvalById db i = Some row" "aq_status row = ''executing''"
    and db': "db' = db\<lparr>approvals := update_many (\<lambda>r. aq_id r = i \<and> aq_status r = ''executing'')
      (\<lambda>r. r\<lparr>aq_status := ''executed''\<rparr>) (approvals db)\<rparr>"
    using won by (auto simp: confirmed_claim_def Let_def split: option.split_asm if_split_asm)
  have "executing db i"
    using find_first_Some [OF row(1) [unfolded approvalById_def]] row(2) unfolding executing_def by blast
  moreover have "\<not> (aq_id r = i \<and> aq_status r = ''executing'')" if row': "r \<in> set (rows (approvals db'))" for r
    using row' unfolding db' by (simp del: image_Un) (elim disjE imageE bexE; simp)
  then have "\<not> executing db' i" unfolding executing_def by blast
  ultimately show ?thesis ..
qed

lemma confirmed_claim_none: "confirmed_claim i db = (None, db') \<Longrightarrow> db' = db"
  by (auto simp: confirmed_claim_def Let_def split: option.split_asm if_split_asm)

lemma service_commanded:
  assumes ok: "service_ok s" and i: "i \<in> sr_confirmed s" and run: "confirmed_claim i (sr_db s) = (row, db')"
  shows "service_ok (s\<lparr>sr_db := db', sr_commanded := (if row = None then sr_commanded s else insert i (sr_commanded s))\<rparr>)"
proof (cases row)
  case None
  with run confirmed_claim_none have "db' = sr_db s" by blast
  with None ok show ?thesis by simp
next
  case (Some r)
  have tab: "table_ok aq_id (approvals (sr_db s))" using ok by (simp add: service_ok_def)
  note won = confirmed_claim_wins [OF tab run [unfolded Some]]
  have "i \<notin> sr_commanded s" "i \<notin> set (sr_ran s)" using won ok i by (auto simp: service_ok_def)
  with won confirmed_claim_kept [OF tab run] ok i Some show ?thesis by (auto simp: service_ok_def claims_kept_def)
qed

lemma approval_step_ok: "approval_step s t \<Longrightarrow> service_ok s \<Longrightarrow> service_ok t"
proof (induction rule: approval_step.induct)
  case (Ask s now p summary reason actor r db')
  then show ?case by (intro service_kept) (auto simp: service_ok_def intro: request_kept)
next
  case (Give_up s now i actor r' db')
  then show ?case by (intro service_kept) (auto simp: service_ok_def intro: cancel_kept)
next
  case (Api i actor now s remark)
  then have tab: "table_ok aq_id (approvals (sr_db s))" by (simp add: service_ok_def)
  obtain r where r: "approvalById (sr_db s) i = Some r" "aq_status r = ''pending''" "\<not> same_email (aq_requestedByEmail r) (ac_email actor)"
    using Api by (auto simp: api_confirms_def)
  have "pending_row i r \<and> r \<in> set (rows (approvals (sr_db s)))"
    using find_first_Some [OF r(1) [unfolded approvalById_def]] r(2) by (simp add: pending_row_def)
  then have "count_where (pending_row i) (approvals (sr_db s)) = 1"
    using approval_tab.count_by_key_le [OF tab, of i "\<lambda>r. aq_status r = ''pending''"]
      count_where_zero [of "pending_row i" "approvals (sr_db s)"] count_where_nonneg [of "pending_row i" "approvals (sr_db s)"]
    by (force simp: pending_row_def [abs_def])
  from claim_pending_claims [OF tab this decided_approved [OF tab r(1,3)]] Api(2) show ?case
    by (intro service_confirmed) (auto intro: claim_pending_kept [OF tab])
next
  case (Decide s now i approve remark actor r db')
  then have tab: "table_ok aq_id (approvals (sr_db s))" by (simp add: service_ok_def)
  note facts = decide_claim_facts [OF tab Decide(1)]
  show ?case
  proof (cases "\<exists>row. r = Inr (Some row)")
    case True
    with facts Decide(2) service_decided show ?thesis by (auto simp: service_decided)
  next
    case False
    with service_kept [OF Decide(2)] facts show ?thesis by (auto split: sum.split option.split)
  qed
next
  case (Decide_run i s failure)
  then have "table_ok aq_id (approvals (sr_db s))" "i \<notin> sr_commanded s" by (auto simp: service_ok_def)
  with service_ran [of s i "finish_row i failure (sr_db s)"] Decide_run show ?case by (simp add: finish_row_kept)
next
  case (Decide_crash i s)
  then have "table_ok aq_id (approvals (sr_db s))" "i \<notin> sr_commanded s" by (auto simp: service_ok_def)
  with service_ran [of s i "sr_db s"] Decide_crash show ?case by (simp add: claims_kept_refl)
next
  case (Command i s row db')
  then show ?case using service_commanded by blast
next
  case (Command_run i s failure)
  then have "table_ok aq_id (approvals (sr_db s))" "i \<notin> sr_deciding s" by (auto simp: service_ok_def)
  with service_ran [of s i "if failure = None then sr_db s else finish_row i failure (sr_db s)"] Command_run
  show ?case by (simp add: finish_row_kept claims_kept_refl)
next
  case (Crash s lost)
  then show ?case by (rule service_crash)
qed

text \<open>
  C30. An action that needs confirmation runs at most once, and never by the decision of who asked for it. However
  requests, decisions, withdrawals, confirmations by the separate API, repeated deliveries of commands,
  executions and crashes interleave, no request runs twice, and every request that ran was decided by
  someone whose email is not that of the requester.
\<close>

theorem approval_runs_once:
  assumes "table_ok aq_id (approvals db)"
    and "approval_step\<^sup>*\<^sup>* \<lparr>sr_db = db, sr_confirmed = {}, sr_deciding = {}, sr_commanded = {}, sr_ran = []\<rparr> s"
  shows "distinct (sr_ran s) \<and> (\<forall>i \<in> set (sr_ran s). \<exists>r \<in> set (rows (approvals (sr_db s))). aq_id r = i
    \<and> aq_status r \<in> {''executing'', ''executed'', ''failed''}
    \<and> (\<exists>e. aq_decidedByEmail r = Some e \<and> js_lower e \<noteq> js_lower (aq_requestedByEmail r)))"
proof -
  have "service_ok s"
    using assms(2)
  proof (induction rule: rtranclp_induct)
    case base
    then show ?case using assms(1) by (simp add: service_ok_def)
  qed (rule approval_step_ok)
  then show ?thesis unfolding service_ok_def claimed_def approved_def same_email_def by (metis UnCI)
qed

definition sample_actor :: "int \<Rightarrow> string \<Rightarrow> bool \<Rightarrow> staff_actor" where
  "sample_actor i email admin = \<lparr>ac_id = i, ac_email = email, ac_role = (if admin then ''SystemAdmin'' else ''SystemManager''), ac_admin = admin\<rparr>"

text \<open>A manager asked for the removal of account 1.\<close>

definition sample_approvals :: approval_db where
  "sample_approvals = staff_db.extend sample_db
     \<lparr>approvals = create_row (\<lambda>i. new_approval i 1000 (User_delete 1) ''Apagar conta'' ''Pedido do dono''
        (sample_actor 40 ''ana@x'' False)) empty_table, emailSends = empty_table\<rparr>"

definition sample_service :: service_run where
  "sample_service = \<lparr>sr_db = sample_approvals, sr_confirmed = {}, sr_deciding = {}, sr_commanded = {}, sr_ran = []\<rparr>"

lemma sample_decided:
  "fst (decide_claim sample_approvals 2000 1 True None (sample_actor 41 ''bia@x'' True)) = Inr (approvalById sample_approvals 1)"
  "fst (decide_claim sample_approvals 2000 1 True None (sample_actor 40 ''ANA@x'' True)) =
     Inl (Forbidden ''Quem pediu nao confirma o proprio pedido'')"
  by code_simp+

lemma sample_service_runs:
  "\<exists>s. approval_step\<^sup>*\<^sup>* sample_service s \<and> sr_ran s = [1]"
proof -
  let ?d = "decide_claim sample_approvals 2000 1 True None (sample_actor 41 ''bia@x'' True)"
  have d: "fst ?d = Inr (approvalById sample_approvals 1)" by (rule sample_decided)
  have "approvalById sample_approvals 1 \<noteq> None" by code_simp
  then obtain r where r: "approvalById sample_approvals 1 = Some r" by blast
  have "approval_step sample_service (sample_service\<lparr>sr_db := snd ?d, sr_deciding := insert 1 {}\<rparr>)"
    using approval_step.Decide [OF prod.collapse [symmetric], of sample_service 1 2000 True None "sample_actor 41 ''bia@x'' True"] d r
    by (simp add: sample_service_def)
  then have "approval_step\<^sup>*\<^sup>* sample_service (sample_service\<lparr>sr_db := snd ?d, sr_deciding := insert 1 {}\<rparr>)" by (rule r_into_rtranclp)
  from rtranclp.rtrancl_into_rtrancl [OF this approval_step.Decide_run [where i = 1 and failure = None]]
  show ?thesis by (intro exI conjI) (auto simp: sample_service_def)
qed

lemma approval_runs_once_witness:
  "\<exists>s. approval_step\<^sup>*\<^sup>* sample_service s \<and> sr_ran s = [1] \<and> distinct (sr_ran s)
     \<and> (\<exists>r \<in> set (rows (approvals (sr_db s))). aq_id r = 1 \<and> aq_status r \<in> {''executing'', ''executed'', ''failed''})"
proof -
  obtain s where s: "approval_step\<^sup>*\<^sup>* sample_service s" "sr_ran s = [1]" using sample_service_runs by blast
  have "table_ok aq_id (approvals sample_approvals)" by code_simp
  from approval_runs_once [OF this s(1) [unfolded sample_service_def]] s show ?thesis by auto
qed

section \<open>Nobody reaches more than the limit of people in one day without confirmation\<close>

text \<open>Reservations and releases, one at a time, on a clock that does not go back.\<close>

inductive email_step :: "int \<times> approval_db \<Rightarrow> int \<times> approval_db \<Rightarrow> bool" where
  Reserve: "now \<le> now' \<Longrightarrow> 0 \<le> n \<Longrightarrow> email_step (now, db) (now', snd (reserveDirectEmail db now' actor n))"
| Release: "email_step (now, db) (now, releaseDirectEmail i db)"

definition sent_in_day :: "'a approval_db_scheme \<Rightarrow> string \<Rightarrow> int \<Rightarrow> int" where
  "sent_in_day db email t = sum_list (map es_recipients (filter (\<lambda>r. es_requestedByEmail r = email
     \<and> t - MASS_EMAIL_WINDOW_MS \<le> es_createdAt r \<and> es_createdAt r \<le> t) (rows (emailSends db))))"

definition mail_ok :: "int \<Rightarrow> 'a approval_db_scheme \<Rightarrow> bool" where
  "mail_ok now db \<longleftrightarrow> (\<forall>r \<in> set (rows (emailSends db)). 0 \<le> es_recipients r \<and> es_createdAt r \<le> now)
     \<and> (\<forall>email t. sent_in_day db email t \<le> MASS_EMAIL_LIMIT)"

lemma sum_filter_le:
  fixes f :: "'r \<Rightarrow> int"
  assumes "\<And>x. x \<in> set xs \<Longrightarrow> 0 \<le> f x" and "\<And>x. x \<in> set xs \<Longrightarrow> p x \<Longrightarrow> q x"
  shows "sum_list (map f (filter p xs)) \<le> sum_list (map f (filter q xs))"
  using assms by (induction xs) force+

lemma reserve_ok:
  assumes ok: "mail_ok now db" and later: "now \<le> now'" and n: "0 \<le> n"
  shows "mail_ok now' (snd (reserveDirectEmail db now' actor n))"
proof (cases "sent_since db (ac_email actor) (now' - MASS_EMAIL_WINDOW_MS) + n \<le> MASS_EMAIL_LIMIT \<and> n \<le> MASS_EMAIL_LIMIT")
  case False
  with ok later show ?thesis by (auto simp: reserveDirectEmail_def mail_ok_def intro: order_trans)
next
  case True
  let ?db = "snd (reserveDirectEmail db now' actor n)"
  have rows': "rows (emailSends ?db) = rows (emailSends db) @ [\<lparr>es_id = seq (emailSends db), es_createdAt = now',
      es_requestedByEmail = ac_email actor, es_recipients = n\<rparr>]"
    using True by (simp add: reserveDirectEmail_def)
  have old: "0 \<le> es_recipients r" "es_createdAt r \<le> now'" if "r \<in> set (rows (emailSends db))" for r
    using ok later that by (auto simp: mail_ok_def intro: order_trans)
  have "sent_in_day ?db email t \<le> MASS_EMAIL_LIMIT" for email t
  proof (cases "email = ac_email actor \<and> t - MASS_EMAIL_WINDOW_MS \<le> now' \<and> now' \<le> t")
    case False
    then have "sent_in_day ?db email t = sent_in_day db email t" unfolding sent_in_day_def rows' by auto
    then show ?thesis using ok by (simp add: mail_ok_def)
  next
    case mine: True
    then have "sent_in_day ?db email t = sent_in_day db email t + n" unfolding sent_in_day_def rows' by simp
    moreover have "sent_in_day db email t \<le> sent_since db (ac_email actor) (now' - MASS_EMAIL_WINDOW_MS)"
      unfolding sent_in_day_def sent_since_def find_many_def using mine old by (intro sum_filter_le) auto
    ultimately show ?thesis using True by linarith
  qed
  then show ?thesis using old n unfolding mail_ok_def rows' by auto
qed

lemma release_ok: "mail_ok now db \<Longrightarrow> mail_ok now (releaseDirectEmail i db)"
proof -
  assume ok: "mail_ok now db"
  have "sent_in_day (releaseDirectEmail i db) email t \<le> sent_in_day db email t" for email t
    using ok unfolding sent_in_day_def releaseDirectEmail_def mail_ok_def
    by (simp add: filter_filter conj_commute) (rule sum_filter_le, auto)
  with ok show ?thesis by (fastforce simp: mail_ok_def releaseDirectEmail_def intro: order_trans)
qed



end
