(* ===== verification/Places.thy ===== *)
theory Places
  imports Civil_Time
begin

text \<open>
  Country, currency and time zone of a place (\<open>common/place-locale.ts\<close>). The table of countries and states
  comes from the package \<open>country-state-city\<close>, a parameter here: the rows it returns, in its order.
\<close>

section \<open>The table of countries\<close>

record state_row =
  st_isoCode :: string
  st_name :: string

record country_row =
  cy_isoCode :: string
  cy_name :: string
  cy_phonecode :: string
  cy_currency :: string
  cy_timezones :: "string list"

record places =
  allCountries :: "country_row list"
  statesOf :: "string \<Rightarrow> state_row list"

definition getCountryByCode :: "places \<Rightarrow> string \<Rightarrow> country_row option" where
  "getCountryByCode P code = find (\<lambda>c. cy_isoCode c = code) (allCountries P)"

section \<open>Countries\<close>

definition is_capital :: "char \<Rightarrow> bool" where
  "is_capital c \<longleftrightarrow> 65 \<le> (of_char c :: nat) \<and> (of_char c :: nat) \<le> 90"

definition NAME_TO_ISO :: "(string \<times> string) list" where
  "NAME_TO_ISO = [(''brasil'', ''BR''), (''brazil'', ''BR''), (''portugal'', ''PT''), (''mexico'', ''MX''),
     (''m'' @ [CHR 0xE9] @ ''xico'', ''MX''), (''espanha'', ''ES''), (''spain'', ''ES''), (''argentina'', ''AR''),
     (''colombia'', ''CO''), (''col'' @ [CHR 0xF4] @ ''mbia'', ''CO''), (''eua'', ''US''),
     (''estados unidos'', ''US''), (''united states'', ''US'')]"

definition countryOf :: "places \<Rightarrow> string \<Rightarrow> country_row option" where
  "countryOf P raw = (let text = js_trim raw; upper = js_upper text in
     if text = [] then None
     else if length upper = 2 \<and> list_all is_capital upper then getCountryByCode P upper
     else (case map_of NAME_TO_ISO (js_lower text) of
         Some alias \<Rightarrow> getCountryByCode P alias
       | None \<Rightarrow> find (\<lambda>c. js_lower (cy_name c) = js_lower text) (allCountries P)))"

definition countryIso :: "places \<Rightarrow> string option \<Rightarrow> string option" where
  "countryIso P raw = (case countryOf P (case raw of None \<Rightarrow> [] | Some s \<Rightarrow> s) of
       None \<Rightarrow> None
     | Some c \<Rightarrow> if cy_isoCode c = [] then None else Some (js_upper (cy_isoCode c)))"

definition currencyForCountry :: "places \<Rightarrow> string \<Rightarrow> string" where
  "currencyForCountry P country = (case countryOf P country of
       None \<Rightarrow> ''BRL''
     | Some c \<Rightarrow> (let currency = js_upper (cy_currency c)
         in if length currency = 3 \<and> list_all is_capital currency then currency else ''BRL''))"

section \<open>Time zones\<close>

definition PRIMARY_ZONE :: "(string \<times> string) list" where
  "PRIMARY_ZONE = [(''AU'', ''Australia/Sydney''), (''BR'', ''America/Sao_Paulo''), (''CA'', ''America/Toronto''),
     (''MX'', ''America/Mexico_City''), (''PT'', ''Europe/Lisbon''), (''RU'', ''Europe/Moscow''),
     (''US'', ''America/New_York'')]"

definition STATE_ZONE :: "(string \<times> (string \<times> string) list) list" where
  "STATE_ZONE = [
     (''BR'', [
       (''AC'', ''America/Rio_Branco''), (''AL'', ''America/Maceio''), (''AM'', ''America/Manaus''),
       (''AP'', ''America/Belem''), (''BA'', ''America/Bahia''), (''CE'', ''America/Fortaleza''),
       (''DF'', ''America/Sao_Paulo''), (''ES'', ''America/Sao_Paulo''), (''GO'', ''America/Sao_Paulo''),
       (''MA'', ''America/Fortaleza''), (''MG'', ''America/Sao_Paulo''), (''MS'', ''America/Campo_Grande''),
       (''MT'', ''America/Cuiaba''), (''PA'', ''America/Belem''), (''PB'', ''America/Fortaleza''),
       (''PE'', ''America/Recife''), (''PI'', ''America/Fortaleza''), (''PR'', ''America/Sao_Paulo''),
       (''RJ'', ''America/Sao_Paulo''), (''RN'', ''America/Fortaleza''), (''RO'', ''America/Porto_Velho''),
       (''RR'', ''America/Boa_Vista''), (''RS'', ''America/Sao_Paulo''), (''SC'', ''America/Sao_Paulo''),
       (''SE'', ''America/Maceio''), (''SP'', ''America/Sao_Paulo''), (''TO'', ''America/Araguaina'')]),
     (''PT'', [
       (''20'', ''Atlantic/Azores''), (''30'', ''Atlantic/Madeira'')]),
     (''MX'', [
       (''BCN'', ''America/Tijuana''), (''BCS'', ''America/Mazatlan''), (''CHH'', ''America/Chihuahua''),
       (''NAY'', ''America/Mazatlan''), (''NLE'', ''America/Monterrey''), (''ROO'', ''America/Cancun''),
       (''SIN'', ''America/Mazatlan''), (''SON'', ''America/Hermosillo''), (''TAM'', ''America/Matamoros'')]),
     (''US'', [
       (''AK'', ''America/Anchorage''), (''AL'', ''America/Chicago''), (''AR'', ''America/Chicago''),
       (''AZ'', ''America/Phoenix''), (''CA'', ''America/Los_Angeles''), (''CO'', ''America/Denver''),
       (''CT'', ''America/New_York''), (''DC'', ''America/New_York''), (''DE'', ''America/New_York''),
       (''FL'', ''America/New_York''), (''GA'', ''America/New_York''), (''HI'', ''Pacific/Honolulu''),
       (''IA'', ''America/Chicago''), (''ID'', ''America/Denver''), (''IL'', ''America/Chicago''),
       (''IN'', ''America/New_York''), (''KS'', ''America/Chicago''), (''KY'', ''America/New_York''),
       (''LA'', ''America/Chicago''), (''MA'', ''America/New_York''), (''MD'', ''America/New_York''),
       (''ME'', ''America/New_York''), (''MI'', ''America/New_York''), (''MN'', ''America/Chicago''),
       (''MO'', ''America/Chicago''), (''MS'', ''America/Chicago''), (''MT'', ''America/Denver''),
       (''NC'', ''America/New_York''), (''ND'', ''America/Chicago''), (''NE'', ''America/Chicago''),
       (''NH'', ''America/New_York''), (''NJ'', ''America/New_York''), (''NM'', ''America/Denver''),
       (''NV'', ''America/Los_Angeles''), (''NY'', ''America/New_York''), (''OH'', ''America/New_York''),
       (''OK'', ''America/Chicago''), (''OR'', ''America/Los_Angeles''), (''PA'', ''America/New_York''),
       (''RI'', ''America/New_York''), (''SC'', ''America/New_York''), (''SD'', ''America/Chicago''),
       (''TN'', ''America/Chicago''), (''TX'', ''America/Chicago''), (''UT'', ''America/Denver''),
       (''VA'', ''America/New_York''), (''VT'', ''America/New_York''), (''WA'', ''America/Los_Angeles''),
       (''WI'', ''America/Chicago''), (''WV'', ''America/New_York''), (''WY'', ''America/Denver'')])]"

definition stateCode :: "places \<Rightarrow> string \<Rightarrow> string \<Rightarrow> string" where
  "stateCode P code stateRaw = (let text = js_trim stateRaw; states = statesOf P code; upper = js_upper text in
     if text = [] then []
     else (case find (\<lambda>s. js_upper (st_isoCode s) = upper) states of
         Some s \<Rightarrow> js_upper (st_isoCode s)
       | None \<Rightarrow> (case find (\<lambda>s. js_lower (st_name s) = js_lower text) states of
             Some s \<Rightarrow> js_upper (st_isoCode s)
           | None \<Rightarrow> upper)))"

definition isKnownZone :: "intl \<Rightarrow> string \<Rightarrow> bool" where
  "isKnownZone I zone \<longleftrightarrow> safeTimeZone I (Some zone) = zone"

text \<open>A zone that is missing or unknown leaves the choice to the next rule.\<close>

definition known_or :: "intl \<Rightarrow> string option \<Rightarrow> string \<Rightarrow> string" where
  "known_or I zone other = (case zone of None \<Rightarrow> other | Some z \<Rightarrow> if z \<noteq> [] \<and> isKnownZone I z then z else other)"

definition timezoneForPlace :: "intl \<Rightarrow> places \<Rightarrow> string \<Rightarrow> string \<Rightarrow> string option \<Rightarrow> string" where
  "timezoneForPlace I P country state browserTz = (let
       found = countryOf P country;
       zones = filter (\<lambda>z. z \<noteq> []) (case found of None \<Rightarrow> [] | Some c \<Rightarrow> cy_timezones c);
       browser = (case browserTz of None \<Rightarrow> None | Some b \<Rightarrow>
         (let b' = js_trim b in if zones = [] \<or> b' \<in> set zones then Some b' else None));
       single = known_or I (case zones of [z] \<Rightarrow> Some z | _ \<Rightarrow> None) DEFAULT_TIMEZONE
     in known_or I browser (case found of
          None \<Rightarrow> single
        | Some c \<Rightarrow> if cy_isoCode c = [] then single
            else known_or I (Option.bind (map_of STATE_ZONE (cy_isoCode c)) (\<lambda>m. map_of m (stateCode P (cy_isoCode c) state)))
              (known_or I (map_of PRIMARY_ZONE (cy_isoCode c)) single)))"

text \<open>The zone chosen is always one the environment knows, so no later conversion falls back to another zone.\<close>

lemma known_or_known: "isKnownZone I other \<Longrightarrow> isKnownZone I (known_or I zone other)"
  by (simp add: known_or_def split: option.split)

lemma timezoneForPlace_known: "isKnownZone I (timezoneForPlace I P country state browserTz)"
proof -
  have "isKnownZone I DEFAULT_TIMEZONE" by (simp add: isKnownZone_def safeTimeZone_def)
  then show ?thesis unfolding timezoneForPlace_def Let_def
    by (intro known_or_known) (auto intro!: known_or_known split: option.split)
qed

definition sample_places :: places where
  "sample_places = \<lparr>allCountries = [
       \<lparr>cy_isoCode = ''BR'', cy_name = ''Brazil'', cy_phonecode = ''55'', cy_currency = ''BRL'',
         cy_timezones = [''America/Araguaina'', ''America/Manaus'', ''America/Sao_Paulo'']\<rparr>,
       \<lparr>cy_isoCode = ''US'', cy_name = ''United States'', cy_phonecode = ''1'', cy_currency = ''USD'',
         cy_timezones = [''America/Adak'', ''America/New_York'', ''America/Chicago'']\<rparr>],
     statesOf = (\<lambda>code. if code = ''BR'' then [\<lparr>st_isoCode = ''AM'', st_name = ''Amazonas''\<rparr>] else [])\<rparr>"

definition known_zones :: intl where
  "known_zones = \<lparr>zoneKnown = (\<lambda>z. z \<noteq> ''Mars/Base''), zoneOffset = (\<lambda>z t. 0)\<rparr>"

lemma place_samples:
  "countryIso sample_places (Some '' brasil '') = Some ''BR''" "countryIso sample_places (Some ''us'') = Some ''US''"
  "countryIso sample_places (Some ''Atlantis'') = None" "currencyForCountry sample_places ''Brazil'' = ''BRL''"
  "timezoneForPlace known_zones sample_places ''Brasil'' ''amazonas'' None = ''America/Manaus''"
  "timezoneForPlace known_zones sample_places ''Brasil'' ''AM'' (Some ''America/Araguaina'') = ''America/Araguaina''"
  "timezoneForPlace known_zones sample_places ''Brasil'' ''AM'' (Some ''America/New_York'') = ''America/Manaus''"
  "timezoneForPlace known_zones sample_places ''US'' [] (Some ''Mars/Base'') = ''America/New_York''"
  by code_simp+

end
