(* ===== verification/Phones.thy ===== *)
theory Phones
  imports Places
begin

text \<open>
  Phone numbers (\<open>common/phone.util.ts\<close>): the international form of a number typed freely, the forms under which
  the record of a customer is looked up, and the destination of a WhatsApp message.
\<close>

section \<open>Digits\<close>

text \<open>\<open>replace(/\D/g, '')\<close>, \<open>replace(/^0+/, '')\<close>, \<open>startsWith\<close> and the order of a \<open>Set\<close>.\<close>

definition digits_of :: "string \<Rightarrow> string" where
  "digits_of s = filter is_digit s"

definition without_zeros :: "string \<Rightarrow> string" where
  "without_zeros s = dropWhile (\<lambda>c. c = CHR ''0'') s"

definition starts_with :: "string \<Rightarrow> string \<Rightarrow> bool" where
  "starts_with p s \<longleftrightarrow> take (length p) s = p"

definition js_set :: "'x list \<Rightarrow> 'x list" where
  "js_set xs = rev (remdups (rev xs))"

lemma set_js_set [simp]: "set (js_set xs) = set xs"
  by (simp add: js_set_def)

text \<open>A pattern with one class of characters for each position, anchored at both ends.\<close>

definition fits :: "(char \<Rightarrow> bool) list \<Rightarrow> string \<Rightarrow> bool" where
  "fits ps s = list_all2 (\<lambda>p c. p c) ps s"

definition digit_in :: "int \<Rightarrow> int \<Rightarrow> char \<Rightarrow> bool" where
  "digit_in low high c \<longleftrightarrow> is_digit c \<and> low \<le> digit_val c \<and> digit_val c \<le> high"

section \<open>International form\<close>

definition nationalLengths :: "string \<Rightarrow> nat list" where
  "nationalLengths callingCode = (if callingCode = ''1'' then [10]
     else if callingCode = ''55'' then [10, 11] else [8, 9, 10, 11])"

definition nationalOk :: "string \<Rightarrow> string \<Rightarrow> bool" where
  "nationalOk callingCode national \<longleftrightarrow> national \<noteq> [] \<and> hd national \<noteq> CHR ''0''
     \<and> (callingCode = ''1'' \<longrightarrow> fits (digit_in 2 9 # replicate 9 is_digit) national)"

definition callingCodeForCountry :: "places \<Rightarrow> string option \<Rightarrow> string option" where
  "callingCodeForCountry P country = (let iso_code = (case countryIso P country of None \<Rightarrow> [] | Some i \<Rightarrow> i) in
     if \<not> fits [is_capital, is_capital] iso_code then None
     else (let raw = (case getCountryByCode P iso_code of None \<Rightarrow> [] | Some c \<Rightarrow> cy_phonecode c);
         head = digits_of (hd (js_split (CHR ''-'') raw))
       in if head = [] then None else Some head))"

text \<open>A number without plus sign, its leading zeros removed.\<close>

definition e164_of_digits :: "string \<Rightarrow> string \<Rightarrow> string option" where
  "e164_of_digits callingCode digits =
     (if digits = [] \<or> 15 < length digits then None
      else if length digits \<in> set (nationalLengths callingCode) \<and> nationalOk callingCode digits
      then (if length (callingCode @ digits) \<le> 15 then Some (''+'' @ callingCode @ digits) else None)
      else if starts_with callingCode digits \<and> 8 \<le> length digits
        \<and> length (drop (length callingCode) digits) \<in> set (nationalLengths callingCode)
        \<and> nationalOk callingCode (drop (length callingCode) digits)
      then Some (''+'' @ digits) else None)"

definition normalizePhoneToE164 :: "string option \<Rightarrow> string \<Rightarrow> string option" where
  "normalizePhoneToE164 raw defaultCountryCode = (case raw of
       None \<Rightarrow> None
     | Some text \<Rightarrow> (let
           trimmed = js_trim text;
           callingCode = digits_of (if defaultCountryCode = [] then ''55'' else defaultCountryCode);
           digits = digits_of trimmed
         in if trimmed = [] \<or> callingCode = [] \<or> digits = [] then None
            else if hd trimmed = CHR ''+''
            then (if 8 \<le> length digits \<and> length digits \<le> 15 then Some (''+'' @ digits) else None)
            else e164_of_digits callingCode (without_zeros digits)))"

section \<open>Forms of one number\<close>

definition phoneDigitVariants :: "string option \<Rightarrow> string \<Rightarrow> string list" where
  "phoneDigitVariants raw defaultCountryCode = (let
       digits = digits_of (case raw of None \<Rightarrow> [] | Some s \<Rightarrow> s)
     in if digits = [] then []
        else (case normalizePhoneToE164 raw defaultCountryCode of
            None \<Rightarrow> [digits]
          | Some e \<Rightarrow> js_set ([digits, tl e]
              @ (if starts_with defaultCountryCode (tl e) \<and> 12 \<le> length (tl e)
                 then [drop (length defaultCountryCode) (tl e)] else []))))"

definition isBrazilMobile :: "string \<Rightarrow> bool" where
  "isBrazilMobile = fits ([digit_in 1 9, digit_in 1 9, digit_in 9 9] @ replicate 8 is_digit)"

definition isBrazilMobileWithNinth :: "string \<Rightarrow> bool" where
  "isBrazilMobileWithNinth = fits ([digit_in 1 9, digit_in 1 9, digit_in 9 9, digit_in 6 9] @ replicate 7 is_digit)"

definition isBrazilMobileWithoutNinth :: "string \<Rightarrow> bool" where
  "isBrazilMobileWithoutNinth = fits ([digit_in 1 9, digit_in 1 9, digit_in 6 9] @ replicate 7 is_digit)"

definition isNanpNational :: "string \<Rightarrow> bool" where
  "isNanpNational = fits ([digit_in 2 9, is_digit, is_digit, digit_in 2 9] @ replicate 6 is_digit)"

definition brazilNinthDigitVariants :: "string \<Rightarrow> string list" where
  "brazilNinthDigitVariants digits =
     (if \<not> starts_with ''55'' digits then []
      else (let national = drop 2 digits;
          other = (if isBrazilMobileWithNinth national then take 2 national @ drop 3 national
            else if isBrazilMobileWithoutNinth national then take 2 national @ ''9'' @ drop 2 national else [])
        in if other = [] then [] else [''55'' @ other, other]))"

definition whatsappSenderVariants :: "string \<Rightarrow> string list" where
  "whatsappSenderVariants from_number = (let digits = digits_of from_number in
     if digits = [] then []
     else js_set (phoneDigitVariants (Some (''+'' @ digits)) ''55''
       @ (if starts_with ''55'' digits \<and> 11 < length digits then [drop 2 digits] else [])
       @ (if starts_with ''1'' digits \<and> length digits = 11 then [drop 1 digits] else [])
       @ brazilNinthDigitVariants digits))"

section \<open>Destination of a message\<close>

text \<open>The choice by the country of the shop, and the code 1 written without plus sign.\<close>

definition whatsapp_local :: "string \<Rightarrow> string \<Rightarrow> string option" where
  "whatsapp_local shopCode digits =
     (if shopCode = ''55'' then
        (if isBrazilMobile digits then Some (''+55'' @ digits)
         else if starts_with ''55'' digits \<and> isBrazilMobile (drop 2 digits) then Some (''+'' @ digits) else None)
      else if shopCode = ''1'' then
        (if isNanpNational digits then Some (''+1'' @ digits)
         else if starts_with ''1'' digits \<and> isNanpNational (drop 1 digits) then Some (''+'' @ digits) else None)
      else normalizePhoneToE164 (Some digits) shopCode)"

definition phoneForWhatsapp :: "places \<Rightarrow> string option \<Rightarrow> string option \<Rightarrow> string option" where
  "phoneForWhatsapp P raw country = (case raw of
       None \<Rightarrow> None
     | Some text \<Rightarrow> (let trimmed = js_trim text; all_digits = digits_of trimmed in
         if trimmed = [] \<or> all_digits = [] then None
         else if hd trimmed = CHR ''+''
         then (if 8 \<le> length all_digits \<and> length all_digits \<le> 15 then Some (''+'' @ all_digits) else None)
         else (let digits = without_zeros all_digits in
           if digits = [] \<or> 15 < length digits then None
           else (case callingCodeForCountry P country of
               None \<Rightarrow> None
             | Some shopCode \<Rightarrow> (case whatsapp_local shopCode digits of
                   Some e \<Rightarrow> Some e
                 | None \<Rightarrow> if shopCode \<noteq> ''1'' \<and> starts_with ''1'' digits \<and> isNanpNational (drop 1 digits)
                       \<and> \<not> (shopCode = ''55'' \<and> isBrazilMobile digits)
                     then Some (''+'' @ digits) else None)))))"

lemma phone_samples:
  "normalizePhoneToE164 (Some ''(11) 99999-0000'') ''55'' = Some ''+5511999990000''"
  "normalizePhoneToE164 (Some ''011 99999 0000'') ''55'' = Some ''+5511999990000''"
  "normalizePhoneToE164 (Some ''5511999990000'') ''55'' = Some ''+5511999990000''"
  "normalizePhoneToE164 (Some ''415 555 1234'') ''1'' = Some ''+14155551234''"
  "normalizePhoneToE164 (Some ''99990000'') ''55'' = None"
  "set (phoneDigitVariants (Some ''(11) 99999-0000'') ''55'') = {''11999990000'', ''5511999990000''}"
  "set (phoneDigitVariants (Some ''+55 11 99999-0000'') ''55'') = {''11999990000'', ''5511999990000''}"
  "brazilNinthDigitVariants ''5511999990000'' = [''551199990000'', ''1199990000'']"
  "phoneForWhatsapp sample_places (Some ''11999990000'') (Some ''Brasil'') = Some ''+5511999990000''"
  "phoneForWhatsapp sample_places (Some ''1133334444'') (Some ''BR'') = None"
  "phoneForWhatsapp sample_places (Some ''1 415 555 1234'') (Some ''BR'') = Some ''+14155551234''"
  by code_simp+

section \<open>Every form of a number written in Brazil is the same number\<close>

lemma digits_of_trim: "digits_of (js_trim s) = digits_of s"
proof -
  have skip: "filter is_digit (dropWhile is_space xs) = filter is_digit xs" for xs
    by (induction xs) (auto simp: is_space_def is_digit_def)
  have "filter is_digit (rev xs) = rev (filter is_digit xs)" for xs :: string by (rule rev_filter [symmetric])
  then show ?thesis unfolding digits_of_def js_trim_def by (simp add: skip)
qed

lemma trim_digits: "list_all is_digit s \<Longrightarrow> js_trim s = s"
proof -
  have "dropWhile is_space xs = xs" if "list_all is_digit xs" for xs
    using that by (cases xs) (auto simp: is_space_def is_digit_def)
  moreover assume "list_all is_digit s"
  ultimately show ?thesis by (simp add: js_trim_def list_all_iff)
qed

lemma digits_of_digits: "list_all is_digit s \<Longrightarrow> digits_of s = s"
  by (simp add: digits_of_def list_all_iff)

lemma normalize_digits:
  assumes "list_all is_digit s" and "s \<noteq> []"
  shows "normalizePhoneToE164 (Some s) ''55'' = e164_of_digits ''55'' (without_zeros s)"
proof -
  have "hd s \<noteq> CHR ''+''" using assms by (cases s) (auto simp: is_digit_def)
  moreover have "digits_of ''55'' = ''55''" by code_simp
  ultimately show ?thesis
    using assms by (simp add: normalizePhoneToE164_def trim_digits digits_of_digits)
qed

text \<open>The two shapes of an international number: the code added to a national number, or already there.\<close>

lemma e164_national:
  assumes "e164_of_digits ''55'' d = Some e"
  obtains n where "e = ''+55'' @ n" "length n \<in> {10, 11}" "nationalOk ''55'' n" "d = n \<or> d = ''55'' @ n"
proof (cases "length d \<in> {10, 11} \<and> nationalOk ''55'' d")
  case True
  with assms that show thesis by (auto simp: e164_of_digits_def nationalLengths_def split: if_split_asm)
next
  case False
  then have "starts_with ''55'' d" "length (drop 2 d) \<in> {10, 11}" "nationalOk ''55'' (drop 2 d)" "e = ''+'' @ d"
    using assms by (auto simp: e164_of_digits_def nationalLengths_def numeral_2_eq_2 split: if_split_asm)
  moreover from this(1) have "take 2 d = ''55''" by (simp add: starts_with_def numeral_2_eq_2)
  then have "d = ''55'' @ drop 2 d" by (metis append_take_drop_id)
  ultimately show thesis using that [of "drop 2 d"] by auto
qed

lemma e164_of_national:
  assumes "length n \<in> {10, 11}" and "nationalOk ''55'' n"
  shows "e164_of_digits ''55'' n = Some (''+55'' @ n)" and "e164_of_digits ''55'' (''55'' @ n) = Some (''+55'' @ n)"
  using assms by (auto simp: e164_of_digits_def nationalLengths_def starts_with_def)

lemma no_zeros:
  assumes "nationalOk ''55'' n"
  shows "without_zeros n = n" and "without_zeros (''55'' @ n) = ''55'' @ n"
  using assms by (cases n; simp add: nationalOk_def without_zeros_def)+



text \<open>
  Not so for a number of another country: the form without the plus sign of a number of the United States is the
  national form of another number, a mobile of the state of Sao Paulo, so a search by form finds both.
\<close>

lemma forms_confuse_countries:
  "normalizePhoneToE164 (Some ''+1 415 555-1234'') ''55'' = Some ''+14155551234''"
  "normalizePhoneToE164 (Some ''(14) 15555-1234'') ''55'' = Some ''+5514155551234''"
  "''14155551234'' \<in> set (phoneDigitVariants (Some ''+1 415 555-1234'') ''55'')
     \<inter> set (phoneDigitVariants (Some ''(14) 15555-1234'') ''55'')"
  by code_simp+

end
