(* ===== verification/Sessions.thy ===== *)
theory Sessions
  imports Booking Phones
begin

text \<open>
  Sessions paid ahead, and the tables of the customers' plans (\<open>barbershop.service.ts\<close>). Packages of sessions: what a shop
  offers (\<open>createServicePackage\<close>, \<open>updateServicePackage\<close>), the sale of one (\<open>purchaseClientPackage\<close>),
  the debit of a session at the counter and by a sale, the undo of a debit, and what the removal or the refund of a sale does with a
  package. The records of the club are here too; its operations are in \<open>Club\<close>.

  The statements of one operation that run in a transaction are one step. What an operation reads before it is a
  definition of its own, so that another request can come in between.
\<close>

section \<open>Data\<close>

record service_package =
  sp_id :: int
  sp_barbershopId :: int
  sp_serviceId :: int
  sp_name :: string
  sp_totalSessions :: int
  sp_price :: rat
  sp_isActive :: bool
  sp_validityDays :: "int option"

record client_package =
  cp_id :: int
  cp_createdAt :: int
  cp_barbershopId :: int
  cp_customerId :: int
  cp_servicePackageId :: int
  cp_totalSessions :: int
  cp_usedSessions :: int
  cp_status :: string
  cp_saleId :: "int option"
  cp_expiresAt :: "int option"
  cp_remainderRefundedAt :: "int option"

record package_use =
  pu_id :: int
  pu_createdAt :: int
  pu_clientPackageId :: int
  pu_appointmentId :: "int option"
  pu_saleId :: "int option"
  pu_usedByUserId :: int
  pu_undoneAt :: "int option"
  pu_undoneByUserId :: "int option"

record subscription_plan =
  sl_id :: int
  sl_barbershopId :: int
  sl_planServiceId :: int
  sl_name :: string
  sl_price :: rat
  sl_sessionsPerCycle :: "int option"
  sl_stripeProductId :: "string option"
  sl_stripePriceId :: "string option"
  sl_isActive :: bool

record client_account =
  ca_id :: int
  ca_email :: string
  ca_phone :: "string option"
  ca_emailVerifiedAt :: "int option"
  ca_deletedAt :: "int option"

record client_subscription =
  cb_id :: int
  cb_createdAt :: int
  cb_barbershopId :: int
  cb_clientAccountId :: int
  cb_planId :: int
  cb_stripeSubscriptionId :: string
  cb_status :: string
  cb_currentPeriodStart :: "int option"
  cb_currentPeriodEnd :: "int option"
  cb_usedThisCycle :: int
  cb_sessionsPerCycle :: "int option"
  cb_cancelAtPeriodEnd :: bool
  cb_connectAccountId :: "string option"
  cb_applicationFeePercent :: "rat option"

record club_use =
  cq_id :: int
  cq_createdAt :: int
  cq_clientSubscriptionId :: int
  cq_saleId :: "int option"
  cq_usedByUserId :: int
  cq_periodStart :: "int option"
  cq_undoneAt :: "int option"
  cq_undoneByUserId :: "int option"

record club_payment =
  cy_id :: int
  cy_subscriptionId :: int
  cy_stripeInvoiceId :: string
  cy_amount :: rat
  cy_platformFeePercent :: "rat option"
  cy_settledViaConnect :: bool
  cy_status :: string
  cy_periodStart :: "int option"
  cy_periodEnd :: "int option"

record session_db = shop_db +
  servicePackages :: "service_package table"
  clientPackages :: "client_package table"
  packageUses :: "package_use table"
  subscriptionPlans :: "subscription_plan table"
  clientAccounts :: "client_account table"
  clientSubscriptions :: "client_subscription table"
  clubUses :: "club_use table"
  clubPayments :: "club_payment table"

section \<open>Sales of the counter\<close>

definition round2 :: "rat \<Rightarrow> rat" where
  "round2 v = of_int (js_round (v * 100)) / 100"

lemma round2_cents: "round2 = cents"
  by (intro ext) (simp add: round2_def cents_def)

definition STAFF_SALE_TYPES :: "string list" where "STAFF_SALE_TYPES = [''SERVICE'', ''PRODUCT'', ''MIXED'']"
definition STAFF_SALE_ITEM_TYPES :: "string list" where "STAFF_SALE_ITEM_TYPES = [''SERVICE'', ''PRODUCT'']"
definition STAFF_PAYMENT_STATUSES :: "string list" where "STAFF_PAYMENT_STATUSES = [''PENDING'', ''PAID'']"

text \<open>What of a sale the check of its kinds looks at; an edit leaves out what it does not change.\<close>

record sale_kinds =
  sk_saleType :: "string option"
  sk_itemTypes :: "string list option"
  sk_paymentStatus :: "string option"
  sk_paymentMethod :: "string option"

definition SALE_TYPE_LOCKED :: http_error where
  "SALE_TYPE_LOCKED = BadRequest ''O tipo e os itens desta venda nao mudam. Apague e lance de novo.''"

definition checkSaleKinds :: "sale_kinds \<Rightarrow> sale option \<Rightarrow> unit result" where
  "checkSaleKinds data existing = (let
       lockedType = (case existing of None \<Rightarrow> False | Some e \<Rightarrow> se_saleType e \<notin> set STAFF_SALE_TYPES)
     in bindE (case sk_saleType data of
          None \<Rightarrow> Inr ()
        | Some t \<Rightarrow> if Some t = map_option se_saleType existing then Inr ()
            else bindE (throwIf lockedType SALE_TYPE_LOCKED) (\<lambda>_.
              throwIf (t \<notin> set STAFF_SALE_TYPES) (BadRequest ''Tipo de venda invalido''))) (\<lambda>_.
      bindE (case sk_itemTypes data of
          None \<Rightarrow> Inr ()
        | Some ts \<Rightarrow> bindE (throwIf lockedType SALE_TYPE_LOCKED) (\<lambda>_.
            throwIf (\<not> set ts \<subseteq> set STAFF_SALE_ITEM_TYPES) (BadRequest ''Tipo de item invalido''))) (\<lambda>_.
      bindE (case sk_paymentStatus data of
          None \<Rightarrow> Inr ()
        | Some p \<Rightarrow> throwIf (Some p \<noteq> map_option se_paymentStatus existing \<and> p \<notin> set STAFF_PAYMENT_STATUSES)
            (BadRequest ''Situacao de pagamento invalida'')) (\<lambda>_.
      case sk_paymentMethod data of
          None \<Rightarrow> Inr ()
        | Some m \<Rightarrow> throwIf (Some m \<noteq> Option.bind existing se_paymentMethod \<and> m \<notin> set SALE_PAYMENT_METHODS)
            (BadRequest ''Forma de pagamento invalida'')))))"

text \<open>\<open>recordStandaloneSale\<close>: the row of the sale of a package or of a gift card, and its id.\<close>

definition standalone_sale :: "int \<Rightarrow> int \<Rightarrow> int \<Rightarrow> int option \<Rightarrow> string \<Rightarrow> rat \<Rightarrow> string \<Rightarrow> string option
    \<Rightarrow> int option \<Rightarrow> sale" where
  "standalone_sale i now barbershopId customerId itemType amount notes paymentMethod cashSessionId = (let
       paid = given paymentMethod; a = round2 amount
     in \<lparr>se_id = i, se_barbershopId = barbershopId, se_createdAt = now, se_customerId = customerId, se_barberId = None,
          se_appointmentId = None, se_cashSessionId = cashSessionId, se_saleType = itemType, se_subtotal = a,
          se_discountAmount = 0, se_taxAmount = 0, se_total = a,
          se_paymentStatus = (if paid then ''PAID'' else ''PENDING''), se_paymentMethod = paymentMethod,
          se_paidAt = (if paid then Some now else None), se_giftCardId = None, se_giftCardAmountApplied = None,
          se_loyaltyPointsEarned = None, se_loyaltyPointsRedeemed = None, se_loyaltyDiscountAmount = None,
          se_depositApplied = None, se_prepaidApplied = None, se_clientSubscriptionId = None,
          se_items = [\<lparr>it_itemType = itemType, it_serviceId = None, it_productId = None, it_serviceHistoryId = None,
            it_quantity = 1, it_unitPrice = a, it_totalPrice = a, it_notes = Some notes\<rparr>]\<rparr>)"

definition recordStandaloneSale :: "'a shop_db_scheme \<Rightarrow> int \<Rightarrow> int \<Rightarrow> int option \<Rightarrow> string \<Rightarrow> rat \<Rightarrow> string
    \<Rightarrow> string option \<Rightarrow> (int \<times> 'a shop_db_scheme) result" where
  "recordStandaloneSale db now barbershopId customerId itemType amount notes paymentMethod =
     bindE (checkSaleKinds \<lparr>sk_saleType = None, sk_itemTypes = None, sk_paymentStatus = None, sk_paymentMethod = paymentMethod\<rparr> None) (\<lambda>_.
     Inr (seq (sales db), db\<lparr>sales := create_row (\<lambda>i. standalone_sale i now barbershopId customerId itemType amount notes
       paymentMethod (if given paymentMethod then map_option cs_id (openSession db barbershopId) else None)) (sales db)\<rparr>))"

section \<open>Packages on offer\<close>

definition checkSessionCount :: "string \<Rightarrow> int option \<Rightarrow> unit result" where
  "checkSessionCount label value = (case value of
       None \<Rightarrow> Inr ()
     | Some v \<Rightarrow> throwIf (v < 1) (BadRequest (label @ '' precisa ser pelo menos 1'')))"

record package_input =
  ki_serviceId :: int
  ki_name :: string
  ki_totalSessions :: int
  ki_price :: rat
  ki_validityDays :: "int option"

definition createServicePackage :: "int \<Rightarrow> int \<Rightarrow> int \<Rightarrow> package_input \<Rightarrow> 'a session_db_scheme \<Rightarrow> 'a session_db_scheme result" where
  "createServicePackage now userId barbershopId d db =
     bindE (ensureBarbershopAccess db now userId barbershopId Manager) (\<lambda>shop.
     bindE (checkMoney ''Preco'' (Some (ki_price d)) (Some (bs_currency (sa_shop shop)))) (\<lambda>_.
     bindE (checkSessionCount ''Sessoes'' (Some (ki_totalSessions d))) (\<lambda>_.
     bindE (checkSessionCount ''Validade'' (ki_validityDays d)) (\<lambda>_.
     bindE (ensureModuleAccess db now barbershopId Mod_packages) (\<lambda>_.
     bindE (throwIf (find_first (\<lambda>s. sv_id s = ki_serviceId d \<and> sv_barbershopId s = barbershopId \<and> sv_isActive s) (services db) = None)
       (NotFound ''Servico nao encontrado'')) (\<lambda>_.
     Inr (db\<lparr>servicePackages := create_row (\<lambda>i. \<lparr>sp_id = i, sp_barbershopId = barbershopId, sp_serviceId = ki_serviceId d,
       sp_name = ki_name d, sp_totalSessions = ki_totalSessions d, sp_price = ki_price d, sp_isActive = True,
       sp_validityDays = ki_validityDays d\<rparr>) (servicePackages db)\<rparr>)))))))"

text \<open>An edit: a missing field is not changed; the validity can also be cleared.\<close>

record package_patch =
  kp_name :: "string option"
  kp_totalSessions :: "int option"
  kp_price :: "rat option"
  kp_isActive :: "bool option"
  kp_validityDays :: "int option option"

definition patched :: "'x option \<Rightarrow> 'x \<Rightarrow> 'x" where
  "patched new old = (case new of None \<Rightarrow> old | Some v \<Rightarrow> v)"

definition packageOfShop :: "'a session_db_scheme \<Rightarrow> int \<Rightarrow> int \<Rightarrow> service_package result" where
  "packageOfShop db barbershopId i = (case find_first (\<lambda>p. sp_id p = i \<and> sp_barbershopId p = barbershopId) (servicePackages db) of
       None \<Rightarrow> Inl (NotFound ''Pacote nao encontrado'')
     | Some p \<Rightarrow> Inr p)"

definition updateServicePackage :: "int \<Rightarrow> int \<Rightarrow> int \<Rightarrow> int \<Rightarrow> package_patch \<Rightarrow> 'a session_db_scheme \<Rightarrow> 'a session_db_scheme result" where
  "updateServicePackage now userId barbershopId i d db =
     bindE (ensureBarbershopAccess db now userId barbershopId Manager) (\<lambda>shop.
     bindE (packageOfShop db barbershopId i) (\<lambda>_.
     bindE (checkMoney ''Preco'' (kp_price d) (Some (bs_currency (sa_shop shop)))) (\<lambda>_.
     bindE (checkSessionCount ''Sessoes'' (kp_totalSessions d)) (\<lambda>_.
     bindE (checkSessionCount ''Validade'' (Option.bind (kp_validityDays d) id)) (\<lambda>_.
     Inr (db\<lparr>servicePackages := update_many (\<lambda>p. sp_id p = i) (\<lambda>p. p\<lparr>sp_name := patched (kp_name d) (sp_name p),
       sp_totalSessions := patched (kp_totalSessions d) (sp_totalSessions p), sp_price := patched (kp_price d) (sp_price p),
       sp_isActive := patched (kp_isActive d) (sp_isActive p),
       sp_validityDays := patched (kp_validityDays d) (sp_validityDays p)\<rparr>) (servicePackages db)\<rparr>))))))"

definition deleteServicePackage :: "int \<Rightarrow> int \<Rightarrow> int \<Rightarrow> int \<Rightarrow> 'a session_db_scheme \<Rightarrow> 'a session_db_scheme result" where
  "deleteServicePackage now userId barbershopId i db =
     bindE (ensureBarbershopAccess db now userId barbershopId Manager) (\<lambda>_.
     bindE (packageOfShop db barbershopId i) (\<lambda>_.
     Inr (db\<lparr>servicePackages := update_many (\<lambda>p. sp_id p = i) (\<lambda>p. p\<lparr>sp_isActive := False\<rparr>) (servicePackages db)\<rparr>)))"

section \<open>Packages of a customer\<close>

text \<open>The end of the last day of validity, in the time zone of the shop.\<close>

definition packageExpiresAt :: "intl \<Rightarrow> int \<Rightarrow> string option \<Rightarrow> int \<Rightarrow> int option" where
  "packageExpiresAt I validityDays timeZone now = (let tz = safeTimeZone I timeZone in
     Option.bind (addDaysStr (z_dateStr (toZonedParts I now tz)) validityDays) (\<lambda>lastDay.
     Option.bind (nextDateStr lastDay) (\<lambda>after.
     map_option (\<lambda>t. t - 1) (zonedTimeToUtc I after 0 tz))))"

definition sold_package :: "int \<Rightarrow> int \<Rightarrow> int \<Rightarrow> int \<Rightarrow> service_package \<Rightarrow> int \<Rightarrow> int option \<Rightarrow> client_package" where
  "sold_package i now barbershopId customerId p saleId expires = \<lparr>cp_id = i, cp_createdAt = now,
     cp_barbershopId = barbershopId, cp_customerId = customerId, cp_servicePackageId = sp_id p,
     cp_totalSessions = sp_totalSessions p, cp_usedSessions = 0, cp_status = ''ACTIVE'', cp_saleId = Some saleId,
     cp_expiresAt = expires, cp_remainderRefundedAt = None\<rparr>"

definition purchaseClientPackage :: "intl \<Rightarrow> int \<Rightarrow> int \<Rightarrow> int \<Rightarrow> int \<Rightarrow> int \<Rightarrow> string option
    \<Rightarrow> 'a session_db_scheme \<Rightarrow> (int \<times> 'a session_db_scheme) result" where
  "purchaseClientPackage I now userId barbershopId customerId servicePackageId paymentMethod db =
     bindE (ensureBarbershopAccess db now userId barbershopId Reception) (\<lambda>shop.
     bindE (ensureCustomerOfNetwork db (bs_networkId (sa_shop shop)) customerId) (\<lambda>_.
     bindE (ensureModuleAccess db now barbershopId Mod_packages) (\<lambda>_.
     case find_first (\<lambda>p. sp_id p = servicePackageId \<and> sp_barbershopId p = barbershopId \<and> sp_isActive p) (servicePackages db) of
       None \<Rightarrow> Inl (NotFound ''Pacote nao encontrado'')
     | Some p \<Rightarrow>
         bindE (throwIf (find_first (\<lambda>s. sv_id s = sp_serviceId p \<and> sv_isActive s) (services db) = None)
           (BadRequest ''Este pacote nao esta mais a venda porque o servico foi desativado.'')) (\<lambda>_.
         bindE (recordStandaloneSale db now barbershopId (Some customerId) ''PACKAGE'' (sp_price p)
           (''Pacote - '' @ sp_name p) paymentMethod) (\<lambda>(saleId, db1).
         Inr (seq (clientPackages db1), db1\<lparr>clientPackages := create_row (\<lambda>i. sold_package i now barbershopId customerId p saleId
           (if truthy (sp_validityDays p) then packageExpiresAt I (the (sp_validityDays p)) (Some (bs_timezone (sa_shop shop))) now
            else None)) (clientPackages db1)\<rparr>))))))"

text \<open>The package to use first: among those in use the one that expires first; without validity last; then the oldest.\<close>

definition usable :: "int \<Rightarrow> client_package \<Rightarrow> bool" where
  "usable now p \<longleftrightarrow> cp_status p = ''ACTIVE'' \<and> cp_usedSessions p < cp_totalSessions p
     \<and> (case cp_expiresAt p of None \<Rightarrow> True | Some e \<Rightarrow> e > now)"

definition compareClientPackagesForUse :: "int \<Rightarrow> client_package \<Rightarrow> client_package \<Rightarrow> int" where
  "compareClientPackagesForUse now a b =
     (if usable now a \<noteq> usable now b then (if usable now a then - 1 else 1)
      else if cp_expiresAt a \<noteq> cp_expiresAt b
      then (case (cp_expiresAt a, cp_expiresAt b) of
          (Some x, Some y) \<Rightarrow> x - y
        | (Some _, None) \<Rightarrow> - 1
        | (None, _) \<Rightarrow> 1)
      else cp_createdAt a - cp_createdAt b)"

fun insert_by :: "('x \<Rightarrow> 'x \<Rightarrow> int) \<Rightarrow> 'x \<Rightarrow> 'x list \<Rightarrow> 'x list" where
  "insert_by cmp x [] = [x]"
| "insert_by cmp x (y # ys) = (if cmp x y \<le> 0 then x # y # ys else y # insert_by cmp x ys)"

text \<open>\<open>sort\<close> with a comparison, stable.\<close>

definition js_sort :: "('x \<Rightarrow> 'x \<Rightarrow> int) \<Rightarrow> 'x list \<Rightarrow> 'x list" where
  "js_sort cmp xs = foldr (insert_by cmp) xs []"

definition getClientPackages :: "int \<Rightarrow> int \<Rightarrow> int \<Rightarrow> int \<Rightarrow> 'a session_db_scheme \<Rightarrow> (client_package \<times> package_use list) list result" where
  "getClientPackages now userId barbershopId customerId db =
     bindE (ensureBarbershopAccess db now userId barbershopId Barber) (\<lambda>_.
     bindE (ensureModuleAccess db now barbershopId Mod_packages) (\<lambda>_.
     Inr (map (\<lambda>p. (p, take 8 (sort_key (\<lambda>u. - pu_createdAt u)
         (find_many (\<lambda>u. pu_clientPackageId u = cp_id p \<and> pu_undoneAt u = None) (packageUses db)))))
       (js_sort (compareClientPackagesForUse now)
         (find_many (\<lambda>p. cp_barbershopId p = barbershopId \<and> cp_customerId p = customerId) (clientPackages db))))))"

section \<open>Debits and their undoing\<close>

text \<open>The SQL statement that takes a session of a package, with the number of rows it changed.\<close>

definition takes_session :: "int \<Rightarrow> int \<Rightarrow> client_package \<Rightarrow> bool" where
  "takes_session now i p \<longleftrightarrow> cp_id p = i \<and> cp_status p = ''ACTIVE'' \<and> cp_usedSessions p < cp_totalSessions p
     \<and> (case cp_expiresAt p of None \<Rightarrow> True | Some e \<Rightarrow> e > now)"

definition session_taken :: "client_package \<Rightarrow> client_package" where
  "session_taken p = p\<lparr>cp_usedSessions := cp_usedSessions p + 1,
     cp_status := (if cp_usedSessions p + 1 \<ge> cp_totalSessions p then ''COMPLETED'' else ''ACTIVE'')\<rparr>"

definition take_session :: "int \<Rightarrow> int \<Rightarrow> 'a session_db_scheme \<Rightarrow> int \<times> 'a session_db_scheme" where
  "take_session now i db = (count_where (takes_session now i) (clientPackages db),
     db\<lparr>clientPackages := update_many (takes_session now i) session_taken (clientPackages db)\<rparr>)"

definition record_use :: "int \<Rightarrow> int \<Rightarrow> int \<Rightarrow> int option \<Rightarrow> int option \<Rightarrow> 'a session_db_scheme \<Rightarrow> 'a session_db_scheme" where
  "record_use now userId i saleId appointmentId db = db\<lparr>packageUses := create_row (\<lambda>k. \<lparr>pu_id = k, pu_createdAt = now,
     pu_clientPackageId = i, pu_appointmentId = appointmentId, pu_saleId = saleId, pu_usedByUserId = userId,
     pu_undoneAt = None, pu_undoneByUserId = None\<rparr>) (packageUses db)\<rparr>"

definition NO_SESSIONS_LEFT :: http_error where
  "NO_SESSIONS_LEFT = BadRequest ''Pacote nao tem sessoes restantes''"

definition debit_checks :: "int \<Rightarrow> int \<Rightarrow> int \<Rightarrow> int \<Rightarrow> 'a session_db_scheme \<Rightarrow> unit result" where
  "debit_checks now userId barbershopId i db =
     bindE (ensureBarbershopAccess db now userId barbershopId Reception) (\<lambda>_.
     case find_first (\<lambda>p. cp_id p = i \<and> cp_barbershopId p = barbershopId) (clientPackages db) of
       None \<Rightarrow> Inl (NotFound ''Pacote do cliente nao encontrado'')
     | Some p \<Rightarrow> bindE (throwIf (cp_status p \<noteq> ''ACTIVE'') (BadRequest ''Pacote nao esta ativo'')) (\<lambda>_.
         throwIf (case cp_expiresAt p of None \<Rightarrow> False | Some e \<Rightarrow> e \<le> now) (BadRequest ''Este pacote venceu.'')))"

definition debitClientPackageSession :: "int \<Rightarrow> int \<Rightarrow> int \<Rightarrow> int \<Rightarrow> 'a session_db_scheme \<Rightarrow> unit result \<times> 'a session_db_scheme" where
  "debitClientPackageSession now userId barbershopId i db = (case debit_checks now userId barbershopId i db of
       Inl e \<Rightarrow> (Inl e, db)
     | Inr _ \<Rightarrow> (case take_session now i db of
           (debited, db1) \<Rightarrow> if debited = 0 then (Inl NO_SESSIONS_LEFT, db1)
             else (Inr (), record_use now userId i None None db1)))"

definition RESTORABLE_PACKAGE :: "client_package \<Rightarrow> bool" where
  "RESTORABLE_PACKAGE p \<longleftrightarrow> cp_status p \<in> {''ACTIVE'', ''COMPLETED''} \<and> cp_remainderRefundedAt p = None"

text \<open>The conditional update that gives a session back, with the number of rows it changed.\<close>

definition restorable :: "int \<Rightarrow> client_package \<Rightarrow> bool" where
  "restorable i p \<longleftrightarrow> cp_id p = i \<and> cp_usedSessions p > 0 \<and> RESTORABLE_PACKAGE p"

definition restore_session :: "int \<Rightarrow> 'a session_db_scheme \<Rightarrow> int \<times> 'a session_db_scheme" where
  "restore_session i db = (count_where (restorable i) (clientPackages db),
     db\<lparr>clientPackages := update_many (restorable i)
       (\<lambda>p. p\<lparr>cp_usedSessions := cp_usedSessions p - 1, cp_status := ''ACTIVE''\<rparr>) (clientPackages db)\<rparr>)"

definition mark_undone :: "int \<Rightarrow> int \<Rightarrow> int \<Rightarrow> 'a session_db_scheme \<Rightarrow> 'a session_db_scheme" where
  "mark_undone now userId useId db = db\<lparr>packageUses := update_many (\<lambda>u. pu_id u = useId)
     (\<lambda>u. u\<lparr>pu_undoneAt := Some now, pu_undoneByUserId := Some userId\<rparr>) (packageUses db)\<rparr>"

definition PACKAGE_UNDO_CLOSED :: http_error where
  "PACKAGE_UNDO_CLOSED = BadRequest ''Este pacote foi cancelado ou teve o restante devolvido: a sessao nao volta.''"

definition undo_checks :: "int \<Rightarrow> int \<Rightarrow> int \<Rightarrow> int \<Rightarrow> 'a session_db_scheme \<Rightarrow> package_use result" where
  "undo_checks now userId barbershopId useId db =
     bindE (ensureBarbershopAccess db now userId barbershopId Reception) (\<lambda>_.
     case find_first (\<lambda>u. pu_id u = useId \<and> find_first (\<lambda>p. cp_id p = pu_clientPackageId u \<and> cp_barbershopId p = barbershopId)
         (clientPackages db) \<noteq> None) (packageUses db) of
       None \<Rightarrow> Inl (NotFound ''Baixa nao encontrada'')
     | Some u \<Rightarrow> bindE (throwIf (pu_undoneAt u \<noteq> None) (BadRequest ''Esta baixa ja foi desfeita.'')) (\<lambda>_.
         bindE (throwIf (truthy (pu_saleId u)) (BadRequest ''A baixa deste pacote esta na venda. Apague a venda para desfazer.'')) (\<lambda>_.
         bindE (throwIf (case find_first (\<lambda>p. cp_id p = pu_clientPackageId u) (clientPackages db) of
             None \<Rightarrow> False
           | Some p \<Rightarrow> cp_status p = ''CANCELLED'' \<or> cp_remainderRefundedAt p \<noteq> None) PACKAGE_UNDO_CLOSED) (\<lambda>_.
         Inr u))))"

definition undo_write :: "int \<Rightarrow> int \<Rightarrow> package_use \<Rightarrow> 'a session_db_scheme \<Rightarrow> unit result \<times> 'a session_db_scheme" where
  "undo_write now userId u db = (case restore_session (pu_clientPackageId u) db of
       (restored, db1) \<Rightarrow> if restored = 0 then (Inl NO_SESSIONS_LEFT, db1)
         else (Inr (), mark_undone now userId (pu_id u) db1))"

definition undoClientPackageUse :: "int \<Rightarrow> int \<Rightarrow> int \<Rightarrow> int \<Rightarrow> 'a session_db_scheme \<Rightarrow> unit result \<times> 'a session_db_scheme" where
  "undoClientPackageUse now userId barbershopId useId db = (case undo_checks now userId barbershopId useId db of
       Inl e \<Rightarrow> (Inl e, db)
     | Inr u \<Rightarrow> undo_write now userId u db)"

section \<open>What a sale does with a package\<close>

definition COVERED_SESSION_QUANTITY :: http_error where
  "COVERED_SESSION_QUANTITY = BadRequest ''A sessao do pacote ou do clube cobre um atendimento: uma linha do servico, quantidade 1.''"

text \<open>The lines of a service at no price, and the check that exactly one of quantity 1 is there.\<close>

definition free_lines :: "int \<Rightarrow> sale_item list \<Rightarrow> sale_item list" where
  "free_lines serviceId items = filter (\<lambda>i. it_serviceId i = Some serviceId \<and> js_round (it_unitPrice i * 100) = 0
     \<and> js_round (it_totalPrice i * 100) = 0) items"

definition covered_line :: "int \<Rightarrow> sale_item list \<Rightarrow> string \<Rightarrow> string \<Rightarrow> unit result" where
  "covered_line serviceId items charged_message missing_message = (let free = free_lines serviceId items in
     bindE (throwIf (length free > 1 \<or> list_ex (\<lambda>i. it_quantity i \<noteq> 1) free) COVERED_SESSION_QUANTITY) (\<lambda>_.
     throwIf (length free \<noteq> 1) (BadRequest (if list_ex (\<lambda>i. it_serviceId i = Some serviceId) items
       then charged_message else missing_message))))"

definition preparePackageSession :: "int \<Rightarrow> int \<Rightarrow> int option \<Rightarrow> int \<Rightarrow> sale_item list \<Rightarrow> 'a session_db_scheme \<Rightarrow> (int \<times> int) result" where
  "preparePackageSession now barbershopId customerId clientPackageId items db =
     bindE (throwIf (\<not> truthy customerId) (BadRequest ''Selecione um cliente para usar a sessao do pacote.'')) (\<lambda>_.
     case find_first (\<lambda>p. cp_id p = clientPackageId \<and> cp_barbershopId p = barbershopId) (clientPackages db) of
       None \<Rightarrow> Inl (BadRequest ''Este pacote nao e deste cliente.'')
     | Some p \<Rightarrow>
         bindE (throwIf (Some (cp_customerId p) \<noteq> customerId) (BadRequest ''Este pacote nao e deste cliente.'')) (\<lambda>_.
         bindE (throwIf (cp_status p \<noteq> ''ACTIVE'') (BadRequest ''Pacote nao esta ativo'')) (\<lambda>_.
         bindE (throwIf (case cp_expiresAt p of None \<Rightarrow> False | Some e \<Rightarrow> e \<le> now) (BadRequest ''Este pacote venceu.'')) (\<lambda>_.
         bindE (throwIf (cp_usedSessions p \<ge> cp_totalSessions p) NO_SESSIONS_LEFT) (\<lambda>_.
         case find_first (\<lambda>s. sp_id s = cp_servicePackageId p) (servicePackages db) of
           None \<Rightarrow> Inl (PlainError ''servicePackage'')
         | Some s \<Rightarrow> bindE (covered_line (sp_serviceId s) items ''O servico do pacote entra na venda sem cobrar uma sessao.''
             ''A venda nao tem o servico coberto por este pacote.'') (\<lambda>_. Inr (cp_id p, sp_serviceId s)))))))"

text \<open>The debit inside the transaction of a sale.\<close>

definition redeem_package :: "int \<Rightarrow> int \<Rightarrow> int \<Rightarrow> int option \<Rightarrow> int \<Rightarrow> 'a session_db_scheme \<Rightarrow> 'a session_db_scheme result" where
  "redeem_package now userId saleId appointmentId i db = (case take_session now i db of
       (debited, db1) \<Rightarrow> if debited = 0 then Inl NO_SESSIONS_LEFT
         else Inr (record_use now userId i (Some saleId) appointmentId db1))"

text \<open>Deleting a sale gives back the sessions it used, and cancels a package it sold that nobody used.\<close>

definition restore_use :: "int \<Rightarrow> int \<Rightarrow> package_use \<Rightarrow> 'a session_db_scheme \<Rightarrow> 'a session_db_scheme" where
  "restore_use now userId u db = (case restore_session (pu_clientPackageId u) db of
       (restored, db1) \<Rightarrow> if restored = 1 then mark_undone now userId (pu_id u) db1 else db1)"

definition restorePackageUses :: "int \<Rightarrow> int \<Rightarrow> int \<Rightarrow> 'a session_db_scheme \<Rightarrow> 'a session_db_scheme" where
  "restorePackageUses now userId saleId db = fold (restore_use now userId)
     (find_many (\<lambda>u. pu_saleId u = Some saleId \<and> pu_undoneAt u = None) (packageUses db)) db"

definition PACKAGE_SALE_USED :: http_error where
  "PACKAGE_SALE_USED = BadRequest ''Este pacote ja teve sessao usada. Estorne o que sobrou em vez de apagar a venda.''"

definition cancel_issued_package :: "int \<Rightarrow> 'a session_db_scheme \<Rightarrow> 'a session_db_scheme result" where
  "cancel_issued_package saleId db = (case find_first (\<lambda>p. cp_saleId p = Some saleId) (clientPackages db) of
       None \<Rightarrow> Inr db
     | Some p \<Rightarrow> bindE (throwIf (cp_usedSessions p > 0) PACKAGE_SALE_USED) (\<lambda>_.
         let mine = (\<lambda>q. cp_id q = cp_id p \<and> cp_saleId q = Some saleId \<and> cp_usedSessions q = 0 \<and> cp_status q = ''ACTIVE'')
         in if count_where mine (clientPackages db) = 0 \<and> \<not> (cp_usedSessions p = 0 \<and> cp_status p = ''CANCELLED'')
            then Inl PACKAGE_SALE_USED
            else Inr (db\<lparr>clientPackages := update_many mine (\<lambda>q. q\<lparr>cp_status := ''CANCELLED''\<rparr>) (clientPackages db)\<rparr>)))"

text \<open>The refund of what is left of a package in use: the new total of its sale, and the package closed.\<close>

definition refund_issued_package :: "int \<Rightarrow> int \<Rightarrow> rat \<Rightarrow> client_package \<Rightarrow> 'a session_db_scheme \<Rightarrow> (rat \<times> 'a session_db_scheme) result" where
  "refund_issued_package now saleId total_paid issued db =
     bindE (throwIf (cp_usedSessions issued \<le> 0) (BadRequest ''O pacote nao foi usado. Apague a venda para cancelar.'')) (\<lambda>_.
     bindE (throwIf (cp_status issued \<noteq> ''ACTIVE'' \<or> cp_usedSessions issued \<ge> cp_totalSessions issued)
       (BadRequest ''Nao sobrou valor para estornar.'')) (\<lambda>_.
     let mine = (\<lambda>p. cp_id p = cp_id issued \<and> cp_saleId p = Some saleId \<and> cp_status p = ''ACTIVE''
         \<and> cp_usedSessions p = cp_usedSessions issued \<and> cp_totalSessions p = cp_totalSessions issued)
     in if count_where mine (clientPackages db) = 0 then Inl (BadRequest ''O pacote mudou. Tente de novo.'')
        else Inr (round2 (total_paid * of_int (cp_usedSessions issued) / of_int (cp_totalSessions issued)),
          db\<lparr>clientPackages := update_many mine (\<lambda>p. p\<lparr>cp_totalSessions := cp_usedSessions issued, cp_status := ''COMPLETED'',
            cp_remainderRefundedAt := Some now\<rparr>) (clientPackages db)\<rparr>)))"

section \<open>Sessions given never exceed sessions bought\<close>

interpretation package_tab: row_table cp_id "table_ok cp_id"
  by unfold_locales (rule table_ok_def)

interpretation use_tab: row_table pu_id "table_ok pu_id"
  by unfold_locales (rule table_ok_def)

text \<open>The uses of a package that were not undone.\<close>

definition live_uses :: "'a session_db_scheme \<Rightarrow> int \<Rightarrow> int" where
  "live_uses db i = count_where (\<lambda>u. pu_clientPackageId u = i \<and> pu_undoneAt u = None) (packageUses db)"

definition counts_true :: "'a session_db_scheme \<Rightarrow> client_package \<Rightarrow> bool" where
  "counts_true db p \<longleftrightarrow> cp_usedSessions p = live_uses db (cp_id p) \<and> cp_usedSessions p \<le> cp_totalSessions p
     \<and> (cp_status p = ''ACTIVE'' \<longrightarrow> cp_usedSessions p < cp_totalSessions p)
     \<and> (cp_status p = ''COMPLETED'' \<longrightarrow> cp_usedSessions p = cp_totalSessions p)"

definition packages_ok :: "'a session_db_scheme \<Rightarrow> bool" where
  "packages_ok db \<longleftrightarrow> table_ok cp_id (clientPackages db) \<and> table_ok pu_id (packageUses db)
     \<and> (\<forall>p \<in> set (rows (clientPackages db)). counts_true db p)
     \<and> (\<forall>s \<in> set (rows (servicePackages db)). 0 < sp_totalSessions s)
     \<and> (\<forall>i \<ge> seq (clientPackages db). live_uses db i = 0)"

lemma counts_true_same: "live_uses db' (cp_id p) = live_uses db (cp_id p) \<Longrightarrow> counts_true db' p \<longleftrightarrow> counts_true db p"
  by (simp add: counts_true_def)

lemma packages_frame:
  assumes "packages_ok db" and "clientPackages db' = clientPackages db" and "packageUses db' = packageUses db"
    and "\<And>s. s \<in> set (rows (servicePackages db')) \<Longrightarrow> 0 < sp_totalSessions s"
  shows "packages_ok db'"
proof -
  have "live_uses db' = live_uses db" using assms(3) by (intro ext) (simp add: live_uses_def)
  with assms counts_true_same [of db' _ db] show ?thesis by (simp add: packages_ok_def)
qed

lemma live_uses_nonneg: "0 \<le> live_uses db i"
  by (simp add: live_uses_def count_where_nonneg)

text \<open>A debit and its record, in one step.\<close>

lemma debit_ok:
  assumes ok: "packages_ok db" and taken: "take_session now i db = (k, db1)" "k \<noteq> 0"
  shows "packages_ok (record_use now userId i saleId appointmentId db1)"
proof -
  let ?db = "record_use now userId i saleId appointmentId db1"
  have db1: "db1 = db\<lparr>clientPackages := update_many (takes_session now i) session_taken (clientPackages db)\<rparr>"
    and k: "count_where (takes_session now i) (clientPackages db) \<noteq> 0"
    using taken by (auto simp: take_session_def)
  obtain p where p: "p \<in> set (rows (clientPackages db))" "takes_session now i p" using k by (auto simp: count_where_zero)
  have tab: "table_ok cp_id (clientPackages db)" using ok by (simp add: packages_ok_def)
  have only: "takes_session now i q \<longleftrightarrow> q = p" if "q \<in> set (rows (clientPackages db))" for q
    using package_tab.key_inj [OF tab that p(1)] p(2) by (auto simp: takes_session_def)
  have id: "cp_id p = i" and i: "i < seq (clientPackages db)" using p tab by (auto simp: takes_session_def table_ok_def)
  have live: "live_uses ?db j = live_uses db j + (if j = i then 1 else 0)" for j
    by (simp add: live_uses_def record_use_def db1 count_where_def)
  have "counts_true ?db q" if q: "q \<in> set (rows (clientPackages ?db))" for q
  proof -
    obtain r where r: "r \<in> set (rows (clientPackages db))" "q = (if takes_session now i r then session_taken r else r)"
      using q by (auto simp: record_use_def db1)
    have was: "counts_true db r" using ok r(1) by (simp add: packages_ok_def)
    show ?thesis
    proof (cases "r = p")
      case True
      then have "q = session_taken p" using r p by simp
      then show ?thesis using was True p(2) id by (auto simp: counts_true_def live session_taken_def takes_session_def)
    next
      case False
      then have "q = r" "cp_id r \<noteq> i" using r only package_tab.key_inj [OF tab r(1) p(1)] id by auto
      then show ?thesis using was counts_true_same [of ?db r db] live by simp
    qed
  qed
  moreover have "table_ok cp_id (clientPackages ?db)" "table_ok pu_id (packageUses ?db)"
    using ok by (auto simp: packages_ok_def record_use_def db1 session_taken_def intro: package_tab.ok_update use_tab.ok_create)
  ultimately show ?thesis using ok i live by (auto simp: packages_ok_def record_use_def db1)
qed

text \<open>A session given back, its use marked, in one step.\<close>

lemma give_back_ok:
  assumes ok: "packages_ok db" and u: "u \<in> set (rows (packageUses db))" "pu_undoneAt u = None"
    and given_back: "restore_session (pu_clientPackageId u) db = (k, db1)" "k \<noteq> 0"
  shows "packages_ok (mark_undone now userId (pu_id u) db1)"
proof -
  let ?i = "pu_clientPackageId u" and ?db = "mark_undone now userId (pu_id u) db1"
  let ?f = "\<lambda>p. p\<lparr>cp_usedSessions := cp_usedSessions p - 1, cp_status := ''ACTIVE''\<rparr>"
  have db1: "db1 = db\<lparr>clientPackages := update_many (restorable ?i) ?f (clientPackages db)\<rparr>"
    and k: "count_where (restorable ?i) (clientPackages db) \<noteq> 0"
    using given_back by (auto simp: restore_session_def)
  obtain p where p: "p \<in> set (rows (clientPackages db))" "restorable ?i p" using k by (auto simp: count_where_zero)
  have tab: "table_ok cp_id (clientPackages db)" and uses: "table_ok pu_id (packageUses db)" using ok by (simp_all add: packages_ok_def)
  have only: "restorable ?i q \<longleftrightarrow> q = p" if "q \<in> set (rows (clientPackages db))" for q
    using package_tab.key_inj [OF tab that p(1)] p(2) by (auto simp: restorable_def)
  have id: "cp_id p = ?i" and i: "?i < seq (clientPackages db)" using p tab by (auto simp: restorable_def table_ok_def)
  have live: "live_uses ?db j = live_uses db j - (if j = ?i then 1 else 0)" for j
    unfolding live_uses_def mark_undone_def db1 using use_tab.count_update_one [OF uses u(1)] u(2) by simp
  have "counts_true ?db q" if q: "q \<in> set (rows (clientPackages ?db))" for q
  proof -
    obtain r where r: "r \<in> set (rows (clientPackages db))" "q = (if restorable ?i r then ?f r else r)"
      using q by (auto simp: mark_undone_def db1)
    have was: "counts_true db r" using ok r(1) by (simp add: packages_ok_def)
    show ?thesis
    proof (cases "r = p")
      case True
      then have "q = ?f p" using r p by simp
      then show ?thesis using was True p(2) id by (auto simp: counts_true_def live restorable_def)
    next
      case False
      then have "q = r" "cp_id r \<noteq> ?i" using r only package_tab.key_inj [OF tab r(1) p(1)] id by auto
      then show ?thesis using was counts_true_same [of ?db r db] live by simp
    qed
  qed
  moreover have "table_ok cp_id (clientPackages ?db)" "table_ok pu_id (packageUses ?db)"
    using ok by (auto simp: packages_ok_def mark_undone_def db1 intro: package_tab.ok_update use_tab.ok_update)
  ultimately show ?thesis using ok i live by (auto simp: packages_ok_def mark_undone_def db1)
qed

text \<open>Changes of packages that keep the counts of each.\<close>

lemma package_update_ok:
  assumes ok: "packages_ok db" and f: "\<And>p. p \<in> set (rows (clientPackages db)) \<Longrightarrow> q p \<Longrightarrow> cp_id (f p) = cp_id p \<and> (counts_true db p \<longrightarrow> counts_true db (f p))"
  shows "packages_ok (db\<lparr>clientPackages := update_many q f (clientPackages db)\<rparr>)"
proof -
  let ?db = "db\<lparr>clientPackages := update_many q f (clientPackages db)\<rparr>"
  have "live_uses ?db = live_uses db" by (intro ext) (simp add: live_uses_def)
  then have "counts_true ?db p \<longleftrightarrow> counts_true db p" for p by (simp add: counts_true_def)
  then show ?thesis
    using ok f \<open>live_uses ?db = live_uses db\<close> unfolding packages_ok_def by (auto intro: package_tab.ok_update)
qed

lemma sold_ok:
  assumes ok: "packages_ok db" and p: "p \<in> set (rows (servicePackages db))"
  shows "packages_ok (db\<lparr>clientPackages := create_row (\<lambda>i. sold_package i now s c p saleId e) (clientPackages db)\<rparr>)"
proof -
  let ?db = "db\<lparr>clientPackages := create_row (\<lambda>i. sold_package i now s c p saleId e) (clientPackages db)\<rparr>"
  have live: "live_uses ?db = live_uses db" by (intro ext) (simp add: live_uses_def)
  then have "counts_true ?db r \<longleftrightarrow> counts_true db r" for r by (simp add: counts_true_def)
  moreover have "counts_true db (sold_package (seq (clientPackages db)) now s c p saleId e)"
    using ok p by (auto simp: counts_true_def packages_ok_def sold_package_def)
  ultimately show ?thesis
    using ok live unfolding packages_ok_def by (auto intro: package_tab.ok_create simp: sold_package_def)
qed

lemma restore_uses_ok:
  assumes "packages_ok db" and "distinct (map pu_id us)" and "\<And>u. u \<in> set us \<Longrightarrow> u \<in> set (rows (packageUses db)) \<and> pu_undoneAt u = None"
  shows "packages_ok (fold (restore_use now userId) us db)"
  using assms
proof (induction us arbitrary: db)
  case Nil
  then show ?case by simp
next
  case (Cons u us)
  obtain k db1 where r: "restore_session (pu_clientPackageId u) db = (k, db1)" by fastforce
  show ?case
  proof (cases "k = 1")
    case True
    let ?db = "mark_undone now userId (pu_id u) db1"
    have "packages_ok ?db" using give_back_ok [OF Cons.prems(1) _ _ r] Cons.prems(3) True by simp
    moreover have "v \<in> set (rows (packageUses ?db)) \<and> pu_undoneAt v = None" if "v \<in> set us" for v
      using Cons.prems(2,3) that r by (force simp: mark_undone_def restore_session_def image_iff)
    ultimately have "packages_ok (fold (restore_use now userId) us ?db)" using Cons.prems(2) by (intro Cons.IH) auto
    then show ?thesis using r True by (simp add: restore_use_def [of _ _ u])
  next
    case False
    have "k = 0" "count_where (restorable (pu_clientPackageId u)) (clientPackages db) = 0"
      using package_tab.count_by_key_le [of "clientPackages db" "pu_clientPackageId u" "\<lambda>p. cp_usedSessions p > 0 \<and> RESTORABLE_PACKAGE p"]
        count_where_nonneg [of "restorable (pu_clientPackageId u)" "clientPackages db"] False r Cons.prems(1)
      by (auto simp: restore_session_def restorable_def [abs_def] packages_ok_def)
    then have "packages_ok db1" "packageUses db1 = packageUses db"
      using r package_update_ok [OF Cons.prems(1), of "restorable (pu_clientPackageId u)"]
      by (auto simp: restore_session_def count_where_zero)
    then have "packages_ok (fold (restore_use now userId) us db1)" using Cons.prems(2,3) by (intro Cons.IH) auto
    then show ?thesis using r False by (simp add: restore_use_def [of _ _ u])
  qed
qed

lemma take_session_frame: "take_session now i db = (k, db') \<Longrightarrow> k = 0 \<Longrightarrow> packages_ok db \<Longrightarrow> packages_ok db'"
  by (auto simp: take_session_def count_where_zero intro!: package_update_ok)

lemma restore_session_frame: "restore_session i db = (k, db') \<Longrightarrow> k = 0 \<Longrightarrow> packages_ok db \<Longrightarrow> packages_ok db'"
  by (auto simp: restore_session_def count_where_zero intro!: package_update_ok)

lemma debit_op_ok:
  assumes "packages_ok db" and "debitClientPackageSession now userId shop i db = (r, db')"
  shows "packages_ok db'"
  using assms debit_ok take_session_frame
  by (fastforce simp: debitClientPackageSession_def split: sum.split_asm prod.split_asm if_split_asm)

lemma undo_checks_use:
  assumes "undo_checks now userId shop useId db = Inr u"
  shows "u \<in> set (rows (packageUses db)) \<and> pu_undoneAt u = None"
  using assms find_first_Some by (fastforce simp: undo_checks_def bindE_eq_Inr bindE_throwIf split: option.split_asm if_split_asm)

lemma undo_op_ok:
  assumes ok: "packages_ok db" and run: "undoClientPackageUse now userId shop useId db = (r, db')"
  shows "packages_ok db'"
proof (cases "undo_checks now userId shop useId db")
  case (Inl e)
  with ok run show ?thesis by (simp add: undoClientPackageUse_def)
next
  case (Inr u)
  obtain k db1 where k: "restore_session (pu_clientPackageId u) db = (k, db1)" by fastforce
  show ?thesis
    using run Inr k undo_checks_use [OF Inr] give_back_ok [OF ok _ _ k] restore_session_frame [OF k _ ok]
    by (auto simp: undoClientPackageUse_def undo_write_def split: if_split_asm)
qed

lemma issued_ok:
  assumes ok: "packages_ok db" and run: "refund_issued_package now saleId paid issued db = Inr (t, db')"
  shows "packages_ok db'"
proof -
  have "db' = db\<lparr>clientPackages := update_many (\<lambda>p. cp_id p = cp_id issued \<and> cp_saleId p = Some saleId \<and> cp_status p = ''ACTIVE''
      \<and> cp_usedSessions p = cp_usedSessions issued \<and> cp_totalSessions p = cp_totalSessions issued)
    (\<lambda>p. p\<lparr>cp_totalSessions := cp_usedSessions issued, cp_status := ''COMPLETED'', cp_remainderRefundedAt := Some now\<rparr>) (clientPackages db)\<rparr>"
    using run by (auto simp: refund_issued_package_def bindE_eq_Inr Let_def split: if_split_asm)
  then show ?thesis by (auto simp: counts_true_def intro!: package_update_ok [OF ok])
qed

lemma cancel_issued_ok:
  assumes ok: "packages_ok db" and run: "cancel_issued_package saleId db = Inr db'"
  shows "packages_ok db'"
  using assms
  by (auto simp: cancel_issued_package_def bindE_eq_Inr Let_def counts_true_def split: option.split_asm if_split_asm
      intro!: package_update_ok)

text \<open>
  The operations on packages, one at a time, in any order. \<open>Elsewhere\<close> is any operation that touches neither
  packages nor their uses.
\<close>

inductive package_step :: "session_db \<Rightarrow> session_db \<Rightarrow> bool" where
  Offer: "createServicePackage now userId shop d db = Inr db' \<Longrightarrow> package_step db db'"
| Change: "updateServicePackage now userId shop i patch db = Inr db' \<Longrightarrow> package_step db db'"
| Withdraw: "deleteServicePackage now userId shop i db = Inr db' \<Longrightarrow> package_step db db'"
| Sell: "purchaseClientPackage I now userId shop customer i paid_by db = Inr (k, db') \<Longrightarrow> package_step db db'"
| Debit: "debitClientPackageSession now userId shop i db = (r, db') \<Longrightarrow> package_step db db'"
| Undo: "undoClientPackageUse now userId shop useId db = (r, db') \<Longrightarrow> package_step db db'"
| Sale: "redeem_package now userId saleId appointmentId i db = Inr db' \<Longrightarrow> package_step db db'"
| Sale_deleted: "cancel_issued_package saleId db = Inr db' \<Longrightarrow> package_step db (restorePackageUses now userId saleId db')"
| Refund: "refund_issued_package now saleId paid issued db = Inr (t, db') \<Longrightarrow> package_step db db'"
| Elsewhere: "clientPackages db' = clientPackages db \<Longrightarrow> packageUses db' = packageUses db
    \<Longrightarrow> servicePackages db' = servicePackages db \<Longrightarrow> package_step db db'"

lemma standalone_frame:
  assumes "recordStandaloneSale db now shop c k a n m = Inr (i, db')"
  shows "\<exists>s. db' = db\<lparr>sales := s\<rparr>"
  using assms by (auto simp: recordStandaloneSale_def bindE_eq_Inr)

lemma sold_in:
  assumes "packages_ok db" and "p \<in> set (rows (servicePackages db))"
    and "clientPackages db' = create_row (\<lambda>i. sold_package i now s c p saleId e) (clientPackages db)"
    and "packageUses db' = packageUses db" and "servicePackages db' = servicePackages db"
  shows "packages_ok db'"
  using assms packages_frame [OF sold_ok [OF assms(1,2), of now s c saleId e], of db'] by (simp add: packages_ok_def)

lemma sell_ok:
  assumes ok: "packages_ok db" and run: "purchaseClientPackage I now userId shop customer i paid_by db = Inr (k, db')"
  shows "packages_ok db'"
proof (cases "find_first (\<lambda>p. sp_id p = i \<and> sp_barbershopId p = shop \<and> sp_isActive p) (servicePackages db)")
  case None
  with run show ?thesis unfolding purchaseClientPackage_def by (simp only: bindE_eq_Inr option.case) simp
next
  case (Some p)
  have p: "p \<in> set (rows (servicePackages db))" using find_first_Some [OF Some] by simp
  obtain saleId db1 e s where rec: "recordStandaloneSale db now shop (Some customer) ''PACKAGE'' (sp_price p) (''Pacote - '' @ sp_name p) paid_by = Inr (saleId, db1)"
      and db': "db' = db1\<lparr>clientPackages := create_row (\<lambda>i. sold_package i now s customer p saleId e) (clientPackages db1)\<rparr>"
    using run Some unfolding purchaseClientPackage_def
    by (simp only: bindE_eq_Inr option.case) (elim exE conjE, simp split: prod.split_asm, blast)
  show ?thesis using standalone_frame [OF rec] unfolding db' by (elim exE) (auto intro: sold_in [OF ok p])
qed

lemma session_count_pos: "checkSessionCount label (Some n) = Inr () \<Longrightarrow> 0 < n"
  by (simp add: checkSessionCount_def)

lemma package_step_ok: "package_step db db' \<Longrightarrow> packages_ok db \<Longrightarrow> packages_ok db'"
proof (induction rule: package_step.induct)
  case (Offer now userId shop d db db')
  then show ?case
    by (intro packages_frame [OF Offer(2)])
      (auto simp: createServicePackage_def bindE_eq_Inr packages_ok_def dest!: session_count_pos)
next
  case (Change now userId shop i patch db db')
  then have "0 < patched (kp_totalSessions patch) (sp_totalSessions s)" if "s \<in> set (rows (servicePackages db))" for s
    using that by (cases "kp_totalSessions patch")
      (auto simp: updateServicePackage_def bindE_eq_Inr packages_ok_def patched_def dest!: session_count_pos)
  then show ?case using Change
    by (intro packages_frame [OF Change(2)]) (auto simp: updateServicePackage_def bindE_eq_Inr packages_ok_def)
next
  case (Withdraw now userId shop i db db')
  then show ?case
    by (intro packages_frame [OF Withdraw(2)]) (auto simp: deleteServicePackage_def bindE_eq_Inr packages_ok_def)
next
  case (Sell I now userId shop customer i paid_by db k db')
  then show ?case using sell_ok by blast
next
  case (Debit now userId shop i db r db')
  then show ?case using debit_op_ok by blast
next
  case (Undo now userId shop useId db r db')
  then show ?case using undo_op_ok by blast
next
  case (Sale now userId saleId appointmentId i db db')
  then show ?case using debit_ok by (fastforce simp: redeem_package_def split: prod.split_asm if_split_asm)
next
  case (Sale_deleted saleId db db' now userId)
  have ok: "packages_ok db'" by (rule cancel_issued_ok [OF Sale_deleted(2,1)])
  then have "distinct (map pu_id (find_many q (packageUses db')))" for q
    by (simp add: packages_ok_def table_ok_def find_many_def distinct_map inj_on_def)
  then show ?case unfolding restorePackageUses_def by (intro restore_uses_ok [OF ok]) auto
next
  case (Refund now saleId paid issued db t db')
  then show ?case using issued_ok by blast
next
  case (Elsewhere db' db)
  then show ?case by (intro packages_frame [OF Elsewhere(4)]) (auto simp: packages_ok_def)
qed

text \<open>
  C33. The record of a package tells the truth about its sessions. From no packages at all, whatever packages are offered,
  changed, sold, used at the counter or in a sale, undone, refunded or cancelled with their sale, one operation
  after another, the sessions used of a package are exactly its debits that were not undone, never
  more than it has, and a package in use still has one while a completed one has none.
\<close>

theorem package_sessions_true:
  assumes "package_step\<^sup>*\<^sup>* db db'" and "clientPackages db = empty_table" and "packageUses db = empty_table"
    and "servicePackages db = empty_table" and "p \<in> set (rows (clientPackages db'))"
  shows "cp_usedSessions p = int (length (filter (\<lambda>u. pu_clientPackageId u = cp_id p \<and> pu_undoneAt u = None) (rows (packageUses db'))))
    \<and> cp_usedSessions p \<le> cp_totalSessions p
    \<and> (cp_status p = ''ACTIVE'' \<longrightarrow> cp_usedSessions p < cp_totalSessions p)
    \<and> (cp_status p = ''COMPLETED'' \<longrightarrow> cp_usedSessions p = cp_totalSessions p)"
proof -
  have "packages_ok db'"
    using assms(1)
  proof (induction rule: rtranclp_induct)
    case base
    then show ?case using assms by (simp add: packages_ok_def package_tab.ok_empty use_tab.ok_empty live_uses_def count_where_def)
  qed (rule package_step_ok)
  then have "counts_true db' p" using assms(5) by (simp add: packages_ok_def)
  then show ?thesis
    unfolding counts_true_def live_uses_def count_where_def by blast
qed

section \<open>A package at concrete inputs\<close>

definition no_sessions :: session_db where
  "no_sessions = shop_db.extend sample_salon (session_db.fields empty_table empty_table empty_table empty_table
     \<lparr>rows = [\<lparr>ca_id = 1, ca_email = ''lia@x'', ca_phone = Some ''(11) 99999-0000'', ca_emailVerifiedAt = Some 1, ca_deletedAt = None\<rparr>],
       seq = 2\<rparr> empty_table empty_table empty_table)"

definition with_offer :: session_db where
  "with_offer = no_sessions\<lparr>servicePackages := create_row (\<lambda>i. \<lparr>sp_id = i, sp_barbershopId = 7, sp_serviceId = 1, sp_name = ''Dois cortes'',
     sp_totalSessions = 2, sp_price = 90, sp_isActive = True, sp_validityDays = None\<rparr>) empty_table\<rparr>"

definition with_package :: session_db where
  "with_package = (case purchaseClientPackage fixed_zone 100 1 7 1 1 (Some ''PIX'') with_offer of Inl _ \<Rightarrow> with_offer | Inr (_, db) \<Rightarrow> db)"

definition debited :: "session_db \<Rightarrow> session_db" where
  "debited db = snd (debitClientPackageSession 100 1 7 1 db)"

definition undone :: "session_db \<Rightarrow> session_db" where
  "undone db = snd (undoClientPackageUse 100 1 7 1 db)"

lemma offer_made:
  "createServicePackage 100 1 7 \<lparr>ki_serviceId = 1, ki_name = ''Dois cortes'', ki_totalSessions = 2, ki_price = 90,
     ki_validityDays = None\<rparr> no_sessions = Inr with_offer"
proof -
  have "is_ok (ensureBarbershopAccess no_sessions 100 1 7 Manager)" by code_simp
  then obtain shop where shop: "ensureBarbershopAccess no_sessions 100 1 7 Manager = Inr shop" by (rule is_okE)
  have "is_ok (bindE (ensureBarbershopAccess no_sessions 100 1 7 Manager)
      (\<lambda>shop. checkMoney ''Preco'' (Some 90) (Some (bs_currency (sa_shop shop)))))" by code_simp
  then have money: "checkMoney ''Preco'' (Some 90) (Some (bs_currency (sa_shop shop))) = Inr ()" by (simp add: shop is_ok_unit)
  have "is_ok (ensureModuleAccess no_sessions 100 7 Mod_packages)" by code_simp
  then have module_ok: "ensureModuleAccess no_sessions 100 7 Mod_packages = Inr ()" by (simp add: is_ok_unit)
  have service: "(find_first (\<lambda>s. sv_id s = 1 \<and> sv_barbershopId s = 7 \<and> sv_isActive s) (services no_sessions) = None) = False" by code_simp
  have empty: "servicePackages no_sessions = empty_table" by code_simp
  show ?thesis by (simp add: createServicePackage_def shop money module_ok service checkSessionCount_def with_offer_def empty)
qed

lemma package_sold:
  "\<exists>i. purchaseClientPackage fixed_zone 100 1 7 1 1 (Some ''PIX'') with_offer = Inr (i, with_package)"
proof -
  have "is_ok (purchaseClientPackage fixed_zone 100 1 7 1 1 (Some ''PIX'') with_offer)" by code_simp
  then show ?thesis unfolding with_package_def by (rule is_okE) auto
qed

lemma package_run: "package_step\<^sup>*\<^sup>* no_sessions (debited (debited with_package))"
proof -
  obtain i where "purchaseClientPackage fixed_zone 100 1 7 1 1 (Some ''PIX'') with_offer = Inr (i, with_package)"
    using package_sold by blast
  then have "package_step no_sessions with_offer" "package_step with_offer with_package"
    using Offer [OF offer_made] Sell by blast+
  moreover have "package_step db (debited db)" for db unfolding debited_def by (rule Debit) (rule prod.collapse [symmetric])
  ultimately show ?thesis by (meson rtranclp.rtrancl_refl rtranclp.rtrancl_into_rtrancl)
qed

lemma package_sessions_true_witness:
  "\<exists>p \<in> set (rows (clientPackages (debited (debited with_package)))). cp_status p = ''COMPLETED'' \<and> cp_usedSessions p = 2
     \<and> cp_usedSessions p = cp_totalSessions p"
proof -
  have start: "clientPackages no_sessions = empty_table" "packageUses no_sessions = empty_table" "servicePackages no_sessions = empty_table"
    by code_simp+
  have "map (\<lambda>p. (cp_status p, cp_usedSessions p)) (rows (clientPackages (debited (debited with_package)))) = [(''COMPLETED'', 2)]" by code_simp
  then obtain p where p: "p \<in> set (rows (clientPackages (debited (debited with_package))))" "cp_status p = ''COMPLETED''" "cp_usedSessions p = 2"
    by (cases "rows (clientPackages (debited (debited with_package)))") auto
  show ?thesis using package_sessions_true [OF package_run start p(1)] p by auto
qed

text \<open>
  Undoing one debit twice at the same time gives two sessions back. \<open>undoClientPackageUse\<close> reads that the debit is not undone, then gives
  the session back without looking again: two requests that both read first both succeed, the record counts one use
  less than there is, and the package of two sessions serves three.
\<close>

theorem double_undo_gives_session:
  "\<exists>u. undo_checks 100 1 7 1 (debited (debited with_package)) = Inr u
    \<and> (let first = undo_write 100 1 u (debited (debited with_package)); second = undo_write 100 1 u (snd first);
           after = debited (debited (snd second))
       in fst first = Inr () \<and> fst second = Inr ()
        \<and> map (\<lambda>p. (cp_totalSessions p, cp_usedSessions p)) (rows (clientPackages (snd second))) = [(2, 0)]
        \<and> live_uses (snd second) 1 = 1 \<and> live_uses after 1 = 3)"
proof -
  have "is_ok (undo_checks 100 1 7 1 (debited (debited with_package)))" by code_simp
  then obtain u where u: "undo_checks 100 1 7 1 (debited (debited with_package)) = Inr u" by (rule is_okE)
  have "(case undo_checks 100 1 7 1 (debited (debited with_package)) of Inl _ \<Rightarrow> False | Inr u \<Rightarrow>
    (let first = undo_write 100 1 u (debited (debited with_package)); second = undo_write 100 1 u (snd first);
           after = debited (debited (snd second))
       in is_ok (fst first) \<and> is_ok (fst second)
        \<and> map (\<lambda>p. (cp_totalSessions p, cp_usedSessions p)) (rows (clientPackages (snd second))) = [(2, 0)]
        \<and> live_uses (snd second) 1 = 1 \<and> live_uses after 1 = 3))" by code_simp
  then show ?thesis using u by (simp add: Let_def is_ok_unit)
qed

end
