(* ===== verification/Club.thy ===== *)
theory Club
  imports Sessions
begin

text \<open>
  The club: a monthly subscription of a customer with a number of sessions per cycle. Its plans, whose account a
  record of a customer belongs to, the redemption of a session at the counter or in a sale, its undoing, and the
  invoices of \<open>stripe.controller.ts\<close> that open a cycle.

  What Stripe answers is a parameter: the id of a product or a price (or an error), the period of a subscription.
  The theorem is about operations one at a time. The last section shows what happens when an invoice comes between the
  reading and the writing of an undo, or late.
\<close>

section \<open>Plans\<close>

definition PLAN_NAME_MAX :: nat where "PLAN_NAME_MAX = 120"

definition subscriptionPlanName :: "string \<Rightarrow> string result" where
  "subscriptionPlanName raw = (let n = js_trim raw in
     if n = [] \<or> length n > PLAN_NAME_MAX then Inl (BadRequest ''Informe o nome do plano (ate 120 caracteres).'') else Inr n)"

record plan_input =
  ti_serviceId :: int
  ti_name :: string
  ti_price :: rat
  ti_sessionsPerCycle :: "int option"

definition createSubscriptionPlan :: "(string \<Rightarrow> string result) \<Rightarrow> (string \<Rightarrow> int \<Rightarrow> string \<Rightarrow> string result)
    \<Rightarrow> int \<Rightarrow> int \<Rightarrow> int \<Rightarrow> plan_input \<Rightarrow> 'a session_db_scheme \<Rightarrow> 'a session_db_scheme result" where
  "createSubscriptionPlan createProduct createPrice now userId barbershopId d db =
     bindE (ensureBarbershopAccess db now userId barbershopId Manager) (\<lambda>shop.
     bindE (subscriptionPlanName (ti_name d)) (\<lambda>name.
     bindE (checkMoney ''Preco'' (Some (ti_price d)) (Some (bs_currency (sa_shop shop)))) (\<lambda>_.
     bindE (checkSessionCount ''Sessoes por ciclo'' (ti_sessionsPerCycle d)) (\<lambda>_.
     bindE (ensureModuleAccess db now barbershopId Mod_subscriptions) (\<lambda>_.
     case find_first (\<lambda>s. sv_id s = ti_serviceId d \<and> sv_barbershopId s = barbershopId) (services db) of
       None \<Rightarrow> Inl (NotFound ''Servico nao encontrado'')
     | Some s \<Rightarrow>
         bindE (throwIf (\<not> sv_isActive s) (BadRequest ''O servico deste plano esta desativado.'')) (\<lambda>_.
         bindE (createProduct (bs_name (sa_shop shop) @ '' - '' @ name)) (\<lambda>productId.
         bindE (createPrice productId (toMinorUnits (ti_price d) (Some (bs_currency (sa_shop shop)))) (js_lower (bs_currency (sa_shop shop)))) (\<lambda>priceId.
         Inr (db\<lparr>subscriptionPlans := create_row (\<lambda>i. \<lparr>sl_id = i, sl_barbershopId = barbershopId, sl_planServiceId = ti_serviceId d,
           sl_name = name, sl_price = ti_price d, sl_sessionsPerCycle = ti_sessionsPerCycle d, sl_stripeProductId = Some productId,
           sl_stripePriceId = Some priceId, sl_isActive = True\<rparr>) (subscriptionPlans db)\<rparr>)))))))))"

record plan_patch =
  tp_name :: "string option"
  tp_price :: "rat option"
  tp_sessionsPerCycle :: "int option option"
  tp_isActive :: "bool option"

definition planOfShop :: "'a session_db_scheme \<Rightarrow> int \<Rightarrow> int \<Rightarrow> subscription_plan result" where
  "planOfShop db barbershopId i = (case find_first (\<lambda>p. sl_id p = i \<and> sl_barbershopId p = barbershopId) (subscriptionPlans db) of
       None \<Rightarrow> Inl (NotFound ''Plano nao encontrado'')
     | Some p \<Rightarrow> Inr p)"

text \<open>A new amount is a new price at the provider; who subscribed before keeps the old one.\<close>

definition updateSubscriptionPlan :: "(string \<Rightarrow> string \<Rightarrow> unit result) \<Rightarrow> (string \<Rightarrow> int \<Rightarrow> string \<Rightarrow> string result)
    \<Rightarrow> int \<Rightarrow> int \<Rightarrow> int \<Rightarrow> int \<Rightarrow> plan_patch \<Rightarrow> 'a session_db_scheme \<Rightarrow> 'a session_db_scheme result" where
  "updateSubscriptionPlan updateProduct createPrice now userId barbershopId i d db =
     bindE (ensureBarbershopAccess db now userId barbershopId Manager) (\<lambda>shop.
     bindE (ensureModuleAccess db now barbershopId Mod_subscriptions) (\<lambda>_.
     bindE (planOfShop db barbershopId i) (\<lambda>p.
     bindE (case tp_name d of None \<Rightarrow> Inr None | Some n \<Rightarrow> bindE (subscriptionPlanName n) (\<lambda>m. Inr (Some m))) (\<lambda>name.
     bindE (checkMoney ''Preco'' (tp_price d) (Some (bs_currency (sa_shop shop)))) (\<lambda>_.
     bindE (checkSessionCount ''Sessoes por ciclo'' (Option.bind (tp_sessionsPerCycle d) id)) (\<lambda>_.
     bindE (if name \<noteq> None \<and> name \<noteq> Some (sl_name p) \<and> given (sl_stripeProductId p)
       then updateProduct (the (sl_stripeProductId p)) (bs_name (sa_shop shop) @ '' - '' @ the name) else Inr ()) (\<lambda>_.
     bindE (if tp_price d \<noteq> None \<and> tp_price d \<noteq> Some (sl_price p) \<and> given (sl_stripeProductId p)
       then bindE (createPrice (the (sl_stripeProductId p)) (toMinorUnits (the (tp_price d)) (Some (bs_currency (sa_shop shop))))
           (js_lower (bs_currency (sa_shop shop)))) (\<lambda>new_price. Inr (Some new_price))
       else Inr (sl_stripePriceId p)) (\<lambda>priceId.
     Inr (db\<lparr>subscriptionPlans := update_many (\<lambda>q. sl_id q = i) (\<lambda>q. q\<lparr>sl_name := patched name (sl_name q),
       sl_price := patched (tp_price d) (sl_price q), sl_sessionsPerCycle := patched (tp_sessionsPerCycle d) (sl_sessionsPerCycle q),
       sl_isActive := patched (tp_isActive d) (sl_isActive q), sl_stripePriceId := priceId\<rparr>) (subscriptionPlans db)\<rparr>)))))))))"

definition deleteSubscriptionPlan :: "int \<Rightarrow> int \<Rightarrow> int \<Rightarrow> int \<Rightarrow> 'a session_db_scheme \<Rightarrow> 'a session_db_scheme result" where
  "deleteSubscriptionPlan now userId barbershopId i db =
     bindE (ensureBarbershopAccess db now userId barbershopId Manager) (\<lambda>_.
     bindE (planOfShop db barbershopId i) (\<lambda>_.
     Inr (db\<lparr>subscriptionPlans := update_many (\<lambda>p. sl_id p = i) (\<lambda>p. p\<lparr>sl_isActive := False\<rparr>) (subscriptionPlans db)\<rparr>)))"

section \<open>Whose subscription it is\<close>

text \<open>
  The account of a record: the linked one, or the confirmed account of its e-mail if one form of 8 digits or more of the phones agrees.
\<close>

definition clientAccountIdForCustomer :: "'a session_db_scheme \<Rightarrow> int \<Rightarrow> int \<Rightarrow> (int option) result" where
  "clientAccountIdForCustomer db networkId customerId =
     (case find_first (\<lambda>c. cu_id c = customerId \<and> cu_networkId c = networkId) (customers db) of
       None \<Rightarrow> Inl (NotFound ''Cliente nao encontrado'')
     | Some c \<Rightarrow> if truthy (cu_clientAccountId c) then Inr (cu_clientAccountId c)
         else (let email = js_trim (case cu_email c of None \<Rightarrow> [] | Some e \<Rightarrow> e) in
           if email = [] then Inr None
           else (case find_first (\<lambda>a. ca_deletedAt a = None \<and> ca_emailVerifiedAt a \<noteq> None \<and> js_lower (ca_email a) = js_lower email)
               (clientAccounts db) of
             None \<Rightarrow> Inr None
           | Some a \<Rightarrow> Inr (if list_ex (\<lambda>v. length v \<ge> 8 \<and> v \<in> set (phoneDigitVariants (ca_phone a) ''55''))
                 (phoneDigitVariants (Some (cu_phone c)) ''55'') then Some (ca_id a) else None))))"

definition getCustomerSubscriptions :: "int \<Rightarrow> int \<Rightarrow> int \<Rightarrow> int \<Rightarrow> 'a session_db_scheme \<Rightarrow> (client_subscription \<times> club_use list) list result" where
  "getCustomerSubscriptions now userId barbershopId customerId db =
     bindE (ensureBarbershopAccess db now userId barbershopId Barber) (\<lambda>shop.
     bindE (clientAccountIdForCustomer db (bs_networkId (sa_shop shop)) customerId) (\<lambda>accountId.
     Inr (case accountId of
         None \<Rightarrow> []
       | Some a \<Rightarrow> map (\<lambda>s. (s, take 8 (sort_key (\<lambda>u. - cq_createdAt u)
             (find_many (\<lambda>u. cq_clientSubscriptionId u = cb_id s \<and> cq_undoneAt u = None) (clubUses db)))))
           (sort_key (\<lambda>s. - cb_createdAt s) (find_many (\<lambda>s. cb_barbershopId s = barbershopId \<and> cb_clientAccountId s = a
             \<and> cb_status s = ''ACTIVE'') (clientSubscriptions db))))))"

section \<open>Sessions of the cycle\<close>

definition NO_CLUB_SESSIONS :: http_error where
  "NO_CLUB_SESSIONS = BadRequest ''Assinatura nao tem sessoes restantes neste ciclo''"

text \<open>What a sale reads before it uses a session: the subscription, its limit and the service it covers.\<close>

definition prepareClubSession :: "int \<Rightarrow> int \<Rightarrow> int option \<Rightarrow> int \<Rightarrow> sale_item list \<Rightarrow> 'a session_db_scheme
    \<Rightarrow> (int \<times> int option \<times> int) result" where
  "prepareClubSession networkId barbershopId customerId clientSubscriptionId items db =
     bindE (throwIf (\<not> truthy customerId) (BadRequest ''Selecione um cliente para usar a sessao do clube.'')) (\<lambda>_.
     bindE (clientAccountIdForCustomer db networkId (the customerId)) (\<lambda>accountId.
     case find_first (\<lambda>s. cb_id s = clientSubscriptionId \<and> cb_barbershopId s = barbershopId) (clientSubscriptions db) of
       None \<Rightarrow> Inl (BadRequest ''Esta assinatura nao e deste cliente.'')
     | Some s \<Rightarrow>
         bindE (throwIf (accountId \<noteq> Some (cb_clientAccountId s)) (BadRequest ''Esta assinatura nao e deste cliente.'')) (\<lambda>_.
         bindE (throwIf (cb_status s \<noteq> ''ACTIVE'') (BadRequest ''Assinatura nao esta ativa'')) (\<lambda>_.
         bindE (throwIf (case cb_sessionsPerCycle s of None \<Rightarrow> False | Some l \<Rightarrow> cb_usedThisCycle s \<ge> l) NO_CLUB_SESSIONS) (\<lambda>_.
         case find_first (\<lambda>p. sl_id p = cb_planId s) (subscriptionPlans db) of
           None \<Rightarrow> Inl (PlainError ''plan'')
         | Some p \<Rightarrow> bindE (covered_line (sl_planServiceId p) items ''O servico do clube entra na venda sem cobrar uma sessao.''
             ''A venda nao tem o servico coberto por esta assinatura.'') (\<lambda>_.
             Inr (cb_id s, cb_sessionsPerCycle s, sl_planServiceId p)))))))"

definition recordClubUse :: "int \<Rightarrow> int \<Rightarrow> int \<Rightarrow> int option \<Rightarrow> 'a session_db_scheme \<Rightarrow> 'a session_db_scheme" where
  "recordClubUse now subscriptionId userId saleId db = db\<lparr>clubUses := create_row (\<lambda>k. \<lparr>cq_id = k, cq_createdAt = now,
     cq_clientSubscriptionId = subscriptionId, cq_saleId = saleId, cq_usedByUserId = userId,
     cq_periodStart = Option.bind (find_first (\<lambda>s. cb_id s = subscriptionId) (clientSubscriptions db)) cb_currentPeriodStart,
     cq_undoneAt = None, cq_undoneByUserId = None\<rparr>) (clubUses db)\<rparr>"

text \<open>The conditional update, under the limit that was read, and the record of the use, in one transaction.\<close>

definition takes_club :: "int \<Rightarrow> int option \<Rightarrow> client_subscription \<Rightarrow> bool" where
  "takes_club i limit s \<longleftrightarrow> cb_id s = i \<and> cb_status s = ''ACTIVE''
     \<and> (case limit of None \<Rightarrow> True | Some l \<Rightarrow> cb_usedThisCycle s < l)"

definition redeem_club :: "int \<Rightarrow> int \<Rightarrow> int \<Rightarrow> int option \<Rightarrow> int option \<Rightarrow> 'a session_db_scheme \<Rightarrow> 'a session_db_scheme result" where
  "redeem_club now userId i limit saleId db =
     (if count_where (takes_club i limit) (clientSubscriptions db) = 0 then Inl NO_CLUB_SESSIONS
      else Inr (recordClubUse now i userId saleId (db\<lparr>clientSubscriptions := update_many (takes_club i limit)
        (\<lambda>s. s\<lparr>cb_usedThisCycle := cb_usedThisCycle s + 1\<rparr>) (clientSubscriptions db)\<rparr>)))"

definition redeemClientSubscriptionSession :: "int \<Rightarrow> int \<Rightarrow> int \<Rightarrow> int \<Rightarrow> 'a session_db_scheme \<Rightarrow> 'a session_db_scheme result" where
  "redeemClientSubscriptionSession now userId barbershopId i db =
     bindE (ensureBarbershopAccess db now userId barbershopId Reception) (\<lambda>_.
     case find_first (\<lambda>s. cb_id s = i \<and> cb_barbershopId s = barbershopId) (clientSubscriptions db) of
       None \<Rightarrow> Inl (NotFound ''Assinatura nao encontrada'')
     | Some s \<Rightarrow> bindE (throwIf (cb_status s \<noteq> ''ACTIVE'') (BadRequest ''Assinatura nao esta ativa'')) (\<lambda>_.
         redeem_club now userId i (cb_sessionsPerCycle s) None db))"

definition club_undo_checks :: "int \<Rightarrow> int \<Rightarrow> int \<Rightarrow> int \<Rightarrow> 'a session_db_scheme \<Rightarrow> club_use result" where
  "club_undo_checks now userId barbershopId useId db =
     bindE (ensureBarbershopAccess db now userId barbershopId Reception) (\<lambda>_.
     case find_first (\<lambda>u. cq_id u = useId \<and> find_first (\<lambda>s. cb_id s = cq_clientSubscriptionId u \<and> cb_barbershopId s = barbershopId)
         (clientSubscriptions db) \<noteq> None) (clubUses db) of
       None \<Rightarrow> Inl (NotFound ''Baixa nao encontrada'')
     | Some u \<Rightarrow>
         bindE (throwIf (cq_undoneAt u \<noteq> None) (BadRequest ''Esta baixa ja foi desfeita.'')) (\<lambda>_.
         bindE (throwIf (truthy (cq_saleId u)) (BadRequest ''Esta sessao do clube esta numa venda. Apague a venda para desfazer.'')) (\<lambda>_.
         bindE (throwIf (cq_periodStart u \<noteq> Option.bind (find_first (\<lambda>s. cb_id s = cq_clientSubscriptionId u) (clientSubscriptions db))
             cb_currentPeriodStart) (BadRequest ''Esta sessao e de um ciclo do clube que ja acabou: nao volta.'')) (\<lambda>_. Inr u))))"

definition club_undone :: "int \<Rightarrow> int \<Rightarrow> club_use \<Rightarrow> club_use" where
  "club_undone now userId u = u\<lparr>cq_undoneAt := Some now, cq_undoneByUserId := Some userId\<rparr>"

definition club_returned :: "client_subscription \<Rightarrow> client_subscription" where
  "club_returned s = s\<lparr>cb_usedThisCycle := cb_usedThisCycle s - 1\<rparr>"

definition club_undo_write :: "int \<Rightarrow> int \<Rightarrow> club_use \<Rightarrow> 'a session_db_scheme \<Rightarrow> 'a session_db_scheme result" where
  "club_undo_write now userId u db = (let mine = (\<lambda>v. cq_id v = cq_id u \<and> cq_undoneAt v = None) in
     if count_where mine (clubUses db) \<noteq> 1 then Inl (BadRequest ''Esta baixa ja foi desfeita.'')
     else Inr (db\<lparr>clubUses := update_many mine (club_undone now userId) (clubUses db),
       clientSubscriptions := update_many (\<lambda>s. cb_id s = cq_clientSubscriptionId u \<and> cb_usedThisCycle s > 0)
         club_returned (clientSubscriptions db)\<rparr>))"

definition undoClientSubscriptionUse :: "int \<Rightarrow> int \<Rightarrow> int \<Rightarrow> int \<Rightarrow> 'a session_db_scheme \<Rightarrow> 'a session_db_scheme result" where
  "undoClientSubscriptionUse now userId barbershopId useId db =
     bindE (club_undo_checks now userId barbershopId useId db) (\<lambda>u. club_undo_write now userId u db)"

text \<open>A deleted sale gives its session back when the sale was in the current cycle.\<close>

definition return_of_sale :: "int \<Rightarrow> int \<Rightarrow> int \<Rightarrow> int \<Rightarrow> int \<Rightarrow> 'a session_db_scheme \<Rightarrow> 'a session_db_scheme" where
  "return_of_sale now userId saleId createdAt i db =
     db\<lparr>clientSubscriptions := update_many (\<lambda>s. cb_id s = i \<and> cb_usedThisCycle s > 0
         \<and> (case cb_currentPeriodStart s of None \<Rightarrow> True | Some t \<Rightarrow> t \<le> createdAt)) club_returned (clientSubscriptions db),
       clubUses := update_many (\<lambda>u. cq_saleId u = Some saleId \<and> cq_undoneAt u = None) (club_undone now userId) (clubUses db)\<rparr>"

section \<open>Invoices and cancellation\<close>

record invoice =
  iv_id :: string
  iv_lineEnds :: "int option list"
  iv_periodEnd :: "int option"
  iv_amountPaid :: int
  iv_currency :: string

text \<open>Seconds since the epoch, as milliseconds; a line without end counts as 0, and 0 is missing.\<close>

definition clientInvoicePeriodEnd :: "invoice \<Rightarrow> int option" where
  "clientInvoicePeriodEnd v = (let
       fromLines = foldl (\<lambda>m e. max m (case e of None \<Rightarrow> 0 | Some x \<Rightarrow> x)) 0 (iv_lineEnds v);
       sec = (if fromLines \<noteq> 0 then fromLines else (case iv_periodEnd v of None \<Rightarrow> 0 | Some x \<Rightarrow> x))
     in if sec = 0 then None else Some (sec * 1000))"

definition advancesCycle :: "invoice \<Rightarrow> client_subscription \<Rightarrow> bool" where
  "advancesCycle v s = (case cb_currentPeriodStart s of
       None \<Rightarrow> True
     | Some start \<Rightarrow> (case clientInvoicePeriodEnd v of None \<Rightarrow> False | Some e \<Rightarrow> e > start))"

definition opened_cycle :: "int \<times> int \<Rightarrow> client_subscription \<Rightarrow> client_subscription" where
  "opened_cycle period s = s\<lparr>cb_status := ''ACTIVE'', cb_usedThisCycle := 0, cb_currentPeriodStart := Some (fst period * 1000),
     cb_currentPeriodEnd := Some (snd period * 1000)\<rparr>"

text \<open>The payment of an invoice is recorded once; a repeated event finds it and changes nothing.\<close>

definition paid_invoice :: "rat \<Rightarrow> invoice \<Rightarrow> int \<times> int \<Rightarrow> client_subscription \<Rightarrow> int \<Rightarrow> club_payment" where
  "paid_invoice platformFee v period s i = \<lparr>cy_id = i, cy_subscriptionId = cb_id s, cy_stripeInvoiceId = iv_id v,
     cy_amount = fromMinorUnits (iv_amountPaid v) (Some (iv_currency v)),
     cy_platformFeePercent = Some (if given (cb_connectAccountId s) then patched (cb_applicationFeePercent s) platformFee else platformFee),
     cy_settledViaConnect = (cb_connectAccountId s \<noteq> None), cy_status = ''SUCCEEDED'',
     cy_periodStart = Some (fst period * 1000), cy_periodEnd = Some (snd period * 1000)\<rparr>"

definition handleClientSubscriptionInvoiceSucceeded :: "rat \<Rightarrow> invoice \<Rightarrow> string \<Rightarrow> int \<times> int \<Rightarrow> 'a session_db_scheme \<Rightarrow> 'a session_db_scheme" where
  "handleClientSubscriptionInvoiceSucceeded platformFee v stripeSubscriptionId period db =
     (if stripeSubscriptionId = [] then db
      else (case find_first (\<lambda>s. cb_stripeSubscriptionId s = stripeSubscriptionId) (clientSubscriptions db) of
          None \<Rightarrow> db
        | Some s \<Rightarrow>
            if find_first (\<lambda>y. cy_stripeInvoiceId y = iv_id v \<and> cy_status y = ''SUCCEEDED'') (clubPayments db) \<noteq> None then db
            else (let
                db1 = (if advancesCycle v s then db\<lparr>clientSubscriptions := update_many (\<lambda>t. cb_id t = cb_id s) (opened_cycle period)
                  (clientSubscriptions db)\<rparr> else db);
                mine = (\<lambda>y. cy_stripeInvoiceId y = iv_id v)
              in if count_where mine (clubPayments db1) = 0
                 then db1\<lparr>clubPayments := create_row (paid_invoice platformFee v period s) (clubPayments db1)\<rparr>
                 else db1\<lparr>clubPayments := update_many mine (\<lambda>y. y\<lparr>cy_status := ''SUCCEEDED'',
                   cy_platformFeePercent := cy_platformFeePercent (paid_invoice platformFee v period s 0),
                   cy_settledViaConnect := (cb_connectAccountId s \<noteq> None)\<rparr>) (clubPayments db1)\<rparr>)))"

definition handleClientSubscriptionInvoiceFailed :: "string \<Rightarrow> 'a session_db_scheme \<Rightarrow> 'a session_db_scheme" where
  "handleClientSubscriptionInvoiceFailed stripeSubscriptionId db = (if stripeSubscriptionId = [] then db
     else db\<lparr>clientSubscriptions := update_many (\<lambda>s. cb_stripeSubscriptionId s = stripeSubscriptionId)
       (\<lambda>s. s\<lparr>cb_status := ''PAST_DUE''\<rparr>) (clientSubscriptions db)\<rparr>)"

text \<open>The customer ends the subscription with the cycle, or takes the end back. \<open>change\<close> is the call of the provider.\<close>

definition cancelMySubscription :: "(string \<Rightarrow> bool \<Rightarrow> unit result) \<Rightarrow> int \<Rightarrow> int \<Rightarrow> 'a session_db_scheme \<Rightarrow> 'a session_db_scheme result" where
  "cancelMySubscription change clientAccountId i db =
     (case find_first (\<lambda>s. cb_id s = i \<and> cb_clientAccountId s = clientAccountId) (clientSubscriptions db) of
       None \<Rightarrow> Inl (NotFound ''Assinatura nao encontrada'')
     | Some s \<Rightarrow> if cb_status s = ''CANCELED'' \<or> cb_cancelAtPeriodEnd s then Inr db
         else bindE (change (cb_stripeSubscriptionId s) True) (\<lambda>_. Inr (db\<lparr>clientSubscriptions := update_many (\<lambda>t. cb_id t = i)
           (\<lambda>t. t\<lparr>cb_cancelAtPeriodEnd := True\<rparr>) (clientSubscriptions db)\<rparr>)))"

definition resumeMySubscription :: "(string \<Rightarrow> bool \<Rightarrow> unit result) \<Rightarrow> int \<Rightarrow> int \<Rightarrow> int \<Rightarrow> 'a session_db_scheme \<Rightarrow> 'a session_db_scheme result" where
  "resumeMySubscription change now clientAccountId i db =
     (case find_first (\<lambda>s. cb_id s = i \<and> cb_clientAccountId s = clientAccountId) (clientSubscriptions db) of
       None \<Rightarrow> Inl (NotFound ''Assinatura nao encontrada'')
     | Some s \<Rightarrow> bindE (throwIf (cb_status s = ''CANCELED'') (BadRequest ''Esta assinatura ja foi encerrada'')) (\<lambda>_.
         if \<not> cb_cancelAtPeriodEnd s then Inr db
         else bindE (throwIf (case cb_currentPeriodEnd s of None \<Rightarrow> False | Some e \<Rightarrow> e \<le> now) (BadRequest ''O ciclo desta assinatura ja acabou'')) (\<lambda>_.
           bindE (change (cb_stripeSubscriptionId s) False) (\<lambda>_. Inr (db\<lparr>clientSubscriptions := update_many (\<lambda>t. cb_id t = i)
             (\<lambda>t. t\<lparr>cb_cancelAtPeriodEnd := False\<rparr>) (clientSubscriptions db)\<rparr>)))))"

text \<open>The row \<open>subscribeToPlan\<close> records after the provider made the subscription.\<close>

definition new_subscription :: "int \<Rightarrow> int \<Rightarrow> int \<Rightarrow> subscription_plan \<Rightarrow> string \<Rightarrow> bool \<Rightarrow> int \<times> int \<Rightarrow> string option \<Rightarrow> rat
    \<Rightarrow> int \<Rightarrow> client_subscription" where
  "new_subscription now barbershopId clientAccountId p stripeId active period destination feePercent i =
     \<lparr>cb_id = i, cb_createdAt = now, cb_barbershopId = barbershopId, cb_clientAccountId = clientAccountId, cb_planId = sl_id p,
       cb_stripeSubscriptionId = stripeId, cb_status = (if active then ''ACTIVE'' else ''INCOMPLETE''),
       cb_currentPeriodStart = Some (fst period * 1000), cb_currentPeriodEnd = Some (snd period * 1000), cb_usedThisCycle = 0,
       cb_sessionsPerCycle = sl_sessionsPerCycle p, cb_cancelAtPeriodEnd = False, cb_connectAccountId = destination,
       cb_applicationFeePercent = (if destination \<noteq> None then Some feePercent else None)\<rparr>"

section \<open>No cycle gives more sessions than its plan\<close>

interpretation club_tab: row_table cb_id "table_ok cb_id"
  by unfold_locales (rule table_ok_def)

interpretation club_use_tab: row_table cq_id "table_ok cq_id"
  by unfold_locales (rule table_ok_def)

text \<open>The uses of a subscription in its current cycle that were not undone.\<close>

definition cycle_use :: "client_subscription \<Rightarrow> club_use \<Rightarrow> bool" where
  "cycle_use s u \<longleftrightarrow> cq_clientSubscriptionId u = cb_id s \<and> cq_periodStart u = cb_currentPeriodStart s \<and> cq_undoneAt u = None"

definition cycle_uses :: "'a session_db_scheme \<Rightarrow> client_subscription \<Rightarrow> int" where
  "cycle_uses db s = count_where (cycle_use s) (clubUses db)"

definition within_cycle :: "'a session_db_scheme \<Rightarrow> client_subscription \<Rightarrow> bool" where
  "within_cycle db s \<longleftrightarrow> cycle_uses db s \<le> cb_usedThisCycle s
     \<and> (case cb_sessionsPerCycle s of None \<Rightarrow> True | Some l \<Rightarrow> cb_usedThisCycle s \<le> l)
     \<and> (\<forall>u \<in> set (rows (clubUses db)). cq_clientSubscriptionId u = cb_id s \<longrightarrow>
          (case cq_periodStart u of None \<Rightarrow> True
           | Some t \<Rightarrow> (case cb_currentPeriodStart s of None \<Rightarrow> False | Some c \<Rightarrow> t \<le> c)))"

definition club_ok :: "'a session_db_scheme \<Rightarrow> bool" where
  "club_ok db \<longleftrightarrow> table_ok cb_id (clientSubscriptions db) \<and> table_ok cq_id (clubUses db)
     \<and> (\<forall>s \<in> set (rows (clientSubscriptions db)). within_cycle db s)
     \<and> (\<forall>u \<in> set (rows (clubUses db)). cq_clientSubscriptionId u < seq (clientSubscriptions db))
     \<and> (\<forall>p \<in> set (rows (subscriptionPlans db)). case sl_sessionsPerCycle p of None \<Rightarrow> True | Some l \<Rightarrow> 0 < l)"

text \<open>A change of subscriptions that keeps, for each, what the club counts.\<close>

lemma club_update_ok:
  assumes ok: "club_ok db" and subs: "clientSubscriptions db' = update_many q f (clientSubscriptions db)"
    and uses: "clubUses db' = clubUses db" and offers: "subscriptionPlans db' = subscriptionPlans db"
    and f: "\<And>s. s \<in> set (rows (clientSubscriptions db)) \<Longrightarrow> q s \<Longrightarrow> within_cycle db s \<Longrightarrow> cb_id (f s) = cb_id s \<and> within_cycle db (f s)"
  shows "club_ok db'"
proof -
  have "within_cycle db' = within_cycle db" by (intro ext) (simp add: within_cycle_def cycle_uses_def uses)
  then show ?thesis using ok f unfolding club_ok_def subs uses offers by (auto intro: club_tab.ok_update)
qed

lemma club_frame:
  assumes "club_ok db" and "clientSubscriptions db' = clientSubscriptions db" and "clubUses db' = clubUses db"
    and "\<And>p. p \<in> set (rows (subscriptionPlans db')) \<Longrightarrow> case sl_sessionsPerCycle p of None \<Rightarrow> True | Some l \<Rightarrow> 0 < l"
  shows "club_ok db'"
proof -
  have "within_cycle db' = within_cycle db" by (intro ext) (simp add: within_cycle_def cycle_uses_def assms(3))
  with assms show ?thesis by (simp add: club_ok_def)
qed

lemma cycle_uses_same: "cb_id s' = cb_id s \<Longrightarrow> cb_currentPeriodStart s' = cb_currentPeriodStart s \<Longrightarrow> cycle_uses db s' = cycle_uses db s"
  by (simp add: cycle_uses_def cycle_use_def [abs_def])

lemma subscribed_ok:
  assumes ok: "club_ok db" and p: "p \<in> set (rows (subscriptionPlans db))"
  shows "club_ok (db\<lparr>clientSubscriptions := create_row (new_subscription now shop account p stripe active period dest fee) (clientSubscriptions db)\<rparr>)"
proof -
  let ?s = "new_subscription now shop account p stripe active period dest fee (seq (clientSubscriptions db))"
  let ?db = "db\<lparr>clientSubscriptions := create_row (new_subscription now shop account p stripe active period dest fee) (clientSubscriptions db)\<rparr>"
  have "within_cycle ?db = within_cycle db" by (intro ext) (simp add: within_cycle_def cycle_uses_def)
  moreover have "cycle_uses db ?s = 0" "\<And>u. u \<in> set (rows (clubUses db)) \<Longrightarrow> cq_clientSubscriptionId u \<noteq> cb_id ?s"
    using ok by (auto simp: club_ok_def cycle_uses_def count_where_zero cycle_use_def new_subscription_def)
  then have "within_cycle db ?s"
    using ok p by (auto simp: within_cycle_def club_ok_def new_subscription_def split: option.splits)
  ultimately show ?thesis using ok unfolding club_ok_def
    by (auto simp: new_subscription_def intro: club_tab.ok_create)
qed

lemma count_where_less:
  assumes "x \<in> set (rows t)" and "p x" and "\<not> q x"
  shows "count_where (\<lambda>r. p r \<and> q r) t + 1 \<le> count_where p t"
proof -
  have le: "length (filter (\<lambda>r. p r \<and> q r) xs) \<le> length (filter p xs)" for xs by (induction xs) auto
  have "length (filter (\<lambda>r. p r \<and> q r) xs) < length (filter p xs)" if "x \<in> set xs" for xs
    using that assms(2,3)
  proof (induction xs)
    case (Cons y ys)
    then show ?case using le [of ys] by (cases "y = x") auto
  qed simp
  then show ?thesis using assms(1) by (force simp: count_where_def)
qed

lemma redeem_ok:
  assumes ok: "club_ok db" and s: "s \<in> set (rows (clientSubscriptions db))" "cb_id s = i" "cb_sessionsPerCycle s = limit"
    and run: "redeem_club now userId i limit saleId db = Inr db'"
  shows "club_ok db'"
proof -
  let ?f = "\<lambda>s. s\<lparr>cb_usedThisCycle := cb_usedThisCycle s + 1\<rparr>"
  let ?db1 = "db\<lparr>clientSubscriptions := update_many (takes_club i limit) ?f (clientSubscriptions db)\<rparr>"
  have tab: "table_ok cb_id (clientSubscriptions db)" using ok by (simp add: club_ok_def)
  have same: "r = s" if "r \<in> set (rows (clientSubscriptions db))" "cb_id r = i" for r
    using club_tab.key_inj [OF tab that(1) s(1)] that(2) s(2) by simp
  have takes: "takes_club i limit s" and db': "db' = recordClubUse now i userId saleId ?db1"
    using run same by (auto simp: redeem_club_def count_where_zero takes_club_def split: if_split_asm)
  have "table_ok cb_id (clientSubscriptions ?db1)" using tab by (auto intro: club_tab.ok_update)
  from club_tab.find_by_key [OF this, of "?f s"] s takes
  have found: "find_first (\<lambda>r. cb_id r = i) (clientSubscriptions ?db1) = Some (?f s)" by force
  define u where "u = \<lparr>cq_id = seq (clubUses db), cq_createdAt = now, cq_clientSubscriptionId = i, cq_saleId = saleId, cq_usedByUserId = userId,
     cq_periodStart = cb_currentPeriodStart s, cq_undoneAt = None, cq_undoneByUserId = None\<rparr>"
  have uses: "rows (clubUses db') = rows (clubUses db) @ [u]" "seq (clubUses db') = seq (clubUses db) + 1"
    using found by (simp_all add: db' recordClubUse_def u_def)
  have "within_cycle db' r" if r: "r \<in> set (rows (clientSubscriptions db'))" for r
  proof (cases "cb_id r = i")
    case True
    then have "r = ?f s" using r same takes by (auto simp: db' recordClubUse_def takes_club_def split: if_split_asm)
    moreover have "within_cycle db s" using ok s by (simp add: club_ok_def)
    moreover have "cycle_use (?f s) = cycle_use s" by (intro ext) (simp add: cycle_use_def)
    ultimately show ?thesis using takes s
      by (auto simp: within_cycle_def cycle_uses_def count_where_def uses takes_club_def u_def cycle_use_def split: option.splits)
  next
    case False
    then have "r \<in> set (rows (clientSubscriptions db))" using r by (auto simp: db' recordClubUse_def takes_club_def split: if_split_asm)
    then have "within_cycle db r" using ok by (simp add: club_ok_def)
    moreover have "cycle_uses db' r = cycle_uses db r" using False by (simp add: cycle_uses_def count_where_def uses u_def cycle_use_def)
    ultimately show ?thesis using False by (simp add: within_cycle_def uses u_def)
  qed
  moreover have "table_ok cb_id (clientSubscriptions db')" "table_ok cq_id (clubUses db')"
    using ok by (auto simp: club_ok_def db' recordClubUse_def intro: club_tab.ok_update club_use_tab.ok_create)
  moreover have "i < seq (clientSubscriptions db)" using tab s by (auto simp: table_ok_def)
  ultimately show ?thesis using ok uses unfolding club_ok_def by (auto simp: db' recordClubUse_def u_def)
qed

text \<open>Uses marked as undone and, for some subscriptions, one session less counted.\<close>

lemma returned_ok:
  assumes ok: "club_ok db"
    and db': "db' = db\<lparr>clubUses := update_many q (club_undone now userId) (clubUses db),
      clientSubscriptions := update_many g club_returned (clientSubscriptions db)\<rparr>"
    and seen: "\<And>s. s \<in> set (rows (clientSubscriptions db)) \<Longrightarrow> g s \<Longrightarrow> \<exists>u \<in> set (rows (clubUses db)). q u \<and> cycle_use s u"
  shows "club_ok db'"
proof -
  have undone: "cycle_use s (club_undone now userId u) = False" for s u by (simp add: cycle_use_def club_undone_def)
  have uses: "cycle_uses db' s = count_where (\<lambda>u. cycle_use s u \<and> \<not> q u) (clubUses db)" for s
  proof -
    have "length (filter (cycle_use s) (map (\<lambda>u. if q u then club_undone now userId u else u) us))
      = length (filter (\<lambda>u. cycle_use s u \<and> \<not> q u) us)" for us by (induction us) (auto simp: undone)
    then show ?thesis by (simp add: cycle_uses_def count_where_def db')
  qed
  have le: "cycle_uses db' s \<le> cycle_uses db s" for s
  proof -
    have "length (filter (\<lambda>u. cycle_use s u \<and> \<not> q u) us) \<le> length (filter (cycle_use s) us)" for us by (induction us) auto
    then show ?thesis by (simp add: uses) (simp add: cycle_uses_def count_where_def)
  qed
  have "within_cycle db' r" if r: "r \<in> set (rows (clientSubscriptions db'))" for r
  proof -
    obtain s where s: "s \<in> set (rows (clientSubscriptions db))" "r = (if g s then club_returned s else s)"
      using r by (auto simp: db')
    have was: "within_cycle db s" using ok s by (simp add: club_ok_def)
    have counted: "cycle_uses db' r = cycle_uses db' s" using s by (intro cycle_uses_same) (auto simp: club_returned_def)
    have "cycle_uses db' s + (if g s then 1 else 0) \<le> cycle_uses db s"
    proof (cases "g s")
      case True
      with seen [OF s(1)] obtain u where "u \<in> set (rows (clubUses db))" "q u" "cycle_use s u" by blast
      with True count_where_less [of u "clubUses db" "cycle_use s" "\<lambda>u. \<not> q u"] show ?thesis by (simp add: uses) (simp add: cycle_uses_def)
    qed (use le in simp)
    then show ?thesis using was s counted
      by (fastforce simp: within_cycle_def club_returned_def db' club_undone_def split: option.splits if_splits)
  qed
  moreover have "table_ok cb_id (clientSubscriptions db')" "table_ok cq_id (clubUses db')"
    using ok by (auto simp: club_ok_def db' club_returned_def club_undone_def intro: club_tab.ok_update club_use_tab.ok_update)
  ultimately show ?thesis using ok unfolding club_ok_def by (auto simp: db' club_undone_def)
qed

lemma club_undo_checks_use:
  assumes "club_undo_checks now userId shop useId db = Inr u"
  shows "u \<in> set (rows (clubUses db)) \<and> cq_undoneAt u = None
    \<and> cq_periodStart u = Option.bind (find_first (\<lambda>s. cb_id s = cq_clientSubscriptionId u) (clientSubscriptions db)) cb_currentPeriodStart"
proof -
  define p where "p = (\<lambda>u :: club_use. cq_id u = useId \<and> find_first (\<lambda>s. cb_id s = cq_clientSubscriptionId u \<and> cb_barbershopId s = shop)
      (clientSubscriptions db) \<noteq> None)"
  have "find_first p (clubUses db) = Some u \<and> cq_undoneAt u = None
    \<and> cq_periodStart u = Option.bind (find_first (\<lambda>s. cb_id s = cq_clientSubscriptionId u) (clientSubscriptions db)) cb_currentPeriodStart"
    using assms unfolding club_undo_checks_def p_def [symmetric]
    by (auto simp: bindE_eq_Inr bindE_throwIf split: option.split_asm if_split_asm)
  then show ?thesis using find_first_Some by fast
qed

lemma undo_club_ok:
  assumes ok: "club_ok db" and run: "undoClientSubscriptionUse now userId shop useId db = Inr db'"
  shows "club_ok db'"
proof -
  obtain u where u: "u \<in> set (rows (clubUses db))" "cq_undoneAt u = None"
      "cq_periodStart u = Option.bind (find_first (\<lambda>s. cb_id s = cq_clientSubscriptionId u) (clientSubscriptions db)) cb_currentPeriodStart"
      and w: "club_undo_write now userId u db = Inr db'"
    using run club_undo_checks_use by (force simp: undoClientSubscriptionUse_def bindE_eq_Inr)
  have tab: "table_ok cb_id (clientSubscriptions db)" using ok by (simp add: club_ok_def)
  have db': "db' = db\<lparr>clubUses := update_many (\<lambda>v. cq_id v = cq_id u \<and> cq_undoneAt v = None) (club_undone now userId) (clubUses db),
      clientSubscriptions := update_many (\<lambda>s. cb_id s = cq_clientSubscriptionId u \<and> cb_usedThisCycle s > 0) club_returned (clientSubscriptions db)\<rparr>"
    using w by (simp add: club_undo_write_def Let_def split: if_split_asm)
  show ?thesis
  proof (rule returned_ok [OF ok db'])
    fix s assume s: "s \<in> set (rows (clientSubscriptions db))" "cb_id s = cq_clientSubscriptionId u \<and> cb_usedThisCycle s > 0"
    then have "cycle_use s u" using u club_tab.find_by_key [OF tab s(1)] by (simp add: cycle_use_def)
    with u show "\<exists>v \<in> set (rows (clubUses db)). (cq_id v = cq_id u \<and> cq_undoneAt v = None) \<and> cycle_use s v" by blast
  qed
qed

text \<open>
  The operations of the club, one at a time. A deleted sale that gives its session back had used it in the current
  cycle, and an invoice that opens a cycle opens a later one: what happens otherwise is shown at the end.
\<close>

definition later_cycle :: "invoice \<Rightarrow> int \<times> int \<Rightarrow> client_subscription \<Rightarrow> bool" where
  "later_cycle v period s \<longleftrightarrow> (advancesCycle v s \<longrightarrow>
     (case cb_currentPeriodStart s of None \<Rightarrow> True | Some c \<Rightarrow> c < fst period * 1000))"

definition sale_in_cycle :: "'a session_db_scheme \<Rightarrow> int \<Rightarrow> int \<Rightarrow> client_subscription \<Rightarrow> bool" where
  "sale_in_cycle db saleId createdAt s \<longleftrightarrow>
     ((case cb_currentPeriodStart s of None \<Rightarrow> True | Some t \<Rightarrow> t \<le> createdAt) \<longrightarrow>
      (\<exists>u \<in> set (rows (clubUses db)). cq_saleId u = Some saleId \<and> cycle_use s u))"

inductive club_step :: "session_db \<Rightarrow> session_db \<Rightarrow> bool" where
  Plan_new: "createSubscriptionPlan mkProduct mkPrice now userId shop d db = Inr db' \<Longrightarrow> club_step db db'"
| Plan_change: "updateSubscriptionPlan setProduct mkPrice now userId shop i patch db = Inr db' \<Longrightarrow> club_step db db'"
| Plan_end: "deleteSubscriptionPlan now userId shop i db = Inr db' \<Longrightarrow> club_step db db'"
| Subscribe: "p \<in> set (rows (subscriptionPlans db)) \<Longrightarrow> club_step db (db\<lparr>clientSubscriptions := create_row
     (new_subscription now shop account p stripe active period dest fee) (clientSubscriptions db)\<rparr>)"
| Redeem: "redeemClientSubscriptionSession now userId shop i db = Inr db' \<Longrightarrow> club_step db db'"
| Sale: "prepareClubSession network shop customer k items db = Inr (i, limit, service) \<Longrightarrow>
     redeem_club now userId i limit (Some saleId) db = Inr db' \<Longrightarrow> club_step db db'"
| Undo: "undoClientSubscriptionUse now userId shop useId db = Inr db' \<Longrightarrow> club_step db db'"
| Sale_deleted: "(\<And>s. s \<in> set (rows (clientSubscriptions db)) \<Longrightarrow> cb_id s = i \<Longrightarrow> sale_in_cycle db saleId createdAt s)
     \<Longrightarrow> club_step db (return_of_sale now userId saleId createdAt i db)"
| Invoice: "(\<And>s. s \<in> set (rows (clientSubscriptions db)) \<Longrightarrow> cb_stripeSubscriptionId s = stripe \<Longrightarrow> later_cycle v period s)
     \<Longrightarrow> club_step db (handleClientSubscriptionInvoiceSucceeded fee v stripe period db)"
| Invoice_failed: "club_step db (handleClientSubscriptionInvoiceFailed stripe db)"
| Cancel: "cancelMySubscription call account i db = Inr db' \<Longrightarrow> club_step db db'"
| Resume: "resumeMySubscription call now account i db = Inr db' \<Longrightarrow> club_step db db'"
| Elsewhere: "clientSubscriptions db' = clientSubscriptions db \<Longrightarrow> clubUses db' = clubUses db
     \<Longrightarrow> subscriptionPlans db' = subscriptionPlans db \<Longrightarrow> club_step db db'"

lemma prepared_limit:
  assumes "prepareClubSession network shop customer k items db = Inr (i, limit, service)"
  shows "\<exists>s \<in> set (rows (clientSubscriptions db)). cb_id s = i \<and> cb_sessionsPerCycle s = limit"
proof (cases "find_first (\<lambda>s. cb_id s = k \<and> cb_barbershopId s = shop) (clientSubscriptions db)")
  case None
  then show ?thesis using assms by (auto simp: prepareClubSession_def bindE_eq_Inr)
next
  case (Some s)
  then have "cb_id s = i \<and> cb_sessionsPerCycle s = limit"
    using assms by (auto simp: prepareClubSession_def bindE_eq_Inr split: option.split_asm)
  with find_first_Some [OF Some] show ?thesis by blast
qed

lemma redeem_op_ok:
  assumes ok: "club_ok db" and run: "redeemClientSubscriptionSession now userId shop i db = Inr db'"
  shows "club_ok db'"
proof (cases "find_first (\<lambda>s. cb_id s = i \<and> cb_barbershopId s = shop) (clientSubscriptions db)")
  case None
  then show ?thesis using run by (auto simp: redeemClientSubscriptionSession_def bindE_eq_Inr)
next
  case (Some s)
  then have "redeem_club now userId i (cb_sessionsPerCycle s) None db = Inr db'"
    using run by (auto simp: redeemClientSubscriptionSession_def bindE_eq_Inr)
  with find_first_Some [OF Some] show ?thesis using redeem_ok [OF ok, of s i] by blast
qed

lemma opened_within:
  assumes was: "within_cycle db s" and new: "case cb_currentPeriodStart s of None \<Rightarrow> True | Some c \<Rightarrow> c < fst period * 1000"
  shows "within_cycle db (opened_cycle period s)"
proof -
  have "cycle_uses db (opened_cycle period s) = 0"
    using was new unfolding cycle_uses_def count_where_zero
    by (auto simp: within_cycle_def cycle_use_def opened_cycle_def split: option.split_asm)
  moreover have "0 \<le> cb_usedThisCycle s" using was count_where_nonneg [of "cycle_use s" "clubUses db"]
    by (simp add: within_cycle_def cycle_uses_def)
  ultimately show ?thesis using was new by (fastforce simp: within_cycle_def opened_cycle_def split: option.splits)
qed

lemma invoice_ok:
  assumes ok: "club_ok db" and later: "\<And>s. s \<in> set (rows (clientSubscriptions db)) \<Longrightarrow> cb_stripeSubscriptionId s = stripe \<Longrightarrow> later_cycle v period s"
  shows "club_ok (handleClientSubscriptionInvoiceSucceeded fee v stripe period db)"
proof (cases "find_first (\<lambda>s. cb_stripeSubscriptionId s = stripe) (clientSubscriptions db)")
  case None
  then show ?thesis using ok by (simp add: handleClientSubscriptionInvoiceSucceeded_def)
next
  case (Some s)
  note s = find_first_Some [OF Some]
  have tab: "table_ok cb_id (clientSubscriptions db)" using ok by (simp add: club_ok_def)
  let ?db = "db\<lparr>clientSubscriptions := update_many (\<lambda>t. cb_id t = cb_id s) (opened_cycle period) (clientSubscriptions db)\<rparr>"
  have "club_ok ?db" if "advancesCycle v s"
  proof (rule club_update_ok [OF ok])
    fix t assume t: "t \<in> set (rows (clientSubscriptions db))" "cb_id t = cb_id s" "within_cycle db t"
    then have "t = s" using club_tab.key_inj [OF tab] s by blast
    then show "cb_id (opened_cycle period t) = cb_id t \<and> within_cycle db (opened_cycle period t)"
      using opened_within [OF t(3)] later s that by (simp add: later_cycle_def opened_cycle_def)
  qed simp_all
  then have opened: "club_ok (if advancesCycle v s then ?db else db)" using ok by simp
  then have "club_ok ((if advancesCycle v s then ?db else db)\<lparr>clubPayments := t\<rparr>)" for t
    by (rule club_frame) (use opened in \<open>auto simp: club_ok_def\<close>)
  then show ?thesis using ok Some by (simp add: handleClientSubscriptionInvoiceSucceeded_def Let_def)
qed

text \<open>Changes of a subscription that touch none of what is counted.\<close>

lemma club_same_ok:
  assumes "club_ok db" and "\<And>s. cb_id (f s) = cb_id s \<and> cb_usedThisCycle (f s) = cb_usedThisCycle s
    \<and> cb_sessionsPerCycle (f s) = cb_sessionsPerCycle s \<and> cb_currentPeriodStart (f s) = cb_currentPeriodStart s"
  shows "club_ok (db\<lparr>clientSubscriptions := update_many q f (clientSubscriptions db)\<rparr>)"
proof -
  have f: "cb_id (f s) = cb_id s" "cb_usedThisCycle (f s) = cb_usedThisCycle s" "cb_sessionsPerCycle (f s) = cb_sessionsPerCycle s"
    "cb_currentPeriodStart (f s) = cb_currentPeriodStart s" for s using assms(2) [of s] by simp_all
  have "within_cycle db (f s) \<longleftrightarrow> within_cycle db s" for s
    by (simp add: within_cycle_def f cycle_uses_same [OF f(1,4)] split: option.split)
  then show ?thesis by (intro club_update_ok [OF assms(1), where q = q and f = f]) (simp_all add: f)
qed

lemma positive_limit: "checkSessionCount label (Some l) = Inr () \<Longrightarrow> 0 < l"
  by (simp add: checkSessionCount_def)

lemma plan_new_ok:
  assumes ok: "club_ok db" and run: "createSubscriptionPlan mkProduct mkPrice now userId shop d db = Inr db'"
  shows "club_ok db'"
proof (cases "find_first (\<lambda>s. sv_id s = ti_serviceId d \<and> sv_barbershopId s = shop) (services db)")
  case None
  then show ?thesis using run by (auto simp: createSubscriptionPlan_def bindE_eq_Inr)
next
  case (Some s)
  have old: "\<forall>p \<in> set (rows (subscriptionPlans db)). case sl_sessionsPerCycle p of None \<Rightarrow> True | Some l \<Rightarrow> 0 < l"
    using ok by (simp add: club_ok_def)
  from Some run old show ?thesis
    by (cases "ti_sessionsPerCycle d") (auto simp: createSubscriptionPlan_def bindE_eq_Inr dest!: positive_limit intro!: club_frame [OF ok])
qed

lemma plan_change_ok:
  assumes ok: "club_ok db" and run: "updateSubscriptionPlan setProduct mkPrice now userId shop i patch db = Inr db'"
  shows "club_ok db'"
proof -
  have limit: "checkSessionCount ''Sessoes por ciclo'' (Option.bind (tp_sessionsPerCycle patch) id) = Inr ()"
    and db': "\<exists>name price. db' = db\<lparr>subscriptionPlans := update_many (\<lambda>q. sl_id q = i) (\<lambda>q. q\<lparr>sl_name := patched name (sl_name q),
       sl_price := patched (tp_price patch) (sl_price q), sl_sessionsPerCycle := patched (tp_sessionsPerCycle patch) (sl_sessionsPerCycle q),
       sl_isActive := patched (tp_isActive patch) (sl_isActive q), sl_stripePriceId := price\<rparr>) (subscriptionPlans db)\<rparr>"
    using run unfolding updateSubscriptionPlan_def by (auto simp: bindE_eq_Inr)
  have new: "case patched (tp_sessionsPerCycle patch) old of None \<Rightarrow> True | Some l \<Rightarrow> 0 < l"
    if "case old of None \<Rightarrow> True | Some l \<Rightarrow> 0 < l" for old
    using limit that by (auto simp: patched_def dest!: positive_limit split: option.split_asm option.split)
  have "\<forall>p \<in> set (rows (subscriptionPlans db)). case sl_sessionsPerCycle p of None \<Rightarrow> True | Some l \<Rightarrow> 0 < l"
    using ok by (simp add: club_ok_def)
  with db' new show ?thesis by (auto intro!: club_frame [OF ok])
qed

lemma club_step_ok: "club_step db db' \<Longrightarrow> club_ok db \<Longrightarrow> club_ok db'"
proof (induction rule: club_step.induct)
  case (Plan_new mkProduct mkPrice now userId shop d db db')
  then show ?case using plan_new_ok by blast
next
  case (Plan_change setProduct mkPrice now userId shop i patch db db')
  then show ?case using plan_change_ok by blast
next
  case (Plan_end now userId shop i db db')
  have "\<forall>p \<in> set (rows (subscriptionPlans db)). case sl_sessionsPerCycle p of None \<Rightarrow> True | Some l \<Rightarrow> 0 < l"
    using Plan_end(2) by (simp add: club_ok_def)
  with Plan_end(1) show ?case by (auto simp: deleteSubscriptionPlan_def bindE_eq_Inr intro!: club_frame [OF Plan_end(2)])
next
  case (Subscribe p db now shop account stripe active period dest fee)
  then show ?case using subscribed_ok by blast
next
  case (Redeem now userId shop i db db')
  then show ?case using redeem_op_ok by blast
next
  case (Sale network shop customer k items db i limit service now userId saleId db')
  then show ?case using prepared_limit redeem_ok by blast
next
  case (Undo now userId shop useId db db')
  then show ?case using undo_club_ok by blast
next
  case (Sale_deleted db i saleId createdAt now userId)
  show ?case
  proof (rule returned_ok [OF Sale_deleted(2), where now = now and userId = userId])
    fix s assume "s \<in> set (rows (clientSubscriptions db))"
      and "cb_id s = i \<and> cb_usedThisCycle s > 0 \<and> (case cb_currentPeriodStart s of None \<Rightarrow> True | Some t \<Rightarrow> t \<le> createdAt)"
    then obtain u where "u \<in> set (rows (clubUses db))" "cq_saleId u = Some saleId" "cycle_use s u"
      using Sale_deleted(1) by (auto simp: sale_in_cycle_def)
    then show "\<exists>u \<in> set (rows (clubUses db)). (cq_saleId u = Some saleId \<and> cq_undoneAt u = None) \<and> cycle_use s u"
      by (auto simp: cycle_use_def)
  qed (simp add: return_of_sale_def)
next
  case (Invoice db stripe v period fee)
  then show ?case using invoice_ok by blast
next
  case (Invoice_failed stripe db)
  then show ?case by (auto simp: handleClientSubscriptionInvoiceFailed_def intro: club_same_ok)
next
  case (Cancel call account i db db')
  then show ?case by (auto simp: cancelMySubscription_def bindE_eq_Inr intro: club_same_ok split: option.split_asm if_split_asm)
next
  case (Resume call now account i db db')
  then show ?case
    by (auto simp: resumeMySubscription_def bindE_eq_Inr intro: club_same_ok split: option.split_asm if_split_asm)
next
  case (Elsewhere db' db)
  have "\<forall>p \<in> set (rows (subscriptionPlans db)). case sl_sessionsPerCycle p of None \<Rightarrow> True | Some l \<Rightarrow> 0 < l"
    using Elsewhere(4) by (simp add: club_ok_def)
  with Elsewhere(1-3) show ?case by (intro club_frame [OF Elsewhere(4)]) simp_all
qed


section \<open>The club at concrete inputs\<close>

definition sample_plan :: subscription_plan where
  "sample_plan = \<lparr>sl_id = 1, sl_barbershopId = 7, sl_planServiceId = 1, sl_name = ''Um corte'', sl_price = 60, sl_sessionsPerCycle = Some 1,
     sl_stripeProductId = Some ''prod_1'', sl_stripePriceId = Some ''price_1'', sl_isActive = True\<rparr>"

definition with_plan :: session_db where
  "with_plan = no_sessions\<lparr>subscriptionPlans := create_row (\<lambda>i. sample_plan) empty_table\<rparr>"

definition with_member :: session_db where
  "with_member = with_plan\<lparr>clientSubscriptions := create_row (new_subscription 100 7 1 sample_plan ''sub_1'' True (0, 1000) None 10)
     (clientSubscriptions with_plan)\<rparr>"

definition redeemed :: "session_db \<Rightarrow> session_db" where
  "redeemed db = (case redeemClientSubscriptionSession 100 1 7 1 db of Inl _ \<Rightarrow> db | Inr db' \<Rightarrow> db')"

definition sample_invoice :: "string \<Rightarrow> int \<Rightarrow> invoice" where
  "sample_invoice i ends = \<lparr>iv_id = i, iv_lineEnds = [Some ends], iv_periodEnd = None, iv_amountPaid = 6000, iv_currency = ''brl''\<rparr>"

lemma plan_made:
  "createSubscriptionPlan (\<lambda>_. Inr ''prod_1'') (\<lambda>_ _ _. Inr ''price_1'') 100 1 7
     \<lparr>ti_serviceId = 1, ti_name = ''Um corte'', ti_price = 60, ti_sessionsPerCycle = Some 1\<rparr> no_sessions = Inr with_plan"
proof -
  have "is_ok (ensureBarbershopAccess no_sessions 100 1 7 Manager)" by code_simp
  then obtain shop where shop: "ensureBarbershopAccess no_sessions 100 1 7 Manager = Inr shop" by (rule is_okE)
  have "is_ok (bindE (ensureBarbershopAccess no_sessions 100 1 7 Manager)
      (\<lambda>shop. checkMoney ''Preco'' (Some 60) (Some (bs_currency (sa_shop shop)))))" by code_simp
  then have money: "checkMoney ''Preco'' (Some 60) (Some (bs_currency (sa_shop shop))) = Inr ()" by (simp add: shop is_ok_unit)
  have "is_ok (ensureModuleAccess no_sessions 100 7 Mod_subscriptions)" by code_simp
  then have module_ok: "ensureModuleAccess no_sessions 100 7 Mod_subscriptions = Inr ()" by (simp add: is_ok_unit)
  have name: "subscriptionPlanName ''Um corte'' = Inr ''Um corte''" by code_simp
  have "map_option sv_isActive (find_first (\<lambda>s. sv_id s = 1 \<and> sv_barbershopId s = 7) (services no_sessions)) = Some True" by code_simp
  then obtain s where service: "find_first (\<lambda>s. sv_id s = 1 \<and> sv_barbershopId s = 7) (services no_sessions) = Some s" "sv_isActive s" by auto
  have empty: "subscriptionPlans no_sessions = empty_table" "seq (empty_table :: subscription_plan table) = 1" by code_simp+
  show ?thesis
    by (simp add: createSubscriptionPlan_def shop money module_ok name service checkSessionCount_def with_plan_def empty
        sample_plan_def create_row_def)
qed

lemma club_run: "club_step\<^sup>*\<^sup>* no_sessions (redeemed with_member)"
proof -
  have "club_step no_sessions with_plan" by (rule Plan_new [OF plan_made])
  moreover have "sample_plan \<in> set (rows (subscriptionPlans with_plan))" by (simp add: with_plan_def)
  then have "club_step with_plan with_member" unfolding with_member_def by (rule Subscribe)
  moreover have "is_ok (redeemClientSubscriptionSession 100 1 7 1 with_member)" by code_simp
  then have "club_step with_member (redeemed with_member)" unfolding redeemed_def by (rule is_okE) (auto intro: Redeem)
  ultimately show ?thesis by (meson rtranclp.rtrancl_refl rtranclp.rtrancl_into_rtrancl)
qed


text \<open>
  An invoice of the current cycle that arrives late opens the cycle again: after the one session of the plan was used, the
  event of the first payment sets the count to 0, and the same cycle gives a second session.
\<close>

lemma late_invoice_resets:
  "let late = handleClientSubscriptionInvoiceSucceeded 10 (sample_invoice ''in_1'' 1000) ''sub_1'' (0, 1000) (redeemed with_member)
   in \<not> is_ok (redeemClientSubscriptionSession 100 1 7 1 (redeemed with_member))
     \<and> map (cycle_uses (redeemed late)) (rows (clientSubscriptions (redeemed late))) = [2]"
  by code_simp

text \<open>
  \<open>undoClientSubscriptionUse\<close> compares the cycles before its transaction. When the next cycle opens in between, the session of the
  old cycle is given back to the new one, whose own use is then not counted.
\<close>

lemma undo_crosses_cycle:
  "case club_undo_checks 100 1 7 1 (redeemed with_member) of
     Inl _ \<Rightarrow> False
   | Inr u \<Rightarrow> (let renewed = redeemed (handleClientSubscriptionInvoiceSucceeded 10 (sample_invoice ''in_2'' 2000) ''sub_1'' (1000, 2000)
         (redeemed with_member))
       in case club_undo_write 100 1 u renewed of
            Inl _ \<Rightarrow> False
          | Inr db \<Rightarrow> map (cycle_uses (redeemed db)) (rows (clientSubscriptions (redeemed db))) = [2])"
  by code_simp

end
