(* ===== verification/Stock.thy ===== *)
theory Stock
  imports Club Cash_Desk
begin

text \<open>
  The stock of a shop (\<open>barbershop.service.ts\<close>): one row per product with the quantity at hand, and a ledger of
  movements. Every change goes through \<open>moveStock\<close>, an increment by the database, and is followed by its movement:
  the adjustment by hand, a sale, its edit and its removal.

  The product, its category and its photo that the answers carry are left out.
\<close>

section \<open>Data\<close>

record inventory_item =
  ii_id :: int
  ii_barbershopId :: int
  ii_productId :: int
  ii_quantity :: rat
  ii_unit :: string
  ii_minQuantity :: "rat option"
  ii_lastCountedAt :: "int option"
  ii_location :: "string option"

record inventory_movement =
  im_id :: int
  im_createdAt :: int
  im_inventoryItemId :: int
  im_movementType :: string
  im_quantityChange :: rat
  im_quantityBefore :: rat
  im_quantityAfter :: rat
  im_referenceType :: "string option"
  im_referenceId :: "string option"
  im_notes :: "string option"

record stock_db = session_db +
  inventoryItems :: "inventory_item table"
  inventoryMovements :: "inventory_movement table"

section \<open>Moving stock\<close>

definition stock_row :: "int \<Rightarrow> int \<Rightarrow> inventory_item \<Rightarrow> bool" where
  "stock_row barbershopId productId i \<longleftrightarrow> ii_barbershopId i = barbershopId \<and> ii_productId i = productId"

definition new_stock :: "int \<Rightarrow> int \<Rightarrow> rat \<Rightarrow> string \<Rightarrow> int \<Rightarrow> inventory_item" where
  "new_stock barbershopId productId quantity unit' i = \<lparr>ii_id = i, ii_barbershopId = barbershopId, ii_productId = productId,
     ii_quantity = quantity, ii_unit = unit', ii_minQuantity = None, ii_lastCountedAt = None, ii_location = None\<rparr>"

text \<open>\<open>upsert\<close> of the row of a product: the row after it, and the table.\<close>

definition upsert_stock :: "int \<Rightarrow> int \<Rightarrow> (int \<Rightarrow> inventory_item) \<Rightarrow> (inventory_item \<Rightarrow> inventory_item)
    \<Rightarrow> inventory_item table \<Rightarrow> inventory_item \<times> inventory_item table" where
  "upsert_stock barbershopId productId mk change t = (case find_first (stock_row barbershopId productId) t of
       None \<Rightarrow> (mk (seq t), create_row mk t)
     | Some i \<Rightarrow> (change i, update_many (\<lambda>x. ii_id x = ii_id i) change t))"

text \<open>The row after the change, the quantity before and the quantity after.\<close>

definition moveStock :: "int \<Rightarrow> int \<Rightarrow> string \<Rightarrow> rat \<Rightarrow> 'a stock_db_scheme \<Rightarrow> (inventory_item \<times> rat \<times> rat) \<times> 'a stock_db_scheme" where
  "moveStock barbershopId productId unit' change db = (case upsert_stock barbershopId productId
       (new_stock barbershopId productId change unit')
       (\<lambda>i. i\<lparr>ii_quantity := ii_quantity i + change, ii_unit := unit'\<rparr>) (inventoryItems db) of
     (item, t) \<Rightarrow> ((item, ii_quantity item - change, ii_quantity item), db\<lparr>inventoryItems := t\<rparr>))"

definition record_movement :: "int \<Rightarrow> int \<Rightarrow> string \<Rightarrow> rat \<Rightarrow> rat \<Rightarrow> rat \<Rightarrow> string \<Rightarrow> string option \<Rightarrow> string option
    \<Rightarrow> 'a stock_db_scheme \<Rightarrow> 'a stock_db_scheme" where
  "record_movement now itemId movementType change before after referenceType referenceId notes db =
     db\<lparr>inventoryMovements := create_row (\<lambda>i. \<lparr>im_id = i, im_createdAt = now, im_inventoryItemId = itemId, im_movementType = movementType,
       im_quantityChange = change, im_quantityBefore = before, im_quantityAfter = after, im_referenceType = Some referenceType,
       im_referenceId = referenceId, im_notes = notes\<rparr>) (inventoryMovements db)\<rparr>"

section \<open>The adjustment by hand\<close>

definition STOCK_MOVEMENTS :: "string list" where
  "STOCK_MOVEMENTS = [''PURCHASE'', ''ADJUSTMENT'', ''LOSS'']"

definition STOCK_QUANTITY :: http_error where
  "STOCK_QUANTITY = BadRequest ''Informe uma quantidade diferente de zero.''"

definition assertStockSign :: "string \<Rightarrow> rat \<Rightarrow> unit result" where
  "assertStockSign movementType change =
     bindE (throwIf (movementType = ''PURCHASE'' \<and> \<not> change > 0) (BadRequest ''A compra aumenta o estoque.'')) (\<lambda>_.
     throwIf (movementType = ''LOSS'' \<and> \<not> change < 0) (BadRequest ''A perda diminui o estoque.''))"

record adjust_input =
  qa_productId :: int
  qa_quantityChange :: "rat option"
  qa_countedQuantity :: "rat option"
  qa_movementType :: "string option"
  qa_notes :: "string option"

definition adjust_checks :: "int \<Rightarrow> int \<Rightarrow> int \<Rightarrow> adjust_input \<Rightarrow> 'a stock_db_scheme \<Rightarrow> product result" where
  "adjust_checks now userId barbershopId d db =
     bindE (ensureBarbershopAccess db now userId barbershopId Manager) (\<lambda>_.
     bindE (ensureModuleAccess db now barbershopId Mod_inventory) (\<lambda>_.
     bindE (throwIf (case qa_movementType d of None \<Rightarrow> False | Some m \<Rightarrow> m \<notin> set STOCK_MOVEMENTS)
       (BadRequest ''Tipo de movimentacao de estoque invalido.'')) (\<lambda>_.
     bindE (case qa_countedQuantity d of
         Some c \<Rightarrow> throwIf (c < 0) STOCK_QUANTITY
       | None \<Rightarrow> throwIf (qa_quantityChange d = None \<or> qa_quantityChange d = Some 0) STOCK_QUANTITY) (\<lambda>_.
     case find_first (\<lambda>p. pd_id p = qa_productId d \<and> pd_barbershopId p = barbershopId) (products db) of
       None \<Rightarrow> Inl (NotFound ''Produto nao encontrado nesta unidade'')
     | Some p \<Rightarrow> Inr p))))"

text \<open>The difference a count makes; without a count, the change that was typed.\<close>

definition adjust_change :: "int \<Rightarrow> adjust_input \<Rightarrow> 'a stock_db_scheme \<Rightarrow> rat" where
  "adjust_change barbershopId d db = (case qa_countedQuantity d of
       None \<Rightarrow> amount_or_0 (qa_quantityChange d)
     | Some c \<Rightarrow> c - (case find_first (stock_row barbershopId (qa_productId d)) (inventoryItems db) of
           None \<Rightarrow> 0 | Some i \<Rightarrow> ii_quantity i))"

definition counted :: "int \<Rightarrow> inventory_item \<Rightarrow> inventory_item" where
  "counted now i = i\<lparr>ii_lastCountedAt := Some now\<rparr>"

text \<open>The row after the adjustment and the movement it made, if it made one.\<close>

definition adjust_write :: "int \<Rightarrow> int \<Rightarrow> adjust_input \<Rightarrow> product \<Rightarrow> 'a stock_db_scheme \<Rightarrow> (int option \<times> 'a stock_db_scheme) result" where
  "adjust_write now barbershopId d product' db = (let
       counting = (qa_countedQuantity d \<noteq> None);
       change = adjust_change barbershopId d db;
       movementType = (if counting then ''ADJUSTMENT'' else patched (qa_movementType d) ''ADJUSTMENT'')
     in bindE (assertStockSign movementType change) (\<lambda>_.
       if change = 0 then Inr (None, db\<lparr>inventoryItems := snd (upsert_stock barbershopId (qa_productId d)
         (\<lambda>i. counted now (new_stock barbershopId (qa_productId d) 0 (pd_unit product') i)) (counted now) (inventoryItems db))\<rparr>)
       else (case moveStock barbershopId (qa_productId d) (pd_unit product') change db of ((item, before, after), db1) \<Rightarrow>
         bindE (throwIf (after < 0) (BadRequest ''Estoque nao pode ficar negativo'')) (\<lambda>_.
         let db2 = record_movement now (ii_id item) movementType change before after ''MANUAL'' None (qa_notes d) db1
         in Inr (Some (seq (inventoryMovements db1)), if counting
             then db2\<lparr>inventoryItems := update_many (\<lambda>x. ii_id x = ii_id item) (counted now) (inventoryItems db2)\<rparr>
             else db2)))))"

definition adjustInventory :: "int \<Rightarrow> int \<Rightarrow> int \<Rightarrow> adjust_input \<Rightarrow> 'a stock_db_scheme \<Rightarrow> (int option \<times> 'a stock_db_scheme) result" where
  "adjustInventory now userId barbershopId d db =
     bindE (adjust_checks now userId barbershopId d db) (\<lambda>p. adjust_write now barbershopId d p db)"

text \<open>The minimum and the place of a product; \<open>Some None\<close> clears a value, \<open>None\<close> leaves it.\<close>

definition updateInventoryItem :: "int \<Rightarrow> int \<Rightarrow> int \<Rightarrow> int \<Rightarrow> rat option option \<Rightarrow> string option option
    \<Rightarrow> 'a stock_db_scheme \<Rightarrow> 'a stock_db_scheme result" where
  "updateInventoryItem now userId barbershopId productId minQuantity shelf db =
     bindE (ensureBarbershopAccess db now userId barbershopId Manager) (\<lambda>_.
     bindE (ensureModuleAccess db now barbershopId Mod_inventory) (\<lambda>_.
     bindE (throwIf (case Option.bind minQuantity id of None \<Rightarrow> False | Some m \<Rightarrow> m < 0)
       (BadRequest ''O estoque minimo nao pode ser negativo.'')) (\<lambda>_.
     case find_first (\<lambda>p. pd_id p = productId \<and> pd_barbershopId p = barbershopId) (products db) of
       None \<Rightarrow> Inl (NotFound ''Produto nao encontrado nesta unidade'')
     | Some p \<Rightarrow> (let shelf' = map_option (\<lambda>l. or_null (map_option js_trim l)) shelf in
         Inr (db\<lparr>inventoryItems := snd (upsert_stock barbershopId productId
           (\<lambda>i. (new_stock barbershopId productId 0 (pd_unit p) i)\<lparr>ii_minQuantity := Option.bind minQuantity id,
             ii_location := Option.bind shelf' id\<rparr>)
           (\<lambda>i. i\<lparr>ii_minQuantity := patched minQuantity (ii_minQuantity i), ii_location := patched shelf' (ii_location i)\<rparr>)
           (inventoryItems db))\<rparr>)))))"

definition getInventoryMovements :: "int \<Rightarrow> int \<Rightarrow> int \<Rightarrow> int \<Rightarrow> 'a stock_db_scheme \<Rightarrow> (inventory_movement list) result" where
  "getInventoryMovements now userId barbershopId productId db =
     bindE (ensureBarbershopAccess db now userId barbershopId Manager) (\<lambda>_.
     bindE (ensureModuleAccess db now barbershopId Mod_inventory) (\<lambda>_.
     Inr (case find_first (stock_row barbershopId productId) (inventoryItems db) of
         None \<Rightarrow> []
       | Some i \<Rightarrow> take 100 (sort_key (\<lambda>m. - im_createdAt m) (find_many (\<lambda>m. im_inventoryItemId m = ii_id i) (inventoryMovements db))))))"

section \<open>The stock of a sale\<close>

text \<open>A product the sale no longer finds is passed over. A sale does not look at the balance.\<close>

definition sold_movement :: "int \<Rightarrow> int \<Rightarrow> int \<Rightarrow> string option \<Rightarrow> int \<Rightarrow> int \<Rightarrow> 'a stock_db_scheme \<Rightarrow> 'a stock_db_scheme" where
  "sold_movement now barbershopId saleId notes productId deltaSold db =
     (case find_first (\<lambda>p. pd_id p = productId) (products db) of
       None \<Rightarrow> db
     | Some p \<Rightarrow> (let quantityChange = of_int (- deltaSold) in
         case moveStock barbershopId productId (pd_unit p) quantityChange db of ((item, before, after), db1) \<Rightarrow>
           record_movement now (ii_id item) ''SALE'' quantityChange before after ''SALE'' (Some (show_int saleId)) notes db1))"

definition sell_item :: "int \<Rightarrow> int \<Rightarrow> int \<Rightarrow> sale_item \<Rightarrow> 'a stock_db_scheme \<Rightarrow> 'a stock_db_scheme" where
  "sell_item now barbershopId saleId i db = (if it_itemType i \<noteq> ''PRODUCT'' \<or> \<not> truthy (it_productId i) then db
     else sold_movement now barbershopId saleId None (the (it_productId i)) (it_quantity i) db)"

definition sell_items :: "int \<Rightarrow> int \<Rightarrow> int \<Rightarrow> sale_item list \<Rightarrow> 'a stock_db_scheme \<Rightarrow> 'a stock_db_scheme" where
  "sell_items now barbershopId saleId items db = fold (sell_item now barbershopId saleId) items db"

text \<open>The products of a sale with the quantity of each, in the order they first appear.\<close>

fun add_quantity :: "int \<Rightarrow> int \<Rightarrow> (int \<times> int) list \<Rightarrow> (int \<times> int) list" where
  "add_quantity k q [] = [(k, q)]"
| "add_quantity k q ((k', q') # xs) = (if k' = k then (k, q' + q) # xs else (k', q') # add_quantity k q xs)"

definition productQuantities :: "sale_item list \<Rightarrow> (int \<times> int) list" where
  "productQuantities items = fold (\<lambda>i qty. if it_itemType i \<noteq> ''PRODUCT'' \<or> \<not> truthy (it_productId i) then qty
     else add_quantity (the (it_productId i)) (it_quantity i) qty) items []"

definition quantity_of :: "(int \<times> int) list \<Rightarrow> int \<Rightarrow> int" where
  "quantity_of qty k = (case map_of qty k of None \<Rightarrow> 0 | Some q \<Rightarrow> q)"

text \<open>An edit moves only the difference of each product.\<close>

definition applySaleStockDelta :: "int \<Rightarrow> int \<Rightarrow> int \<Rightarrow> sale_item list \<Rightarrow> sale_item list \<Rightarrow> 'a stock_db_scheme \<Rightarrow> 'a stock_db_scheme" where
  "applySaleStockDelta now barbershopId saleId before after db = (let
       oldQty = productQuantities before; newQty = productQuantities after;
       keys = map fst oldQty @ filter (\<lambda>k. k \<notin> set (map fst oldQty)) (map fst newQty)
     in fold (\<lambda>k db. let deltaSold = quantity_of newQty k - quantity_of oldQty k in
         if deltaSold = 0 then db else sold_movement now barbershopId saleId (Some ''Venda editada'') k deltaSold db) keys db)"

text \<open>The removal of a sale takes every movement of it back.\<close>

definition sale_movement :: "int \<Rightarrow> inventory_movement \<Rightarrow> bool" where
  "sale_movement saleId m \<longleftrightarrow> im_referenceType m = Some ''SALE'' \<and> im_referenceId m = Some (show_int saleId) \<and> im_movementType m = ''SALE''"

definition give_back_movement :: "int \<Rightarrow> int \<Rightarrow> inventory_movement \<Rightarrow> 'a stock_db_scheme \<Rightarrow> 'a stock_db_scheme" where
  "give_back_movement now saleId m db = (let
       t = update_many (\<lambda>i. ii_id i = im_inventoryItemId m) (\<lambda>i. i\<lparr>ii_quantity := ii_quantity i - im_quantityChange m\<rparr>) (inventoryItems db);
       change = - im_quantityChange m
     in case find_first (\<lambda>i. ii_id i = im_inventoryItemId m) t of
          None \<Rightarrow> db
        | Some i \<Rightarrow> record_movement now (im_inventoryItemId m) ''ADJUSTMENT'' change (ii_quantity i - change) (ii_quantity i)
            ''SALE_DELETED'' (Some (show_int saleId)) (Some ''Venda apagada: estoque devolvido'') (db\<lparr>inventoryItems := t\<rparr>))"

definition return_stock :: "int \<Rightarrow> int \<Rightarrow> 'a stock_db_scheme \<Rightarrow> 'a stock_db_scheme" where
  "return_stock now saleId db = fold (give_back_movement now saleId) (find_many (sale_movement saleId) (inventoryMovements db)) db"

section \<open>The ledger\<close>

interpretation stock_tab: row_table ii_id "table_ok ii_id"
  by unfold_locales (rule table_ok_def)

definition movement_sum :: "'a stock_db_scheme \<Rightarrow> int \<Rightarrow> rat" where
  "movement_sum db i = sum_where (\<lambda>m. im_inventoryItemId m = i) im_quantityChange (inventoryMovements db)"

text \<open>The quantity at hand is what the movements of the row add up to, and each movement is a step from one to the next.\<close>

definition ledger_ok :: "'a stock_db_scheme \<Rightarrow> bool" where
  "ledger_ok db \<longleftrightarrow> table_ok ii_id (inventoryItems db)
     \<and> (\<forall>i \<in> set (rows (inventoryItems db)). ii_quantity i = movement_sum db (ii_id i))
     \<and> (\<forall>m \<in> set (rows (inventoryMovements db)). im_inventoryItemId m < seq (inventoryItems db)
          \<and> im_quantityAfter m = im_quantityBefore m + im_quantityChange m)"

lemma ledger_frame:
  assumes "ledger_ok db" and "inventoryItems db' = inventoryItems db" and "inventoryMovements db' = inventoryMovements db"
  shows "ledger_ok db'"
  using assms unfolding ledger_ok_def movement_sum_def by simp

lemma movement_sum_new: "ledger_ok db \<Longrightarrow> seq (inventoryItems db) \<le> i \<Longrightarrow> movement_sum db i = 0"
proof -
  assume "ledger_ok db" "seq (inventoryItems db) \<le> i"
  then have "find_many (\<lambda>m. im_inventoryItemId m = i) (inventoryMovements db) = []"
    unfolding find_many_def filter_empty_conv ledger_ok_def by fastforce
  then show ?thesis by (simp add: movement_sum_def sum_where_def)
qed

lemma movement_sum_record:
  "movement_sum (record_movement now k ty c before after rt rid notes db) i = movement_sum db i + (if k = i then c else 0)"
  by (simp add: movement_sum_def record_movement_def sum_where_create)

lemma record_movement_items [simp]:
  "inventoryItems (record_movement now k ty c before after rt rid notes db) = inventoryItems db"
  by (simp add: record_movement_def)

lemma moved_ok:
  assumes ok: "ledger_ok db" and moved: "moveStock b p u c db = ((item, before, after), db1)"
  shows "ledger_ok (record_movement now (ii_id item) ty c before after rt rid notes db1)"
proof (cases "find_first (stock_row b p) (inventoryItems db)")
  case None
  with moved have eqs: "item = new_stock b p c u (seq (inventoryItems db))" "after = ii_quantity item" "before = after - c"
    "db1 = db\<lparr>inventoryItems := create_row (new_stock b p c u) (inventoryItems db)\<rparr>"
    by (auto simp: moveStock_def upsert_stock_def)
  have "movement_sum db1 = movement_sum db" by (intro ext) (simp add: movement_sum_def eqs)
  moreover have "table_ok ii_id (create_row (new_stock b p c u) (inventoryItems db))"
    using ok by (intro stock_tab.ok_create) (simp_all add: ledger_ok_def new_stock_def)
  moreover have "ii_id i < seq (inventoryItems db)" if "i \<in> set (rows (inventoryItems db))" for i
    using ok that by (simp add: ledger_ok_def table_ok_def)
  ultimately show ?thesis using ok movement_sum_new [OF ok, of "seq (inventoryItems db)"]
    unfolding ledger_ok_def movement_sum_record by (fastforce simp: eqs new_stock_def record_movement_def)
next
  case (Some i)
  from find_first_Some [OF Some] have i: "i \<in> set (rows (inventoryItems db))" by simp
  let ?f = "\<lambda>i. i\<lparr>ii_quantity := ii_quantity i + c, ii_unit := u\<rparr>"
  from Some moved have eqs: "item = ?f i" "after = ii_quantity item" "before = after - c"
    "db1 = db\<lparr>inventoryItems := update_many (\<lambda>x. ii_id x = ii_id i) ?f (inventoryItems db)\<rparr>"
    by (auto simp: moveStock_def upsert_stock_def)
  have "movement_sum db1 = movement_sum db" by (intro ext) (simp add: movement_sum_def eqs)
  moreover have "table_ok ii_id (update_many (\<lambda>x. ii_id x = ii_id i) ?f (inventoryItems db))"
    using ok by (intro stock_tab.ok_update) (simp_all add: ledger_ok_def)
  moreover have "ii_id i < seq (inventoryItems db)" using ok i by (simp add: ledger_ok_def table_ok_def)
  ultimately show ?thesis using ok
    unfolding ledger_ok_def movement_sum_record by (auto simp: eqs record_movement_def)
qed

text \<open>An upsert that keeps the quantity: a new row starts at 0.\<close>

lemma upsert_ok:
  assumes ok: "ledger_ok db" and mk: "\<And>k. ii_id (mk k) = k \<and> ii_quantity (mk k) = 0"
    and change: "\<And>i. ii_id (change i) = ii_id i \<and> ii_quantity (change i) = ii_quantity i"
  shows "ledger_ok (db\<lparr>inventoryItems := snd (upsert_stock b p mk change (inventoryItems db))\<rparr>)"
proof -
  have same: "movement_sum (db\<lparr>inventoryItems := t\<rparr>) = movement_sum db" for t by (intro ext) (simp add: movement_sum_def)
  have "table_ok ii_id (snd (upsert_stock b p mk change (inventoryItems db)))"
    using ok mk change unfolding ledger_ok_def upsert_stock_def
    by (auto split: option.split intro!: stock_tab.ok_create stock_tab.ok_update)
  moreover have "seq (inventoryItems db) \<le> seq (snd (upsert_stock b p mk change (inventoryItems db)))"
    by (simp add: upsert_stock_def split: option.split)
  moreover have "ii_quantity i = movement_sum db (ii_id i)"
    if "i \<in> set (rows (snd (upsert_stock b p mk change (inventoryItems db))))" for i
    using that ok mk change movement_sum_new [OF ok, of "seq (inventoryItems db)"]
    by (fastforce simp: upsert_stock_def ledger_ok_def split: option.split_asm if_split_asm)
  ultimately show ?thesis using ok unfolding ledger_ok_def same by fastforce
qed

lemma counted_ok:
  "ledger_ok db \<Longrightarrow> t = inventoryItems db \<Longrightarrow> ledger_ok (db\<lparr>inventoryItems := update_many (\<lambda>x. ii_id x = k) (counted now) t\<rparr>)"
  unfolding ledger_ok_def movement_sum_def by (auto simp: counted_def intro!: stock_tab.ok_update)

lemma adjust_ok:
  assumes ok: "ledger_ok db" and run: "adjustInventory now userId b d db = Inr (m, db')"
  shows "ledger_ok db'"
proof -
  obtain p where p: "adjust_write now b d p db = Inr (m, db')" using run by (auto simp: adjustInventory_def bindE_eq_Inr)
  show ?thesis
  proof (cases "adjust_change b d db = 0")
    case True
    have "ledger_ok (db\<lparr>inventoryItems := snd (upsert_stock b (qa_productId d)
         (\<lambda>i. counted now (new_stock b (qa_productId d) 0 (pd_unit p) i)) (counted now) (inventoryItems db))\<rparr>)"
      by (rule upsert_ok [OF ok]) (simp_all add: counted_def new_stock_def)
    with p True show ?thesis by (auto simp: adjust_write_def bindE_eq_Inr Let_def)
  next
    case False
    obtain item before after db1 where moved: "moveStock b (qa_productId d) (pd_unit p) (adjust_change b d db) db = ((item, before, after), db1)"
      by (metis surj_pair)
    from p False moved_ok [OF ok moved] show ?thesis
      by (auto simp: adjust_write_def bindE_eq_Inr Let_def moved split: if_split_asm intro: counted_ok)
  qed
qed

lemma update_item_ok: "ledger_ok db \<Longrightarrow> updateInventoryItem now userId b p minimum shelf db = Inr db' \<Longrightarrow> ledger_ok db'"
  by (auto simp: updateInventoryItem_def bindE_eq_Inr Let_def new_stock_def split: option.split_asm intro!: upsert_ok)

lemma stock_sold_ok: "ledger_ok db \<Longrightarrow> ledger_ok (sold_movement now b saleId notes p q db)"
  by (auto simp: sold_movement_def Let_def intro: moved_ok split: option.split prod.split)

lemma fold_ok: "(\<And>x db. P db \<Longrightarrow> P (f x db)) \<Longrightarrow> P db \<Longrightarrow> P (fold f xs db)"
  by (induction xs arbitrary: db) auto

lemma sell_items_ok: "ledger_ok db \<Longrightarrow> ledger_ok (sell_items now b saleId items db)"
  unfolding sell_items_def by (rule fold_ok [where P = ledger_ok]) (simp add: sell_item_def stock_sold_ok)

lemma stock_delta_ok: "ledger_ok db \<Longrightarrow> ledger_ok (applySaleStockDelta now b saleId before after db)"
  unfolding applySaleStockDelta_def Let_def by (rule fold_ok [where P = ledger_ok]) (simp_all add: stock_sold_ok)

lemma stock_returned_ok:
  assumes ok: "ledger_ok db"
  shows "ledger_ok (give_back_movement now saleId m db)"
proof -
  let ?t = "update_many (\<lambda>i. ii_id i = im_inventoryItemId m) (\<lambda>i. i\<lparr>ii_quantity := ii_quantity i - im_quantityChange m\<rparr>) (inventoryItems db)"
  show ?thesis
  proof (cases "find_first (\<lambda>i. ii_id i = im_inventoryItemId m) ?t")
    case None
    then show ?thesis using ok by (simp add: give_back_movement_def)
  next
    case (Some i)
    have eq: "give_back_movement now saleId m db = record_movement now (im_inventoryItemId m) ''ADJUSTMENT''
        (- im_quantityChange m) (ii_quantity i + im_quantityChange m) (ii_quantity i) ''SALE_DELETED'' (Some (show_int saleId))
        (Some ''Venda apagada: estoque devolvido'') (db\<lparr>inventoryItems := ?t\<rparr>)"
      by (simp add: give_back_movement_def Let_def Some)
    from find_first_Some [OF Some] have "\<exists>r \<in> set (rows (inventoryItems db)). ii_id r = im_inventoryItemId m" by auto
    then have "im_inventoryItemId m < seq (inventoryItems db)" using ok by (auto simp: ledger_ok_def table_ok_def)
    moreover have "movement_sum (db\<lparr>inventoryItems := ?t\<rparr>) = movement_sum db" by (intro ext) (simp add: movement_sum_def)
    moreover have "table_ok ii_id ?t" using ok by (intro stock_tab.ok_update) (simp_all add: ledger_ok_def)
    ultimately show ?thesis using ok unfolding eq ledger_ok_def movement_sum_record
      by (simp only:) (auto simp: record_movement_def)
  qed
qed

lemma return_stock_ok: "ledger_ok db \<Longrightarrow> ledger_ok (return_stock now saleId db)"
  unfolding return_stock_def by (rule fold_ok [where P = ledger_ok]) (simp_all add: stock_returned_ok)

end
