(* ===== verification/Gift_Cards.thy ===== *)
theory Gift_Cards
  imports Stock
begin

text \<open>
  Gift cards (\<open>barbershop.service.ts\<close>): sold by a shop with a sale of their own, switched on and off by the network,
  looked up by their code, debited by a sale, and closed when their sale is removed or what is left is refunded.

  The random numbers of a code are a parameter: a list of draws, of which the first that is not taken is used.
\<close>

section \<open>Data\<close>

record gift_card =
  gc_id :: int
  gc_createdAt :: int
  gc_networkId :: int
  gc_code :: string
  gc_initialValue :: rat
  gc_remainingValue :: rat
  gc_purchaserName :: "string option"
  gc_purchaserPhone :: "string option"
  gc_purchaserEmail :: "string option"
  gc_recipientName :: "string option"
  gc_message :: "string option"
  gc_isActive :: bool
  gc_expiresAt :: "int option"
  gc_currency :: "string option"
  gc_saleId :: "int option"

record gift_db = stock_db +
  giftCards :: "gift_card table"

section \<open>Selling a card\<close>

definition CODE_CHARS :: string where
  "CODE_CHARS = ''ABCDEFGHJKLMNPQRSTUVWXYZ23456789''"

text \<open>Eight numbers below the number of characters.\<close>

definition generateGiftCardCode :: "nat list \<Rightarrow> string" where
  "generateGiftCardCode draw = ''GIFT-'' @ map (\<lambda>i. CODE_CHARS ! (i mod length CODE_CHARS)) (take 8 draw)"

text \<open>The loop ends at the first free code; \<open>None\<close> when the draws run out.\<close>

fun free_code :: "'a gift_db_scheme \<Rightarrow> nat list list \<Rightarrow> string option" where
  "free_code db [] = None"
| "free_code db (draw # draws) = (let code = generateGiftCardCode draw in
     if find_first (\<lambda>g. gc_code g = code) (giftCards db) \<noteq> None then free_code db draws else Some code)"

definition NO_NETWORK_ACCESS :: http_error where
  "NO_NETWORK_ACCESS = Forbidden ''Sem acesso a esta rede''"

definition GIFT_CARD_SHOP_MESSAGE :: string where
  "GIFT_CARD_SHOP_MESSAGE = ''Escolha a unidade que esta vendendo o cartao-presente''"

record card_input =
  gi_initialValue :: rat
  gi_purchaserName :: "string option"
  gi_purchaserPhone :: "string option"
  gi_purchaserEmail :: "string option"
  gi_recipientName :: "string option"
  gi_message :: "string option"
  gi_expiresAt :: "int option"
  gi_barbershopId :: "int option"
  gi_paymentMethod :: "string option"

text \<open>Who may sell, for which shop, and the currency of the card.\<close>

definition card_checks :: "int \<Rightarrow> int \<Rightarrow> int \<Rightarrow> card_input \<Rightarrow> 'a gift_db_scheme \<Rightarrow> (int \<times> string) result" where
  "card_checks now userId networkId d db = (case find_first (\<lambda>n. nw_id n = networkId) (networks db) of
       None \<Rightarrow> Inl NO_NETWORK_ACCESS
     | Some network \<Rightarrow> (case gi_barbershopId d of
         None \<Rightarrow> Inl (if nw_ownerUserId network \<noteq> userId then Forbidden GIFT_CARD_SHOP_MESSAGE else BadRequest GIFT_CARD_SHOP_MESSAGE)
       | Some barbershopId \<Rightarrow>
           bindE (if nw_ownerUserId network \<noteq> userId
             then bindE (ensureBarbershopAccess db now userId barbershopId Reception) (\<lambda>shop.
               throwIf (bs_networkId (sa_shop shop) \<noteq> networkId) NO_NETWORK_ACCESS) else Inr ()) (\<lambda>_.
           bindE (throwIf (gi_initialValue d \<le> 0) (BadRequest ''O valor do cartao-presente deve ser maior que zero'')) (\<lambda>_.
           bindE (throwIf (case gi_expiresAt d of None \<Rightarrow> False | Some e \<Rightarrow> e \<le> now)
             (BadRequest ''A validade do cartao-presente nao pode ser no passado'')) (\<lambda>_.
           case find_first (\<lambda>s. bs_id s = barbershopId \<and> bs_networkId s = networkId) (barbershops db) of
             None \<Rightarrow> Inl (NotFound ''Unidade nao encontrada nesta rede'')
           | Some shop \<Rightarrow>
               bindE (checkMoney ''Valor do cartao-presente'' (Some (gi_initialValue d)) (Some (bs_currency shop))) (\<lambda>_.
               Inr (barbershopId, bs_currency shop)))))))"

definition new_card :: "int \<Rightarrow> int \<Rightarrow> card_input \<Rightarrow> string \<Rightarrow> string \<Rightarrow> int \<Rightarrow> int \<Rightarrow> gift_card" where
  "new_card now networkId d code currency saleId i = \<lparr>gc_id = i, gc_createdAt = now, gc_networkId = networkId, gc_code = code,
     gc_initialValue = gi_initialValue d, gc_remainingValue = gi_initialValue d, gc_purchaserName = gi_purchaserName d,
     gc_purchaserPhone = gi_purchaserPhone d, gc_purchaserEmail = gi_purchaserEmail d, gc_recipientName = gi_recipientName d,
     gc_message = gi_message d, gc_isActive = True, gc_expiresAt = gi_expiresAt d, gc_currency = Some currency, gc_saleId = Some saleId\<rparr>"

definition createGiftCard :: "nat list list \<Rightarrow> int \<Rightarrow> int \<Rightarrow> int \<Rightarrow> card_input \<Rightarrow> 'a gift_db_scheme \<Rightarrow> 'a gift_db_scheme result" where
  "createGiftCard draws now userId networkId d db =
     bindE (card_checks now userId networkId d db) (\<lambda>(barbershopId, currency).
     case free_code db draws of
       None \<Rightarrow> Inl (PlainError ''no free code'')
     | Some code \<Rightarrow>
         bindE (recordStandaloneSale db now barbershopId None ''GIFT_CARD'' (gi_initialValue d) (''Cartao-presente '' @ code) (gi_paymentMethod d)) (\<lambda>(saleId, db1).
         Inr (db1\<lparr>giftCards := create_row (new_card now networkId d code currency saleId) (giftCards db1)\<rparr>)))"

section \<open>The network and its cards\<close>

text \<open>Owner of the network, or the level asked for in one of its open shops.\<close>

definition ensureNetworkRole :: "int \<Rightarrow> int \<Rightarrow> int \<Rightarrow> access_level \<Rightarrow> 'a gift_db_scheme \<Rightarrow> unit result" where
  "ensureNetworkRole now userId networkId least db = (case find_first (\<lambda>n. nw_id n = networkId) (networks db) of
       None \<Rightarrow> Inl NO_NETWORK_ACCESS
     | Some network \<Rightarrow>
         if nw_ownerUserId network = userId then Inr ()
         else throwIf (\<not> list_ex (\<lambda>s. case accessLevelOf db now userId s of
                None \<Rightarrow> False | Some level \<Rightarrow> ACCESS_RANK level \<ge> ACCESS_RANK least)
              (find_many (\<lambda>s. bs_networkId s = networkId \<and> bs_closedAt s = None
                \<and> find_first (\<lambda>b. bb_barbershopId b = bs_id s \<and> bb_userId b = Some userId \<and> currentEngagement now b) (barbers db) \<noteq> None)
                (barbershops db))) NO_NETWORK_ACCESS)"

definition getGiftCards :: "int \<Rightarrow> int \<Rightarrow> int \<Rightarrow> 'a gift_db_scheme \<Rightarrow> (gift_card list) result" where
  "getGiftCards now userId networkId db =
     bindE (ensureNetworkRole now userId networkId Manager db) (\<lambda>_.
     Inr (sort_key (\<lambda>g. - gc_createdAt g) (find_many (\<lambda>g. gc_networkId g = networkId) (giftCards db))))"

definition setGiftCardActive :: "int \<Rightarrow> int \<Rightarrow> int \<Rightarrow> int \<Rightarrow> bool \<Rightarrow> 'a gift_db_scheme \<Rightarrow> 'a gift_db_scheme result" where
  "setGiftCardActive now userId networkId giftCardId isActive db =
     bindE (ensureNetworkRole now userId networkId Manager db) (\<lambda>_.
     bindE (throwIf (find_first (\<lambda>g. gc_id g = giftCardId \<and> gc_networkId g = networkId) (giftCards db) = None)
       (NotFound ''Cartao-presente nao encontrado'')) (\<lambda>_.
     Inr (db\<lparr>giftCards := update_many (\<lambda>g. gc_id g = giftCardId) (\<lambda>g. g\<lparr>gc_isActive := isActive\<rparr>) (giftCards db)\<rparr>)))"

section \<open>Using a card\<close>

definition validateGiftCard :: "int \<Rightarrow> int \<Rightarrow> string \<Rightarrow> 'a gift_db_scheme \<Rightarrow> gift_card result" where
  "validateGiftCard now barbershopId code db = (case shopById db barbershopId of
       None \<Rightarrow> Inl (NotFound ''Unidade nao encontrada'')
     | Some shop \<Rightarrow> (case find_first (\<lambda>g. gc_code g = js_upper (js_trim code)) (giftCards db) of
         None \<Rightarrow> Inl (NotFound ''Cartao-presente nao encontrado'')
       | Some g \<Rightarrow>
           bindE (throwIf (gc_networkId g \<noteq> bs_networkId shop) (NotFound ''Cartao-presente nao encontrado'')) (\<lambda>_.
           bindE (throwIf (\<not> gc_isActive g) (BadRequest ''Este cartao-presente esta inativo'')) (\<lambda>_.
           bindE (throwIf (\<not> sameCurrency (if gc_currency g \<noteq> None then gc_currency g else map_option nw_currency (networkOf db shop))
               (Some (bs_currency shop)))
             (BadRequest ''Este cartao-presente foi vendido em outra moeda e nao vale nesta unidade.'')) (\<lambda>_.
           bindE (throwIf (case gc_expiresAt g of None \<Rightarrow> False | Some e \<Rightarrow> e < now) (BadRequest ''Este cartao-presente expirou'')) (\<lambda>_.
           bindE (throwIf (gc_remainingValue g \<le> 0) (BadRequest ''Este cartao-presente nao tem saldo restante'')) (\<lambda>_. Inr g)))))))"

text \<open>Below a manager the answer leaves out who bought it and for whom.\<close>

definition lookupGiftCard :: "int \<Rightarrow> int \<Rightarrow> int \<Rightarrow> string \<Rightarrow> 'a gift_db_scheme \<Rightarrow> gift_card result" where
  "lookupGiftCard now userId barbershopId code db =
     bindE (ensureBarbershopAccess db now userId barbershopId Barber) (\<lambda>shop.
     bindE (validateGiftCard now barbershopId code db) (\<lambda>g.
     Inr (if ACCESS_RANK (sa_accessLevel shop) \<ge> ACCESS_RANK Manager then g
       else g\<lparr>gc_purchaserName := None, gc_purchaserPhone := None, gc_purchaserEmail := None, gc_recipientName := None, gc_message := None\<rparr>)))"

text \<open>The conditional debit in the transaction of a sale, and the balance given back when the sale is removed.\<close>

definition debit_card :: "int \<Rightarrow> rat \<Rightarrow> 'a gift_db_scheme \<Rightarrow> 'a gift_db_scheme result" where
  "debit_card i amount db = (let mine = (\<lambda>g. gc_id g = i \<and> gc_remainingValue g \<ge> amount) in
     if count_where mine (giftCards db) = 0
     then Inl (BadRequest ''O saldo do cartao-presente mudou enquanto a venda era registrada. Tente de novo.'')
     else Inr (db\<lparr>giftCards := update_many mine (\<lambda>g. g\<lparr>gc_remainingValue := gc_remainingValue g - amount\<rparr>) (giftCards db)\<rparr>))"

definition credit_card :: "int \<Rightarrow> rat \<Rightarrow> 'a gift_db_scheme \<Rightarrow> 'a gift_db_scheme" where
  "credit_card i amount db = db\<lparr>giftCards := update_many (\<lambda>g. gc_id g = i)
     (\<lambda>g. g\<lparr>gc_remainingValue := gc_remainingValue g + amount\<rparr>) (giftCards db)\<rparr>"

definition GIFT_CARD_SALE_USED :: http_error where
  "GIFT_CARD_SALE_USED = BadRequest ''Este cartao-presente ja foi usado. Estorne o que sobrou em vez de apagar a venda.''"

text \<open>
  The removal of the sale of a card: only an unused one. The update asks for an active card; one that is switched off
  is not changed, and passes because its balance is still whole.
\<close>

definition cancel_issued_card :: "int \<Rightarrow> 'a gift_db_scheme \<Rightarrow> 'a gift_db_scheme result" where
  "cancel_issued_card saleId db = (case find_first (\<lambda>g. gc_saleId g = Some saleId) (giftCards db) of
       None \<Rightarrow> Inr db
     | Some g \<Rightarrow>
         bindE (throwIf (gc_remainingValue g \<noteq> gc_initialValue g) GIFT_CARD_SALE_USED) (\<lambda>_.
         let mine = (\<lambda>c. gc_id c = gc_id g \<and> gc_saleId c = Some saleId \<and> gc_isActive c \<and> gc_remainingValue c = gc_initialValue g)
         in if count_where mine (giftCards db) \<noteq> 0
            then Inr (db\<lparr>giftCards := update_many mine (\<lambda>c. c\<lparr>gc_isActive := False, gc_remainingValue := 0\<rparr>) (giftCards db)\<rparr>)
            else (case find_first (\<lambda>c. gc_id c = gc_id g) (giftCards db) of
                None \<Rightarrow> Inl GIFT_CARD_SALE_USED
              | Some again \<Rightarrow> bindE (throwIf (gc_remainingValue again \<noteq> gc_initialValue again) GIFT_CARD_SALE_USED) (\<lambda>_. Inr db))))"

text \<open>The refund of what is left: the new total of the sale, and the card closed.\<close>

definition refund_issued_card :: "int \<Rightarrow> rat \<Rightarrow> gift_card \<Rightarrow> 'a gift_db_scheme \<Rightarrow> (rat \<times> 'a gift_db_scheme) result" where
  "refund_issued_card saleId total_paid g db =
     bindE (throwIf (gc_remainingValue g \<ge> gc_initialValue g) (BadRequest ''O cartao-presente nao foi usado. Apague a venda para cancelar.'')) (\<lambda>_.
     bindE (throwIf (gc_remainingValue g \<le> 0) (BadRequest ''Nao sobrou valor para estornar.'')) (\<lambda>_.
     let mine = (\<lambda>c. gc_id c = gc_id g \<and> gc_saleId c = Some saleId \<and> gc_remainingValue c = gc_remainingValue g)
     in if count_where mine (giftCards db) = 0 then Inl (BadRequest ''O cartao-presente mudou. Tente de novo.'')
        else Inr (round2 (max 0 (total_paid - gc_remainingValue g)),
          db\<lparr>giftCards := update_many mine (\<lambda>c. c\<lparr>gc_remainingValue := 0, gc_isActive := False\<rparr>) (giftCards db)\<rparr>)))"

end
