(* ===== verification/Commissions.thy ===== *)
theory Commissions
  imports Gift_Cards
begin

text \<open>
  The commission of a professional on the sales paid (\<open>barbershop.service.ts\<close>): the rule that applies, the value of a session
  covered by a package or by the club, the sums of a period, and the correction that follows a change of a sale whose
  commission was already paid. The name of the professional in the rows is left out.
\<close>

section \<open>Data\<close>

record commission_rule =
  cr_id :: int
  cr_barbershopId :: int
  cr_barberId :: "int option"
  cr_itemType :: string
  cr_percentage :: rat

record commission_db = gift_db +
  commissionRules :: "commission_rule table"

definition REFUND_SALE_TYPE :: string where "REFUND_SALE_TYPE = ''REFUND''"

section \<open>The rule and the value of a covered session\<close>

fun first_rule :: "(commission_rule \<Rightarrow> bool) list \<Rightarrow> commission_rule list \<Rightarrow> rat" where
  "first_rule [] rules = 0"
| "first_rule (p # ps) rules = (case find p rules of Some r \<Rightarrow> cr_percentage r | None \<Rightarrow> first_rule ps rules)"

text \<open>The rule of the professional for the type, then for everything, then the rule of the shop.\<close>

definition resolvePercentage :: "commission_rule list \<Rightarrow> int \<Rightarrow> string \<Rightarrow> rat" where
  "resolvePercentage rules barberId itemType = first_rule
     [\<lambda>r. cr_barberId r = Some barberId \<and> cr_itemType r = itemType,
      \<lambda>r. cr_barberId r = Some barberId \<and> cr_itemType r = ''ALL'',
      \<lambda>r. cr_barberId r = None \<and> cr_itemType r = itemType,
      \<lambda>r. cr_barberId r = None \<and> cr_itemType r = ''ALL''] rules"

text \<open>The service a debit covers and what one session of its package cost.\<close>

definition package_session_value :: "'a commission_db_scheme \<Rightarrow> package_use \<Rightarrow> (int \<times> rat) option" where
  "package_session_value db u =
     Option.bind (find_first (\<lambda>p. cp_id p = pu_clientPackageId u) (clientPackages db)) (\<lambda>p.
     Option.bind (find_first (\<lambda>s. sp_id s = cp_servicePackageId p) (servicePackages db)) (\<lambda>offer.
     let sold = Option.bind (cp_saleId p) (\<lambda>i. find_first (\<lambda>s. se_id s = i) (sales db));
         paid = (case sold of None \<Rightarrow> sp_price offer | Some s \<Rightarrow> se_total s);
         sessions = (case sold of None \<Rightarrow> sp_totalSessions offer | Some _ \<Rightarrow> cp_totalSessions p)
     in if sessions > 0 then Some (sp_serviceId offer, paid / of_int sessions) else None))"

text \<open>The last debit of the sale decides.\<close>

definition package_of_sale :: "'a commission_db_scheme \<Rightarrow> int \<Rightarrow> (int \<times> rat) option" where
  "package_of_sale db saleId = fold (\<lambda>u best. case package_session_value db u of None \<Rightarrow> best | Some v \<Rightarrow> Some v)
     (find_many (\<lambda>u. pu_saleId u = Some saleId \<and> pu_undoneAt u = None) (packageUses db)) None"

definition club_service :: "'a commission_db_scheme \<Rightarrow> int \<Rightarrow> int option" where
  "club_service db subscriptionId =
     Option.bind (find_first (\<lambda>s. cb_id s = subscriptionId) (clientSubscriptions db)) (\<lambda>s.
     map_option sl_planServiceId (find_first (\<lambda>p. sl_id p = cb_planId s) (subscriptionPlans db)))"

definition coveredSessionValues :: "'a commission_db_scheme \<Rightarrow> sale \<Rightarrow> sale_item \<Rightarrow> rat" where
  "coveredSessionValues db sale' item = (let
       pkg = package_of_sale db (se_id sale');
       priced = Option.bind (it_serviceId item) (\<lambda>i. find_first (\<lambda>s. sv_id s = i) (services db))
     in case pkg of
          Some (serviceId, v) \<Rightarrow> if Some serviceId = it_serviceId item then v
            else if se_clientSubscriptionId sale' \<noteq> None \<and> priced \<noteq> None
              \<and> Option.bind (se_clientSubscriptionId sale') (club_service db) = it_serviceId item then sv_price (the priced) else 0
        | None \<Rightarrow> if se_clientSubscriptionId sale' \<noteq> None \<and> priced \<noteq> None
              \<and> Option.bind (se_clientSubscriptionId sale') (club_service db) = it_serviceId item then sv_price (the priced) else 0)"

section \<open>The commission of a period\<close>

record tally =
  ta_barberId :: int
  ta_salesCount :: int
  ta_serviceSales :: rat
  ta_productSales :: rat
  ta_serviceCommission :: rat
  ta_productCommission :: rat

definition new_tally :: "int \<Rightarrow> tally" where
  "new_tally barberId = \<lparr>ta_barberId = barberId, ta_salesCount = 0, ta_serviceSales = 0, ta_productSales = 0,
     ta_serviceCommission = 0, ta_productCommission = 0\<rparr>"

definition total_commission :: "tally \<Rightarrow> rat" where
  "total_commission t = ta_serviceCommission t + ta_productCommission t"

text \<open>The discount of the sale lowers every item by the same share.\<close>

definition items_sum :: "sale \<Rightarrow> rat" where
  "items_sum sale' = sum_list (map it_totalPrice (se_items sale'))"

definition discount_factor :: "sale \<Rightarrow> rat" where
  "discount_factor sale' = (let itemsSum = items_sum sale' in
     if itemsSum > 0 then max 0 (itemsSum - se_discountAmount sale') / itemsSum else if itemsSum < 0 then 1 else 0)"

definition covered_value :: "'a commission_db_scheme \<Rightarrow> sale \<Rightarrow> sale_item \<Rightarrow> rat" where
  "covered_value db sale' item = (if it_itemType item = ''SERVICE'' \<and> it_totalPrice item = 0 \<and> it_serviceId item \<noteq> None
     then coveredSessionValues db sale' item else 0)"

definition tally_item :: "'a commission_db_scheme \<Rightarrow> commission_rule list \<Rightarrow> sale \<Rightarrow> sale_item \<Rightarrow> tally \<Rightarrow> tally" where
  "tally_item db rules sale' item t = (let covered = covered_value db sale' item in
     if covered > 0 then t\<lparr>ta_serviceCommission := ta_serviceCommission t
       + covered * resolvePercentage rules (ta_barberId t) ''SERVICE'' / 100\<rparr>
     else (let price = it_totalPrice item * discount_factor sale';
               pct = resolvePercentage rules (ta_barberId t) (it_itemType item)
       in if it_itemType item = ''PRODUCT''
          then t\<lparr>ta_productSales := ta_productSales t + price, ta_productCommission := ta_productCommission t + price * pct / 100\<rparr>
          else t\<lparr>ta_serviceSales := ta_serviceSales t + price, ta_serviceCommission := ta_serviceCommission t + price * pct / 100\<rparr>))"

definition tally_sale :: "'a commission_db_scheme \<Rightarrow> commission_rule list \<Rightarrow> sale \<Rightarrow> tally \<Rightarrow> tally" where
  "tally_sale db rules sale' t = fold (tally_item db rules sale') (se_items sale')
     (t\<lparr>ta_salesCount := ta_salesCount t + (if se_saleType sale' \<noteq> REFUND_SALE_TYPE then 1 else 0)\<rparr>)"

text \<open>The row of a professional, made at the first sale.\<close>

fun for_barber :: "int \<Rightarrow> (tally \<Rightarrow> tally) \<Rightarrow> tally list \<Rightarrow> tally list" where
  "for_barber i f [] = [f (new_tally i)]"
| "for_barber i f (t # ts) = (if ta_barberId t = i then f t # ts else t # for_barber i f ts)"

definition commissioned_sale :: "int \<Rightarrow> int \<Rightarrow> int \<Rightarrow> (int list) option \<Rightarrow> sale \<Rightarrow> bool" where
  "commissioned_sale barbershopId from' to' saleIds s \<longleftrightarrow> se_barbershopId s = barbershopId \<and> se_paymentStatus s = ''PAID''
     \<and> se_barberId s \<noteq> None
     \<and> (case saleIds of
          Some ids \<Rightarrow> se_id s \<in> set ids
        | None \<Rightarrow> (case se_paidAt s of
            Some t \<Rightarrow> from' \<le> t \<and> t \<le> to'
          | None \<Rightarrow> from' \<le> se_createdAt s \<and> se_createdAt s \<le> to'))"

definition computeCommissions :: "'a commission_db_scheme \<Rightarrow> int \<Rightarrow> int \<Rightarrow> int \<Rightarrow> (int list) option \<Rightarrow> tally list \<times> rat" where
  "computeCommissions db barbershopId from' to' saleIds = (let
       rules = find_many (\<lambda>r. cr_barbershopId r = barbershopId) (commissionRules db);
       rows' = fold (\<lambda>s. for_barber (case se_barberId s of None \<Rightarrow> 0 | Some b \<Rightarrow> b) (tally_sale db rules s))
         (find_many (commissioned_sale barbershopId from' to' saleIds) (sales db)) []
     in (sort_key (\<lambda>t. - total_commission t) rows', sum_list (map total_commission rows')))"

section \<open>A sale whose commission was paid\<close>

definition paidCommissionPayout :: "'a shop_db_scheme \<Rightarrow> sale \<Rightarrow> bool" where
  "paidCommissionPayout db s = (case se_barberId s of
       None \<Rightarrow> False
     | Some b \<Rightarrow> se_paymentStatus s = ''PAID'' \<and> (let date = (case se_paidAt s of None \<Rightarrow> se_createdAt s | Some t \<Rightarrow> t) in
         find_first (\<lambda>p. po_barberId p = b \<and> po_periodStart p \<le> date \<and> po_periodEnd p \<ge> date) (payouts db) \<noteq> None))"

definition saleCommission :: "'a commission_db_scheme \<Rightarrow> int \<Rightarrow> int \<Rightarrow> int \<Rightarrow> rat" where
  "saleCommission db barbershopId saleId barberId =
     round2 (case find (\<lambda>t. ta_barberId t = barberId) (fst (computeCommissions db barbershopId 0 0 (Some [saleId]))) of
       None \<Rightarrow> 0 | Some t \<Rightarrow> total_commission t)"

definition commissionAdjustment :: "int \<Rightarrow> int \<Rightarrow> int \<Rightarrow> rat \<Rightarrow> int \<Rightarrow> string \<Rightarrow> 'a shop_db_scheme \<Rightarrow> 'a shop_db_scheme" where
  "commissionAdjustment now barbershopId barberId delta userId note' db = (let amount = round2 \<bar>delta\<bar> in
     if amount < 1 / 100 then db
     else db\<lparr>payEntries := create_row (\<lambda>i. \<lparr>pe_id = i, pe_barbershopId = barbershopId, pe_barberId = barberId,
       pe_type = (if delta > 0 then ''BONUS'' else ''DEDUCTION''), pe_amount = amount, pe_method = None, pe_date = now, pe_notes = Some note',
       pe_createdByUserId = userId, pe_payoutId = None, pe_expenseId = None,
       pe_cashSessionId = None\<rparr>) (payEntries db)\<rparr>)"

end
