(* ===== verification/Sales.thy ===== *)
theory Sales
  imports Commissions
begin

text \<open>
  The sales of a shop (\<open>barbershop.service.ts\<close>): \<open>createSale\<close>, \<open>updateSale\<close>, \<open>deleteSale\<close>, the refund of what is left of a
  package or gift card, the fee of a missed appointment collected as a sale, and what each of them moves: gift cards, points,
  referrals, sessions, stock, the commission.

  A sale and its items are one row. \<open>createSale\<close> reads and decides before its transaction; the reading gives a \<open>sale_plan\<close>, and
  the transaction (\<open>sale_write\<close>) runs on the database as it is then, so that other requests can come in between.
  The call that cancels an unfinished payment at the provider has no effect on the database and its errors are ignored: it is left out.
  The names the answers add for the screen are left out.
\<close>

section \<open>Data\<close>

record customer_referral =
  rf_id :: int
  rf_networkId :: int
  rf_referrerId :: int
  rf_referredId :: int
  rf_pointsAwarded :: "int option"
  rf_completedAt :: "int option"
  rf_saleId :: "int option"

record sale_db = commission_db +
  customerReferrals :: "customer_referral table"

record sale_input =
  si_customerId :: "int option"
  si_barberId :: "int option"
  si_appointmentId :: "int option"
  si_saleType :: string
  si_items :: "sale_item list"
  si_subtotal :: rat
  si_discountAmount :: "rat option"
  si_taxAmount :: "rat option"
  si_total :: rat
  si_paymentStatus :: "string option"
  si_paymentMethod :: "string option"
  si_giftCardCode :: "string option"
  si_loyaltyPointsRedeemed :: "int option"
  si_clientSubscriptionId :: "int option"
  si_clientPackageId :: "int option"

section \<open>The amounts of a sale\<close>

fun check_item_amounts :: "string option \<Rightarrow> sale_item list \<Rightarrow> unit result" where
  "check_item_amounts currency [] = Inr ()"
| "check_item_amounts currency (i # items) =
     bindE (throwIf (it_quantity i < 1 \<or> it_quantity i > 1000) (BadRequest ''Quantidade invalida'')) (\<lambda>_.
     bindE (checkMoney ''Preco'' (Some (it_unitPrice i)) currency) (\<lambda>_.
     bindE (checkMoney ''Preco'' (Some (it_totalPrice i)) currency) (\<lambda>_. check_item_amounts currency items)))"

definition checkSaleAmounts :: "rat option \<Rightarrow> rat option \<Rightarrow> rat option \<Rightarrow> rat option \<Rightarrow> int option \<Rightarrow> sale_item list \<Rightarrow> string option \<Rightarrow> unit result" where
  "checkSaleAmounts subtotal discount tax total' points items currency =
     bindE (checkMoney ''Subtotal'' subtotal currency) (\<lambda>_.
     bindE (checkMoney ''Desconto'' discount currency) (\<lambda>_.
     bindE (checkMoney ''Imposto'' tax currency) (\<lambda>_.
     bindE (checkMoney ''Total'' total' currency) (\<lambda>_.
     bindE (throwIf (case points of None \<Rightarrow> False | Some p \<Rightarrow> p < 0) (BadRequest ''Pontos invalidos'')) (\<lambda>_.
     check_item_amounts currency items)))))"

definition MONEY_TOLERANCE :: rat where "MONEY_TOLERANCE = 1 / 100"

definition off_by :: "rat \<Rightarrow> rat \<Rightarrow> bool" where
  "off_by a b \<longleftrightarrow> \<bar>a - b\<bar> > MONEY_TOLERANCE"

definition checkSaleConsistency :: "sale_item list \<Rightarrow> rat \<Rightarrow> rat \<Rightarrow> rat \<Rightarrow> rat \<Rightarrow> unit result" where
  "checkSaleConsistency items subtotal discount tax total' =
     bindE (throwIf (list_ex (\<lambda>i. off_by (it_totalPrice i) (of_int (it_quantity i) * it_unitPrice i)) items)
       (BadRequest ''O valor de um item nao bate com quantidade x preco'')) (\<lambda>_.
     bindE (throwIf (off_by subtotal (sum_list (map it_totalPrice items))) (BadRequest ''O subtotal nao bate com a soma dos itens'')) (\<lambda>_.
     throwIf (off_by total' (max 0 (subtotal - discount + tax))) (BadRequest ''O total nao bate com subtotal - desconto + imposto'')))"

text \<open>What the customer really paid: gift cards and redeemed points do not count.\<close>

definition loyaltyMoneyBase :: "rat \<Rightarrow> rat \<Rightarrow> rat \<Rightarrow> rat" where
  "loyaltyMoneyBase total' depositApplied prepaidApplied = max 0 (total' + depositApplied + prepaidApplied)"

definition loyaltyEarnedFor :: "network \<Rightarrow> string \<Rightarrow> rat \<Rightarrow> int option \<Rightarrow> int" where
  "loyaltyEarnedFor network paymentStatus total' customerId =
     (if paymentStatus \<noteq> ''PAID'' \<or> \<not> truthy customerId \<or> \<not> nw_loyaltyEnabled network then 0
      else (let perUnit = amount_or_0 (nw_loyaltyPointsPerCurrencyUnit network) in
        if perUnit \<le> 0 then 0 else \<lfloor>total' * perUnit\<rfloor>))"

text \<open>Who pays what: the deposit, the amount paid in the app, the gift card, the points, and what is left to pay.\<close>

record sale_split =
  ss_deposit :: rat
  ss_prepaid :: rat
  ss_card :: rat
  ss_points :: int
  ss_pointsValue :: rat
  ss_left :: rat

definition js_ceil :: "rat \<Rightarrow> int" where
  "js_ceil x = \<lceil>x\<rceil>"

definition SALE_BELOW_APPLIED :: http_error where
  "SALE_BELOW_APPLIED = BadRequest ''O valor ficou menor do que ja foi pago com sinal, app, cartao-presente ou pontos.''"

definition split_sale :: "rat \<Rightarrow> rat \<Rightarrow> rat \<Rightarrow> rat option \<Rightarrow> int option \<Rightarrow> rat \<Rightarrow> sale_split result" where
  "split_sale full depositPaid prepaid voucher points pointValue = (let
       total' = max 0 full
     in if round2 (depositPaid + prepaid) > total' + 1 / 200 then Inl SALE_BELOW_APPLIED
        else (let
          depositApplied = min depositPaid total';
          prepaidApplied = min prepaid (total' - depositApplied);
          left0 = round2 (total' - depositApplied - prepaidApplied);
          cardApplied = (case voucher of None \<Rightarrow> 0 | Some v \<Rightarrow> round2 (min v left0));
          left1 = (case voucher of None \<Rightarrow> left0 | Some _ \<Rightarrow> round2 (left0 - cardApplied));
          wanted = (case points of None \<Rightarrow> 0 | Some p \<Rightarrow> p);
          redeemed = (if wanted > 0 \<and> pointValue > 0 then min wanted (js_ceil (left1 / pointValue)) else 0);
          value = (if wanted > 0 then round2 (min (of_int redeemed * pointValue) left1) else 0);
          left2 = (if wanted > 0 then round2 (left1 - value) else left1)
        in Inr \<lparr>ss_deposit = depositApplied, ss_prepaid = prepaidApplied, ss_card = cardApplied, ss_points = redeemed,
             ss_pointsValue = value, ss_left = left2\<rparr>))"

section \<open>Points and referrals\<close>

definition add_points :: "int \<Rightarrow> int \<Rightarrow> 'a solo_db_scheme \<Rightarrow> 'a solo_db_scheme" where
  "add_points customerId delta db = db\<lparr>customers := update_many (\<lambda>c. cu_id c = customerId)
     (\<lambda>c. c\<lparr>cu_loyaltyPoints := cu_loyaltyPoints c + delta\<rparr>) (customers db)\<rparr>"

text \<open>\<open>GREATEST(0, "loyaltyPoints" + delta)\<close>\<close>

definition take_points :: "int \<Rightarrow> int \<Rightarrow> 'a solo_db_scheme \<Rightarrow> 'a solo_db_scheme" where
  "take_points customerId delta db = db\<lparr>customers := update_many (\<lambda>c. cu_id c = customerId)
     (\<lambda>c. c\<lparr>cu_loyaltyPoints := max 0 (cu_loyaltyPoints c + delta)\<rparr>) (customers db)\<rparr>"

definition addLoyaltyPoints :: "int \<Rightarrow> int \<Rightarrow> 'a solo_db_scheme \<Rightarrow> 'a solo_db_scheme" where
  "addLoyaltyPoints customerId delta db = (if delta > 0 then add_points customerId delta db
     else if delta < 0 then take_points customerId delta db else db)"

definition completeReferralIfPaid :: "int \<Rightarrow> network \<Rightarrow> int option \<Rightarrow> rat \<Rightarrow> int \<Rightarrow> 'a sale_db_scheme \<Rightarrow> 'a sale_db_scheme" where
  "completeReferralIfPaid now network customerId moneyPaid saleId db =
     (if \<not> truthy customerId \<or> \<not> nw_loyaltyEnabled network \<or> moneyPaid \<le> 0 then db
      else (case find_first (\<lambda>r. Some (rf_referredId r) = customerId) (customerReferrals db) of
          None \<Rightarrow> db
        | Some referral \<Rightarrow>
            if rf_completedAt referral \<noteq> None then db
            else (let
                bonusPoints = nw_referralBonusPoints network;
                mine = (\<lambda>r. rf_id r = rf_id referral \<and> rf_completedAt r = None);
                db1 = db\<lparr>customerReferrals := update_many mine (\<lambda>r. r\<lparr>rf_completedAt := Some now, rf_pointsAwarded := Some bonusPoints,
                  rf_saleId := Some saleId\<rparr>) (customerReferrals db)\<rparr>
              in if count_where mine (customerReferrals db) = 1 \<and> bonusPoints > 0 then add_points (rf_referrerId referral) bonusPoints db1 else db1)))"

definition revertReferralOfSale :: "int \<Rightarrow> 'a sale_db_scheme \<Rightarrow> 'a sale_db_scheme" where
  "revertReferralOfSale saleId db = (case find_first (\<lambda>r. rf_saleId r = Some saleId) (customerReferrals db) of
       None \<Rightarrow> db
     | Some referral \<Rightarrow> (let
           mine = (\<lambda>r. rf_id r = rf_id referral \<and> rf_saleId r = Some saleId);
           db1 = db\<lparr>customerReferrals := update_many mine (\<lambda>r. r\<lparr>rf_completedAt := None, rf_pointsAwarded := None, rf_saleId := None\<rparr>)
             (customerReferrals db)\<rparr>;
           points = (case rf_pointsAwarded referral of None \<Rightarrow> 0 | Some p \<Rightarrow> p)
         in if count_where mine (customerReferrals db) = 1 \<and> points > 0 then take_points (rf_referrerId referral) (- points) db1 else db1))"

section \<open>Charging\<close>

definition is_product :: "sale_item \<Rightarrow> bool" where
  "is_product i \<longleftrightarrow> it_itemType i = ''PRODUCT'' \<or> truthy (it_productId i)"

definition given_ids :: "(sale_item \<Rightarrow> int option) \<Rightarrow> sale_item list \<Rightarrow> int list" where
  "given_ids f items = map (\<lambda>i. the (f i)) (filter (\<lambda>i. truthy (f i)) items)"

definition ensureServiceHistoriesOfBarbershop :: "'a shop_db_scheme \<Rightarrow> int \<Rightarrow> int list \<Rightarrow> unit result" where
  "ensureServiceHistoriesOfBarbershop db barbershopId historyIds = (let unique = remdups historyIds in
     throwIf (unique \<noteq> [] \<and> count_where (\<lambda>h. hi_id h \<in> set unique \<and> hi_barbershopId h = barbershopId) (serviceHistories db)
         \<noteq> int (length unique))
       (NotFound ''Historico de atendimento nao encontrado nesta unidade''))"

definition units_of :: "sale_item list \<Rightarrow> int" where
  "units_of items = productUnits (map (\<lambda>i. (Some (it_itemType i), it_productId i, Some (it_quantity i))) items)"

fun limit_notes :: "sale_item list \<Rightarrow> (sale_item list) result" where
  "limit_notes [] = Inr []"
| "limit_notes (i # items) = bindE (limitedCatalogText (it_notes i)) (\<lambda>n.
     bindE (limit_notes items) (\<lambda>rest. Inr (i\<lparr>it_notes := n\<rparr> # rest)))"

text \<open>A barber only charges in the own name. The input with the professional who gets the sale.\<close>

definition own_sale :: "int option \<Rightarrow> sale_input \<Rightarrow> sale_input result" where
  "own_sale ownBarberId d = (case ownBarberId of
       None \<Rightarrow> Inr d
     | Some own \<Rightarrow> bindE (throwIf (truthy (si_barberId d) \<and> si_barberId d \<noteq> Some own) (Forbidden ''Voce so registra vendas suas.'')) (\<lambda>_.
         Inr (d\<lparr>si_barberId := Some own\<rparr>)))"

text \<open>The bill of an appointment: its deposit, what was paid in the app and not refunded, and its customer.\<close>

definition appointment_bill :: "int \<Rightarrow> int option \<Rightarrow> sale_input \<Rightarrow> 'a shop_db_scheme \<Rightarrow> (rat \<times> rat \<times> sale_input) result" where
  "appointment_bill barbershopId ownBarberId d db =
     (if \<not> truthy (si_appointmentId d) then Inr (0, 0, d)
      else (case find_first (\<lambda>a. Some (ap_id a) = si_appointmentId d \<and> ap_barbershopId a = barbershopId) (appointments db) of
          None \<Rightarrow> Inl (NotFound ''Agendamento nao encontrado'')
        | Some a \<Rightarrow>
            bindE (ensureOwnAppointment ownBarberId (ap_barberId a)) (\<lambda>_.
            bindE (throwIf (saleOf db (ap_id a) \<noteq> None) (BadRequest ''Este atendimento ja foi cobrado'')) (\<lambda>_.
            bindE (throwIf (ap_status a \<in> {''CANCELLED'', ''NO_SHOW'', ''PENDING_PAYMENT''}) (BadRequest ''Este horario nao pode ser cobrado'')) (\<lambda>_.
            bindE (throwIf (truthy (si_customerId d) \<and> si_customerId d \<noteq> Some (ap_customerId a))
              (BadRequest ''A conta do horario e do cliente do horario. Para outro cliente, registre uma venda separada.'')) (\<lambda>_.
            Inr (if ap_depositPaid a then amount_or_0 (ap_depositAmount a) else 0,
              if ap_prepaidAt a \<noteq> None \<and> ap_prepaidRefundedAt a = None
              then amount_or_0 (ap_prepaidAmount a) - amount_or_0 (ap_prepaidRefundedAmount a) else 0,
              d\<lparr>si_customerId := Some (ap_customerId a)\<rparr>)))))))"

text \<open>What is checked before the quota of products: the access, the input, the ids.\<close>

definition sale_checks :: "int \<Rightarrow> int \<Rightarrow> int \<Rightarrow> sale_input \<Rightarrow> 'a shop_db_scheme
    \<Rightarrow> (shop_access \<times> rat \<times> rat \<times> sale_input) result" where
  "sale_checks now userId barbershopId d db =
     bindE (ensureBarbershopAccess db now userId barbershopId Barber) (\<lambda>shop.
     bindE (if list_ex is_product (si_items d) then ensureModuleAccess db now barbershopId Mod_products else Inr ()) (\<lambda>_.
     bindE (checkSaleAmounts (Some (si_subtotal d)) (si_discountAmount d) (si_taxAmount d) (Some (si_total d))
       (si_loyaltyPointsRedeemed d) (si_items d) (Some (bs_currency (sa_shop shop)))) (\<lambda>_.
     bindE (checkSaleKinds \<lparr>sk_saleType = Some (si_saleType d), sk_itemTypes = Some (map it_itemType (si_items d)),
       sk_paymentStatus = Some (case si_paymentStatus d of None \<Rightarrow> ''PENDING'' | Some p \<Rightarrow> p), sk_paymentMethod = si_paymentMethod d\<rparr> None) (\<lambda>_.
     bindE (limit_notes (si_items d)) (\<lambda>items.
     let ownBarberId = ownBarberIdIfBarber db userId shop in
     bindE (own_sale ownBarberId (d\<lparr>si_items := items\<rparr>)) (\<lambda>d.
     bindE (if truthy (si_customerId d) then ensureCustomerOfNetwork db (bs_networkId (sa_shop shop)) (the (si_customerId d)) else Inr ()) (\<lambda>_.
     bindE (if truthy (si_barberId d)
       then bindE (ensureBarberOfBarbershop db barbershopId (the (si_barberId d)) (\<not> truthy (si_appointmentId d))) (\<lambda>_. Inr ()) else Inr ()) (\<lambda>_.
     bindE (appointment_bill barbershopId ownBarberId d db) (\<lambda>(depositPaid, prepaid, d).
     bindE (ensureItemsOfBarbershop db barbershopId (given_ids it_serviceId items) (given_ids it_productId items) True) (\<lambda>_.
     bindE (ensureServiceHistoriesOfBarbershop db barbershopId (given_ids it_serviceHistoryId items)) (\<lambda>_.
     Inr (shop, depositPaid, prepaid, d))))))))))))"

text \<open>The plan of a sale: what the transaction will write and debit.\<close>

record sale_plan =
  sn_data :: sale_input
  sn_network :: network
  sn_card :: "int option"
  sn_split :: sale_split
  sn_club :: "(int \<times> int option \<times> int) option"
  sn_package :: "(int \<times> int) option"
  sn_cashSessionId :: "int option"

definition enough_points :: "network \<Rightarrow> sale_input \<Rightarrow> 'a solo_db_scheme \<Rightarrow> unit result" where
  "enough_points network d db = (let wanted = (case si_loyaltyPointsRedeemed d of None \<Rightarrow> 0 | Some p \<Rightarrow> p) in
     if wanted \<le> 0 then Inr ()
     else bindE (throwIf (\<not> nw_loyaltyEnabled network) (BadRequest ''O programa de fidelidade esta desligado.'')) (\<lambda>_.
       bindE (throwIf (\<not> truthy (si_customerId d)) (BadRequest ''Selecione um cliente para resgatar pontos de fidelidade'')) (\<lambda>_.
       case find_first (\<lambda>c. Some (cu_id c) = si_customerId d) (customers db) of
         None \<Rightarrow> Inl (NotFound ''Cliente nao encontrado'')
       | Some c \<Rightarrow> throwIf (cu_loyaltyPoints c < wanted) (BadRequest ''Cliente nao tem pontos de fidelidade suficientes''))))"

definition optional :: "'x option \<Rightarrow> ('x \<Rightarrow> 'y result) \<Rightarrow> ('y option) result" where
  "optional x f = (case x of None \<Rightarrow> Inr None | Some v \<Rightarrow> bindE (f v) (\<lambda>y. Inr (Some y)))"

definition nonzero :: "int option \<Rightarrow> int option" where
  "nonzero i = (if truthy i then i else None)"

definition sale_prepare :: "int \<Rightarrow> int \<Rightarrow> shop_access \<times> rat \<times> rat \<times> sale_input \<Rightarrow> 'a gift_db_scheme \<Rightarrow> sale_plan result" where
  "sale_prepare now barbershopId checked db = (case checked of (shop, depositPaid, prepaid, d) \<Rightarrow>
     bindE (checkSaleConsistency (si_items d) (si_subtotal d) (amount_or_0 (si_discountAmount d)) (amount_or_0 (si_taxAmount d)) (si_total d)) (\<lambda>_.
     bindE (optional (nonzero (si_clientSubscriptionId d)) (\<lambda>i. prepareClubSession (bs_networkId (sa_shop shop)) barbershopId (si_customerId d) i (si_items d) db)) (\<lambda>club.
     bindE (optional (nonzero (si_clientPackageId d)) (\<lambda>i. preparePackageSession now barbershopId (si_customerId d) i (si_items d) db)) (\<lambda>package.
     bindE (throwIf (case (club, package) of (Some (_, _, c), Some (_, p)) \<Rightarrow> c = p | _ \<Rightarrow> False)
       (BadRequest ''Use o clube ou o pacote neste servico, nao os dois.'')) (\<lambda>_.
     bindE (optional (if given (si_giftCardCode d) then si_giftCardCode d else None) (\<lambda>code. validateGiftCard now barbershopId code db)) (\<lambda>card.
     case sa_network shop of
       None \<Rightarrow> Inl (PlainError ''network'')
     | Some network \<Rightarrow>
         bindE (enough_points network d db) (\<lambda>_.
         bindE (split_sale (si_total d) depositPaid prepaid (map_option gc_remainingValue card) (si_loyaltyPointsRedeemed d)
           (amount_or_0 (nw_loyaltyPointValue network))) (\<lambda>split.
         Inr \<lparr>sn_data = d, sn_network = network, sn_card = map_option gc_id card, sn_split = split, sn_club = club, sn_package = package,
           sn_cashSessionId = (if si_paymentStatus d = Some ''PAID'' then map_option cs_id (openSession db barbershopId) else None)\<rparr>))))))))"

text \<open>The points a paid sale earns, with what was paid before.\<close>

definition points_earned :: "sale_plan \<Rightarrow> int" where
  "points_earned p = (let d = sn_data p; s = sn_split p; perUnit = amount_or_0 (nw_loyaltyPointsPerCurrencyUnit (sn_network p)) in
     if si_paymentStatus d = Some ''PAID'' \<and> truthy (si_customerId d) \<and> nw_loyaltyEnabled (sn_network p) \<and> perUnit \<noteq> 0
     then max 0 \<lfloor>loyaltyMoneyBase (ss_left s) (ss_deposit s) (ss_prepaid s) * perUnit\<rfloor> else 0)"

definition positive :: "rat \<Rightarrow> rat option" where
  "positive x = (if x > 0 then Some x else None)"

definition new_sale :: "int \<Rightarrow> int \<Rightarrow> sale_plan \<Rightarrow> int \<Rightarrow> sale" where
  "new_sale now barbershopId p i = (let d = sn_data p; s = sn_split p; paid = (si_paymentStatus d = Some ''PAID'') in
     \<lparr>se_id = i, se_barbershopId = barbershopId, se_createdAt = now, se_customerId = si_customerId d, se_barberId = si_barberId d,
       se_appointmentId = si_appointmentId d, se_cashSessionId = sn_cashSessionId p, se_saleType = si_saleType d,
       se_subtotal = si_subtotal d, se_discountAmount = amount_or_0 (si_discountAmount d), se_taxAmount = amount_or_0 (si_taxAmount d),
       se_total = ss_left s, se_paymentStatus = (case si_paymentStatus d of None \<Rightarrow> ''PENDING'' | Some x \<Rightarrow> x),
       se_paymentMethod = si_paymentMethod d, se_paidAt = (if paid then Some now else None), se_giftCardId = sn_card p,
       se_giftCardAmountApplied = (if sn_card p = None then None else Some (ss_card s)),
       se_loyaltyPointsEarned = (if points_earned p > 0 then Some (points_earned p) else None),
       se_loyaltyPointsRedeemed = nonzero (Some (ss_points s)), se_loyaltyDiscountAmount = positive (ss_pointsValue s),
       se_depositApplied = positive (ss_deposit s), se_prepaidApplied = positive (ss_prepaid s),
       se_clientSubscriptionId = map_option fst (sn_club p), se_items = si_items d\<rparr>)"

section \<open>The transaction of a sale\<close>

text \<open>An appointment that was charged is done, unless it has not begun yet.\<close>

definition complete_appointment :: "int \<Rightarrow> int option \<Rightarrow> 'a agenda_db_scheme \<Rightarrow> 'a agenda_db_scheme" where
  "complete_appointment now appointmentId db = (if \<not> truthy appointmentId then db
     else db\<lparr>appointments := update_many (\<lambda>a. Some (ap_id a) = appointmentId \<and> ap_status a \<in> {''CONFIRMED'', ''IN_PROGRESS''}
       \<and> ap_startAt a \<le> now) (\<lambda>a. a\<lparr>ap_status := ''COMPLETED''\<rparr>) (appointments db)\<rparr>)"

definition redeem_points :: "int option \<Rightarrow> int \<Rightarrow> 'a solo_db_scheme \<Rightarrow> 'a solo_db_scheme result" where
  "redeem_points customerId points db = (if points = 0 \<or> \<not> truthy customerId then Inr db
     else (let mine = (\<lambda>c. Some (cu_id c) = customerId \<and> cu_loyaltyPoints c \<ge> points) in
       if count_where mine (customers db) = 0 then Inl (BadRequest ''Cliente nao tem pontos de fidelidade suficientes'')
       else Inr (db\<lparr>customers := update_many mine (\<lambda>c. c\<lparr>cu_loyaltyPoints := cu_loyaltyPoints c - points\<rparr>) (customers db)\<rparr>)))"

definition earn_points :: "sale_plan \<Rightarrow> 'a solo_db_scheme \<Rightarrow> 'a solo_db_scheme" where
  "earn_points p db = (if points_earned p > 0 then add_points (the (si_customerId (sn_data p))) (points_earned p) db else db)"

text \<open>One sale per appointment: the unique index refuses a second one.\<close>

definition sale_write :: "int \<Rightarrow> int \<Rightarrow> int \<Rightarrow> sale_plan \<Rightarrow> 'a sale_db_scheme \<Rightarrow> (int \<times> 'a sale_db_scheme) result" where
  "sale_write now userId barbershopId p db = (let d = sn_data p; s = sn_split p; saleId = seq (sales db) in
     bindE (throwIf (si_appointmentId d \<noteq> None \<and> find_first (\<lambda>x. se_appointmentId x = si_appointmentId d) (sales db) \<noteq> None)
       (BadRequest ''Este atendimento ja foi cobrado'')) (\<lambda>_.
     let db = complete_appointment now (si_appointmentId d) (db\<lparr>sales := create_row (new_sale now barbershopId p) (sales db)\<rparr>) in
     bindE (case sn_card p of None \<Rightarrow> Inr db | Some i \<Rightarrow> debit_card i (ss_card s) db) (\<lambda>db.
     bindE (case sn_club p of None \<Rightarrow> Inr db | Some (i, limit, _) \<Rightarrow> redeem_club now userId i limit (Some saleId) db) (\<lambda>db.
     bindE (case sn_package p of None \<Rightarrow> Inr db
       | Some (i, _) \<Rightarrow> redeem_package now userId saleId (si_appointmentId d) i db) (\<lambda>db.
     bindE (redeem_points (si_customerId d) (ss_points s) db) (\<lambda>db. let
       db = earn_points p db;
       db = (if si_paymentStatus d = Some ''PAID'' then completeReferralIfPaid now (sn_network p) (si_customerId d)
         (loyaltyMoneyBase (ss_left s) (ss_deposit s) (ss_prepaid s)) saleId db else db)
     in Inr (saleId, sell_items now barbershopId saleId (si_items d) db)))))))"

definition createSale :: "intl \<Rightarrow> int \<Rightarrow> int \<Rightarrow> int \<Rightarrow> sale_input \<Rightarrow> 'a sale_db_scheme \<Rightarrow> int result \<times> 'a sale_db_scheme" where
  "createSale I now userId barbershopId d db =
     and_then (sale_checks now userId barbershopId d db, db) (\<lambda>checked db.
     and_then (assertSoloProductSaleAllowed I db now barbershopId now (units_of (si_items d))) (\<lambda>_ db.
     case bindE (sale_prepare now barbershopId checked db) (\<lambda>p. sale_write now userId barbershopId p db) of
       Inl e \<Rightarrow> (Inl e, db)
     | Inr (i, db') \<Rightarrow> (Inr i, db')))"

text \<open>Paid between two instants, by the payment, or by the creation of an old sale without it.\<close>

definition paidInRange :: "(int \<Rightarrow> bool) \<Rightarrow> sale \<Rightarrow> bool" where
  "paidInRange bounds s \<longleftrightarrow> (case se_paidAt s of Some t \<Rightarrow> bounds t | None \<Rightarrow> bounds (se_createdAt s))"

record sale_filters =
  sf_customerId :: "int option"
  sf_barberId :: "int option"
  sf_paymentStatus :: "string option"
  sf_from :: "int option"
  sf_to :: "int option"
  sf_limit :: "int option"
  sf_offset :: "int option"
  sf_before :: "(int \<times> int) option"

definition listed_sale :: "int \<Rightarrow> int option \<Rightarrow> sale_filters \<Rightarrow> sale \<Rightarrow> bool" where
  "listed_sale barbershopId ownBarberId f s \<longleftrightarrow> se_barbershopId s = barbershopId
     \<and> (truthy (sf_customerId f) \<longrightarrow> se_customerId s = sf_customerId f)
     \<and> (case ownBarberId of Some own \<Rightarrow> se_barberId s = Some own | None \<Rightarrow> truthy (sf_barberId f) \<longrightarrow> se_barberId s = sf_barberId f)
     \<and> (given (sf_paymentStatus f) \<longrightarrow> Some (se_paymentStatus s) = sf_paymentStatus f)
     \<and> (sf_from f \<noteq> None \<or> sf_to f \<noteq> None \<longrightarrow> paidInRange (\<lambda>t. (case sf_from f of None \<Rightarrow> True | Some x \<Rightarrow> x \<le> t)
          \<and> (case sf_to f of None \<Rightarrow> True | Some x \<Rightarrow> t < x)) s)
     \<and> (case sf_before f of None \<Rightarrow> True | Some (t, i) \<Rightarrow> se_createdAt s < t \<or> se_createdAt s = t \<and> se_id s < i)"

definition getSales :: "int \<Rightarrow> int \<Rightarrow> int \<Rightarrow> sale_filters \<Rightarrow> 'a shop_db_scheme \<Rightarrow> (sale list) result" where
  "getSales now userId barbershopId f db =
     bindE (ensureBarbershopAccess db now userId barbershopId Barber) (\<lambda>shop.
     bindE (pageTake (sf_limit f) 50 LIST_PAGE_MAX) (\<lambda>limit.
     Inr (take (nat limit) (drop (if sf_before f \<noteq> None then 0 else nat (case sf_offset f of None \<Rightarrow> 0 | Some n \<Rightarrow> n))
       (sort_key (\<lambda>s. (- se_createdAt s, - se_id s))
         (find_many (listed_sale barbershopId (ownBarberIdIfBarber db userId shop) f) (sales db)))))))"

section \<open>The fee of a missed appointment\<close>

definition fee_sale :: "int \<Rightarrow> int \<Rightarrow> no_show_fee \<Rightarrow> string option \<Rightarrow> int option \<Rightarrow> int \<Rightarrow> sale" where
  "fee_sale now barbershopId fee paymentMethod cashSessionId i =
     \<lparr>se_id = i, se_barbershopId = barbershopId, se_createdAt = now, se_customerId = Some (nf_customerId fee), se_barberId = None,
       se_appointmentId = None, se_cashSessionId = cashSessionId, se_saleType = ''NO_SHOW_FEE'', se_subtotal = nf_amount fee,
       se_discountAmount = 0, se_taxAmount = 0, se_total = nf_amount fee, se_paymentStatus = ''PAID'', se_paymentMethod = paymentMethod,
       se_paidAt = Some now, se_giftCardId = None, se_giftCardAmountApplied = None, se_loyaltyPointsEarned = None,
       se_loyaltyPointsRedeemed = None, se_loyaltyDiscountAmount = None, se_depositApplied = None, se_prepaidApplied = None,
       se_clientSubscriptionId = None, se_items = []\<rparr>"

definition markNoShowFeeCollected :: "int \<Rightarrow> int \<Rightarrow> int \<Rightarrow> int \<Rightarrow> string option \<Rightarrow> 'a shop_db_scheme \<Rightarrow> 'a shop_db_scheme result" where
  "markNoShowFeeCollected now userId barbershopId i paymentMethod db =
     bindE (ensureBarbershopAccess db now userId barbershopId Reception) (\<lambda>_.
     bindE (throwIf (\<not> given paymentMethod) (BadRequest ''Informe a forma de pagamento'')) (\<lambda>_.
     bindE (checkSaleKinds \<lparr>sk_saleType = None, sk_itemTypes = None, sk_paymentStatus = None, sk_paymentMethod = paymentMethod\<rparr> None) (\<lambda>_.
     case find_first (\<lambda>f. nf_id f = i \<and> nf_barbershopId f = barbershopId) (noShowFees db) of
       None \<Rightarrow> Inl (NotFound ''Taxa nao encontrada'')
     | Some fee \<Rightarrow> (let pending = (\<lambda>f. nf_id f = i \<and> nf_status f = ''PENDING'') in
         bindE (throwIf (count_where pending (noShowFees db) = 0) (BadRequest ''Esta taxa nao esta pendente'')) (\<lambda>_.
         let saleId = seq (sales db);
             fees = update_many pending (\<lambda>f. f\<lparr>nf_status := ''COLLECTED'', nf_collectedAt := Some now\<rparr>) (noShowFees db)
         in Inr (db\<lparr>sales := create_row (fee_sale now barbershopId fee paymentMethod (map_option cs_id (openSession db barbershopId))) (sales db),
              noShowFees := update_many (\<lambda>f. nf_id f = i) (\<lambda>f. f\<lparr>nf_saleId := Some saleId\<rparr>) fees\<rparr>))))))"

definition waiveNoShowFee :: "int \<Rightarrow> int \<Rightarrow> int \<Rightarrow> int \<Rightarrow> 'a shop_db_scheme \<Rightarrow> 'a shop_db_scheme result" where
  "waiveNoShowFee now userId barbershopId i db =
     bindE (ensureBarbershopAccess db now userId barbershopId Manager) (\<lambda>_.
     bindE (throwIf (find_first (\<lambda>f. nf_id f = i \<and> nf_barbershopId f = barbershopId) (noShowFees db) = None) (NotFound ''Taxa nao encontrada'')) (\<lambda>_.
     let pending = (\<lambda>f. nf_id f = i \<and> nf_status f = ''PENDING'') in
     bindE (throwIf (count_where pending (noShowFees db) = 0)
       (BadRequest ''So da pra perdoar a taxa pendente. A ja cobrada sai apagando a venda dela.'')) (\<lambda>_.
     Inr (db\<lparr>noShowFees := update_many pending (\<lambda>f. f\<lparr>nf_status := ''WAIVED''\<rparr>) (noShowFees db)\<rparr>))))"

section \<open>Changing a sale\<close>

record sale_patch =
  sc_customerId :: "int option"
  sc_barberId :: "int option"
  sc_saleType :: "string option"
  sc_items :: "sale_item list option"
  sc_subtotal :: "rat option"
  sc_discountAmount :: "rat option"
  sc_taxAmount :: "rat option"
  sc_total :: "rat option"
  sc_paymentStatus :: "string option"
  sc_paymentMethod :: "string option"

definition in_cents :: "rat \<Rightarrow> int" where
  "in_cents v = js_round (v * 100)"

definition items_cents :: "sale_item list \<Rightarrow> int" where
  "items_cents items = sum_list (map (\<lambda>i. in_cents (it_totalPrice i)) items)"

definition differs :: "('x \<Rightarrow> 'y) \<Rightarrow> 'x option \<Rightarrow> 'x \<Rightarrow> bool" where
  "differs f new old \<longleftrightarrow> (case new of None \<Rightarrow> False | Some v \<Rightarrow> f v \<noteq> f old)"

definition saleMoneyChanged :: "sale \<Rightarrow> sale_patch \<Rightarrow> bool" where
  "saleMoneyChanged e d \<longleftrightarrow> differs id (sc_paymentStatus d) (se_paymentStatus e)
     \<or> (case sc_paymentMethod d of None \<Rightarrow> False | Some m \<Rightarrow> Some m \<noteq> se_paymentMethod e)
     \<or> differs in_cents (sc_discountAmount d) (se_discountAmount e) \<or> differs in_cents (sc_taxAmount d) (se_taxAmount e)
     \<or> differs items_cents (sc_items d) (se_items e)"

definition issuedSaleValueChanged :: "sale \<Rightarrow> sale_patch \<Rightarrow> bool" where
  "issuedSaleValueChanged e d \<longleftrightarrow> differs id (sc_saleType d) (se_saleType e) \<or> differs in_cents (sc_subtotal d) (se_subtotal e)
     \<or> differs in_cents (sc_discountAmount d) (se_discountAmount e) \<or> differs in_cents (sc_taxAmount d) (se_taxAmount e)
     \<or> differs in_cents (sc_total d) (se_total e) \<or> differs items_cents (sc_items d) (se_items e)"

definition SALE_NOT_FOUND :: http_error where "SALE_NOT_FOUND = BadRequest ''Venda nao encontrada''"
definition REFUND_SALE_LOCKED :: http_error where "REFUND_SALE_LOCKED = BadRequest ''Estorno nao pode ser alterado nem apagado.''"
definition CLOSED_CASH_SALE :: http_error where
  "CLOSED_CASH_SALE = BadRequest ''Essa venda e de um caixa ja fechado. Lance a correcao no caixa aberto.''"

definition in_closed_till :: "'a shop_db_scheme \<Rightarrow> sale \<Rightarrow> bool" where
  "in_closed_till db e \<longleftrightarrow> (case Option.bind (se_cashSessionId e) (\<lambda>i. find_first (\<lambda>s. cs_id s = i) (cashSessions db)) of
       None \<Rightarrow> False | Some s \<Rightarrow> cs_status s = ''CLOSED'')"

definition saleOfShop :: "'a solo_db_scheme \<Rightarrow> int \<Rightarrow> int \<Rightarrow> sale option" where
  "saleOfShop db barbershopId saleId = find_first (\<lambda>s. se_id s = saleId \<and> se_barbershopId s = barbershopId) (sales db)"

text \<open>What is checked before the transaction, and the quota of products for what the edit adds.\<close>

definition sale_update_checks :: "int \<Rightarrow> int \<Rightarrow> int \<Rightarrow> sale_patch \<Rightarrow> 'a shop_db_scheme \<Rightarrow> shop_access result" where
  "sale_update_checks now userId barbershopId d db =
     bindE (ensureBarbershopAccess db now userId barbershopId Manager) (\<lambda>shop.
     bindE (checkSaleAmounts (sc_subtotal d) (sc_discountAmount d) (sc_taxAmount d) (sc_total d) None
       (patched (sc_items d) []) (Some (bs_currency (sa_shop shop)))) (\<lambda>_.
     bindE (if truthy (sc_customerId d) then ensureCustomerOfNetwork db (bs_networkId (sa_shop shop)) (the (sc_customerId d)) else Inr ()) (\<lambda>_.
     bindE (if truthy (sc_barberId d)
       then bindE (ensureBarberOfBarbershop db barbershopId (the (sc_barberId d)) False) (\<lambda>_. Inr ()) else Inr ()) (\<lambda>_.
     bindE (case sc_items d of
         None \<Rightarrow> Inr ()
       | Some items \<Rightarrow> bindE (ensureItemsOfBarbershop db barbershopId (given_ids it_serviceId items) (given_ids it_productId items) False) (\<lambda>_.
           ensureServiceHistoriesOfBarbershop db barbershopId (given_ids it_serviceHistoryId items))) (\<lambda>_.
     Inr shop)))))"

definition edit_quota :: "intl \<Rightarrow> int \<Rightarrow> int \<Rightarrow> int \<Rightarrow> sale_patch \<Rightarrow> 'a shop_db_scheme \<Rightarrow> unit result \<times> 'a shop_db_scheme" where
  "edit_quota I now barbershopId saleId d db = (case (sc_items d, saleOfShop db barbershopId saleId) of
       (Some items, Some s) \<Rightarrow> assertSoloProductSaleAllowed I db now barbershopId (se_createdAt s) (units_of items - units_of (se_items s))
     | _ \<Rightarrow> (Inr (), db))"

text \<open>The screen sends the full total; what is stored leaves out what was paid before.\<close>

definition applied_before :: "sale \<Rightarrow> rat" where
  "applied_before e = round2 (amount_or_0 (se_depositApplied e) + amount_or_0 (se_prepaidApplied e)
     + amount_or_0 (se_giftCardAmountApplied e) + amount_or_0 (se_loyaltyDiscountAmount e))"

definition net_total :: "sale \<Rightarrow> sale_patch \<Rightarrow> (rat option) result" where
  "net_total e d = (case sc_total d of
       None \<Rightarrow> Inr None
     | Some t \<Rightarrow> bindE (throwIf (t + MONEY_TOLERANCE < applied_before e) SALE_BELOW_APPLIED) (\<lambda>_.
         Inr (Some (round2 (max 0 (t - applied_before e))))))"

definition sale_money_base :: "sale \<Rightarrow> rat \<Rightarrow> rat" where
  "sale_money_base e total' = loyaltyMoneyBase total' (amount_or_0 (se_depositApplied e)) (amount_or_0 (se_prepaidApplied e))"

definition int_or_0 :: "int option \<Rightarrow> int" where
  "int_or_0 i = (case i of None \<Rightarrow> 0 | Some n \<Rightarrow> n)"

definition patch_sale :: "int \<Rightarrow> int option \<Rightarrow> sale_patch \<Rightarrow> rat option \<Rightarrow> int \<Rightarrow> sale \<Rightarrow> sale" where
  "patch_sale now openId d net earned e = (let paidNow = (sc_paymentStatus d = Some ''PAID'' \<and> se_paymentStatus e \<noteq> ''PAID'') in e\<lparr>
     se_customerId := (if sc_customerId d \<noteq> None then sc_customerId d else se_customerId e),
     se_barberId := (if sc_barberId d \<noteq> None then sc_barberId d else se_barberId e),
     se_saleType := patched (sc_saleType d) (se_saleType e), se_subtotal := patched (sc_subtotal d) (se_subtotal e),
     se_discountAmount := patched (sc_discountAmount d) (se_discountAmount e), se_taxAmount := patched (sc_taxAmount d) (se_taxAmount e),
     se_total := patched net (se_total e), se_paymentStatus := patched (sc_paymentStatus d) (se_paymentStatus e),
     se_paidAt := (if paidNow then Some now else se_paidAt e), se_cashSessionId := (if paidNow then openId else se_cashSessionId e),
     se_paymentMethod := (if sc_paymentMethod d \<noteq> None then sc_paymentMethod d else se_paymentMethod e),
     se_loyaltyPointsEarned := nonzero (Some earned), se_items := patched (sc_items d) (se_items e)\<rparr>)"

definition sale_edit_checks :: "sale \<Rightarrow> sale_patch \<Rightarrow> bool \<Rightarrow> (rat option) result" where
  "sale_edit_checks e d tillClosed =
     bindE (throwIf (se_saleType e = REFUND_SALE_TYPE) REFUND_SALE_LOCKED) (\<lambda>_.
     bindE (checkSaleKinds \<lparr>sk_saleType = sc_saleType d, sk_itemTypes = map_option (map it_itemType) (sc_items d),
       sk_paymentStatus = sc_paymentStatus d, sk_paymentMethod = sc_paymentMethod d\<rparr> (Some e)) (\<lambda>_.
     bindE (throwIf (se_saleType e \<in> {''PACKAGE'', ''GIFT_CARD''} \<and> issuedSaleValueChanged e d)
       (BadRequest ''O valor de uma venda de pacote ou cartao-presente nao pode ser alterado.'')) (\<lambda>_.
     bindE (throwIf (tillClosed \<and> saleMoneyChanged e d) CLOSED_CASH_SALE) (\<lambda>_.
     bindE (case sc_total d of
         None \<Rightarrow> Inr ()
       | Some t \<Rightarrow> checkSaleConsistency (patched (sc_items d) (se_items e)) (patched (sc_subtotal d) (se_subtotal e))
           (patched (sc_discountAmount d) (se_discountAmount e)) (patched (sc_taxAmount d) (se_taxAmount e)) t) (\<lambda>_.
     net_total e d)))))"

text \<open>Points move from the old customer to the new one, or by the difference.\<close>

definition move_points :: "int option \<Rightarrow> int \<Rightarrow> int option \<Rightarrow> int \<Rightarrow> 'a solo_db_scheme \<Rightarrow> 'a solo_db_scheme" where
  "move_points old prevEarned new nextEarned db = (let
       db1 = (if truthy old \<and> old \<noteq> new \<and> prevEarned \<noteq> 0 then addLoyaltyPoints (the old) (- prevEarned) db else db)
     in if truthy new then addLoyaltyPoints (the new) (if new = old then nextEarned - prevEarned else nextEarned) db1 else db1)"

definition next_customer :: "sale \<Rightarrow> sale_patch \<Rightarrow> int option" where
  "next_customer e d = (if sc_customerId d \<noteq> None then sc_customerId d else se_customerId e)"

definition next_earned :: "network \<Rightarrow> sale \<Rightarrow> sale_patch \<Rightarrow> rat option \<Rightarrow> int" where
  "next_earned network e d net = loyaltyEarnedFor network (patched (sc_paymentStatus d) (se_paymentStatus e))
     (sale_money_base e (patched net (se_total e))) (next_customer e d)"

text \<open>The points of the edit, and the referral the sale completed or completes now.\<close>

definition update_points :: "int \<Rightarrow> network \<Rightarrow> sale \<Rightarrow> sale_patch \<Rightarrow> rat option \<Rightarrow> 'a sale_db_scheme \<Rightarrow> 'a sale_db_scheme" where
  "update_points now network e d net db = (let
       nextStatus = patched (sc_paymentStatus d) (se_paymentStatus e);
       customerChanged = (next_customer e d \<noteq> se_customerId e);
       db1 = move_points (se_customerId e) (int_or_0 (se_loyaltyPointsEarned e)) (next_customer e d) (next_earned network e d net) db;
       db2 = (if se_paymentStatus e = ''PAID'' \<and> (nextStatus \<noteq> ''PAID'' \<or> customerChanged) then revertReferralOfSale (se_id e) db1 else db1)
     in if nextStatus = ''PAID'' \<and> (se_paymentStatus e \<noteq> ''PAID'' \<or> customerChanged)
        then completeReferralIfPaid now network (next_customer e d) (sale_money_base e (patched net (se_total e))) (se_id e) db2 else db2)"

definition sale_update_write :: "int \<Rightarrow> int \<Rightarrow> network \<Rightarrow> int \<Rightarrow> sale_patch \<Rightarrow> 'a sale_db_scheme \<Rightarrow> 'a sale_db_scheme result" where
  "sale_update_write now barbershopId network saleId d db = (case saleOfShop db barbershopId saleId of
       None \<Rightarrow> Inl SALE_NOT_FOUND
     | Some e \<Rightarrow> bindE (sale_edit_checks e d (in_closed_till db e)) (\<lambda>net.
         bindE (throwIf (next_customer e d \<noteq> se_customerId e
             \<and> (int_or_0 (se_loyaltyPointsRedeemed e) > 0 \<or> amount_or_0 (se_giftCardAmountApplied e) > 0))
           (BadRequest ''Esta venda usou pontos ou cartao-presente do cliente: o cliente nao muda. Apague a venda e lance de novo no cliente certo.'')) (\<lambda>_. let
           db1 = db\<lparr>sales := update_many (\<lambda>s. se_id s = saleId)
             (patch_sale now (map_option cs_id (openSession db barbershopId)) d net (next_earned network e d net)) (sales db)\<rparr>;
           db2 = update_points now network e d net db1
         in Inr (case sc_items d of None \<Rightarrow> db2 | Some items \<Rightarrow> applySaleStockDelta now barbershopId saleId (se_items e) items db2))))"

text \<open>After the edit: the difference of a commission already paid, and the commission of a new professional already paid for the period.\<close>

definition locked_barber :: "'a shop_db_scheme \<Rightarrow> int \<Rightarrow> int \<Rightarrow> int option" where
  "locked_barber db barbershopId saleId = (case saleOfShop db barbershopId saleId of
       None \<Rightarrow> None
     | Some s \<Rightarrow> if paidCommissionPayout db s then se_barberId s else None)"

definition edit_note :: "int \<Rightarrow> string" where
  "edit_note saleId = ''Venda #'' @ show_int saleId @ '' alterada depois do pagamento da comissao''"

definition settle_commission :: "int \<Rightarrow> int \<Rightarrow> int \<Rightarrow> int \<Rightarrow> int option \<Rightarrow> int option \<Rightarrow> rat \<Rightarrow> 'a sale_db_scheme \<Rightarrow> 'a sale_db_scheme" where
  "settle_commission now userId barbershopId saleId oldBarberId locked before db = (let
       db1 = (case locked of
           None \<Rightarrow> db
         | Some b \<Rightarrow> commissionAdjustment now barbershopId b (saleCommission db barbershopId saleId b - before) userId (edit_note saleId) db)
     in case find_first (\<lambda>s. se_id s = saleId) (sales db) of
          None \<Rightarrow> db1
        | Some s \<Rightarrow> (case se_barberId s of
            None \<Rightarrow> db1
          | Some b \<Rightarrow> if Some b \<noteq> oldBarberId \<and> paidCommissionPayout db1 s
              then commissionAdjustment now barbershopId b (saleCommission db1 barbershopId saleId b) userId (edit_note saleId) db1 else db1))"

definition updateSale :: "intl \<Rightarrow> int \<Rightarrow> int \<Rightarrow> int \<Rightarrow> int \<Rightarrow> sale_patch \<Rightarrow> 'a sale_db_scheme \<Rightarrow> unit result \<times> 'a sale_db_scheme" where
  "updateSale I now userId barbershopId saleId d db =
     and_then (sale_update_checks now userId barbershopId d db, db) (\<lambda>shop db.
     and_then (edit_quota I now barbershopId saleId d db) (\<lambda>_ db. let
       locked = locked_barber db barbershopId saleId;
       before = (case locked of None \<Rightarrow> 0 | Some b \<Rightarrow> saleCommission db barbershopId saleId b)
     in case bindE (case sa_network shop of None \<Rightarrow> Inl (PlainError ''network'') | Some n \<Rightarrow> Inr n)
         (\<lambda>network. sale_update_write now barbershopId network saleId d db) of
       Inl e \<Rightarrow> (Inl e, db)
     | Inr db' \<Rightarrow> (Inr (), settle_commission now userId barbershopId saleId
         (Option.bind (saleOfShop db barbershopId saleId) se_barberId) locked before db')))"

section \<open>Removing a sale\<close>

text \<open>The row goes; what it issued and its fee no longer point to it.\<close>

definition drop_sale :: "int \<Rightarrow> 'a gift_db_scheme \<Rightarrow> 'a gift_db_scheme" where
  "drop_sale saleId db = db\<lparr>sales := delete_many (\<lambda>s. se_id s = saleId) (sales db),
     giftCards := update_many (\<lambda>g. gc_saleId g = Some saleId) (\<lambda>g. g\<lparr>gc_saleId := None\<rparr>) (giftCards db),
     clientPackages := update_many (\<lambda>p. cp_saleId p = Some saleId) (\<lambda>p. p\<lparr>cp_saleId := None\<rparr>) (clientPackages db)\<rparr>"

definition reopen_fee :: "int \<Rightarrow> 'a shop_db_scheme \<Rightarrow> 'a shop_db_scheme" where
  "reopen_fee saleId db = db\<lparr>noShowFees := update_many (\<lambda>f. nf_saleId f = Some saleId)
     (\<lambda>f. f\<lparr>nf_status := ''PENDING'', nf_collectedAt := None, nf_saleId := None\<rparr>) (noShowFees db)\<rparr>"

definition cancelIssuedIfUnused :: "int \<Rightarrow> 'a gift_db_scheme \<Rightarrow> 'a gift_db_scheme result" where
  "cancelIssuedIfUnused saleId db = bindE (cancel_issued_package saleId db) (cancel_issued_card saleId)"

text \<open>The reads of the removal: the sale, and the commission already paid on it.\<close>

definition sale_delete_read :: "int \<Rightarrow> int \<Rightarrow> int \<Rightarrow> int \<Rightarrow> 'a commission_db_scheme \<Rightarrow> (sale \<times> rat) result" where
  "sale_delete_read now userId barbershopId saleId db =
     bindE (ensureBarbershopAccess db now userId barbershopId Manager) (\<lambda>_.
     case saleOfShop db barbershopId saleId of
       None \<Rightarrow> Inl SALE_NOT_FOUND
     | Some e \<Rightarrow>
         bindE (throwIf (se_saleType e = REFUND_SALE_TYPE) REFUND_SALE_LOCKED) (\<lambda>_.
         bindE (throwIf (in_closed_till db e) CLOSED_CASH_SALE) (\<lambda>_.
         Inr (e, if paidCommissionPayout db e then saleCommission db barbershopId saleId (the (se_barberId e)) else 0))))"

text \<open>Packages, the referral, the fee and the session of the club go back; then the gift card; then the points.\<close>

definition return_sessions :: "int \<Rightarrow> int \<Rightarrow> sale \<Rightarrow> 'a sale_db_scheme \<Rightarrow> 'a sale_db_scheme" where
  "return_sessions now userId e db = (let
       db1 = reopen_fee (se_id e) (revertReferralOfSale (se_id e) (restorePackageUses now userId (se_id e) db))
     in case se_clientSubscriptionId e of None \<Rightarrow> db1 | Some i \<Rightarrow> return_of_sale now userId (se_id e) (se_createdAt e) i db1)"

definition credit_of :: "sale \<Rightarrow> 'a gift_db_scheme \<Rightarrow> 'a gift_db_scheme" where
  "credit_of e db = (case (se_giftCardId e, se_giftCardAmountApplied e) of (Some i, Some amount) \<Rightarrow> credit_card i amount db | _ \<Rightarrow> db)"

definition return_points :: "sale \<Rightarrow> 'a solo_db_scheme \<Rightarrow> 'a solo_db_scheme" where
  "return_points e db = (if truthy (se_customerId e) then addLoyaltyPoints (the (se_customerId e))
     (int_or_0 (se_loyaltyPointsRedeemed e) - int_or_0 (se_loyaltyPointsEarned e)) db else db)"

definition deduct_commission :: "int \<Rightarrow> int \<Rightarrow> int \<Rightarrow> sale \<Rightarrow> rat \<Rightarrow> 'a shop_db_scheme \<Rightarrow> 'a shop_db_scheme" where
  "deduct_commission now userId barbershopId e paidCommission db = (if paidCommission \<noteq> 0 \<and> se_barberId e \<noteq> None
     then commissionAdjustment now barbershopId (the (se_barberId e)) (- paidCommission) userId
       (''Venda #'' @ show_int (se_id e) @ '' apagada depois do pagamento da comissao'') db else db)"

text \<open>The transaction: everything the sale moved goes back; a sale that is gone by then undoes it all.\<close>

definition sale_delete_write :: "int \<Rightarrow> int \<Rightarrow> int \<Rightarrow> sale \<times> rat \<Rightarrow> 'a sale_db_scheme \<Rightarrow> 'a sale_db_scheme result" where
  "sale_delete_write now userId barbershopId found db = (case found of (e, paidCommission) \<Rightarrow>
     bindE (cancelIssuedIfUnused (se_id e) db) (\<lambda>db. let
       db1 = return_stock now (se_id e) (return_points e (credit_of e (return_sessions now userId e db)))
     in bindE (throwIf (find_first (\<lambda>s. se_id s = se_id e) (sales db1) = None) (PlainError ''P2025'')) (\<lambda>_.
     Inr (deduct_commission now userId barbershopId e paidCommission (drop_sale (se_id e) db1)))))"

definition deleteSale :: "int \<Rightarrow> int \<Rightarrow> int \<Rightarrow> int \<Rightarrow> 'a sale_db_scheme \<Rightarrow> 'a sale_db_scheme result" where
  "deleteSale now userId barbershopId saleId db =
     bindE (sale_delete_read now userId barbershopId saleId db) (\<lambda>found. sale_delete_write now userId barbershopId found db)"

section \<open>Refunding what is left\<close>

definition refund_sale_row :: "int \<Rightarrow> int \<Rightarrow> sale \<Rightarrow> rat \<Rightarrow> bool \<Rightarrow> int option \<Rightarrow> int \<Rightarrow> sale" where
  "refund_sale_row now barbershopId e refund isPackage openId i = (let v = - refund in
     \<lparr>se_id = i, se_barbershopId = barbershopId, se_createdAt = now, se_customerId = se_customerId e, se_barberId = se_barberId e,
       se_appointmentId = None, se_cashSessionId = openId, se_saleType = REFUND_SALE_TYPE, se_subtotal = v, se_discountAmount = 0,
       se_taxAmount = 0, se_total = v, se_paymentStatus = ''PAID'', se_paymentMethod = se_paymentMethod e, se_paidAt = Some now,
       se_giftCardId = None, se_giftCardAmountApplied = None, se_loyaltyPointsEarned = None, se_loyaltyPointsRedeemed = None,
       se_loyaltyDiscountAmount = None, se_depositApplied = None, se_prepaidApplied = None, se_clientSubscriptionId = None,
       se_items = [\<lparr>it_itemType = (if isPackage then ''PACKAGE'' else ''GIFT_CARD''), it_serviceId = None, it_productId = None,
         it_serviceHistoryId = None, it_quantity = 1, it_unitPrice = v, it_totalPrice = v,
         it_notes = Some (''Estorno do saldo da venda #'' @ show_int (se_id e))\<rparr>]\<rparr>)"

fun lowered_items :: "rat \<Rightarrow> sale_item list \<Rightarrow> sale_item list" where
  "lowered_items amount [] = []"
| "lowered_items amount (i # items) = i\<lparr>it_unitPrice := amount, it_totalPrice := amount\<rparr>
     # map (\<lambda>x. x\<lparr>it_unitPrice := 0, it_totalPrice := 0\<rparr>) items"

text \<open>A paid sale stays as it was, and the refund is a sale of today; an unpaid one is lowered.\<close>

definition lower_sale :: "rat \<Rightarrow> sale \<Rightarrow> sale" where
  "lower_sale amount s = s\<lparr>se_subtotal := amount, se_discountAmount := 0, se_taxAmount := 0, se_total := amount,
     se_items := lowered_items amount (se_items s)\<rparr>"

definition refund_earned :: "network \<Rightarrow> sale \<Rightarrow> rat \<Rightarrow> int" where
  "refund_earned network e newTotal = (if int_or_0 (se_loyaltyPointsEarned e) > 0
     then loyaltyEarnedFor network (se_paymentStatus e) (sale_money_base e newTotal) (se_customerId e) else 0)"

definition refund_rows :: "int \<Rightarrow> int \<Rightarrow> sale \<Rightarrow> rat \<Rightarrow> bool \<Rightarrow> int \<Rightarrow> 'a shop_db_scheme \<Rightarrow> 'a shop_db_scheme" where
  "refund_rows now barbershopId e newTotal isPackage nextEarned db = (let
       prevEarned = int_or_0 (se_loyaltyPointsEarned e);
       earned = (\<lambda>s. if prevEarned > 0 then s\<lparr>se_loyaltyPointsEarned := nonzero (Some nextEarned)\<rparr> else s)
     in if se_paymentStatus e = ''PAID'' then (let
          refund = round2 (se_total e - newTotal);
          t = (if refund > 0 then create_row (refund_sale_row now barbershopId e refund isPackage (map_option cs_id (openSession db barbershopId)))
            (sales db) else sales db)
        in db\<lparr>sales := update_many (\<lambda>s. se_id s = se_id e) earned t\<rparr>)
        else db\<lparr>sales := update_many (\<lambda>s. se_id s = se_id e) (\<lambda>s. earned (lower_sale newTotal s)) (sales db)\<rparr>)"

definition refund_points :: "sale \<Rightarrow> int \<Rightarrow> 'a solo_db_scheme \<Rightarrow> 'a solo_db_scheme" where
  "refund_points e nextEarned db = (let prevEarned = int_or_0 (se_loyaltyPointsEarned e) in
     if prevEarned > 0 \<and> truthy (se_customerId e) \<and> nextEarned \<noteq> prevEarned
     then add_points (the (se_customerId e)) (nextEarned - prevEarned) db else db)"

definition refundIssuedRemainder :: "int \<Rightarrow> int \<Rightarrow> int \<Rightarrow> int \<Rightarrow> 'a sale_db_scheme \<Rightarrow> 'a sale_db_scheme result" where
  "refundIssuedRemainder now userId barbershopId saleId db =
     bindE (ensureBarbershopAccess db now userId barbershopId Manager) (\<lambda>shop.
     case saleOfShop db barbershopId saleId of
       None \<Rightarrow> Inl SALE_NOT_FOUND
     | Some e \<Rightarrow>
         bindE (throwIf (se_paymentStatus e \<noteq> ''PAID'' \<and> in_closed_till db e) CLOSED_CASH_SALE) (\<lambda>_.
         bindE (case find_first (\<lambda>p. cp_saleId p = Some saleId) (clientPackages db) of
             Some issued \<Rightarrow> bindE (refund_issued_package now saleId (se_total e) issued db) (\<lambda>(t, db). Inr (t, True, db))
           | None \<Rightarrow> (case find_first (\<lambda>g. gc_saleId g = Some saleId) (giftCards db) of
               None \<Rightarrow> Inl (BadRequest ''Esta venda nao e de pacote nem de cartao-presente.'')
             | Some g \<Rightarrow> bindE (refund_issued_card saleId (se_total e) g db) (\<lambda>(t, db). Inr (t, False, db)))) (\<lambda>(newTotal, isPackage, db).
         case sa_network shop of
           None \<Rightarrow> Inl (PlainError ''network'')
         | Some network \<Rightarrow> (let nextEarned = refund_earned network e newTotal in
             Inr (refund_points e nextEarned (refund_rows now barbershopId e newTotal isPackage nextEarned db))))))"

section \<open>A till at concrete inputs\<close>

text \<open>The database a write leaves, or the one before it when it refuses.\<close>

definition state_or :: "'e + 's \<Rightarrow> 's \<Rightarrow> 's" where
  "state_or r db = (case r of Inl _ \<Rightarrow> db | Inr db' \<Rightarrow> db')"

lemma state_or_ok: "is_ok r \<Longrightarrow> r = Inr (state_or r db)"
  by (cases r) (simp_all add: is_ok_def state_or_def)

definition sample_till :: sale_db where
  "sample_till = commission_db.extend (gift_db.extend (stock_db.extend (session_db.extend (no_sessions\<lparr>products :=
      \<lparr>rows = [\<lparr>pd_id = 1, pd_barbershopId = 7, pd_unit = ''UNIT'', pd_isActive = True\<rparr>], seq = 2\<rparr>\<rparr>)
     (stock_db.fields empty_table empty_table)) (gift_db.fields empty_table)) (commission_db.fields empty_table)) (sale_db.fields empty_table)"

end
