(* ===== verification/Sale_Laws.thy ===== *)
theory Sale_Laws
  imports Sales
begin

text \<open>
  What sales keep true. \<open>till_laws\<close> is the interface between the operations of the till and a property of the database: the
  property says how it behaves under the primitive writes (a sale, its debit of a card, an edit, a removal with what it gives back,
  a change of cards or of stock), and then every operation, whole or with its transaction run later than its reads, keeps it.
  It is interpreted twice: for the balance of gift cards and for the ledger of the stock.
\<close>

section \<open>What does not touch sales, cards and stock\<close>

definition till_same :: "'a sale_db_scheme \<Rightarrow> 'a sale_db_scheme \<Rightarrow> bool" where
  "till_same db db' \<longleftrightarrow> giftCards db' = giftCards db \<and> sales db' = sales db
     \<and> inventoryItems db' = inventoryItems db \<and> inventoryMovements db' = inventoryMovements db"

named_theorems till_frame "operations that keep sales, cards and stock"

lemma till_same_refl [simp]: "till_same db db"
  by (simp add: till_same_def)

lemma till_same_trans [trans]: "till_same a b \<Longrightarrow> till_same b c \<Longrightarrow> till_same a c"
  by (simp add: till_same_def)

lemma same_fold: "(\<And>x db. till_same db (f x db)) \<Longrightarrow> till_same db (fold f xs db)"
  by (induction xs arbitrary: db) (auto intro: till_same_trans)

lemma same_points [till_frame]:
  "till_same db (add_points c n db)" "till_same db (take_points c n db)" "till_same db (addLoyaltyPoints c n db)"
  by (simp_all add: till_same_def add_points_def take_points_def addLoyaltyPoints_def)

lemma same_move_points [till_frame]: "till_same db (move_points old p new n db)"
  by (auto simp: move_points_def Let_def intro: same_points till_same_trans)

lemma same_complete [till_frame]: "till_same db (complete_appointment now a db)"
  by (simp add: till_same_def complete_appointment_def)

lemma same_earn [till_frame]: "till_same db (earn_points p db)"
  by (simp add: earn_points_def same_points)

lemma same_redeem_points: "redeem_points c n db = Inr db' \<Longrightarrow> till_same db db'"
  by (auto simp: till_same_def redeem_points_def Let_def split: if_split_asm)

lemma same_club: "redeem_club now u i l s db = Inr db' \<Longrightarrow> till_same db db'"
  by (auto simp: till_same_def redeem_club_def recordClubUse_def split: if_split_asm)

lemma same_package: "redeem_package now u s a i db = Inr db' \<Longrightarrow> till_same db db'"
  by (auto simp: till_same_def redeem_package_def take_session_def record_use_def split: if_split_asm)

lemma same_referral [till_frame]: "till_same db (completeReferralIfPaid now n c m s db)"
proof -
  have "till_same db (db\<lparr>customerReferrals := t\<rparr>)" for t by (simp add: till_same_def)
  then show ?thesis by (auto simp: completeReferralIfPaid_def Let_def split: option.split intro: same_points till_same_trans)
qed

lemma same_revert [till_frame]: "till_same db (revertReferralOfSale s db)"
proof -
  have "till_same db (db\<lparr>customerReferrals := t\<rparr>)" for t by (simp add: till_same_def)
  then show ?thesis by (auto simp: revertReferralOfSale_def Let_def split: option.split intro: same_points till_same_trans)
qed

lemma same_restore [till_frame]: "till_same db (restorePackageUses now u s db)"
  unfolding restorePackageUses_def
  by (rule same_fold) (simp add: restore_use_def restore_session_def mark_undone_def till_same_def)

lemma same_reopen [till_frame]: "till_same db (reopen_fee s db)"
  by (simp add: till_same_def reopen_fee_def)

lemma same_club_return [till_frame]: "till_same db (return_of_sale now u s t i db)"
  by (simp add: till_same_def return_of_sale_def)

lemma same_adjustment [till_frame]: "till_same db (commissionAdjustment now b i d u n db)"
  by (simp add: till_same_def commissionAdjustment_def Let_def)

lemma same_settle [till_frame]: "till_same db (settle_commission now u b s old locked before db)"
  by (auto simp: settle_commission_def Let_def split: option.split intro: same_adjustment till_same_trans)

lemma same_months: "only_months db db' \<Longrightarrow> till_same db db'"
  by (auto simp: only_months_def till_same_def)

text \<open>The stock of a sale only touches the stock.\<close>

lemma movement_rest [simp]:
  "giftCards (sold_movement now b s n p q db) = giftCards db" "sales (sold_movement now b s n p q db) = sales db"
  by (auto simp: sold_movement_def Let_def moveStock_def record_movement_def split: option.split prod.split)

lemma give_back_rest:
  "giftCards (give_back_movement now s m db) = giftCards db" "sales (give_back_movement now s m db) = sales db"
  by (auto simp: give_back_movement_def Let_def record_movement_def split: option.split)

lemma fold_rest: "(\<And>x db. g (f x db) = g db) \<Longrightarrow> g (fold f xs db) = g db"
  by (induction xs arbitrary: db) auto

lemma return_stock_rest [simp]:
  "giftCards (return_stock now s db) = giftCards db" "sales (return_stock now s db) = sales db"
  unfolding return_stock_def by (rule fold_rest, simp add: give_back_rest)+

text \<open>Two databases with the same sales, cards and stock stay so under the writes of a removal.\<close>

lemma return_stock_cong: "till_same a b \<Longrightarrow> till_same (return_stock now s a) (return_stock now s b)"
proof -
  have one: "till_same (give_back_movement now s m a) (give_back_movement now s m b)" if "till_same a b" for m and a b :: "'a sale_db_scheme"
    using that by (auto simp: till_same_def give_back_movement_def Let_def record_movement_def split: option.split)
  have "till_same a b \<Longrightarrow> till_same (fold (give_back_movement now s) ms a) (fold (give_back_movement now s) ms b)" for ms
    by (induction ms arbitrary: a b) (simp_all add: one)
  moreover assume "till_same a b"
  ultimately show ?thesis by (simp add: return_stock_def till_same_def)
qed

lemma drop_sale_cong: "till_same a b \<Longrightarrow> till_same (drop_sale s a) (drop_sale s b)"
  by (simp add: till_same_def drop_sale_def)

lemma same_deduct [till_frame]: "till_same db (deduct_commission now u b e c db)"
  by (simp add: deduct_commission_def same_adjustment)

lemma if_same: "till_same db a \<Longrightarrow> till_same a b \<Longrightarrow> till_same db (if c then b else a)"
  by (auto intro: till_same_trans)

lemma same_update_points [till_frame]: "till_same db (update_points now n e d net db)"
  unfolding update_points_def Let_def by (rule if_same [OF if_same [OF same_move_points same_revert] same_referral])

lemma same_sessions [till_frame]: "till_same db (return_sessions now u e db)"
proof -
  have "till_same db (reopen_fee (se_id e) (revertReferralOfSale (se_id e) (restorePackageUses now u (se_id e) db)))"
    by (rule till_same_trans [OF same_restore till_same_trans [OF same_revert same_reopen]])
  then show ?thesis unfolding return_sessions_def Let_def
    by (auto split: option.split intro: same_club_return till_same_trans)
qed

lemma same_return_points [till_frame]: "till_same db (return_points e db)"
  by (simp add: return_points_def same_points)

section \<open>The interface\<close>

definition debit_of :: "sale_plan \<Rightarrow> 'a sale_db_scheme \<Rightarrow> 'a sale_db_scheme result" where
  "debit_of p db = (case sn_card p of None \<Rightarrow> Inr db | Some i \<Rightarrow> debit_card i (ss_card (sn_split p)) db)"

definition same_card_columns :: "(sale \<Rightarrow> sale) \<Rightarrow> bool" where
  "same_card_columns f \<longleftrightarrow> (\<forall>s. se_id (f s) = se_id s \<and> se_giftCardId (f s) = se_giftCardId s
     \<and> se_giftCardAmountApplied (f s) = se_giftCardAmountApplied s)"

definition lowers_balance :: "(gift_card \<Rightarrow> gift_card) \<Rightarrow> bool" where
  "lowers_balance f \<longleftrightarrow> (\<forall>g. gc_id (f g) = gc_id g \<and> gc_initialValue (f g) = gc_initialValue g
     \<and> (0 \<le> gc_remainingValue g \<longrightarrow> 0 \<le> gc_remainingValue (f g) \<and> gc_remainingValue (f g) \<le> gc_remainingValue g))"

locale till_laws =
  fixes inv :: "sale_db \<Rightarrow> bool"
  assumes frame: "inv db \<Longrightarrow> till_same db db' \<Longrightarrow> inv db'"
    and charge: "inv db \<Longrightarrow> 0 \<le> ss_card (sn_split p)
      \<Longrightarrow> till_same (db\<lparr>sales := create_row (new_sale now b p) (sales db)\<rparr>) db1 \<Longrightarrow> debit_of p db1 = Inr db2 \<Longrightarrow> inv db2"
    and plain: "inv db \<Longrightarrow> (\<forall>i. se_id (mk i) = i \<and> se_giftCardId (mk i) = None) \<Longrightarrow> inv (db\<lparr>sales := create_row mk (sales db)\<rparr>)"
    and edit: "inv db \<Longrightarrow> same_card_columns f \<Longrightarrow> inv (db\<lparr>sales := update_many q f (sales db)\<rparr>)"
    and remove: "inv db \<Longrightarrow> e \<in> set (rows (sales db)) \<Longrightarrow> inv (drop_sale (se_id e) (return_stock now (se_id e) (credit_of e db)))"
    and shut: "inv db \<Longrightarrow> lowers_balance h \<Longrightarrow> inv (db\<lparr>giftCards := update_many r h (giftCards db)\<rparr>)"
    and issue: "inv db \<Longrightarrow> (\<forall>i. gc_id (issued i) = i \<and> gc_remainingValue (issued i) = gc_initialValue (issued i) \<and> 0 < gc_initialValue (issued i))
      \<Longrightarrow> inv (db\<lparr>giftCards := create_row issued (giftCards db)\<rparr>)"
    and moved: "inv db \<Longrightarrow> inv (sold_movement now b i note' k n db)"
    and adjusted: "inv db \<Longrightarrow> adjustInventory now u b d db = Inr (m, db') \<Longrightarrow> inv db'"
    and placed: "inv db \<Longrightarrow> updateInventoryItem now u b k least shelf db = Inr db' \<Longrightarrow> inv db'"
begin

lemma sell_items: "inv db \<Longrightarrow> inv (sell_items now b i items db)"
  unfolding sell_items_def by (rule fold_ok [where P = inv]) (simp add: sell_item_def moved)

lemma stock_delta: "inv db \<Longrightarrow> inv (applySaleStockDelta now b i old new db)"
  unfolding applySaleStockDelta_def Let_def by (rule fold_ok [where P = inv]) (simp_all add: moved)

lemma charged:
  assumes "inv db" and "0 \<le> ss_card (sn_split p)" and run: "sale_write now u b p db = Inr (i, db')"
  shows "inv db'"
proof -
  let ?db1 = "complete_appointment now (si_appointmentId (sn_data p)) (db\<lparr>sales := create_row (new_sale now b p) (sales db)\<rparr>)"
  obtain d1 d2 d3 d4 where steps: "debit_of p ?db1 = Inr d1"
      "(case sn_club p of None \<Rightarrow> Inr d1 | Some (i, limit, _) \<Rightarrow> redeem_club now u i limit (Some (seq (sales db))) d1) = Inr d2"
      "(case sn_package p of None \<Rightarrow> Inr d2 | Some (i, _) \<Rightarrow> redeem_package now u (seq (sales db)) (si_appointmentId (sn_data p)) i d2) = Inr d3"
      "redeem_points (si_customerId (sn_data p)) (ss_points (sn_split p)) d3 = Inr d4"
    and db': "db' = sell_items now b (seq (sales db)) (si_items (sn_data p))
        (if si_paymentStatus (sn_data p) = Some ''PAID'' then completeReferralIfPaid now (sn_network p) (si_customerId (sn_data p))
          (loyaltyMoneyBase (ss_left (sn_split p)) (ss_deposit (sn_split p)) (ss_prepaid (sn_split p))) (seq (sales db)) (earn_points p d4)
         else earn_points p d4)"
    using run unfolding sale_write_def debit_of_def Let_def by (simp only: bindE_eq_Inr) (elim exE conjE, simp, blast)
  have "inv d1" by (rule charge [OF assms(1,2) same_complete steps(1)])
  moreover have "till_same d1 d2" "till_same d2 d3"
    using steps(2,3) by (auto split: option.split_asm prod.split_asm dest: same_club same_package)
  moreover have "till_same d3 d4" by (rule same_redeem_points [OF steps(4)])
  ultimately have "inv d4" by (blast intro: frame)
  then show ?thesis unfolding db' by (auto intro!: sell_items intro: frame till_frame till_same_trans)
qed

lemma edited:
  assumes "inv db" and run: "updateSale I now u b saleId d db = (r, db')"
  shows "inv db'"
  using run unfolding updateSale_def
proof (elim and_thenE, goal_cases)
  case (3 shop s1 x s2)
  then have "inv s2" using assms(1) by (auto simp: edit_quota_def split: option.split_asm dest!: solo_sale_months intro: frame same_months)
  have written: "inv d'" if w: "sale_update_write now b network saleId d s2 = Inr d'" for network d'
  proof (cases "saleOfShop s2 b saleId")
    case None
    with w show ?thesis by (simp add: sale_update_write_def)
  next
    case (Some e)
    have "same_card_columns (patch_sale now openId d net n)" for openId net n by (simp add: same_card_columns_def patch_sale_def Let_def)
    then have "inv (s2\<lparr>sales := update_many (\<lambda>s. se_id s = saleId) (patch_sale now openId d net n) (sales s2)\<rparr>)" for openId net n
      by (rule edit [OF \<open>inv s2\<close>])
    moreover obtain net where "d' = (let db2 = update_points now network e d net
          (s2\<lparr>sales := update_many (\<lambda>s. se_id s = saleId) (patch_sale now (map_option cs_id (openSession s2 b)) d net (next_earned network e d net)) (sales s2)\<rparr>)
        in case sc_items d of None \<Rightarrow> db2 | Some items \<Rightarrow> applySaleStockDelta now b saleId (se_items e) items db2)"
      using w Some unfolding sale_update_write_def by (simp only: bindE_eq_Inr option.case) (elim exE conjE, simp add: Let_def, metis)
    ultimately show ?thesis by (auto simp: Let_def split: option.split intro!: stock_delta intro: frame same_update_points)
  qed
  with 3 \<open>inv s2\<close> show ?case by (auto simp: Let_def bindE_eq_Inr split: sum.split_asm option.split_asm intro: frame same_settle)
qed (use assms(1) in \<open>auto simp: edit_quota_def split: option.split_asm dest!: solo_sale_months intro: frame same_months\<close>)

lemma cancelled_card:
  assumes "inv db" and run: "cancelIssuedIfUnused saleId db = Inr db'"
  shows "inv db' \<and> sales db' = sales db"
proof -
  obtain d1 where d1: "cancel_issued_package saleId db = Inr d1" "cancel_issued_card saleId d1 = Inr db'"
    using run by (auto simp: cancelIssuedIfUnused_def bindE_eq_Inr)
  then have "till_same db d1"
    by (auto simp: cancel_issued_package_def till_same_def bindE_eq_Inr Let_def split: option.split_asm if_split_asm)
  then have "inv d1" "sales d1 = sales db" using frame assms(1) by (auto simp: till_same_def)
  have "lowers_balance (\<lambda>c. c\<lparr>gc_isActive := False, gc_remainingValue := 0\<rparr>)" by (simp add: lowers_balance_def)
  then show ?thesis using d1(2) \<open>inv d1\<close> \<open>sales d1 = sales db\<close> shut [OF \<open>inv d1\<close>]
    by (auto simp: cancel_issued_card_def bindE_eq_Inr Let_def split: option.split_asm if_split_asm)
qed

lemma removed_sale:
  assumes "inv db" and run: "deleteSale now u b saleId db = Inr db'"
  shows "inv db'"
proof -
  obtain e c where found: "sale_delete_read now u b saleId db = Inr (e, c)" and w: "sale_delete_write now u b (e, c) db = Inr db'"
    using run by (auto simp: deleteSale_def bindE_eq_Inr)
  have e: "e \<in> set (rows (sales db))"
    using found by (auto simp: sale_delete_read_def saleOfShop_def bindE_eq_Inr split: option.split_asm dest: find_first_Some)
  obtain d0 where d0: "cancelIssuedIfUnused (se_id e) db = Inr d0"
    and final: "till_same (drop_sale (se_id e) (return_stock now (se_id e) (return_points e (credit_of e (return_sessions now u e d0))))) db'"
    using w unfolding sale_delete_write_def Let_def prod.case
    by (auto simp: bindE_eq_Inr intro: same_deduct)
  let ?d = "return_sessions now u e d0"
  have "inv ?d" "e \<in> set (rows (sales ?d))" using cancelled_card [OF assms(1) d0] e frame same_sessions [of d0 now u e] by (auto simp: till_same_def)
  then have "inv (drop_sale (se_id e) (return_stock now (se_id e) (credit_of e ?d)))" by (rule remove)
  then show ?thesis using final same_return_points [of "credit_of e ?d" e] by (blast intro: frame drop_sale_cong return_stock_cong)
qed

lemma refunded:
  assumes "inv db" and run: "refundIssuedRemainder now u b saleId db = Inr db'"
  shows "inv db'"
proof -
  have cards: "inv d" if "refund_issued_card i t g db = Inr (n, d)" for i t g n d
  proof -
    have "lowers_balance (\<lambda>c. c\<lparr>gc_remainingValue := 0, gc_isActive := False\<rparr>)" by (simp add: lowers_balance_def)
    then show ?thesis using that shut [OF assms(1)] by (auto simp: refund_issued_card_def bindE_eq_Inr Let_def split: if_split_asm)
  qed
  have packages: "inv d" if "refund_issued_package now i t p db = Inr (n, d)" for i t p n d
  proof -
    have "till_same db d" using that by (auto simp: refund_issued_package_def bindE_eq_Inr Let_def till_same_def split: if_split_asm)
    then show ?thesis using frame assms(1) by blast
  qed
  have rows': "inv (refund_points e n (refund_rows now b e t isPackage n d))" if "inv d" for e n t isPackage and d :: sale_db
  proof -
    have card: "same_card_columns (\<lambda>s. if c then s\<lparr>se_loyaltyPointsEarned := x\<rparr> else s)"
        "same_card_columns (\<lambda>s. if c then lower_sale t s\<lparr>se_loyaltyPointsEarned := x\<rparr> else lower_sale t s)" for c x
      by (simp_all add: same_card_columns_def lower_sale_def)
    have new: "inv (d\<lparr>sales := create_row (refund_sale_row now b e a isPackage openId) (sales d)\<rparr>)" for a openId
      by (rule plain [OF that]) (simp add: refund_sale_row_def Let_def)
    have "inv (refund_rows now b e t isPackage n d)"
      using edit [OF that card(1)] edit [OF that card(2)] edit [OF new card(1)] by (simp add: refund_rows_def Let_def)
    then show ?thesis by (auto simp: refund_points_def Let_def intro: frame same_points)
  qed
  show ?thesis using run unfolding refundIssuedRemainder_def Let_def
    by (simp only: bindE_eq_Inr) (auto simp: bindE_eq_Inr split: option.split_asm dest!: cards packages intro!: rows')
qed

end

section \<open>The ledger of the stock\<close>

lemma ledger_same: "ledger_ok db \<Longrightarrow> till_same db db' \<Longrightarrow> ledger_ok db'"
  by (erule ledger_frame) (simp_all add: till_same_def)

lemma debit_stock: "debit_of p db = Inr db' \<Longrightarrow> inventoryItems db' = inventoryItems db \<and> inventoryMovements db' = inventoryMovements db"
  by (auto simp: debit_of_def debit_card_def Let_def split: option.split_asm if_split_asm)

interpretation stock_laws: till_laws "ledger_ok :: sale_db \<Rightarrow> bool"
proof unfold_locales
  fix db db' :: sale_db
  show "ledger_ok db \<Longrightarrow> till_same db db' \<Longrightarrow> ledger_ok db'" by (rule ledger_same)
next
  fix db db1 db2 :: sale_db and p now b
  assume "ledger_ok db" and same: "till_same (db\<lparr>sales := create_row (new_sale now b p) (sales db)\<rparr>) db1" and debit: "debit_of p db1 = Inr db2"
  then show "ledger_ok db2" using debit_stock [OF debit] by (intro ledger_frame [of db db2]) (simp_all add: till_same_def)
next
  fix db :: sale_db and e now
  assume "ledger_ok db"
  then have "ledger_ok (credit_of e db)"
    by (rule ledger_frame) (auto simp: credit_of_def credit_card_def split: option.split)
  then have "ledger_ok (return_stock now (se_id e) (credit_of e db))" by (rule return_stock_ok)
  then show "ledger_ok (drop_sale (se_id e) (return_stock now (se_id e) (credit_of e db)))"
    by (rule ledger_frame) (simp_all add: drop_sale_def)
qed (auto intro: ledger_frame stock_sold_ok adjust_ok update_item_ok)

section \<open>The balance of gift cards\<close>

interpretation card_tab: row_table gc_id "table_ok gc_id"
  by unfold_locales (rule table_ok_def)

interpretation sale_tab: row_table se_id "table_ok se_id"
  by unfold_locales (rule table_ok_def)

definition spent :: "sale table \<Rightarrow> int \<Rightarrow> rat" where
  "spent t i = sum_where (\<lambda>s. se_giftCardId s = Some i) (amount_or_0 \<circ> se_giftCardAmountApplied) t"

text \<open>What is left of a card and what sales took of it never exceed its value.\<close>

definition card_ok :: "sale table \<Rightarrow> gift_card \<Rightarrow> bool" where
  "card_ok t g \<longleftrightarrow> 0 \<le> gc_remainingValue g \<and> gc_remainingValue g + spent t (gc_id g) \<le> gc_initialValue g"

definition cards_ok :: "'a gift_db_scheme \<Rightarrow> bool" where
  "cards_ok db \<longleftrightarrow> table_ok gc_id (giftCards db) \<and> table_ok se_id (sales db)
     \<and> (\<forall>g \<in> set (rows (giftCards db)). card_ok (sales db) g)
     \<and> (\<forall>s \<in> set (rows (sales db)). \<forall>i. se_giftCardId s = Some i \<longrightarrow> i < seq (giftCards db) \<and> 0 \<le> amount_or_0 (se_giftCardAmountApplied s))"

lemma cards_frame: "cards_ok db \<Longrightarrow> giftCards db' = giftCards db \<Longrightarrow> sales db' = sales db \<Longrightarrow> cards_ok db'"
  by (simp add: cards_ok_def)

lemma spent_create: "spent (create_row mk t) i = spent t i
    + (if se_giftCardId (mk (seq t)) = Some i then amount_or_0 (se_giftCardAmountApplied (mk (seq t))) else 0)"
  by (simp add: spent_def sum_where_create)

lemma spent_update: "same_card_columns f \<Longrightarrow> spent (update_many q f t) = spent t"
  by (intro ext) (simp add: spent_def same_card_columns_def sum_where_update)

lemma spent_new: "cards_ok db \<Longrightarrow> spent (sales db) (seq (giftCards db)) = 0"
proof -
  assume "cards_ok db"
  then have "find_many (\<lambda>s. se_giftCardId s = Some (seq (giftCards db))) (sales db) = []"
    unfolding find_many_def filter_empty_conv cards_ok_def by fastforce
  then show ?thesis by (simp add: spent_def sum_where_def)
qed

lemma spent_delete:
  assumes ok: "table_ok se_id t" and e: "e \<in> set (rows t)"
  shows "spent (delete_many (\<lambda>s. se_id s = se_id e) t) i = spent t i
    - (if se_giftCardId e = Some i then amount_or_0 (se_giftCardAmountApplied e) else 0)"
proof -
  let ?f = "amount_or_0 \<circ> se_giftCardAmountApplied"
  let ?v = "\<lambda>xs. sum_list (map ?f (filter (\<lambda>s. se_giftCardId s = Some i) xs))"
  have gone: "filter (\<lambda>s. se_id s \<noteq> se_id e) xs = xs" if "se_id e \<notin> se_id ` set xs" for xs using that by (induction xs) auto
  have "?v (filter (\<lambda>s. se_id s \<noteq> se_id e) xs) = ?v xs - (if se_giftCardId e = Some i then ?f e else 0)"
    if "e \<in> set xs" "distinct (map se_id xs)" for xs
    using that
  proof (induction xs)
    case (Cons x xs)
    then show ?case using gone [of xs] by (cases "x = e") (auto simp: image_iff)
  qed simp
  then show ?thesis using ok e by (simp add: spent_def sum_where_def find_many_def table_ok_def)
qed

lemma cards_charge:
  assumes ok: "cards_ok db" and pos: "0 \<le> ss_card (sn_split p)"
    and same: "till_same (db\<lparr>sales := create_row (new_sale now b p) (sales db)\<rparr>) db1" and debit: "debit_of p db1 = Inr db2"
  shows "cards_ok (db2 :: sale_db)"
proof -
  let ?t = "create_row (new_sale now b p) (sales db)" and ?n = "new_sale now b p (seq (sales db))"
  have t: "table_ok se_id ?t" using ok by (intro sale_tab.ok_create) (simp_all add: cards_ok_def new_sale_def Let_def)
  have new: "se_giftCardId ?n = sn_card p" "sn_card p = None \<or> se_giftCardAmountApplied ?n = Some (ss_card (sn_split p))"
    by (simp_all add: new_sale_def Let_def)
  show ?thesis
  proof (cases "sn_card p")
    case None
    with debit same have "giftCards db2 = giftCards db" "sales db2 = ?t" by (auto simp: debit_of_def till_same_def)
    moreover have "spent ?t = spent (sales db)" by (intro ext) (simp add: spent_create new None)
    ultimately show ?thesis using ok t new None by (auto simp: cards_ok_def card_ok_def)
  next
    case (Some i)
    let ?a = "ss_card (sn_split p)" and ?mine = "\<lambda>g. gc_id g = i \<and> gc_remainingValue g \<ge> ss_card (sn_split p)"
    let ?cards = "update_many ?mine (\<lambda>g. g\<lparr>gc_remainingValue := gc_remainingValue g - ?a\<rparr>) (giftCards db)"
    have db2: "giftCards db2 = ?cards" "sales db2 = ?t" and "count_where ?mine (giftCards db) \<noteq> 0"
      using debit same Some by (auto simp: debit_of_def debit_card_def till_same_def Let_def split: if_split_asm)
    then obtain g where g: "g \<in> set (rows (giftCards db))" "?mine g" by (auto simp: count_where_zero)
    have sp: "spent ?t j = spent (sales db) j + (if j = i then ?a else 0)" for j using new Some by (simp add: spent_create amount_or_0_def)
    have "table_ok gc_id ?cards" using ok by (intro card_tab.ok_update) (simp_all add: cards_ok_def)
    moreover have "card_ok ?t h" if "h \<in> set (rows ?cards)" for h
      using that ok g card_tab.key_inj [of "giftCards db" _ g] by (force simp: cards_ok_def card_ok_def sp split: if_split_asm)
    moreover have "i < seq (giftCards db)" using ok g by (auto simp: cards_ok_def table_ok_def)
    ultimately show ?thesis using ok t new Some pos by (auto simp: cards_ok_def db2 amount_or_0_def)
  qed
qed

definition taken :: "sale \<Rightarrow> int \<Rightarrow> rat" where
  "taken e i = (if se_giftCardId e = Some i then amount_or_0 (se_giftCardAmountApplied e) else 0)"

lemma credit_rows:
  "rows (giftCards (credit_of e db)) = map (\<lambda>g. g\<lparr>gc_remainingValue := gc_remainingValue g + taken e (gc_id g)\<rparr>) (rows (giftCards db))"
  "seq (giftCards (credit_of e db)) = seq (giftCards db)"
proof -
  have "map (\<lambda>g. g\<lparr>gc_remainingValue := gc_remainingValue g + 0\<rparr>) xs = xs" for xs :: "gift_card list"
    by (rule map_idI) simp
  then show "rows (giftCards (credit_of e db)) = map (\<lambda>g. g\<lparr>gc_remainingValue := gc_remainingValue g + taken e (gc_id g)\<rparr>) (rows (giftCards db))"
    by (cases "se_giftCardId e"; cases "se_giftCardAmountApplied e") (auto simp: credit_of_def credit_card_def taken_def amount_or_0_def cong: if_cong)
qed (simp add: credit_of_def credit_card_def split: option.split)

lemma cards_remove:
  assumes ok: "cards_ok db" and e: "e \<in> set (rows (sales db))"
  shows "cards_ok (drop_sale (se_id e) (return_stock now (se_id e) (credit_of e (db :: sale_db))))"
proof -
  let ?db = "drop_sale (se_id e) (return_stock now (se_id e) (credit_of e db))"
  have sales': "sales ?db = delete_many (\<lambda>s. se_id s = se_id e) (sales db)"
    by (auto simp: drop_sale_def credit_of_def credit_card_def split: option.split)
  have cards: "giftCards ?db = update_many (\<lambda>g. gc_saleId g = Some (se_id e)) (\<lambda>g. g\<lparr>gc_saleId := None\<rparr>) (giftCards (credit_of e db))"
    by (simp add: drop_sale_def)
  have keys: "map gc_id (rows (giftCards ?db)) = map gc_id (rows (giftCards db))" "seq (giftCards ?db) = seq (giftCards db)"
    by (auto simp: cards credit_rows)
  have sp: "spent (sales ?db) i = spent (sales db) i - taken e i" for i
    unfolding sales' using ok e by (simp add: spent_delete cards_ok_def taken_def)
  have "0 \<le> taken e i" for i using ok e by (auto simp: cards_ok_def taken_def)
  then have "card_ok (sales ?db) g" if "g \<in> set (rows (giftCards ?db))" for g
    using that ok unfolding card_ok_def sp cards by (auto simp: credit_rows cards_ok_def card_ok_def)
  moreover have "table_ok gc_id (giftCards ?db)" by (rule table_ok_keys [OF _ keys]) (use ok in \<open>simp add: cards_ok_def\<close>)
  moreover have "table_ok se_id (sales ?db)" unfolding sales' using ok by (intro sale_tab.ok_delete) (simp add: cards_ok_def)
  ultimately show ?thesis using ok unfolding cards_ok_def keys(2) by (auto simp: sales')
qed

lemma cards_shut:
  assumes ok: "cards_ok db" and f: "lowers_balance f"
  shows "cards_ok (db\<lparr>giftCards := update_many q f (giftCards db)\<rparr>)"
proof -
  have "card_ok t (f g)" if "card_ok t g" for t g
  proof -
    have "gc_id (f g) = gc_id g" "gc_initialValue (f g) = gc_initialValue g" "0 \<le> gc_remainingValue (f g)" "gc_remainingValue (f g) \<le> gc_remainingValue g"
      using that f by (simp_all add: card_ok_def lowers_balance_def)
    then show ?thesis using that by (simp add: card_ok_def)
  qed
  moreover have "table_ok gc_id (update_many q f (giftCards db))"
    using ok f by (intro card_tab.ok_update) (simp_all add: cards_ok_def lowers_balance_def)
  ultimately show ?thesis using ok by (auto simp: cards_ok_def)
qed

lemma cards_issue:
  assumes ok: "cards_ok db" and mk: "\<forall>i. gc_id (mk i) = i \<and> gc_remainingValue (mk i) = gc_initialValue (mk i) \<and> 0 < gc_initialValue (mk i)"
  shows "cards_ok (db\<lparr>giftCards := create_row mk (giftCards db)\<rparr>)"
proof -
  have "card_ok (sales db) (mk (seq (giftCards db)))"
    using mk spent_new [OF ok] by (simp add: card_ok_def order_less_imp_le)
  moreover have "table_ok gc_id (create_row mk (giftCards db))" using ok mk by (intro card_tab.ok_create) (simp_all add: cards_ok_def)
  ultimately show ?thesis using ok by (fastforce simp: cards_ok_def)
qed

lemma cards_edit:
  assumes ok: "cards_ok db" and f: "same_card_columns f"
  shows "cards_ok (db\<lparr>sales := update_many q f (sales db)\<rparr>)"
proof -
  have "table_ok se_id (update_many q f (sales db))"
    using ok f by (intro sale_tab.ok_update) (simp_all add: cards_ok_def same_card_columns_def)
  then show ?thesis using ok f by (auto simp: cards_ok_def card_ok_def spent_update same_card_columns_def)
qed

lemma cards_plain:
  assumes ok: "cards_ok db" and mk: "\<forall>i. se_id (mk i) = i \<and> se_giftCardId (mk i) = None"
  shows "cards_ok (db\<lparr>sales := create_row mk (sales db)\<rparr>)"
proof -
  have "spent (create_row mk (sales db)) = spent (sales db)" using mk by (intro ext) (simp add: spent_create)
  moreover have "table_ok se_id (create_row mk (sales db))" using ok mk by (intro sale_tab.ok_create) (simp_all add: cards_ok_def)
  ultimately show ?thesis using ok mk by (auto simp: cards_ok_def card_ok_def)
qed

lemma adjust_rest:
  "adjustInventory now u b d db = Inr (m, db') \<Longrightarrow> giftCards db' = giftCards db \<and> sales db' = sales db"
  by (auto simp: adjustInventory_def adjust_write_def moveStock_def record_movement_def bindE_eq_Inr Let_def
      split: if_split_asm prod.split_asm)

lemma update_item_rest:
  "updateInventoryItem now u b k least shelf db = Inr db' \<Longrightarrow> giftCards db' = giftCards db \<and> sales db' = sales db"
  by (auto simp: updateInventoryItem_def bindE_eq_Inr Let_def split: option.split_asm)

lemma cards_moved: "cards_ok db \<Longrightarrow> cards_ok (sold_movement now b i n k q db)"
  by (erule cards_frame) simp_all

interpretation card_laws: till_laws "cards_ok :: sale_db \<Rightarrow> bool"
proof unfold_locales
  fix db db' :: sale_db
  show "cards_ok db \<Longrightarrow> till_same db db' \<Longrightarrow> cards_ok db'" by (erule cards_frame) (simp_all add: till_same_def)
next
  fix db db' :: sale_db and now u b d m
  assume "cards_ok db" and run: "adjustInventory now u b d db = Inr (m, db')"
  then show "cards_ok db'" using adjust_rest [OF run] by (intro cards_frame [of db db']) simp_all
next
  fix db db' :: sale_db and now u b k least shelf
  assume "cards_ok db" and run: "updateInventoryItem now u b k least shelf db = Inr db'"
  then show "cards_ok db'" using update_item_rest [OF run] by (intro cards_frame [of db db']) simp_all
qed (rule cards_charge cards_plain cards_edit cards_remove cards_shut cards_issue cards_moved; assumption)+

section \<open>Who pays what\<close>

lemma js_ceil_nonneg: "0 \<le> x \<Longrightarrow> 0 \<le> js_ceil x"
  by (simp add: js_ceil_def)

lemma round2_nonneg: "0 \<le> x \<Longrightarrow> 0 \<le> round2 x"
  using js_round_mono [of 0 "x * 100"] js_round_of_int [of 0] by (simp add: round2_def)

lemma split_saleE:
  assumes "split_sale full dep pre voucher points v = Inr s"
  obtains d q left0 c left1 n w where "round2 (dep + pre) \<le> max 0 full + 1 / 200" "d = min dep (max 0 full)" "q = min pre (max 0 full - d)"
    "left0 = round2 (max 0 full - d - q)" "c = (case voucher of None \<Rightarrow> 0 | Some x \<Rightarrow> round2 (min x left0))"
    "left1 = (case voucher of None \<Rightarrow> left0 | Some _ \<Rightarrow> round2 (left0 - c))"
    "n = (if int_or_0 points > 0 \<and> v > 0 then min (int_or_0 points) (js_ceil (left1 / v)) else 0)"
    "w = (if int_or_0 points > 0 then round2 (min (of_int n * v) left1) else 0)"
    "\<lparr>ss_deposit = d, ss_prepaid = q, ss_card = c, ss_points = n, ss_pointsValue = w,
      ss_left = (if int_or_0 points > 0 then round2 (left1 - w) else left1)\<rparr> = s"
proof (cases "round2 (dep + pre) > max 0 full + 1 / 200")
  case True
  with assms show ?thesis by (simp add: split_sale_def)
next
  case False
  show ?thesis
    by (rule that [OF _ refl refl refl refl refl refl refl])
      (use assms False in \<open>simp_all only: split_sale_def Let_def int_or_0_def if_False sum.inject not_less\<close>)
qed

lemma split_card_nonneg:
  assumes split: "split_sale full dep pre voucher points v = Inr s" and card: "\<And>c. voucher = Some c \<Longrightarrow> 0 \<le> c"
  shows "0 \<le> ss_card s"
  using split
proof (rule split_saleE)
  fix d q left0 c left1 n w
  assume defs: "d = min dep (max 0 full)" "q = min pre (max 0 full - d)" "left0 = round2 (max 0 full - d - q)"
    "c = (case voucher of None \<Rightarrow> 0 | Some x \<Rightarrow> round2 (min x left0))"
    and s: "\<lparr>ss_deposit = d, ss_prepaid = q, ss_card = c, ss_points = n, ss_pointsValue = w,
      ss_left = (if int_or_0 points > 0 then round2 (left1 - w) else left1)\<rparr> = s"
  have "0 \<le> left0" unfolding defs by (rule round2_nonneg) simp
  then have "0 \<le> c" using card unfolding defs(4) by (cases voucher) (simp_all add: round2_nonneg)
  then show ?thesis by (simp add: s [symmetric])
qed

lemma prepareE:
  assumes "sale_prepare now b (shop, dep, pre, d) db = Inr p"
  obtains card network where "sa_network shop = Some network" "sn_data p = d" "sn_network p = network" "sn_card p = map_option gc_id card"
    "optional (if given (si_giftCardCode d) then si_giftCardCode d else None) (\<lambda>code. validateGiftCard now b code db) = Inr card"
    "split_sale (si_total d) dep pre (map_option gc_remainingValue card) (si_loyaltyPointsRedeemed d)
       (amount_or_0 (nw_loyaltyPointValue network)) = Inr (sn_split p)"
proof (cases "sa_network shop")
  case None
  with assms show ?thesis unfolding sale_prepare_def by (simp only: bindE_eq_Inr prod.case option.case) simp
next
  case (Some network)
  then show ?thesis using assms that unfolding sale_prepare_def
    by (simp only: bindE_eq_Inr prod.case option.case) (elim exE conjE, fastforce)
qed

lemma prepared_card: "sale_prepare now b checked db = Inr p \<Longrightarrow> 0 \<le> ss_card (sn_split p)"
proof -
  obtain shop dep pre d where checked: "checked = (shop, dep, pre, d)" by (cases checked) auto
  assume "sale_prepare now b checked db = Inr p"
  from prepareE [OF this [unfolded checked]] obtain card points v where
      "optional (if given (si_giftCardCode d) then si_giftCardCode d else None) (\<lambda>code. validateGiftCard now b code db) = Inr card"
      and split: "split_sale (si_total d) dep pre (map_option gc_remainingValue card) points v = Inr (sn_split p)" by metis
  moreover have "0 < gc_remainingValue g" if "validateGiftCard now b code db = Inr g" for code g
    using that by (auto simp: validateGiftCard_def bindE_eq_Inr split: option.split_asm)
  ultimately have "0 \<le> c" if "map_option gc_remainingValue card = Some c" for c
    using that by (fastforce simp: optional_def bindE_eq_Inr split: option.split_asm if_split_asm)
  then show ?thesis by (rule split_card_nonneg [OF split])
qed

section \<open>Any sequence of operations\<close>

text \<open>
  A charge runs its transaction on the database as it is then, with a plan read from any earlier one.
  \<open>Elsewhere\<close> is any operation that leaves sales, cards and stock alone.
\<close>

inductive sale_step :: "sale_db \<Rightarrow> sale_db \<Rightarrow> bool" where
  Card_sold: "createGiftCard draws now u n d db = Inr db' \<Longrightarrow> sale_step db db'"
| Card_switched: "setGiftCardActive now u n i on db = Inr db' \<Longrightarrow> sale_step db db'"
| Package_sold: "purchaseClientPackage I now u b c i paid_by db = Inr (k, db') \<Longrightarrow> sale_step db db'"
| Charged: "sale_prepare now b checked (db0 :: sale_db) = Inr p \<Longrightarrow> sale_write now' u b p db = Inr (i, db') \<Longrightarrow> sale_step db db'"
| Edited: "updateSale I now u b i d db = (r, db') \<Longrightarrow> sale_step db db'"
| Removed: "deleteSale now u b i db = Inr db' \<Longrightarrow> sale_step db db'"
| Refunded: "refundIssuedRemainder now u b i db = Inr db' \<Longrightarrow> sale_step db db'"
| Fee_collected: "markNoShowFeeCollected now u b i paid_by db = Inr db' \<Longrightarrow> sale_step db db'"
| Adjusted: "adjustInventory now u b a db = Inr (m, db') \<Longrightarrow> sale_step db db'"
| Placed: "updateInventoryItem now u b k least shelf db = Inr db' \<Longrightarrow> sale_step db db'"
| Elsewhere: "till_same db db' \<Longrightarrow> sale_step db db'"

text \<open>\<open>createSale\<close> is the release of months earned, which is elsewhere, and a charge.\<close>

lemma createSale_steps: "createSale I now u b d db = (Inr i, db') \<Longrightarrow> sale_step\<^sup>*\<^sup>* db db'"
proof -
  assume "createSale I now u b d db = (Inr i, db')"
  then obtain checked db1 p where "assertSoloProductSaleAllowed I db now b now (units_of (si_items d)) = (Inr (), db1)"
      "sale_prepare now b checked db1 = Inr p" "sale_write now u b p db1 = Inr (i, db')"
    unfolding createSale_def by (elim and_thenE) (auto simp: bindE_eq_Inr split: sum.split_asm prod.split_asm)
  then have "sale_step db db1" "sale_step db1 db'" by (blast intro: Elsewhere Charged same_months solo_sale_months)+
  then show ?thesis by (meson rtranclp.rtrancl_refl rtranclp.rtrancl_into_rtrancl)
qed

text \<open>Sales of a package, of a card or of a fee use no gift card.\<close>

lemma standalone_plain:
  assumes "recordStandaloneSale db now b c k a n m = Inr (i, db')"
  obtains mk where "db' = db\<lparr>sales := create_row mk (sales db)\<rparr>" "\<forall>i. se_id (mk i) = i \<and> se_giftCardId (mk i) = None"
  using assms by (rule_tac that) (auto simp: recordStandaloneSale_def bindE_eq_Inr standalone_sale_def Let_def)

lemma purchase_plain:
  assumes run: "purchaseClientPackage I now u b c i paid_by (db :: sale_db) = Inr (k, db')"
  obtains mk where "till_same (db\<lparr>sales := create_row mk (sales db)\<rparr>) db'" "\<forall>i. se_id (mk i) = i \<and> se_giftCardId (mk i) = None"
proof (cases "find_first (\<lambda>p. sp_id p = i \<and> sp_barbershopId p = b \<and> sp_isActive p) (servicePackages db)")
  case None
  with run show ?thesis unfolding purchaseClientPackage_def by (simp only: bindE_eq_Inr option.case) simp
next
  case (Some p)
  obtain saleId db1 t where rec: "recordStandaloneSale db now b (Some c) ''PACKAGE'' (sp_price p) (''Pacote - '' @ sp_name p) paid_by = Inr (saleId, db1)"
      and db': "db' = db1\<lparr>clientPackages := t\<rparr>"
    using run Some unfolding purchaseClientPackage_def
    by (simp only: bindE_eq_Inr option.case) (elim exE conjE, simp split: prod.split_asm, blast)
  obtain mk where "db1 = db\<lparr>sales := create_row mk (sales db)\<rparr>" "\<forall>i. se_id (mk i) = i \<and> se_giftCardId (mk i) = None"
    using rec by (rule standalone_plain)
  then show ?thesis by (intro that [of mk]) (simp_all add: db' till_same_def)
qed

context till_laws
begin

lemma step:
  assumes "sale_step db db'" and "inv db"
  shows "inv db'"
  using assms
proof (induction rule: sale_step.induct)
  case (Card_sold draws now u n d db db')
  then obtain b currency code saleId d1 where c: "card_checks now u n d db = Inr (b, currency)"
      and rec: "recordStandaloneSale db now b None ''GIFT_CARD'' (gi_initialValue d) (''Cartao-presente '' @ code) (gi_paymentMethod d) = Inr (saleId, d1)"
      and db': "db' = d1\<lparr>giftCards := create_row (new_card now n d code currency saleId) (giftCards d1)\<rparr>"
    unfolding createGiftCard_def by (auto simp: bindE_eq_Inr split: option.split_asm)
  have "0 < gi_initialValue d" using c by (auto simp: card_checks_def bindE_eq_Inr split: option.split_asm if_split_asm)
  moreover have "inv d1" using standalone_plain [OF rec] plain Card_sold(2) by metis
  ultimately show ?case unfolding db' by (intro issue) (simp_all add: new_card_def)
next
  case (Card_switched now u n i on db db')
  have "lowers_balance (\<lambda>g. g\<lparr>gc_isActive := on\<rparr>)" by (simp add: lowers_balance_def)
  with Card_switched show ?case by (auto simp: setGiftCardActive_def bindE_eq_Inr intro: shut)
next
  case (Package_sold I now u b c i paid_by db k db')
  then show ?case using purchase_plain [OF Package_sold(1)] plain frame by metis
next
  case (Fee_collected now u b i paid_by db db')
  have mk: "\<forall>k. se_id (fee_sale now b f m o' k) = k \<and> se_giftCardId (fee_sale now b f m o' k) = None" for f m o' by (simp add: fee_sale_def)
  have fees: "inv (d\<lparr>noShowFees := t\<rparr>)" if "inv d" for d t using that by (rule frame) (simp add: till_same_def)
  have "inv (db\<lparr>sales := create_row (fee_sale now b f m o') (sales db), noShowFees := t\<rparr>)" for f m o' t
    by (rule fees) (rule plain [OF Fee_collected(2) mk])
  with Fee_collected(1) show ?case by (auto simp: markNoShowFeeCollected_def bindE_eq_Inr Let_def split: option.split_asm)
qed (blast intro: charged edited removed_sale refunded adjusted placed frame prepared_card)+

lemma steps: "sale_step\<^sup>*\<^sup>* db db' \<Longrightarrow> inv db \<Longrightarrow> inv db'"
  by (induction rule: rtranclp_induct) (auto intro: step)

end

section \<open>The theorems\<close>

text \<open>
  C35. No gift card pays more than its value. From an empty till, whatever cards are sold and switched on and off, whatever sales are
  charged (with reads as old as one likes), edited, removed and refunded, in any order, what is left of a card is never negative
  and, with what the sales still there took of it, never more than it was sold for.
\<close>

theorem gift_card_never_overdrawn:
  assumes "sale_step\<^sup>*\<^sup>* db db'" and "giftCards db = empty_table" and "sales db = empty_table" and "g \<in> set (rows (giftCards db'))"
  shows "0 \<le> gc_remainingValue g \<and> gc_remainingValue g
    + sum_list (map (\<lambda>s. amount_or_0 (se_giftCardAmountApplied s)) (filter (\<lambda>s. se_giftCardId s = Some (gc_id g)) (rows (sales db'))))
    \<le> gc_initialValue g"
proof -
  have "cards_ok db" using assms(2,3) by (simp add: cards_ok_def card_tab.ok_empty sale_tab.ok_empty)
  then have "cards_ok db'" by (rule card_laws.steps [OF assms(1)])
  then have "card_ok (sales db') g" using assms(4) by (simp add: cards_ok_def)
  then show ?thesis unfolding card_ok_def spent_def sum_where_def find_many_def o_def .
qed

text \<open>
  C36. The stock says what its ledger says. From an empty stock, after any sequence of adjustments, counts, sales, edits and removals of
  sales, the quantity of a product is the sum of its movements, and every movement goes from the quantity
  before it to the quantity after it by its change.
\<close>

theorem stock_ledger_true:
  assumes "sale_step\<^sup>*\<^sup>* db db'" and "inventoryItems db = empty_table" and "inventoryMovements db = empty_table"
  shows "(\<forall>i \<in> set (rows (inventoryItems db')). ii_quantity i
      = sum_list (map im_quantityChange (filter (\<lambda>m. im_inventoryItemId m = ii_id i) (rows (inventoryMovements db')))))
    \<and> (\<forall>m \<in> set (rows (inventoryMovements db')). im_quantityAfter m = im_quantityBefore m + im_quantityChange m)"
proof -
  have "ledger_ok db" using assms(2,3) by (simp add: ledger_ok_def stock_tab.ok_empty)
  then have "ledger_ok db'" by (rule stock_laws.steps [OF assms(1)])
  then show ?thesis unfolding ledger_ok_def movement_sum_def sum_where_def find_many_def by blast
qed

text \<open>Amounts in whole cents that fit up to half a cent fit.\<close>

lemma whole_cents_le: "whole_cents x \<Longrightarrow> whole_cents y \<Longrightarrow> x \<le> y + 1 / 200 \<Longrightarrow> x \<le> y"
proof -
  assume "whole_cents x" "whole_cents y" and le: "x \<le> y + 1 / 200"
  then obtain k m where "x = of_int k / 100" "y = of_int m / 100" by (auto simp: whole_cents_iff)
  with le have "(of_int (2 * k) :: rat) \<le> of_int (2 * m + 1)" by simp
  then have "k \<le> m" unfolding of_int_le_iff by simp
  then have "(of_int k :: rat) / 100 \<le> of_int m / 100" by (simp add: divide_right_mono)
  then show ?thesis using \<open>x = _\<close> \<open>y = _\<close> by simp
qed

lemma round2_whole: "whole_cents x \<Longrightarrow> round2 x = x"
  by (simp add: round2_cents cents_id)

lemma round2_mono: "x \<le> y \<Longrightarrow> round2 x \<le> round2 y"
  using js_round_mono [of "x * 100" "y * 100"] by (simp add: round2_def divide_right_mono)

lemma whole_cents_min_max: "whole_cents x \<Longrightarrow> whole_cents y \<Longrightarrow> whole_cents (min x y) \<and> whole_cents (max x y)"
  by (simp add: min_def max_def)

text \<open>
  C37. The bill adds up. Of a sale in whole cents, what is left to pay, the gift card, the points, the deposit and the amount paid in the
  app are together the total that was charged: nothing is counted twice or lost. What was paid before counts in full, what is
  left is not negative, the card gives at most its balance and no more points are taken than were offered.
\<close>

theorem split_sale_adds_up:
  assumes split: "split_sale full dep pre voucher points v = Inr s"
    and whole: "whole_cents full" "whole_cents dep" "whole_cents pre" "\<forall>c. voucher = Some c \<longrightarrow> whole_cents c \<and> 0 \<le> c"
    and pos: "0 \<le> dep" "0 \<le> pre"
  shows "ss_left s + ss_card s + ss_pointsValue s + ss_deposit s + ss_prepaid s = max 0 full
    \<and> ss_deposit s = dep \<and> ss_prepaid s = pre \<and> 0 \<le> ss_left s
    \<and> 0 \<le> ss_card s \<and> (\<forall>c. voucher = Some c \<longrightarrow> ss_card s \<le> c)
    \<and> 0 \<le> ss_points s \<and> ss_points s \<le> max 0 (int_or_0 points)"
  using split
proof (rule split_saleE)
  fix d q left0 c left1 n w
  assume fits: "round2 (dep + pre) \<le> max 0 full + 1 / 200"
    and defs: "d = min dep (max 0 full)" "q = min pre (max 0 full - d)" "left0 = round2 (max 0 full - d - q)"
    "c = (case voucher of None \<Rightarrow> 0 | Some x \<Rightarrow> round2 (min x left0))" "left1 = (case voucher of None \<Rightarrow> left0 | Some _ \<Rightarrow> round2 (left0 - c))"
    "n = (if int_or_0 points > 0 \<and> v > 0 then min (int_or_0 points) (js_ceil (left1 / v)) else 0)"
    "w = (if int_or_0 points > 0 then round2 (min (of_int n * v) left1) else 0)"
    and s: "\<lparr>ss_deposit = d, ss_prepaid = q, ss_card = c, ss_points = n, ss_pointsValue = w,
      ss_left = (if int_or_0 points > 0 then round2 (left1 - w) else left1)\<rparr> = s"
  have total: "whole_cents (max 0 full)" using whole(1) by (simp add: whole_cents_min_max)
  have "dep + pre \<le> max 0 full"
    using whole_cents_le [OF whole_cents_add [OF whole(2,3)] total] fits round2_whole [OF whole_cents_add [OF whole(2,3)]] by simp
  then have dq: "d = dep" "q = pre" using pos by (simp_all add: defs(1,2))
  have l0: "left0 = max 0 full - dep - pre" "whole_cents left0" "0 \<le> left0"
    using \<open>dep + pre \<le> max 0 full\<close> total whole(2,3) by (simp_all add: defs(3) dq round2_whole whole_cents_diff)
  have c: "whole_cents c \<and> 0 \<le> c \<and> c \<le> left0 \<and> (\<forall>x. voucher = Some x \<longrightarrow> c \<le> x)"
  proof (cases voucher)
    case (Some x)
    with whole(4) have "whole_cents (min x left0)" "0 \<le> x" using l0(2) whole_cents_min_max by blast+
    then show ?thesis using l0(3) by (simp add: defs(4) Some round2_whole)
  qed (use l0 in \<open>simp add: defs(4)\<close>)
  have l1: "left1 = left0 - c" "whole_cents left1" "0 \<le> left1"
    using c l0 by (cases voucher; simp add: defs(4,5) round2_whole whole_cents_diff)+
  have w: "whole_cents w \<and> w \<le> left1" using round2_mono [of "min (of_int n * v) left1" left1] l1 by (simp add: defs(7) round2_cents cents_id)
  have "0 \<le> n \<and> n \<le> max 0 (int_or_0 points)" using js_ceil_nonneg [of "left1 / v"] l1(3) by (simp add: defs(6) min_le_iff_disj)
  then show ?thesis using l0 l1 c w by (auto simp: s [symmetric] dq round2_whole whole_cents_diff defs(7))
qed

section \<open>The till at work\<close>

definition sample_card :: card_input where
  "sample_card = \<lparr>gi_initialValue = 100, gi_purchaserName = None, gi_purchaserPhone = None, gi_purchaserEmail = None,
     gi_recipientName = None, gi_message = None, gi_expiresAt = None, gi_barbershopId = Some 7, gi_paymentMethod = Some ''PIX''\<rparr>"

definition with_card :: sale_db where
  "with_card = state_or (createGiftCard [[0, 1, 2, 3, 4, 5, 6, 7]] 100 1 5 sample_card sample_till) sample_till"

definition sample_sale :: sale_input where
  "sample_sale = \<lparr>si_customerId = Some 1, si_barberId = None, si_appointmentId = None, si_saleType = ''PRODUCT'',
     si_items = [\<lparr>it_itemType = ''PRODUCT'', it_serviceId = None, it_productId = Some 1, it_serviceHistoryId = None,
       it_quantity = 2, it_unitPrice = 20, it_totalPrice = 40, it_notes = None\<rparr>],
     si_subtotal = 40, si_discountAmount = None, si_taxAmount = None, si_total = 40, si_paymentStatus = Some ''PAID'',
     si_paymentMethod = Some ''PIX'', si_giftCardCode = Some ''gift-abcdefgh'', si_loyaltyPointsRedeemed = None,
     si_clientSubscriptionId = None, si_clientPackageId = None\<rparr>"

definition charged_card :: sale_db where
  "charged_card = snd (createSale fixed_zone 100 1 7 sample_sale with_card)"

lemma till_run: "sale_step\<^sup>*\<^sup>* sample_till charged_card"
proof -
  have "is_ok (createGiftCard [[0, 1, 2, 3, 4, 5, 6, 7]] 100 1 5 sample_card sample_till)" by code_simp
  then have "sale_step sample_till with_card" unfolding with_card_def by (rule Card_sold [OF state_or_ok])
  moreover have "fst (createSale fixed_zone 100 1 7 sample_sale with_card) = Inr 2" by code_simp
  then have "createSale fixed_zone 100 1 7 sample_sale with_card = (Inr 2, charged_card)" by (simp add: charged_card_def prod_eq_iff)
  ultimately show ?thesis by (meson createSale_steps converse_rtranclp_into_rtranclp)
qed

lemma till_empty:
  "giftCards sample_till = empty_table" "sales sample_till = empty_table"
  "inventoryItems sample_till = empty_table" "inventoryMovements sample_till = empty_table"
  by code_simp+

lemma gift_card_never_overdrawn_witness:
  "\<exists>g \<in> set (rows (giftCards charged_card)). gc_remainingValue g = 60 \<and> 0 \<le> gc_remainingValue g"
proof -
  have "map gc_remainingValue (rows (giftCards charged_card)) = [60]" by code_simp
  then obtain g where g: "g \<in> set (rows (giftCards charged_card))" "gc_remainingValue g = 60"
    by (cases "rows (giftCards charged_card)") auto
  then show ?thesis using gift_card_never_overdrawn [OF till_run till_empty(1,2) g(1)] by blast
qed

lemma stock_ledger_true_witness:
  "map ii_quantity (rows (inventoryItems charged_card)) = [- 2]
    \<and> map (\<lambda>i. sum_list (map im_quantityChange (filter (\<lambda>m. im_inventoryItemId m = ii_id i) (rows (inventoryMovements charged_card)))))
        (rows (inventoryItems charged_card)) = [- 2]"
proof -
  have quantity: "map ii_quantity (rows (inventoryItems charged_card)) = [- 2]" by code_simp
  moreover have "map (\<lambda>i. sum_list (map im_quantityChange (filter (\<lambda>m. im_inventoryItemId m = ii_id i)
      (rows (inventoryMovements charged_card))))) (rows (inventoryItems charged_card))
    = map ii_quantity (rows (inventoryItems charged_card))"
    using stock_ledger_true [OF till_run till_empty(3,4)] by (intro map_cong) auto
  ultimately show ?thesis by simp
qed

lemma split_sale_adds_up_witness:
  "\<exists>s. split_sale 100 30 20 (Some 15) (Some 90) (1 / 20) = Inr s
    \<and> ss_left s + ss_card s + ss_pointsValue s + ss_deposit s + ss_prepaid s = max 0 100 \<and> 0 \<le> ss_left s"
proof -
  have "is_ok (split_sale 100 30 20 (Some 15) (Some 90) (1 / 20))" by code_simp
  then obtain s where s: "split_sale 100 30 20 (Some 15) (Some 90) (1 / 20) = Inr s" by (rule is_okE)
  have "whole_cents 100" "whole_cents 30" "whole_cents 20" "whole_cents 15" by code_simp+
  then show ?thesis using split_sale_adds_up [OF s] s by simp
qed

section \<open>Two defects\<close>

definition switched_off :: sale_db where
  "switched_off = state_or (setGiftCardActive 100 1 5 1 False with_card) with_card"

definition unsold :: sale_db where
  "unsold = state_or (deleteSale 100 1 7 1 switched_off) switched_off"

definition switched_on :: sale_db where
  "switched_on = state_or (setGiftCardActive 100 1 5 1 True unsold) unsold"

text \<open>
  A gift card can outlive its sale with its whole balance. Switch an unused card off, delete the sale that sold it, switch it on:
  the deletion passes, because the balance is whole, but the update that closes the card asks for an active one. Nobody paid for
  the card any more, and it buys for its full value.
\<close>

theorem deleted_card_spends:
  "is_ok (deleteSale 100 1 7 1 switched_off) \<and> rows (sales switched_on) = []
    \<and> (case validateGiftCard 100 7 ''GIFT-ABCDEFGH'' switched_on of Inl _ \<Rightarrow> False | Inr g \<Rightarrow> gc_remainingValue g = 100)"
  by code_simp

definition paid_patch :: sale_patch where
  "paid_patch = \<lparr>sc_customerId = None, sc_barberId = None, sc_saleType = None, sc_items = None, sc_subtotal = None,
     sc_discountAmount = None, sc_taxAmount = None, sc_total = None, sc_paymentStatus = Some ''PAID'', sc_paymentMethod = Some ''PIX''\<rparr>"

definition two_cuts :: package_input where
  "two_cuts = \<lparr>ki_serviceId = 1, ki_name = ''Dois cortes'', ki_totalSessions = 2, ki_price = 90, ki_validityDays = None\<rparr>"

text \<open>A package sold and paid later, which earns 90 points; then the points buy, one session is used, and the rest is refunded.\<close>

definition cuts_offered :: sale_db where "cuts_offered = state_or (createServicePackage 100 1 7 two_cuts sample_till) sample_till"
definition cuts_sold :: sale_db where
  "cuts_sold = state_or (map_sum id snd (purchaseClientPackage fixed_zone 100 1 7 1 1 None cuts_offered)) cuts_offered"
definition cuts_paid :: sale_db where "cuts_paid = snd (updateSale fixed_zone 100 1 7 1 paid_patch cuts_sold)"
definition points_spent :: sale_db where
  "points_spent = snd (createSale fixed_zone 100 1 7 (sample_sale\<lparr>si_giftCardCode := None, si_loyaltyPointsRedeemed := Some 90,
     si_paymentStatus := None\<rparr>) cuts_paid)"
definition cut_used :: sale_db where "cut_used = snd (debitClientPackageSession 100 1 7 1 points_spent)"
definition cut_refunded :: sale_db where "cut_refunded = state_or (refundIssuedRemainder 100 1 7 1 cut_used) cut_used"

text \<open>
  A refund can leave a customer with less than no points. The edit and the removal of a sale take points back down to 0 at most;
  refundIssuedRemainder takes them back with a plain increment. A customer who spent the points of a package ends below 0
  when what is left of it is refunded.
\<close>

theorem refund_leaves_negative_points:
  "map cu_loyaltyPoints (rows (customers cuts_paid)) = [90] \<and> map cu_loyaltyPoints (rows (customers cut_used)) = [0]
    \<and> is_ok (refundIssuedRemainder 100 1 7 1 cut_used) \<and> map cu_loyaltyPoints (rows (customers cut_refunded)) = [- 45]"
  by (intro conjI; code_simp)

end
