(* ===== verification/Payroll.thy ===== *)
theory Payroll
  imports Sales "HOL-Library.AList"
begin

text \<open>
  The pay of the team (\<open>payroll.service.ts\<close>): how each professional is paid, entries (tips, advances, bonuses, deductions), the
  payment of a period with its expense, its undoing, the statement of one professional and the overview of the shop.

  The share of a period in the monthly pay is an exact rational. The name of a professional in the text of an expense, and the
  order of a list by names, are left out.
\<close>

section \<open>The share of a period\<close>

definition PAY_TYPES :: "string list" where
  "PAY_TYPES = [''COMMISSION'', ''FIXED'', ''FIXED_PLUS_COMMISSION'', ''GREATER_OF'']"

definition PAY_PERIODS :: "string list" where
  "PAY_PERIODS = [''MONTHLY'', ''BIWEEKLY'', ''WEEKLY'']"

lemma make_day_add: "make_day y m (d + k) = make_day y m d + k"
  by (simp add: make_day_def Let_def)

lemma month_index_cases:
  fixes k :: nat
  assumes "k < 12"
  obtains "k = 0" | "k = 1" | "k = 2" | "k = 3" | "k = 4" | "k = 5" | "k = 6" | "k = 7" | "k = 8" | "k = 9" | "k = 10" | "k = 11"
proof -
  from assms have "k = 0 \<or> k = 1 \<or> k = 2 \<or> k = 3 \<or> k = 4 \<or> k = 5 \<or> k = 6 \<or> k = 7 \<or> k = 8 \<or> k = 9 \<or> k = 10 \<or> k = 11"
    by arith
  with that show thesis by blast
qed

lemma month_starts_step: "k < 11 \<Longrightarrow> month_starts l ! k < month_starts l ! Suc k"
  by (rule month_index_cases [of k]) (simp_all add: month_starts_def Let_def)

lemma month_starts_bounds: "k < 12 \<Longrightarrow> 0 \<le> month_starts l ! k \<and> month_starts l ! k < (if l then 366 else 365)"
  by (erule month_index_cases) (simp_all add: month_starts_def Let_def)

lemma month_starts_leap: "k < 12 \<Longrightarrow> month_starts l ! k \<le> month_starts l' ! k + 1"
  by (erule month_index_cases) (simp_all add: month_starts_def Let_def)

lemma make_day_first: "make_day y m 1 = day_from_year (y + (m - 1) div 12) + month_starts (is_leap (y + (m - 1) div 12)) ! nat ((m - 1) mod 12)"
  by (simp add: make_day_def Let_def)

lemma month_after: "make_day y m 1 < make_day y (m + 1) 1"
proof (cases "(m - 1) mod 12 = 11")
  case True
  define a where "a = y + (m - 1) div 12"
  from True have step: "m mod 12 = 0" "m div 12 = (m - 1) div 12 + 1" by presburger+
  have "make_day y (m + 1) 1 = day_from_year (y + ((m - 1) div 12 + 1)) + month_starts (is_leap (y + ((m - 1) div 12 + 1))) ! 0"
    by (simp only: make_day_first add_diff_cancel_right' step nat_0)
  also have "\<dots> = day_from_year (a + 1)" by (simp only: a_def add.assoc month_starts_facts add_0_right)
  also have "\<dots> = day_from_year a + (if is_leap a then 366 else 365)" by (rule year_length)
  finally have "make_day y (m + 1) 1 = \<dots>" .
  moreover have "make_day y m 1 = day_from_year a + month_starts (is_leap a) ! nat 11"
    by (simp only: make_day_first True a_def)
  moreover have "month_starts (is_leap a) ! nat 11 < (if is_leap a then 366 else 365)"
    using month_starts_bounds [of "nat 11" "is_leap a"] by simp
  ultimately show ?thesis by linarith
next
  case False
  have r: "0 \<le> (m - 1) mod 12" "(m - 1) mod 12 < 11" using False pos_mod_bound [of 12 "m - 1"] by simp_all
  have m: "m = 12 * ((m - 1) div 12) + ((m - 1) mod 12 + 1)" using mult_div_mod_eq [of 12 "m - 1"] by linarith
  have step: "m div 12 = (m - 1) div 12" by (rule int_div_pos_eq [OF m]) (use r in simp_all)
  have "m mod 12 = (m - 1) mod 12 + 1" by (rule int_mod_pos_eq [OF m]) (use r in simp_all)
  with r have k: "nat ((m - 1) mod 12) < 11" "nat (m mod 12) = Suc (nat ((m - 1) mod 12))" by auto
  show ?thesis using month_starts_step [OF k(1)]
    by (simp only: make_day_first add_diff_cancel_right' step k(2)) simp
qed

text \<open>\<open>Date.UTC\<close> never gives a day before the calendar's own: the years 0 to 99 are moved forward.\<close>

lemma make_day_year_mono: "y \<le> y' \<Longrightarrow> make_day y m d \<le> make_day y' m d"
proof (induction rule: int_ge_induct)
  case (step z)
  define a where "a = z + (m - 1) div 12"
  define k where "k = nat ((m - 1) mod 12)"
  have "k < 12" by (simp add: k_def nat_less_iff)
  then have "month_starts (is_leap a) ! k \<le> month_starts (is_leap (a + 1)) ! k + 1" by (rule month_starts_leap)
  then have "make_day z m d \<le> make_day (z + 1) m d"
    using year_length [of a] by (simp add: make_day_def Let_def a_def k_def algebra_simps split: if_splits)
  with step show ?case by simp
qed simp

lemma make_day_le_utc: "make_day y m d \<le> utc_day y m d"
  by (simp add: utc_day_def make_day_year_mono)

lemma month_shares_decreases:
  assumes "\<not> lastDay \<le> utc_day y (m + 1) 0"
  shows "nat (lastDay + 1 - make_day y (m + 1) 1) < nat (lastDay + 1 - make_day y m 1)"
proof -
  have "make_day y (m + 1) 0 + 1 = make_day y (m + 1) 1" using make_day_add [of y "m + 1" 0 1] by simp
  with assms make_day_le_utc [of y "m + 1" 0] month_after [of y m] show ?thesis by simp
qed

text \<open>The loop over the months from the first day to the last: each adds the days it has in the period over its own days.\<close>

function month_shares :: "int \<times> int \<times> int \<Rightarrow> int \<Rightarrow> int \<Rightarrow> int \<Rightarrow> rat" where
  "month_shares first lastDay y m = (case first of (fy, fm, fd) \<Rightarrow> let
       monthStart = utc_day y m 1;
       monthEnd = utc_day y (m + 1) 0;
       daysInMonth = monthEnd - monthStart + 1;
       from' = (if y = fy \<and> m = fm then utc_day y m fd else monthStart);
       to' = min monthEnd lastDay;
       share = (if to' \<ge> from' then of_int (to' - from' + 1) / of_int daysInMonth else 0)
     in if lastDay \<le> monthEnd then share
        else share + (if m = 12 then month_shares first lastDay (y + 1) 1 else month_shares first lastDay y (m + 1)))"
  by pat_completeness auto

termination
proof (relation "measure (\<lambda>(first, lastDay, y, m). nat (lastDay + 1 - make_day y m 1))", goal_cases)
  case 1
  show ?case by simp
next
  case (2 first lastDay y m)
  then have "\<not> lastDay \<le> utc_day y (m + 1) 0" by (simp add: Let_def)
  moreover have "make_day (y + 1) 1 1 = make_day y 13 1" by (simp add: make_day_def Let_def)
  ultimately show ?case using month_shares_decreases [of lastDay y m] 2 by simp
next
  case (3 first lastDay y m)
  then show ?case using month_shares_decreases [of lastDay y m] by (simp add: Let_def)
qed

declare month_shares.simps [simp del]

text \<open>The first and the last day are those of noon of the borders of the period.\<close>

definition period_days :: "int \<Rightarrow> int \<Rightarrow> int" where
  "period_days start end' = (let first = start + day_ms div 2; last = end' - day_ms div 2
     in max 1 (js_round (of_int (last - first) / of_int day_ms) + 1))"

definition periodShare :: "int \<Rightarrow> int \<Rightarrow> string \<Rightarrow> rat" where
  "periodShare start end' period = (let
       first = start + day_ms div 2;
       last = end' - day_ms div 2
     in if period = ''WEEKLY'' then of_int (period_days start end') / 7
        else if period = ''BIWEEKLY'' then of_int (period_days start end') / 14
        else (case civil_of_day (first div day_ms) of (y, m, d) \<Rightarrow>
          (case civil_of_day (last div day_ms) of (ly, lm, ld) \<Rightarrow> month_shares (y, m, d) (utc_day ly lm ld) y m)))"

section \<open>Data\<close>

definition ENTRY_TYPES :: "string list" where
  "ENTRY_TYPES = [''TIP'', ''ADVANCE'', ''BONUS'', ''DEDUCTION'']"

definition PAY_METHODS :: "string list" where
  "PAY_METHODS = [''CASH'', ''PIX'', ''TRANSFER'', ''OTHER'']"

definition MAX_AMOUNT :: int where "MAX_AMOUNT = 1000000"
definition MAX_PERIOD_DAYS :: int where "MAX_PERIOD_DAYS = 400"

definition TIP_ENTRY_MESSAGE :: string where
  "TIP_ENTRY_MESSAGE = ''Essa caixinha veio de um atendimento. Apague pela caixinha do atendimento.''"

definition OWN_PAY_MESSAGE :: string where
  "OWN_PAY_MESSAGE = ''O seu pagamento e definido e registrado pelo dono''"

definition PERIOD_NOT_OVER_MESSAGE :: string where
  "PERIOD_NOT_OVER_MESSAGE = ''Esse periodo ainda nao acabou. Registre o pagamento ate hoje.''"

record pay_config =
  py_id :: int
  py_barberId :: int
  py_barbershopId :: int
  py_payType :: string
  py_fixedAmount :: "rat option"
  py_payPeriod :: string

record payroll_db = sale_db +
  payConfigs :: "pay_config table"

section \<open>Shared checks\<close>

text \<open>A date that exists; a text with the form of a date that is no instant is a RangeError.\<close>

definition valid_date :: "string \<Rightarrow> bool result" where
  "valid_date d = (case isCalendarDay d of None \<Rightarrow> Inl (PlainError ''RangeError'') | Some v \<Rightarrow> Inr v)"

definition shop_zone :: "intl \<Rightarrow> shop_access \<Rightarrow> string" where
  "shop_zone I shop = safeTimeZone I (Some (bs_timezone (sa_shop shop)))"

text \<open>From the first instant of a day to the last one of another, in the time zone of the shop.\<close>

definition pay_range :: "intl \<Rightarrow> shop_access \<Rightarrow> string \<Rightarrow> string \<Rightarrow> (int \<times> int) result" where
  "pay_range I shop from' to' =
     bindE (valid_date from') (\<lambda>a.
     bindE (if a then valid_date to' else Inr False) (\<lambda>b.
     bindE (throwIf (\<not> a \<or> \<not> b \<or> from' > to') (BadRequest ''Periodo invalido'')) (\<lambda>_.
     case (parse_iso_day from', parse_iso_day to') of
       (Some f, Some t) \<Rightarrow>
         bindE (throwIf (t - f > MAX_PERIOD_DAYS) (BadRequest ''O periodo pode ter no maximo 400 dias'')) (\<lambda>_.
         case (zonedTimeToUtc I from' 0 (shop_zone I shop), Option.bind (nextDateStr to') (\<lambda>n. zonedTimeToUtc I n 0 (shop_zone I shop))) of
           (Some s, Some e) \<Rightarrow> Inr (s, e - 1)
         | _ \<Rightarrow> Inl (PlainError ''Invalid Date''))
     | _ \<Rightarrow> Inl (PlainError ''Invalid Date''))))"

definition dayOf :: "intl \<Rightarrow> shop_access \<Rightarrow> int \<Rightarrow> string" where
  "dayOf I shop t = z_dateStr (toZonedParts I t (shop_zone I shop))"

definition barberOf :: "'a staff_db_scheme \<Rightarrow> int \<Rightarrow> int \<Rightarrow> barber result" where
  "barberOf db barbershopId barberId = (case find_first (\<lambda>b. bb_id b = barberId \<and> bb_barbershopId b = barbershopId) (barbers db) of
       None \<Rightarrow> Inl (NotFound ''Profissional nao encontrado'')
     | Some b \<Rightarrow> Inr b)"

definition ensureNotOwnPay :: "shop_access \<Rightarrow> int \<Rightarrow> barber \<Rightarrow> unit result" where
  "ensureNotOwnPay shop userId b = throwIf (bb_userId b = Some userId \<and> sa_accessLevel shop \<noteq> Owner) (Forbidden OWN_PAY_MESSAGE)"

definition openCashSessionId :: "'a shop_db_scheme \<Rightarrow> int \<Rightarrow> string option \<Rightarrow> int option" where
  "openCashSessionId db barbershopId payMethod = (if payMethod \<noteq> Some ''CASH'' then None else map_option cs_id (openSession db barbershopId))"

definition ensureCashStillOpen :: "'a shop_db_scheme \<Rightarrow> int option \<Rightarrow> unit result" where
  "ensureCashStillOpen db cashSessionId = throwIf (truthy cashSessionId
       \<and> (case find_first (\<lambda>s. Some (cs_id s) = cashSessionId) (cashSessions db) of None \<Rightarrow> False | Some s \<Rightarrow> cs_status s = ''CLOSED''))
     (BadRequest ''O caixa em que esse dinheiro saiu ja foi fechado. Lance a correcao no caixa.'')"

section \<open>How a professional is paid\<close>

definition configView :: "pay_config option \<Rightarrow> string \<times> rat option \<times> string" where
  "configView c = (case c of
       None \<Rightarrow> (''COMMISSION'', None, ''MONTHLY'')
     | Some c \<Rightarrow> (py_payType c, py_fixedAmount c, py_payPeriod c))"

definition config_of :: "'a payroll_db_scheme \<Rightarrow> int \<Rightarrow> string \<times> rat option \<times> string" where
  "config_of db barberId = configView (find_first (\<lambda>c. py_barberId c = barberId) (payConfigs db))"

definition config_amount :: "shop_access \<Rightarrow> string \<Rightarrow> rat option \<Rightarrow> string \<Rightarrow> (rat option) result" where
  "config_amount shop payType fixed period =
     bindE (throwIf (payType \<notin> set PAY_TYPES) (BadRequest ''Forma de pagamento invalida'')) (\<lambda>_.
     bindE (throwIf (period \<notin> set PAY_PERIODS) (BadRequest ''Periodo invalido'')) (\<lambda>_.
     let needsFixed = (payType \<noteq> ''COMMISSION'') in
     bindE (throwIf (needsFixed \<and> (case fixed of None \<Rightarrow> True
         | Some v \<Rightarrow> \<not> v > 0 \<or> v > of_int (moneyCap MAX_AMOUNT (Some (bs_currency (sa_shop shop))))))
       (BadRequest ''Informe o valor fixo'')) (\<lambda>_.
     Inr (if needsFixed then map_option round2 fixed else None))))"

definition setConfig :: "int \<Rightarrow> int \<Rightarrow> int \<Rightarrow> int \<Rightarrow> string \<Rightarrow> rat option \<Rightarrow> string option \<Rightarrow> 'a payroll_db_scheme
    \<Rightarrow> 'a payroll_db_scheme result" where
  "setConfig now userId barbershopId barberId payType fixed payPeriod db =
     bindE (ensureBarbershopAccess db now userId barbershopId Manager) (\<lambda>shop.
     bindE (barberOf db barbershopId barberId) (\<lambda>b.
     bindE (ensureNotOwnPay shop userId b) (\<lambda>_.
     let period = (case payPeriod of None \<Rightarrow> ''MONTHLY'' | Some p \<Rightarrow> p) in
     bindE (config_amount shop payType fixed period) (\<lambda>amount.
     Inr (db\<lparr>payConfigs := (if find_first (\<lambda>c. py_barberId c = barberId) (payConfigs db) = None
       then create_row (\<lambda>i. \<lparr>py_id = i, py_barberId = barberId, py_barbershopId = barbershopId, py_payType = payType,
         py_fixedAmount = amount, py_payPeriod = period\<rparr>) (payConfigs db)
       else update_many (\<lambda>c. py_barberId c = barberId) (\<lambda>c. c\<lparr>py_payType := payType, py_fixedAmount := amount,
         py_payPeriod := period\<rparr>) (payConfigs db))\<rparr>)))))"

section \<open>Entries\<close>

record entry_input =
  ei_barberId :: int
  ei_type :: string
  ei_amount :: rat
  ei_method :: "string option"
  ei_date :: "string option"
  ei_notes :: "string option"

definition entry_checks :: "intl \<Rightarrow> int \<Rightarrow> int \<Rightarrow> int \<Rightarrow> entry_input \<Rightarrow> 'a payroll_db_scheme \<Rightarrow> int result" where
  "entry_checks I now userId barbershopId d db =
     bindE (ensureBarbershopAccess db now userId barbershopId Manager) (\<lambda>shop.
     bindE (barberOf db barbershopId (ei_barberId d)) (\<lambda>b.
     bindE (ensureNotOwnPay shop userId b) (\<lambda>_.
     bindE (throwIf (ei_type d \<notin> set ENTRY_TYPES) (BadRequest ''Tipo de lancamento invalido'')) (\<lambda>_.
     bindE (throwIf (\<not> ei_amount d > 0 \<or> ei_amount d > of_int (moneyCap MAX_AMOUNT (Some (bs_currency (sa_shop shop)))))
       (BadRequest ''Valor invalido'')) (\<lambda>_.
     bindE (throwIf (ei_type d = ''ADVANCE'' \<and> text_of (ei_method d) \<notin> set PAY_METHODS) (BadRequest ''Informe como o vale foi pago'')) (\<lambda>_.
     if given (ei_date d) then bindE (pay_range I shop (text_of (ei_date d)) (text_of (ei_date d))) (\<lambda>(s, _). Inr s) else Inr now))))))"

definition salary_expense :: "int \<Rightarrow> int \<Rightarrow> int option \<Rightarrow> string \<Rightarrow> rat \<Rightarrow> string option \<Rightarrow> int \<Rightarrow> int \<Rightarrow> expense" where
  "salary_expense barbershopId date cashSessionId text amount payMethod userId i = \<lparr>ex_id = i, ex_barbershopId = barbershopId,
     ex_cashSessionId = cashSessionId, ex_category = ''SALARY'', ex_description = text, ex_amount = amount, ex_paymentMethod = payMethod,
     ex_expenseDate = date, ex_createdByUserId = userId\<rparr>"

text \<open>An advance is money already paid: it is an expense, of the open cash desk when in cash.\<close>

definition addEntry :: "intl \<Rightarrow> int \<Rightarrow> int \<Rightarrow> int \<Rightarrow> entry_input \<Rightarrow> 'a payroll_db_scheme \<Rightarrow> 'a payroll_db_scheme result" where
  "addEntry I now userId barbershopId d db =
     bindE (entry_checks I now userId barbershopId d db) (\<lambda>date. let
       advance = (ei_type d = ''ADVANCE'');
       cashSessionId = (if advance then openCashSessionId db barbershopId (ei_method d) else None)
     in Inr (db\<lparr>expenses := (if advance then create_row (salary_expense barbershopId date cashSessionId ''Vale'' (round2 (ei_amount d))
           (ei_method d) userId) (expenses db) else expenses db),
         payEntries := create_row (\<lambda>i. \<lparr>pe_id = i, pe_barbershopId = barbershopId, pe_barberId = ei_barberId d, pe_type = ei_type d,
           pe_amount = round2 (ei_amount d), pe_method = ei_method d, pe_date = date, pe_notes = trim_or_null (ei_notes d),
           pe_createdByUserId = userId, pe_payoutId = None, pe_expenseId = (if advance then Some (seq (expenses db)) else None),
           pe_cashSessionId = cashSessionId\<rparr>) (payEntries db)\<rparr>))"

definition entry_delete_read :: "int \<Rightarrow> int \<Rightarrow> int \<Rightarrow> int \<Rightarrow> 'a payroll_db_scheme \<Rightarrow> pay_entry result" where
  "entry_delete_read now userId barbershopId entryId db =
     bindE (ensureBarbershopAccess db now userId barbershopId Manager) (\<lambda>shop.
     case find_first (\<lambda>e. pe_id e = entryId \<and> pe_barbershopId e = barbershopId) (payEntries db) of
       None \<Rightarrow> Inl (NotFound ''Lancamento nao encontrado'')
     | Some e \<Rightarrow>
         bindE (barberOf db barbershopId (pe_barberId e)) (\<lambda>b.
         bindE (ensureNotOwnPay shop userId b) (\<lambda>_.
         bindE (throwIf (truthy (pe_payoutId e)) (BadRequest ''Esse lancamento ja entrou num pagamento. Desfaca o pagamento antes.'')) (\<lambda>_.
         bindE (throwIf (find_first (\<lambda>t. tp_payEntryId t = Some (pe_id e)) (tips db) \<noteq> None) (BadRequest TIP_ENTRY_MESSAGE)) (\<lambda>_.
         bindE (ensureCashStillOpen db (pe_cashSessionId e)) (\<lambda>_. Inr e))))))"

definition delete_expense :: "int option \<Rightarrow> 'a shop_db_scheme \<Rightarrow> 'a shop_db_scheme" where
  "delete_expense i db = (if truthy i then db\<lparr>expenses := delete_many (\<lambda>x. Some (ex_id x) = i) (expenses db)\<rparr> else db)"

definition entry_delete_write :: "pay_entry \<Rightarrow> 'a payroll_db_scheme \<Rightarrow> 'a payroll_db_scheme result" where
  "entry_delete_write e db =
     bindE (throwIf (find_first (\<lambda>x. pe_id x = pe_id e) (payEntries db) = None) (PlainError ''P2025'')) (\<lambda>_.
     Inr (delete_expense (pe_expenseId e) (db\<lparr>payEntries := delete_many (\<lambda>x. pe_id x = pe_id e) (payEntries db)\<rparr>)))"

definition deleteEntry :: "int \<Rightarrow> int \<Rightarrow> int \<Rightarrow> int \<Rightarrow> 'a payroll_db_scheme \<Rightarrow> 'a payroll_db_scheme result" where
  "deleteEntry now userId barbershopId entryId db =
     bindE (entry_delete_read now userId barbershopId entryId db) (\<lambda>e. entry_delete_write e db)"

section \<open>What a period is worth\<close>

record pay_sum =
  ya_payType :: string
  ya_salesCount :: int
  ya_serviceSales :: rat
  ya_productSales :: rat
  ya_commission :: rat
  ya_fixedAmount :: rat
  ya_baseAmount :: rat
  ya_tips :: rat
  ya_bonuses :: rat
  ya_deductions :: rat
  ya_advances :: rat
  ya_total :: rat
  ya_entries :: "pay_entry list"

definition sum_entries :: "string \<Rightarrow> pay_entry list \<Rightarrow> rat" where
  "sum_entries type entries = round2 (sum_list (map pe_amount (filter (\<lambda>e. pe_type e = type) entries)))"

definition pay_base :: "string \<Rightarrow> rat \<Rightarrow> rat \<Rightarrow> rat" where
  "pay_base payType fixed commission = (if payType = ''FIXED'' then fixed
     else if payType = ''FIXED_PLUS_COMMISSION'' then fixed + commission
     else if payType = ''GREATER_OF'' then max fixed commission else commission)"

definition open_entry :: "int \<Rightarrow> int \<Rightarrow> int \<Rightarrow> pay_entry \<Rightarrow> bool" where
  "open_entry barbershopId barberId end' e \<longleftrightarrow> pe_barberId e = barberId \<and> pe_barbershopId e = barbershopId \<and> pe_payoutId e = None \<and> pe_date e \<le> end'"

definition tally_of :: "int \<Rightarrow> tally list \<Rightarrow> tally" where
  "tally_of barberId ts = (case find (\<lambda>t. ta_barberId t = barberId) ts of None \<Rightarrow> new_tally barberId | Some t \<Rightarrow> t)"

definition fixed_share :: "string \<times> rat option \<times> string \<Rightarrow> int \<Rightarrow> int \<Rightarrow> rat" where
  "fixed_share config start end' = (case config of (payType, amount, period) \<Rightarrow>
     if payType = ''COMMISSION'' then 0 else amount_or_0 amount * periodShare start end' period)"

text \<open>Every entry not paid yet, up to the end of the period, comes in.\<close>

definition pay_compute :: "'a payroll_db_scheme \<Rightarrow> int \<Rightarrow> int \<Rightarrow> int \<Rightarrow> int \<Rightarrow> pay_sum" where
  "pay_compute db barbershopId barberId start end' = (let
       config = config_of db barberId;
       row = tally_of barberId (fst (computeCommissions db barbershopId start end' None));
       entries = sort_key pe_date (find_many (open_entry barbershopId barberId end') (payEntries db));
       commission = round2 (total_commission row);
       fixed = fixed_share config start end';
       base = pay_base (fst config) fixed commission;
       tips' = sum_entries ''TIP'' entries;
       bonuses = sum_entries ''BONUS'' entries;
       deductions = sum_entries ''DEDUCTION'' entries;
       advances = sum_entries ''ADVANCE'' entries
     in \<lparr>ya_payType = fst config, ya_salesCount = ta_salesCount row, ya_serviceSales = round2 (ta_serviceSales row),
          ya_productSales = round2 (ta_productSales row), ya_commission = commission, ya_fixedAmount = round2 fixed,
          ya_baseAmount = round2 base, ya_tips = tips', ya_bonuses = bonuses, ya_deductions = deductions, ya_advances = advances,
          ya_total = round2 (base + tips' + bonuses - deductions - advances), ya_entries = entries\<rparr>)"

text \<open>A payment of the professional whose period meets the new one.\<close>

definition meets :: "int \<Rightarrow> int \<Rightarrow> int \<Rightarrow> payout \<Rightarrow> bool" where
  "meets barberId start end' p \<longleftrightarrow> po_barberId p = barberId \<and> po_periodStart p \<le> end' \<and> po_periodEnd p \<ge> start"

definition pay_preview :: "intl \<Rightarrow> int \<Rightarrow> int \<Rightarrow> int \<Rightarrow> int \<Rightarrow> string \<Rightarrow> string \<Rightarrow> 'a payroll_db_scheme
    \<Rightarrow> (pay_sum \<times> int \<times> int \<times> (string \<times> string) option) result" where
  "pay_preview I now userId barbershopId barberId from' to' db =
     bindE (ensureBarbershopAccess db now userId barbershopId Manager) (\<lambda>shop.
     bindE (barberOf db barbershopId barberId) (\<lambda>b.
     bindE (pay_range I shop from' to') (\<lambda>(start, end').
     Inr (pay_compute db barbershopId barberId start end', start, end',
       map_option (\<lambda>p. (dayOf I shop (po_periodStart p), dayOf I shop (po_periodEnd p))) (find_first (meets barberId start end') (payouts db))))))"

section \<open>Paying a period and undoing it\<close>

record pay_input =
  yi_barberId :: int
  yi_from :: string
  yi_to :: string
  yi_method :: string
  yi_notes :: "string option"

record pay_order =
  yo_shop :: shop_access
  yo_start :: int
  yo_end :: int
  yo_cashSessionId :: "int option"

text \<open>What is read before the transaction.\<close>

definition pay_read :: "intl \<Rightarrow> int \<Rightarrow> int \<Rightarrow> int \<Rightarrow> pay_input \<Rightarrow> 'a payroll_db_scheme \<Rightarrow> pay_order result" where
  "pay_read I now userId barbershopId d db =
     bindE (ensureBarbershopAccess db now userId barbershopId Manager) (\<lambda>shop.
     bindE (barberOf db barbershopId (yi_barberId d)) (\<lambda>b.
     bindE (ensureNotOwnPay shop userId b) (\<lambda>_.
     bindE (throwIf (yi_method d \<notin> set PAY_METHODS) (BadRequest ''Forma de pagamento invalida'')) (\<lambda>_.
     bindE (throwIf (yi_to d > dayOf I shop now) (BadRequest PERIOD_NOT_OVER_MESSAGE)) (\<lambda>_.
     bindE (pay_range I shop (yi_from d) (yi_to d)) (\<lambda>(start, end').
     Inr \<lparr>yo_shop = shop, yo_start = start, yo_end = end', yo_cashSessionId = openCashSessionId db barbershopId (Some (yi_method d))\<rparr>))))))"

definition period_label :: "intl \<Rightarrow> shop_access \<Rightarrow> int \<Rightarrow> int \<Rightarrow> string" where
  "period_label I shop start end' = dayOf I shop start @ '' - '' @ dayOf I shop end'"

definition new_payout :: "int \<Rightarrow> int \<Rightarrow> int \<Rightarrow> pay_input \<Rightarrow> pay_order \<Rightarrow> pay_sum \<Rightarrow> int option \<Rightarrow> int option \<Rightarrow> int \<Rightarrow> payout" where
  "new_payout now userId barbershopId d r y expenseId carryId i = \<lparr>po_id = i, po_barbershopId = barbershopId, po_barberId = yi_barberId d,
     po_periodStart = yo_start r, po_periodEnd = yo_end r, po_payType = ya_payType y, po_serviceSales = ya_serviceSales y,
     po_productSales = ya_productSales y, po_salesCount = ya_salesCount y, po_commission = ya_commission y,
     po_fixedAmount = ya_fixedAmount y, po_baseAmount = ya_baseAmount y, po_tips = ya_tips y, po_bonuses = ya_bonuses y,
     po_deductions = ya_deductions y, po_advances = ya_advances y, po_total = max (ya_total y) 0,
     po_currency = bs_currency (sa_shop (yo_shop r)), po_method = yi_method d, po_paidAt = now, po_notes = trim_or_null (yi_notes d),
     po_expenseId = expenseId, po_cashSessionId = (if expenseId = None then None else yo_cashSessionId r),
     po_carryOverEntryId = carryId, po_createdByUserId = userId\<rparr>"

text \<open>An advance above what is due: the rest is an advance of the next period.\<close>

definition carry_entry :: "intl \<Rightarrow> int \<Rightarrow> int \<Rightarrow> pay_input \<Rightarrow> pay_order \<Rightarrow> rat \<Rightarrow> int \<Rightarrow> pay_entry" where
  "carry_entry I userId barbershopId d r total' i = \<lparr>pe_id = i, pe_barbershopId = barbershopId, pe_barberId = yi_barberId d,
     pe_type = ''ADVANCE'', pe_amount = round2 (- total'), pe_method = None, pe_date = yo_end r + 1,
     pe_notes = Some (''Vale restante do pagamento de '' @ period_label I (yo_shop r) (yo_start r) (yo_end r)),
     pe_createdByUserId = userId, pe_payoutId = None, pe_expenseId = None, pe_cashSessionId = None\<rparr>"

definition pay_rows :: "intl \<Rightarrow> int \<Rightarrow> int \<Rightarrow> int \<Rightarrow> pay_input \<Rightarrow> pay_order \<Rightarrow> pay_sum \<Rightarrow> 'a payroll_db_scheme \<Rightarrow> 'a payroll_db_scheme" where
  "pay_rows I now userId barbershopId d r y db = (let
       spends = (max (ya_total y) 0 > 0);
       text = ''Pagamento ('' @ period_label I (yo_shop r) (yo_start r) (yo_end r) @ '')'';
       payoutId = seq (payouts db);
       counted = map pe_id (ya_entries y);
       closed = update_many (\<lambda>e. pe_id e \<in> set counted \<and> pe_payoutId e = None) (\<lambda>e. e\<lparr>pe_payoutId := Some payoutId\<rparr>) (payEntries db);
       carries = (ya_total y < 0)
     in db\<lparr>expenses := (if spends then create_row (salary_expense barbershopId now (yo_cashSessionId r) text (max (ya_total y) 0)
              (Some (yi_method d)) userId) (expenses db) else expenses db),
            payouts := create_row (new_payout now userId barbershopId d r y (if spends then Some (seq (expenses db)) else None)
              (if carries then Some (seq (payEntries db)) else None)) (payouts db),
            payEntries := (if carries then create_row (carry_entry I userId barbershopId d r (ya_total y)) closed else closed)\<rparr>)"

text \<open>The transaction, which holds a lock of the professional.\<close>

definition pay_write :: "intl \<Rightarrow> int \<Rightarrow> int \<Rightarrow> int \<Rightarrow> pay_input \<Rightarrow> pay_order \<Rightarrow> 'a payroll_db_scheme \<Rightarrow> 'a payroll_db_scheme result" where
  "pay_write I now userId barbershopId d r db = (case find_first (meets (yi_barberId d) (yo_start r) (yo_end r)) (payouts db) of
       Some p \<Rightarrow> Inl (BadRequest (''Esse periodo ja foi pago ('' @ period_label I (yo_shop r) (po_periodStart p) (po_periodEnd p) @ '')''))
     | None \<Rightarrow> Inr (pay_rows I now userId barbershopId d r (pay_compute db barbershopId (yi_barberId d) (yo_start r) (yo_end r)) db))"

definition pay :: "intl \<Rightarrow> int \<Rightarrow> int \<Rightarrow> int \<Rightarrow> pay_input \<Rightarrow> 'a payroll_db_scheme \<Rightarrow> 'a payroll_db_scheme result" where
  "pay I now userId barbershopId d db =
     bindE (pay_read I now userId barbershopId d db) (\<lambda>r. pay_write I now userId barbershopId d r db)"

definition undo_pay_read :: "int \<Rightarrow> int \<Rightarrow> int \<Rightarrow> int \<Rightarrow> 'a payroll_db_scheme \<Rightarrow> payout result" where
  "undo_pay_read now userId barbershopId payoutId db =
     bindE (ensureBarbershopAccess db now userId barbershopId Manager) (\<lambda>shop.
     case find_first (\<lambda>p. po_id p = payoutId \<and> po_barbershopId p = barbershopId) (payouts db) of
       None \<Rightarrow> Inl (NotFound ''Pagamento nao encontrado'')
     | Some p \<Rightarrow>
         bindE (barberOf db barbershopId (po_barberId p)) (\<lambda>b.
         bindE (ensureNotOwnPay shop userId b) (\<lambda>_.
         bindE (ensureCashStillOpen db (po_cashSessionId p)) (\<lambda>_.
         bindE (throwIf (truthy (po_carryOverEntryId p)
             \<and> (case find_first (\<lambda>e. Some (pe_id e) = po_carryOverEntryId p) (payEntries db) of
                  None \<Rightarrow> False | Some e \<Rightarrow> truthy (pe_payoutId e)))
           (BadRequest ''O vale que sobrou deste pagamento ja entrou no pagamento seguinte. Desfaca aquele antes.'')) (\<lambda>_. Inr p)))))"

definition undo_pay_write :: "payout \<Rightarrow> 'a payroll_db_scheme \<Rightarrow> 'a payroll_db_scheme result" where
  "undo_pay_write p db =
     bindE (throwIf (find_first (\<lambda>x. po_id x = po_id p) (payouts db) = None) (PlainError ''P2025'')) (\<lambda>_. let
       kept = (if truthy (po_carryOverEntryId p) then delete_many (\<lambda>e. Some (pe_id e) = po_carryOverEntryId p) (payEntries db)
         else payEntries db)
     in Inr (delete_expense (po_expenseId p) (db\<lparr>payEntries := update_many (\<lambda>e. pe_payoutId e = Some (po_id p)) (\<lambda>e. e\<lparr>pe_payoutId := None\<rparr>) kept,
          payouts := delete_many (\<lambda>x. po_id x = po_id p) (payouts db)\<rparr>)))"

definition undoPayout :: "int \<Rightarrow> int \<Rightarrow> int \<Rightarrow> int \<Rightarrow> 'a payroll_db_scheme \<Rightarrow> 'a payroll_db_scheme result" where
  "undoPayout now userId barbershopId payoutId db =
     bindE (undo_pay_read now userId barbershopId payoutId db) (\<lambda>p. undo_pay_write p db)"

section \<open>Statement and overview\<close>

text \<open>Below a manager, only the own statement.\<close>

definition statement_of :: "int \<Rightarrow> int \<Rightarrow> int option \<Rightarrow> shop_access \<Rightarrow> 'a payroll_db_scheme \<Rightarrow> int result" where
  "statement_of userId barbershopId barberId shop db = (let
       mine = map_option bb_id (find_first (\<lambda>b. bb_barbershopId b = barbershopId \<and> bb_userId b = Some userId) (barbers db));
       isManager = (sa_accessLevel shop \<in> {Manager, Owner})
     in case barberId of
          None \<Rightarrow> (case mine of None \<Rightarrow> Inl (NotFound ''Voce nao tem perfil de profissional nesta unidade'') | Some i \<Rightarrow> Inr i)
        | Some i \<Rightarrow> bindE (throwIf (\<not> isManager \<and> Some i \<noteq> mine) (NotFound ''Profissional nao encontrado'')) (\<lambda>_. Inr i))"

text \<open>The open period: from the day after the last payment, or from the first of the month, to today.\<close>

definition last_payout :: "'a payroll_db_scheme \<Rightarrow> int \<Rightarrow> int \<Rightarrow> payout option" where
  "last_payout db barbershopId barberId = (case sort_key (\<lambda>p. - po_periodEnd p)
       (find_many (\<lambda>p. po_barberId p = barberId \<and> po_barbershopId p = barbershopId) (payouts db)) of [] \<Rightarrow> None | p # _ \<Rightarrow> Some p)"

definition open_from :: "intl \<Rightarrow> shop_access \<Rightarrow> string \<Rightarrow> payout option \<Rightarrow> string option" where
  "open_from I shop today' p = (case p of
       Some q \<Rightarrow> nextDateStr (dayOf I shop (po_periodEnd q))
     | None \<Rightarrow> Some (take 7 today' @ ''-01''))"

definition add_received :: "string \<Rightarrow> rat \<Rightarrow> (string \<times> rat) list \<Rightarrow> (string \<times> rat) list" where
  "add_received k v t = AList.update k (round2 ((case map_of t k of None \<Rightarrow> 0 | Some x \<Rightarrow> x) + v)) t"

definition received_by_month :: "intl \<Rightarrow> shop_access \<Rightarrow> (int \<times> rat) list \<Rightarrow> (string \<times> rat) list" where
  "received_by_month I shop paid' = sort_key fst (fold (\<lambda>(t, v). add_received (take 7 (dayOf I shop t)) v) paid' [])"

definition received :: "int \<Rightarrow> int \<Rightarrow> int \<Rightarrow> 'a payroll_db_scheme \<Rightarrow> (int \<times> rat) list" where
  "received now barbershopId barberId db = (let since = now - 366 * day_ms in
     map (\<lambda>p. (po_paidAt p, po_total p))
       (find_many (\<lambda>p. po_barberId p = barberId \<and> po_barbershopId p = barbershopId \<and> po_paidAt p \<ge> since) (payouts db))
     @ map (\<lambda>e. (pe_date e, pe_amount e))
       (find_many (\<lambda>e. pe_barberId e = barberId \<and> pe_barbershopId e = barbershopId \<and> pe_type e = ''ADVANCE''
         \<and> pe_expenseId e \<noteq> None \<and> pe_date e \<ge> since) (payEntries db)))"

record pay_statement =
  yt_barberId :: int
  yt_config :: "string \<times> rat option \<times> string"
  yt_current :: "(pay_sum \<times> int \<times> int) option"
  yt_openEntries :: "pay_entry list"
  yt_payouts :: "payout list"
  yt_received :: "(string \<times> rat) list"

definition current_period :: "intl \<Rightarrow> int \<Rightarrow> int \<Rightarrow> shop_access \<Rightarrow> int \<Rightarrow> 'a payroll_db_scheme \<Rightarrow> ((pay_sum \<times> int \<times> int) option) result" where
  "current_period I now barbershopId shop i db = (let today' = dayOf I shop now in
     case open_from I shop today' (last_payout db barbershopId i) of
       None \<Rightarrow> Inl (PlainError ''Invalid Date'')
     | Some from' \<Rightarrow> if \<not> from' \<le> today' then Inr None
         else bindE (pay_range I shop from' today') (\<lambda>(start, end'). Inr (Some (pay_compute db barbershopId i start end', start, end'))))"

definition pay_statement_of :: "intl \<Rightarrow> int \<Rightarrow> int \<Rightarrow> int \<Rightarrow> int option \<Rightarrow> 'a payroll_db_scheme \<Rightarrow> pay_statement result" where
  "pay_statement_of I now userId barbershopId barberId db =
     bindE (ensureBarbershopAccess db now userId barbershopId Basic) (\<lambda>shop.
     bindE (statement_of userId barbershopId barberId shop db) (\<lambda>i.
     bindE (barberOf db barbershopId i) (\<lambda>b.
     bindE (current_period I now barbershopId shop i db) (\<lambda>current.
     Inr \<lparr>yt_barberId = i, yt_config = config_of db i, yt_current = current,
       yt_openEntries = sort_key (\<lambda>e. - pe_date e)
         (find_many (\<lambda>e. pe_barberId e = i \<and> pe_barbershopId e = barbershopId \<and> pe_payoutId e = None) (payEntries db)),
       yt_payouts = take 36 (sort_key (\<lambda>p. - po_periodEnd p)
         (find_many (\<lambda>p. po_barberId p = i \<and> po_barbershopId p = barbershopId) (payouts db))),
       yt_received = received_by_month I shop (received now barbershopId i db)\<rparr>))))"

definition saleRevenue :: "rat option \<Rightarrow> rat option \<Rightarrow> rat option \<Rightarrow> rat" where
  "saleRevenue total' depositApplied prepaidApplied = amount_or_0 total' + amount_or_0 depositApplied + amount_or_0 prepaidApplied"

definition revenue_between :: "'a payroll_db_scheme \<Rightarrow> int \<Rightarrow> int \<Rightarrow> int \<Rightarrow> rat" where
  "revenue_between db barbershopId start end' = (let
       paid' = find_many (\<lambda>s. se_barbershopId s = barbershopId \<and> se_paymentStatus s = ''PAID'' \<and> paidInRange (\<lambda>t. start \<le> t \<and> t \<le> end') s) (sales db)
     in saleRevenue (Some (sum_list (map se_total paid'))) (Some (sum_list (map (\<lambda>s. amount_or_0 (se_depositApplied s)) paid')))
          (Some (sum_list (map (\<lambda>s. amount_or_0 (se_prepaidApplied s)) paid'))))"

record pay_row =
  yr_barberId :: int
  yr_isActive :: bool
  yr_payType :: string
  yr_fixedAmount :: "rat option"
  yr_salesCount :: int
  yr_sales :: rat
  yr_commission :: rat
  yr_tips :: rat
  yr_bonuses :: rat
  yr_deductions :: rat
  yr_advancesPaid :: rat
  yr_paid :: rat
  yr_payoutsCount :: int

definition overview_row :: "'a payroll_db_scheme \<Rightarrow> tally list \<Rightarrow> pay_entry list \<Rightarrow> payout list \<Rightarrow> barber \<Rightarrow> pay_row" where
  "overview_row db tallies entries paid' b = (let
       config = configView (find_first (\<lambda>c. py_barberId c = bb_id b \<and> py_barbershopId c = bb_barbershopId b) (payConfigs db));
       com = tally_of (bb_id b) tallies;
       mine = filter (\<lambda>e. pe_barberId e = bb_id b) entries;
       payoutsOf = filter (\<lambda>p. po_barberId p = bb_id b) paid';
       advancesPaid = sum_entries ''ADVANCE'' (filter (\<lambda>e. pe_expenseId e \<noteq> None) mine)
     in \<lparr>yr_barberId = bb_id b, yr_isActive = bb_isActive b, yr_payType = fst config, yr_fixedAmount = fst (snd config),
          yr_salesCount = ta_salesCount com, yr_sales = round2 (ta_serviceSales com + ta_productSales com),
          yr_commission = round2 (total_commission com), yr_tips = sum_entries ''TIP'' mine, yr_bonuses = sum_entries ''BONUS'' mine,
          yr_deductions = sum_entries ''DEDUCTION'' mine, yr_advancesPaid = advancesPaid,
          yr_paid = round2 (round2 (sum_list (map po_total payoutsOf)) + advancesPaid), yr_payoutsCount = int (length payoutsOf)\<rparr>)"

record pay_overview =
  yv_rows :: "pay_row list"
  yv_totalRevenue :: rat
  yv_totalPaid :: rat
  yv_totalCommission :: rat
  yv_totalTips :: rat
  yv_staffCostPercent :: "rat option"

definition pay_overview_of :: "intl \<Rightarrow> int \<Rightarrow> int \<Rightarrow> int \<Rightarrow> string \<Rightarrow> string \<Rightarrow> 'a payroll_db_scheme \<Rightarrow> pay_overview result" where
  "pay_overview_of I now userId barbershopId from' to' db =
     bindE (ensureBarbershopAccess db now userId barbershopId Manager) (\<lambda>shop.
     bindE (pay_range I shop from' to') (\<lambda>(start, end'). let
       inside = (\<lambda>t. start \<le> t \<and> t \<le> end');
       paid' = find_many (\<lambda>p. po_barbershopId p = barbershopId \<and> inside (po_paidAt p)) (payouts db);
       team = find_many (\<lambda>b. bb_barbershopId b = barbershopId
         \<and> (bb_isActive b \<or> list_ex (\<lambda>p. po_barberId p = bb_id b \<and> inside (po_paidAt p)) (rows (payouts db)))) (barbers db);
       table = map (overview_row db (fst (computeCommissions db barbershopId start end' None))
         (find_many (\<lambda>e. pe_barbershopId e = barbershopId \<and> inside (pe_date e)) (payEntries db)) paid') team;
       totalRevenue = round2 (revenue_between db barbershopId start end');
       totalPaid = round2 (sum_list (map yr_paid table))
     in Inr \<lparr>yv_rows = table, yv_totalRevenue = totalRevenue, yv_totalPaid = totalPaid,
          yv_totalCommission = round2 (sum_list (map yr_commission table)), yv_totalTips = round2 (sum_list (map yr_tips table)),
          yv_staffCostPercent = (if totalRevenue > 0 then Some (round2 (totalPaid / totalRevenue * 100)) else None)\<rparr>))"

end
