(* ===== verification/Payroll_Laws.thy ===== *)
theory Payroll_Laws
  imports Payroll "HOL-Library.Multiset"
begin

text \<open>
  What the pay of the team keeps true: the share of a period counts every day once, by the length of its month; periods paid to one
  professional stay apart and every payment is what its entries add up to; undoing a payment gives the rows back. The last section has
  the defects at concrete inputs.
\<close>

section \<open>The share of a period, day by day\<close>

text \<open>The part of the month that one day is.\<close>

definition day_share :: "int \<Rightarrow> rat" where
  "day_share n = (case civil_of_day n of (y, m, d) \<Rightarrow> 1 / of_int (month_len y m))"

lemma month_len_pos: "0 < month_len y m"
  by (simp add: month_len_def)

lemma month_step_len:
  fixes k :: nat
  assumes "k < 11"
  shows "make_day y (1 + int k + 1) 1 = make_day y (1 + int k) 1 + month_len y (1 + int k)"
proof -
  from assms have "k < 12" by simp
  then show ?thesis
    using assms by (cases rule: month_index_cases) (simp_all add: make_day_first month_len_def month_starts_def Let_def)
qed

lemma month_length: "1 \<le> m \<Longrightarrow> m \<le> 12 \<Longrightarrow> make_day y (m + 1) 1 = make_day y m 1 + month_len y m"
proof (cases "m = 12")
  case True
  have "make_day y 13 1 = day_from_year (y + 1)" by (simp add: make_day_first month_starts_facts)
  moreover have "make_day y 12 1 = day_from_year y + month_starts (is_leap y) ! 11" by (simp add: make_day_first)
  ultimately show ?thesis using True by (simp add: year_length month_len_def month_starts_def Let_def)
next
  case False
  assume m: "1 \<le> m" "m \<le> 12"
  with False have "nat (m - 1) < 11" by simp
  moreover from m False have "m = 1 + int (nat (m - 1))" by simp
  ultimately show ?thesis
    by (metis (no_types, lifting) month_step_len)
qed

lemma utc_day_late: "100 \<le> y \<Longrightarrow> utc_day y m d = make_day y m d"
  by (simp add: utc_day_def)

lemma month_days:
  assumes m: "1 \<le> m" "m \<le> 12" and n: "make_day y m 1 \<le> n" "n \<le> make_day y (m + 1) 0"
  shows "day_share n = 1 / of_int (month_len y m)"
proof -
  define d where "d = n - make_day y m 1 + 1"
  have n_eq: "make_day y m d = n" using make_day_add [of y m 1 "d - 1"] by (simp add: d_def add.commute)
  have "make_day y (m + 1) 1 = make_day y (m + 1) 0 + 1" using make_day_add [of y "m + 1" 0 1] by simp
  with n month_length [OF m, of y] have "1 \<le> d" "d \<le> month_len y m" by (simp_all add: d_def)
  with m have "valid_civil y m d" by (simp add: valid_civil_def)
  from civil_of_make_day [OF this] show ?thesis by (simp add: day_share_def n_eq)
qed

lemma month_share_sum:
  assumes m: "1 \<le> m" "m \<le> 12" and a: "make_day y m 1 \<le> a" and b: "b \<le> make_day y (m + 1) 0"
  shows "(if a \<le> b then of_int (b - a + 1) / of_int (month_len y m) else 0) = sum day_share {a..b}"
proof -
  have "sum day_share {a..b} = (\<Sum>n \<in> {a..b}. 1 / of_int (month_len y m))"
    using a b by (intro sum.cong month_days [OF m]) auto
  then show ?thesis by auto
qed

text \<open>Where the loop stands: in the month of the first day, or past it.\<close>

definition loop_at :: "int \<times> int \<times> int \<Rightarrow> int \<Rightarrow> int \<Rightarrow> bool" where
  "loop_at first y m \<longleftrightarrow> (case first of (fy, fm, fd) \<Rightarrow> valid_civil fy fm fd \<and> 100 \<le> y \<and> 1 \<le> m \<and> m \<le> 12
     \<and> (y = fy \<and> m = fm \<or> make_day fy fm fd < make_day y m 1))"

lemma month_end: "1 \<le> m \<Longrightarrow> m \<le> 12 \<Longrightarrow> make_day y (m + 1) 0 = make_day y m 1 + month_len y m - 1"
  using month_length [of m y] make_day_add [of y "m + 1" 0 1] by simp

lemma loop_from:
  assumes "loop_at (fy, fm, fd) y m"
  shows "(if y = fy \<and> m = fm then utc_day y m fd else utc_day y m 1) = max (make_day fy fm fd) (make_day y m 1)"
  using assms make_day_add [of y m 1 "fd - 1"] by (auto simp: loop_at_def utc_day_late valid_civil_def max_def)

lemma loop_next:
  assumes "loop_at first y m"
  shows "loop_at first (if m = 12 then y + 1 else y) (if m = 12 then 1 else m + 1)"
proof -
  obtain fy fm fd where first: "first = (fy, fm, fd)" by (cases first) auto
  have start: "make_day (y + 1) 1 1 = make_day y 13 1" by (simp add: make_day_first)
  have m: "1 \<le> m" "m \<le> 12" and len: "0 < month_len y m" using assms by (auto simp: loop_at_def first month_len_def)
  have "make_day fy fm fd < make_day y (m + 1) 1"
    using assms month_length [OF m, of y] make_day_add [of fy fm 1 "fd - 1"] len by (auto simp: loop_at_def first valid_civil_def)
  with assms start show ?thesis by (auto simp: loop_at_def first)
qed

lemma month_shares_unfold:
  assumes "loop_at (fy, fm, fd) y m"
  shows "month_shares (fy, fm, fd) lastDay y m
    = sum day_share {max (make_day fy fm fd) (make_day y m 1)..min (make_day y (m + 1) 0) lastDay}
      + (if lastDay \<le> make_day y (m + 1) 0 then 0
         else month_shares (fy, fm, fd) lastDay (if m = 12 then y + 1 else y) (if m = 12 then 1 else m + 1))"
proof -
  have y: "100 \<le> y" and m: "1 \<le> m" "m \<le> 12" using assms by (simp_all add: loop_at_def)
  have days: "make_day y (m + 1) 0 - make_day y m 1 + 1 = month_len y m" using month_end [OF m] by simp
  have share: "(if max (make_day fy fm fd) (make_day y m 1) \<le> min (make_day y (m + 1) 0) lastDay
      then of_int (min (make_day y (m + 1) 0) lastDay - max (make_day fy fm fd) (make_day y m 1) + 1) / of_int (month_len y m) else 0)
    = sum day_share {max (make_day fy fm fd) (make_day y m 1)..min (make_day y (m + 1) 0) lastDay}"
    by (rule month_share_sum [OF m]) simp_all
  show ?thesis
    by (subst month_shares.simps, unfold Let_def prod.case, unfold loop_from [OF assms], unfold utc_day_late [OF y] days share) simp
qed

text \<open>The loop gives every day from the first to the last its part of its month.\<close>

lemma month_shares_sum:
  assumes "loop_at (fy, fm, fd) y m" and "make_day fy fm fd \<le> make_day y (m + 1) 0"
  shows "month_shares (fy, fm, fd) lastDay y m = sum day_share {max (make_day fy fm fd) (make_day y m 1)..lastDay}"
  using assms
proof (induction "nat (lastDay + 1 - make_day y m 1)" arbitrary: y m rule: less_induct)
  case less
  define y' m' where "y' = (if m = 12 then y + 1 else y)" and "m' = (if m = 12 then 1 else m + 1)"
  define monthEnd where "monthEnd = make_day y (m + 1) 0"
  note unfold = month_shares_unfold [OF less.prems(1), of lastDay, folded y'_def m'_def monthEnd_def]
  show ?case
  proof (cases "lastDay \<le> monthEnd")
    case True
    then show ?thesis by (simp add: unfold min_absorb2)
  next
    case False
    have m: "1 \<le> m" "m \<le> 12" using less.prems by (simp_all add: loop_at_def)
    have next': "loop_at (fy, fm, fd) y' m'" unfolding y'_def m'_def by (rule loop_next [OF less.prems(1)])
    have "make_day (y + 1) 1 1 = make_day y 13 1" by (simp add: make_day_first)
    then have start: "make_day y' m' 1 = monthEnd + 1"
      using make_day_add [of y "m + 1" 0 1] by (cases "m = 12") (simp_all add: y'_def m'_def monthEnd_def)
    have len: "make_day y' (m' + 1) 0 = make_day y' m' 1 + month_len y' m' - 1" "0 < month_len y' m'"
      using m month_end [of m' y'] by (auto simp: m'_def month_len_def)
    have first: "make_day fy fm fd \<le> monthEnd" using less.prems(2) by (simp add: monthEnd_def)
    have "month_shares (fy, fm, fd) lastDay y' m' = sum day_share {max (make_day fy fm fd) (make_day y' m' 1)..lastDay}"
      using next' first start len False month_end [OF m, of y] month_len_pos [of y m]
      by (intro less.hyps) (auto simp: monthEnd_def)
    then have IH: "month_shares (fy, fm, fd) lastDay y' m' = sum day_share {monthEnd + 1..lastDay}"
      using first by (simp add: start)
    have split: "{max (make_day fy fm fd) (make_day y m 1)..lastDay}
      = {max (make_day fy fm fd) (make_day y m 1)..monthEnd} \<union> {monthEnd + 1..lastDay}"
      using first False month_end [OF m, of y] month_len_pos [of y m] by (auto simp: monthEnd_def)
    show ?thesis using False by (simp add: unfold IH split sum.union_disjoint min_absorb1)
  qed
qed

text \<open>The share of a period in the months is that of its days.\<close>

lemma periodShare_days:
  assumes "100 \<le> year_from_day f" and "100 \<le> year_from_day l"
    and "(start + day_ms div 2) div day_ms = f" and "(end' - day_ms div 2) div day_ms = l"
    and "period \<noteq> ''WEEKLY''" and "period \<noteq> ''BIWEEKLY''"
  shows "periodShare start end' period = sum day_share {f..l}"
proof -
  obtain y m d where f: "civil_of_day f = (y, m, d)" by (cases "civil_of_day f") auto
  obtain ly lm ld where l: "civil_of_day l = (ly, lm, ld)" by (cases "civil_of_day l") auto
  have years: "100 \<le> y" "100 \<le> ly" using assms(1,2) f l by (auto simp: civil_of_day_def Let_def)
  note first = civil_of_day_valid [OF f] and last = civil_of_day_valid [OF l]
  have m: "1 \<le> m" "m \<le> 12" and d: "1 \<le> d" "d \<le> month_len y m" using first(1) by (simp_all add: valid_civil_def)
  have at: "loop_at (y, m, d) y m" using first years m by (simp add: loop_at_def)
  have "make_day y m d \<le> make_day y (m + 1) 0" using d month_end [OF m, of y] make_day_add [of y m 1 "d - 1"] by simp
  from month_shares_sum [OF at this] have "month_shares (y, m, d) l y m = sum day_share {max f (make_day y m 1)..l}"
    by (simp add: first)
  moreover have "make_day y m 1 \<le> f" using first(2) d make_day_add [of y m 1 "d - 1"] by simp
  ultimately show ?thesis
    using assms(3-6) f l years last(2) by (simp add: periodShare_def Let_def utc_day_late max_def)
qed

lemma noon_day: "- (day_ms div 2) < off \<Longrightarrow> off \<le> day_ms div 2 \<Longrightarrow> (n * day_ms - off + day_ms div 2) div day_ms = n"
  by (rule int_div_pos_eq [of _ _ _ "day_ms div 2 - off"]) simp_all

lemma noon_day_before: "- (day_ms div 2) \<le> off \<Longrightarrow> off < day_ms div 2 \<Longrightarrow> ((n + 1) * day_ms - off - 1 - day_ms div 2) div day_ms = n"
  by (rule int_div_pos_eq [of _ _ _ "day_ms div 2 - off - 1"]) (simp_all add: algebra_simps)

lemma pay_range_borders:
  assumes "pay_range I shop (iso_date a) (iso_date b) = Inr (start, end')"
    and "zone_near I (shop_zone I shop)" and "inner_day a" and "inner_day (b + 1)"
  shows "start = a * day_ms - settled_offset I (shop_zone I shop) (a * day_ms)"
    and "end' = (b + 1) * day_ms - settled_offset I (shop_zone I shop) ((b + 1) * day_ms) - 1"
proof -
  have "plain_day b" using inner_day_near [OF assms(4), of b] by simp
  then have "nextDateStr (iso_date b) = Some (iso_date (b + 1))" by (rule nextDateStr_iso)
  with zonedTimeToUtc_eq [OF assms(2,3), of 0] zonedTimeToUtc_eq [OF assms(2,4), of 0] assms(1)
  show "start = a * day_ms - settled_offset I (shop_zone I shop) (a * day_ms)"
    and "end' = (b + 1) * day_ms - settled_offset I (shop_zone I shop) ((b + 1) * day_ms) - 1"
    by (auto simp: pay_range_def bindE_eq_Inr split: option.splits)
qed

text \<open>
  C40. The fixed part of a monthly pay counts every calendar day of the period once, each as its part of its own month, wherever the
  clock of the shop is less than twelve hours from universal time: so a whole month counts 1, and two periods that follow each other
  count together what the joined period counts.
\<close>

theorem monthly_share_by_day:
  assumes "pay_range I shop (iso_date a) (iso_date b) = Inr (start, end')"
    and "zone_near I (shop_zone I shop)" and "inner_day a" and "inner_day (b + 1)"
    and "\<bar>settled_offset I (shop_zone I shop) (a * day_ms)\<bar> < day_ms div 2"
    and "\<bar>settled_offset I (shop_zone I shop) ((b + 1) * day_ms)\<bar> < day_ms div 2"
  shows "periodShare start end' ''MONTHLY'' = (\<Sum>n = a..b. case civil_of_day n of (y, m, d) \<Rightarrow> 1 / of_int (month_len y m))"
proof -
  note borders = pay_range_borders [OF assms(1-4)]
  have "(start + day_ms div 2) div day_ms = a" unfolding borders(1) by (rule noon_day) (use assms(5) in linarith)+
  moreover have "(end' - day_ms div 2) div day_ms = b" unfolding borders(2) by (rule noon_day_before) (use assms(6) in linarith)+
  moreover have "100 \<le> year_from_day a" "100 \<le> year_from_day b"
    using assms(3) inner_day_near [OF assms(4), of b] by (simp_all add: inner_day_def plain_day_def)
  ultimately have "periodShare start end' ''MONTHLY'' = sum day_share {a..b}" by (intro periodShare_days) simp_all
  then show ?thesis by (simp add: day_share_def)
qed

section \<open>Payments that stay apart and add up\<close>

interpretation entry_tab: row_table pe_id "table_ok pe_id"
  by unfold_locales (rule table_ok_def)

interpretation payout_tab: row_table po_id "table_ok po_id"
  by unfold_locales (rule table_ok_def)

definition entries_of :: "pay_entry list \<Rightarrow> int \<Rightarrow> pay_entry list" where
  "entries_of entries i = filter (\<lambda>e. pe_payoutId e = Some i) entries"

text \<open>The slip of a payment says what its entries add up to, and its total is their balance with the base.\<close>

definition slip_true :: "pay_entry list \<Rightarrow> payout \<Rightarrow> bool" where
  "slip_true entries p \<longleftrightarrow>
     po_tips p = sum_entries ''TIP'' (entries_of entries (po_id p)) \<and> po_bonuses p = sum_entries ''BONUS'' (entries_of entries (po_id p))
     \<and> po_deductions p = sum_entries ''DEDUCTION'' (entries_of entries (po_id p))
     \<and> po_advances p = sum_entries ''ADVANCE'' (entries_of entries (po_id p))
     \<and> po_total p = max 0 (po_baseAmount p + po_tips p + po_bonuses p - po_deductions p - po_advances p)"

definition apart :: "payout \<Rightarrow> payout \<Rightarrow> bool" where
  "apart p q \<longleftrightarrow> (po_barberId p = po_barberId q \<longrightarrow> po_periodEnd p < po_periodStart q \<or> po_periodEnd q < po_periodStart p)"

definition payroll_ok :: "'a shop_db_scheme \<Rightarrow> bool" where
  "payroll_ok db \<longleftrightarrow> table_ok pe_id (payEntries db) \<and> table_ok po_id (payouts db) \<and> 0 < seq (payouts db)
     \<and> (\<forall>p \<in> set (rows (payouts db)). 0 < po_id p)
     \<and> (\<forall>p \<in> set (rows (payouts db)). \<forall>q \<in> set (rows (payouts db)). p \<noteq> q \<longrightarrow> apart p q)
     \<and> (\<forall>p \<in> set (rows (payouts db)). slip_true (rows (payEntries db)) p)
     \<and> (\<forall>e \<in> set (rows (payEntries db)). \<forall>i. pe_payoutId e = Some i \<longrightarrow> (\<exists>p \<in> set (rows (payouts db)). po_id p = i))"

text \<open>What leaves the payments and the entries they counted alone keeps the slips true.\<close>

definition counted_entries :: "'a shop_db_scheme \<Rightarrow> pay_entry list" where
  "counted_entries db = filter (\<lambda>e. pe_payoutId e \<noteq> None) (rows (payEntries db))"

lemma entries_of_counted: "entries_of (rows (payEntries db)) i = entries_of (counted_entries db) i"
  by (auto simp: entries_of_def counted_entries_def filter_filter intro: filter_cong)

lemma payroll_kept:
  assumes "payroll_ok db" and "payouts db' = payouts db" and "counted_entries db' = counted_entries db" and "table_ok pe_id (payEntries db')"
  shows "payroll_ok db'"
proof -
  have "\<exists>p \<in> set (rows (payouts db)). po_id p = i" if "e \<in> set (rows (payEntries db'))" "pe_payoutId e = Some i" for e i
  proof -
    have "e \<in> set (counted_entries db')" using that by (simp add: counted_entries_def)
    then have "e \<in> set (rows (payEntries db))" unfolding assms(3) by (simp add: counted_entries_def)
    with assms(1) that(2) show ?thesis by (simp add: payroll_ok_def)
  qed
  then show ?thesis using assms
    by (simp add: payroll_ok_def slip_true_def entries_of_counted [of db] entries_of_counted [of db'])
qed

lemma counted_create: "pe_payoutId (mk (seq (payEntries db))) = None \<Longrightarrow> payEntries db' = create_row mk (payEntries db)
    \<Longrightarrow> counted_entries db' = counted_entries db"
  by (simp add: counted_entries_def)

lemma payroll_create:
  assumes "payroll_ok db" and "payouts db' = payouts db" and "payEntries db' = create_row mk (payEntries db)"
    and "pe_payoutId (mk (seq (payEntries db))) = None" and "pe_id (mk (seq (payEntries db))) = seq (payEntries db)"
  shows "payroll_ok db'"
  using assms by (intro payroll_kept [OF assms(1)] counted_create [of mk]) (auto simp: payroll_ok_def intro: entry_tab.ok_create)

lemma payroll_delete:
  assumes "payroll_ok db" and "payouts db' = payouts db" and "payEntries db' = delete_many q (payEntries db)"
    and "\<And>e. e \<in> set (rows (payEntries db)) \<Longrightarrow> q e \<Longrightarrow> pe_payoutId e = None"
  shows "payroll_ok db'"
proof (rule payroll_kept [OF assms(1,2)])
  show "counted_entries db' = counted_entries db"
    using assms(4) by (auto simp: counted_entries_def assms(3) filter_filter intro!: filter_cong)
  show "table_ok pe_id (payEntries db')" using assms(1) by (simp add: assms(3) payroll_ok_def entry_tab.ok_delete)
qed

lemma payroll_same: "payroll_ok db \<Longrightarrow> payouts db' = payouts db \<Longrightarrow> payEntries db' = payEntries db \<Longrightarrow> payroll_ok db'"
  by (rule payroll_kept) (simp_all add: counted_entries_def payroll_ok_def)

section \<open>Each operation keeps them\<close>

lemma delete_expense_rest [simp]: "payouts (delete_expense i db) = payouts db" "payEntries (delete_expense i db) = payEntries db"
  by (simp_all add: delete_expense_def)

lemma config_ok: "payroll_ok db \<Longrightarrow> setConfig now u b i t f p db = Inr db' \<Longrightarrow> payroll_ok db'"
  by (erule payroll_same) (auto simp: setConfig_def bindE_eq_Inr Let_def)

lemma add_entry_ok: "payroll_ok db \<Longrightarrow> addEntry I now u b d db = Inr db' \<Longrightarrow> payroll_ok db'"
  by (auto simp: addEntry_def bindE_eq_Inr Let_def intro: payroll_create)

text \<open>An entry no payment counted yet.\<close>

lemma not_counted:
  assumes "payroll_ok db" and "e \<in> set (rows (payEntries db))" and "\<not> truthy (pe_payoutId e)"
  shows "pe_payoutId e = None"
proof (cases "pe_payoutId e")
  case (Some i)
  with assms(1,2) have "\<exists>p \<in> set (rows (payouts db)). po_id p = i" by (simp add: payroll_ok_def)
  moreover from assms(1) have "\<forall>p \<in> set (rows (payouts db)). 0 < po_id p" by (simp add: payroll_ok_def)
  ultimately have "0 < i" by blast
  with Some assms(3) show ?thesis by (simp add: truthy_def)
qed

lemma delete_entry_ok:
  assumes ok: "payroll_ok db" and "deleteEntry now u b i db = Inr db'"
  shows "payroll_ok db'"
proof -
  from assms(2) obtain e where e: "find_first (\<lambda>e. pe_id e = i \<and> pe_barbershopId e = b) (payEntries db) = Some e" "\<not> truthy (pe_payoutId e)"
    and db': "db' = delete_expense (pe_expenseId e) (db\<lparr>payEntries := delete_many (\<lambda>x. pe_id x = pe_id e) (payEntries db)\<rparr>)"
    by (auto simp: deleteEntry_def entry_delete_read_def entry_delete_write_def bindE_eq_Inr split: option.splits)
  from find_first_Some [OF e(1)] have row: "e \<in> set (rows (payEntries db))" by simp
  have "pe_payoutId x = None" if "x \<in> set (rows (payEntries db))" "pe_id x = pe_id e" for x
    using entry_tab.key_inj [OF _ that(1) row that(2)] not_counted [OF ok row e(2)] ok by (simp add: payroll_ok_def)
  then show ?thesis by (intro payroll_delete [OF ok, of _ "\<lambda>x. pe_id x = pe_id e"]) (simp_all add: db')
qed

lemma adjustment_ok: "payroll_ok db \<Longrightarrow> payroll_ok (commissionAdjustment now shop b delta u text db)"
  by (auto simp: commissionAdjustment_def Let_def intro: payroll_create)

lemma move_tips_ok:
  assumes ok: "payroll_ok db"
  shows "payroll_ok (move_tips i b db)"
proof (rule payroll_kept [OF ok])
  show "counted_entries (move_tips i b db) = counted_entries db"
  proof -
    have "filter (\<lambda>e. pe_payoutId e \<noteq> None) (map (\<lambda>e. if q e \<and> pe_payoutId e = None then e\<lparr>pe_barberId := b\<rparr> else e) es)
      = filter (\<lambda>e. pe_payoutId e \<noteq> None) es" for q es
      by (induction es) auto
    then show ?thesis by (simp add: counted_entries_def move_tips_def Let_def)
  qed
  show "table_ok pe_id (payEntries (move_tips i b db))"
    using ok by (auto simp: move_tips_def Let_def payroll_ok_def intro: entry_tab.ok_update)
qed (simp add: move_tips_def Let_def)

text \<open>The slip of a new payment.\<close>

lemma sum_entries_sort: "sum_entries t (sort_key k es) = sum_entries t es"
proof -
  have "mset (map pe_amount (filter (\<lambda>e. pe_type e = t) (sort_key k es))) = mset (map pe_amount (filter (\<lambda>e. pe_type e = t) es))" by simp
  then have "sum_list (map pe_amount (filter (\<lambda>e. pe_type e = t) (sort_key k es))) = sum_list (map pe_amount (filter (\<lambda>e. pe_type e = t) es))"
    by (metis sum_mset_sum_list)
  then show ?thesis by (simp add: sum_entries_def)
qed

lemma sum_entries_closed: "sum_entries t (map (\<lambda>e. e\<lparr>pe_payoutId := i\<rparr>) es) = sum_entries t es"
  by (simp add: sum_entries_def filter_map o_def)

lemma round2_shift: "whole_cents y \<Longrightarrow> round2 (x + y) = round2 x + y"
proof -
  assume "whole_cents y"
  then obtain n :: int where y: "y = of_int n / 100" by (auto simp: whole_cents_iff)
  have "js_round ((x + y) * 100) = js_round (x * 100) + n"
    unfolding js_round_def y by (simp add: algebra_simps)
  then show ?thesis by (simp add: round2_def y add_divide_distrib)
qed

lemma sum_entries_whole: "whole_cents (sum_entries t es)"
  by (auto simp: sum_entries_def round2_def whole_cents_iff)

lemma pay_total:
  "ya_total (pay_compute db b i s e) = ya_baseAmount (pay_compute db b i s e) + ya_tips (pay_compute db b i s e)
     + ya_bonuses (pay_compute db b i s e) - ya_deductions (pay_compute db b i s e) - ya_advances (pay_compute db b i s e)"
proof -
  have "whole_cents (a + c - d - f)" if "whole_cents a" "whole_cents c" "whole_cents d" "whole_cents f" for a c d f
    using that by (intro whole_cents_add whole_cents_diff)
  note whole = this [OF sum_entries_whole sum_entries_whole sum_entries_whole sum_entries_whole]
  show ?thesis
    unfolding pay_compute_def Let_def pay_sum.simps
    using round2_shift [OF whole] by (simp add: add_diff_eq add.assoc [symmetric] del: round2_shift)
qed

definition close_entries :: "int set \<Rightarrow> int \<Rightarrow> pay_entry list \<Rightarrow> pay_entry list" where
  "close_entries ids n = map (\<lambda>e. if pe_id e \<in> ids \<and> pe_payoutId e = None then e\<lparr>pe_payoutId := Some n\<rparr> else e)"

lemma closed_other: "i \<noteq> n \<Longrightarrow> entries_of (close_entries ids n es) i = entries_of es i"
  unfolding entries_of_def close_entries_def by (induction es) auto

lemma closed_own:
  assumes "\<forall>e \<in> set es. pe_payoutId e \<noteq> Some n"
  shows "entries_of (close_entries ids n es) n
    = map (\<lambda>e. e\<lparr>pe_payoutId := Some n\<rparr>) (filter (\<lambda>e. pe_id e \<in> ids \<and> pe_payoutId e = None) es)"
  using assms unfolding entries_of_def close_entries_def by (induction es) auto

lemma pay_entries_fresh: "payroll_ok db \<Longrightarrow> e \<in> set (rows (payEntries db)) \<Longrightarrow> pe_payoutId e \<noteq> Some (seq (payouts db))"
proof
  assume ok: "payroll_ok db" and e: "e \<in> set (rows (payEntries db))" "pe_payoutId e = Some (seq (payouts db))"
  then have "\<exists>p \<in> set (rows (payouts db)). po_id p = seq (payouts db)" by (simp add: payroll_ok_def)
  with ok show False by (auto simp: payroll_ok_def table_ok_def)
qed

lemma counted_rows:
  assumes ok: "payroll_ok db" and es: "es = find_many (open_entry shop b end') (payEntries db)"
  shows "filter (\<lambda>e. pe_id e \<in> set (map pe_id (sort_key pe_date es)) \<and> pe_payoutId e = None) (rows (payEntries db)) = es"
proof -
  have "pe_id e \<in> pe_id ` set es \<and> pe_payoutId e = None \<longleftrightarrow> open_entry shop b end' e" if e: "e \<in> set (rows (payEntries db))" for e
  proof
    assume "pe_id e \<in> pe_id ` set es \<and> pe_payoutId e = None"
    then obtain x where x: "x \<in> set (rows (payEntries db))" "open_entry shop b end' x" "pe_id x = pe_id e" by (auto simp: es)
    have "x = e" using ok entry_tab.key_inj [OF _ x(1) e x(3)] by (simp add: payroll_ok_def)
    with x show "open_entry shop b end' e" by simp
  qed (use e in \<open>auto simp: es open_entry_def\<close>)
  then show ?thesis by (auto simp: es find_many_def intro!: filter_cong)
qed

text \<open>The rows after a payment: the entries it counts closed, maybe one carried over, and the new slip.\<close>

definition carried :: "intl \<Rightarrow> int \<Rightarrow> int \<Rightarrow> pay_input \<Rightarrow> pay_order \<Rightarrow> rat \<Rightarrow> int \<Rightarrow> pay_entry list" where
  "carried I u shop d r total' i = (if total' < 0 then [carry_entry I u shop d r total' i] else [])"

lemma pay_rows_entries:
  "rows (payEntries (pay_rows I now u shop d r y db))
    = close_entries (set (map pe_id (ya_entries y))) (seq (payouts db)) (rows (payEntries db))
      @ carried I u shop d r (ya_total y) (seq (payEntries db))"
  by (simp add: pay_rows_def Let_def close_entries_def carried_def)

lemma pay_rows_payouts:
  "\<exists>p. payouts (pay_rows I now u shop d r y db) = create_row (\<lambda>_. p) (payouts db) \<and> po_id p = seq (payouts db)
    \<and> po_barberId p = yi_barberId d \<and> po_periodStart p = yo_start r \<and> po_periodEnd p = yo_end r \<and> po_tips p = ya_tips y
    \<and> po_bonuses p = ya_bonuses y \<and> po_deductions p = ya_deductions y \<and> po_advances p = ya_advances y
    \<and> po_baseAmount p = ya_baseAmount y \<and> po_total p = max 0 (ya_total y)"
  unfolding pay_rows_def Let_def
  by (rule exI [of _ "new_payout now u shop d r y _ _ (seq (payouts db))"])
    (simp add: new_payout_def create_row_def max.commute)

lemma carried_open: "e \<in> set (carried I u shop d r t i) \<Longrightarrow> pe_payoutId e = None"
  by (auto simp: carried_def carry_entry_def split: if_splits)

lemma pay_slips:
  assumes ok: "payroll_ok db" and y: "y = pay_compute db shop b s e"
  defines "es \<equiv> find_many (open_entry shop b e) (payEntries db)"
  shows "entries_of (rows (payEntries (pay_rows I now u shop d r y db))) i
    = (if i = seq (payouts db) then map (\<lambda>x. x\<lparr>pe_payoutId := Some i\<rparr>) es else entries_of (rows (payEntries db)) i)"
proof -
  have entries: "ya_entries y = sort_key pe_date es" by (simp add: y pay_compute_def Let_def es_def)
  have "entries_of (carried I u shop d r (ya_total y) k) i = []" for k
    using carried_open by (force simp: entries_of_def filter_empty_conv)
  then have "entries_of (rows (payEntries (pay_rows I now u shop d r y db))) i
    = entries_of (close_entries (set (map pe_id (sort_key pe_date es))) (seq (payouts db)) (rows (payEntries db))) i"
    unfolding pay_rows_entries entries by (simp add: entries_of_def)
  then show ?thesis
    using closed_own [of "rows (payEntries db)" "seq (payouts db)"] pay_entries_fresh [OF ok] counted_rows [OF ok es_def [THEN meta_eq_to_obj_eq]]
    by (simp add: closed_other del: set_map)
qed

lemma pay_entries_ok:
  assumes ok: "payroll_ok db"
  shows "table_ok pe_id (payEntries (pay_rows I now u shop d r y db))"
proof -
  have closed: "table_ok pe_id (update_many q (\<lambda>e. e\<lparr>pe_payoutId := v\<rparr>) (payEntries db))" for q v
    using ok by (auto simp: payroll_ok_def intro: entry_tab.ok_update)
  then show ?thesis by (auto simp: pay_rows_def Let_def carry_entry_def intro: entry_tab.ok_create)
qed

lemma slip_cong: "entries_of es' (po_id p) = entries_of es (po_id p) \<Longrightarrow> slip_true es' p = slip_true es p"
  by (simp add: slip_true_def)

lemma pay_ok:
  assumes ok: "payroll_ok db" and paid: "pay_write I now u shop d r db = Inr db'"
  shows "payroll_ok db'"
proof -
  define y where "y = pay_compute db shop (yi_barberId d) (yo_start r) (yo_end r)"
  have free: "find_first (meets (yi_barberId d) (yo_start r) (yo_end r)) (payouts db) = None"
    and db': "db' = pay_rows I now u shop d r y db"
    using paid by (auto simp: pay_write_def y_def split: option.splits)
  obtain p where p: "payouts db' = create_row (\<lambda>_. p) (payouts db)" "po_id p = seq (payouts db)" "po_barberId p = yi_barberId d"
      "po_periodStart p = yo_start r" "po_periodEnd p = yo_end r"
      "po_tips p = ya_tips y" "po_bonuses p = ya_bonuses y" "po_deductions p = ya_deductions y" "po_advances p = ya_advances y"
      "po_baseAmount p = ya_baseAmount y" "po_total p = max 0 (ya_total y)"
    using pay_rows_payouts [of I now u shop d r y db] unfolding db' by blast
  note slips = pay_slips [OF ok y_def, of I now u d r, folded db']
  note old = ok [unfolded payroll_ok_def]
  have "po_id q \<noteq> seq (payouts db)" if "q \<in> set (rows (payouts db))" for q using old that by (auto simp: table_ok_def)
  then have "\<forall>q \<in> set (rows (payouts db)). slip_true (rows (payEntries db')) q" using old by (simp add: slip_true_def slips)
  moreover have "slip_true (rows (payEntries db')) p"
    using pay_total [of db shop "yi_barberId d" "yo_start r" "yo_end r"]
    by (simp add: slip_true_def slips p(2,6-) sum_entries_closed y_def)
      (simp add: pay_compute_def Let_def sum_entries_sort)
  moreover have "\<forall>q \<in> set (rows (payouts db)). apart p q \<and> apart q p"
    using free by (auto simp: find_first_None meets_def apart_def p(3-5) not_le)
  moreover have "table_ok po_id (payouts db')" unfolding p(1) using old p(2) by (intro payout_tab.ok_create) simp_all
  moreover have "\<forall>e \<in> set (rows (payEntries db')). \<forall>i. pe_payoutId e = Some i \<longrightarrow> (\<exists>q \<in> set (rows (payouts db')). po_id q = i)"
  proof (intro ballI allI impI)
    fix e i assume e: "e \<in> set (rows (payEntries db'))" "pe_payoutId e = Some i"
    show "\<exists>q \<in> set (rows (payouts db')). po_id q = i"
    proof (cases "i = seq (payouts db)")
      case False
      from e have "e \<in> set (entries_of (rows (payEntries db')) i)" by (simp add: entries_of_def)
      with False slips [of i] have "e \<in> set (entries_of (rows (payEntries db)) i)" by simp
      then have "e \<in> set (rows (payEntries db))" by (simp add: entries_of_def)
      with e(2) old show ?thesis by (auto simp: p(1))
    qed (simp add: p(1,2))
  qed
  ultimately show ?thesis using old pay_entries_ok [OF ok, of I now u shop d r y] p(1,2)
    by (auto simp: payroll_ok_def db' [symmetric])
qed

lemma reopened_other: "j \<noteq> i \<Longrightarrow> entries_of (map (\<lambda>e. if pe_payoutId e = Some i then e\<lparr>pe_payoutId := None\<rparr> else e) es) j = entries_of es j"
  unfolding entries_of_def by (induction es) auto

lemma reopened_own: "e \<in> set (map (\<lambda>e. if pe_payoutId e = Some i then e\<lparr>pe_payoutId := None\<rparr> else e) es) \<Longrightarrow> pe_payoutId e \<noteq> Some i"
  by auto

lemma reopen_ok:
  assumes ok: "payroll_ok db"
    and entries: "payEntries db' = update_many (\<lambda>e. pe_payoutId e = Some i) (\<lambda>e. e\<lparr>pe_payoutId := None\<rparr>) (payEntries db)"
    and slips: "payouts db' = delete_many (\<lambda>x. po_id x = i) (payouts db)"
  shows "payroll_ok db'"
proof -
  note old = ok [unfolded payroll_ok_def]
  have "table_ok pe_id (payEntries db')" unfolding entries using old by (auto intro: entry_tab.ok_update)
  moreover have "table_ok po_id (payouts db')" unfolding slips using old by (simp add: payout_tab.ok_delete)
  moreover have "\<forall>p \<in> set (rows (payouts db')). slip_true (rows (payEntries db')) p"
    using old by (auto simp: slips entries reopened_other cong: slip_cong)
  moreover have "\<exists>p \<in> set (rows (payouts db')). po_id p = j"
    if "e \<in> set (rows (payEntries db'))" "pe_payoutId e = Some j" for e j
  proof -
    from that have "e \<in> set (rows (payEntries db))" "j \<noteq> i" by (auto simp: entries split: if_splits)
    with that(2) old have "\<exists>p \<in> set (rows (payouts db)). po_id p = j" by simp
    with \<open>j \<noteq> i\<close> show ?thesis by (auto simp: slips)
  qed
  ultimately show ?thesis using old by (simp add: payroll_ok_def slips)
qed

lemma undo_pay_ok:
  assumes ok: "payroll_ok db" and undone: "undoPayout now u shop i db = Inr db'"
  shows "payroll_ok db'"
proof -
  obtain p where carry: "\<And>e. truthy (po_carryOverEntryId p) \<Longrightarrow>
      find_first (\<lambda>e. Some (pe_id e) = po_carryOverEntryId p) (payEntries db) = Some e \<Longrightarrow> \<not> truthy (pe_payoutId e)"
    and wrote: "undo_pay_write p db = Inr db'"
    using undone by (auto simp: undoPayout_def undo_pay_read_def bindE_eq_Inr split: option.splits if_splits)
  define kept where "kept = (if truthy (po_carryOverEntryId p)
    then db\<lparr>payEntries := delete_many (\<lambda>e. Some (pe_id e) = po_carryOverEntryId p) (payEntries db)\<rparr> else db)"
  have none: "pe_payoutId e = None" if e: "e \<in> set (rows (payEntries db))" "Some (pe_id e) = po_carryOverEntryId p" "truthy (po_carryOverEntryId p)" for e
  proof -
    have "find_first (\<lambda>x. Some (pe_id x) = po_carryOverEntryId p) (payEntries db) = Some e"
      using entry_tab.find_by_key [OF _ e(1)] ok e(2) by (simp add: payroll_ok_def flip: e(2))
    from carry [OF e(3) this] show ?thesis by (rule not_counted [OF ok e(1)])
  qed
  have "payroll_ok (db\<lparr>payEntries := delete_many (\<lambda>e. Some (pe_id e) = po_carryOverEntryId p) (payEntries db)\<rparr>)"
    if "truthy (po_carryOverEntryId p)"
  proof (rule payroll_delete [OF ok, of _ "\<lambda>e. Some (pe_id e) = po_carryOverEntryId p"])
    show "pe_payoutId e = None" if "e \<in> set (rows (payEntries db))" "Some (pe_id e) = po_carryOverEntryId p" for e
      using none that \<open>truthy (po_carryOverEntryId p)\<close> by blast
  qed simp_all
  with ok have "payroll_ok kept" by (simp add: kept_def)
  then show ?thesis
    by (rule reopen_ok [where i = "po_id p"]) (use wrote in \<open>auto simp: undo_pay_write_def bindE_eq_Inr Let_def kept_def\<close>)
qed

section \<open>Any sequence of operations\<close>

text \<open>
  The pay of the team, the corrections a changed sale makes, the tips that follow an appointment to another professional, and any
  other operation, which touches neither payments nor entries. A payment writes later than it reads.
\<close>

inductive pay_step :: "payroll_db \<Rightarrow> payroll_db \<Rightarrow> bool" where
  config: "setConfig now u shop b t f p db = Inr db' \<Longrightarrow> pay_step db db'"
| add: "addEntry I now u shop d db = Inr db' \<Longrightarrow> pay_step db db'"
| remove: "deleteEntry now u shop i db = Inr db' \<Longrightarrow> pay_step db db'"
| pay: "pay_read I now u shop d (db0 :: payroll_db) = Inr r \<Longrightarrow> pay_write I now u shop d r db = Inr db' \<Longrightarrow> pay_step db db'"
| undo: "undoPayout now u shop i db = Inr db' \<Longrightarrow> pay_step db db'"
| adjust: "pay_step db (commissionAdjustment now shop b delta u text db)"
| move: "pay_step db (move_tips i b db)"
| other: "payouts db' = payouts db \<Longrightarrow> payEntries db' = payEntries db \<Longrightarrow> pay_step db db'"

lemma pay_step_ok: "pay_step db db' \<Longrightarrow> payroll_ok db \<Longrightarrow> payroll_ok db'"
  by (induction rule: pay_step.induct)
    (blast intro: config_ok add_entry_ok delete_entry_ok pay_ok undo_pay_ok adjustment_ok move_tips_ok payroll_same)+

lemma pay_steps_ok: "pay_step\<^sup>*\<^sup>* db db' \<Longrightarrow> payroll_ok db \<Longrightarrow> payroll_ok db'"
  by (induction rule: rtranclp_induct) (blast intro: pay_step_ok)+


section \<open>Undoing a payment\<close>

lemma reopen_closed:
  assumes "\<forall>e \<in> set es. pe_payoutId e \<noteq> Some n"
  shows "map (\<lambda>e. if pe_payoutId e = Some n then e\<lparr>pe_payoutId := None\<rparr> else e) (close_entries ids n es) = es"
  using assms unfolding close_entries_def by (induction es) auto

lemma find_created:
  assumes "\<forall>r \<in> set (rows t). \<not> p r" and "p (mk (seq t))"
  shows "find_first p (create_row mk t) = Some (mk (seq t))"
proof -
  have "\<forall>r \<in> set rs. \<not> p r \<Longrightarrow> find p (rs @ [mk (seq t)]) = Some (mk (seq t))" for rs using assms(2) by (induction rs) auto
  with assms(1) show ?thesis by (simp add: find_first_def)
qed

lemma below_seq: "table_ok key t \<Longrightarrow> r \<in> set (rows t) \<Longrightarrow> key r \<noteq> seq t"
  by (auto simp: table_ok_def)

lemma filter_all: "\<forall>x \<in> set xs. P x \<Longrightarrow> filter P xs = xs"
  by simp

lemma undo_of_rows:
  assumes ok: "payroll_ok db" and expenses: "table_ok ex_id (expenses db)" "0 < seq (expenses db)" "0 < seq (payEntries db)"
    and y: "y = pay_compute db shop (yi_barberId d) (yo_start r) (yo_end r)"
    and undone: "undo_pay_write p (pay_rows I now u shop d r y db) = Inr db'"
    and p: "p = new_payout now u shop d r y (if max (ya_total y) 0 > 0 then Some (seq (expenses db)) else None)
      (if ya_total y < 0 then Some (seq (payEntries db)) else None) (seq (payouts db))"
  shows "rows (expenses db') = rows (expenses db)" and "rows (payEntries db') = rows (payEntries db)"
    and "rows (payouts db') = rows (payouts db)"
proof -
  note old = ok [unfolded payroll_ok_def]
  define closed where "closed = close_entries (set (map pe_id (ya_entries y))) (seq (payouts db)) (rows (payEntries db))"
  have ids: "po_id p = seq (payouts db)" "po_expenseId p = (if max (ya_total y) 0 > 0 then Some (seq (expenses db)) else None)"
    "po_carryOverEntryId p = (if ya_total y < 0 then Some (seq (payEntries db)) else None)"
    by (simp_all add: p new_payout_def)
  have reopened: "map (\<lambda>e. if pe_payoutId e = Some (seq (payouts db)) then e\<lparr>pe_payoutId := None\<rparr> else e) closed = rows (payEntries db)"
    unfolding closed_def by (rule reopen_closed) (use pay_entries_fresh [OF ok] in blast)
  have closed_ids: "map pe_id closed = map pe_id (rows (payEntries db))" by (simp add: closed_def close_entries_def)
  have "\<forall>i \<in> set (map pe_id closed). i \<noteq> seq (payEntries db)" unfolding closed_ids using old below_seq by fastforce
  then have kept: "filter (\<lambda>e. pe_id e \<noteq> seq (payEntries db)) closed = closed" by (simp add: filter_all)
  have spent: "filter (\<lambda>x. ex_id x \<noteq> seq (expenses db)) (rows (expenses db)) = rows (expenses db)"
    using below_seq [OF expenses(1)] by (simp add: filter_all)
  have slips: "filter (\<lambda>x. po_id x \<noteq> seq (payouts db)) (rows (payouts db)) = rows (payouts db)"
    using old below_seq [of po_id "payouts db"] by (simp add: filter_all)
  have gone: "rows (payouts (pay_rows I now u shop d r y db)) = rows (payouts db) @ [p]" by (simp add: pay_rows_def Let_def p)
  show "rows (payouts db') = rows (payouts db)"
    using undone by (auto simp: undo_pay_write_def bindE_eq_Inr Let_def gone slips ids(1))
  show "rows (expenses db') = rows (expenses db)"
    using undone expenses(2) by (auto simp: undo_pay_write_def bindE_eq_Inr Let_def delete_expense_def ids truthy_def pay_rows_def
      salary_expense_def spent split: if_splits)
  have "close_entries (pe_id ` set (ya_entries y)) (seq (payouts db)) (rows (payEntries db)) = closed" by (simp add: closed_def)
  then show "rows (payEntries db') = rows (payEntries db)"
    using undone expenses(3) kept reopened
    by (auto simp: undo_pay_write_def bindE_eq_Inr Let_def ids truthy_def pay_rows_entries carried_def carry_entry_def)
qed

lemma access_frame:
  assumes "barbershops db' = barbershops db" and "networks db' = networks db" and "barbers db' = barbers db"
  shows "ensureBarbershopAccess db' now u shop l = ensureBarbershopAccess db now u shop l"
proof -
  have "accessLevelOf db' now u = accessLevelOf db now u" "networkOf db' = networkOf db"
    by (simp_all add: fun_eq_iff accessLevelOf_def owns_shop_def networkOf_def assms)
  then show ?thesis by (simp add: ensureBarbershopAccess_def shopById_def assms cong: option.case_cong if_cong)
qed

lemma pay_rows_staff:
  "barbershops (pay_rows I now u shop d r y db) = barbershops db" "networks (pay_rows I now u shop d r y db) = networks db"
  "barbers (pay_rows I now u shop d r y db) = barbers db" "cashSessions (pay_rows I now u shop d r y db) = cashSessions db"
  by (simp_all add: pay_rows_def Let_def)

text \<open>The undo right after the payment, by the same person, finds nothing to refuse.\<close>

lemma open_cash_kept:
  assumes "table_ok cs_id (cashSessions db)"
  shows "ensureCashStillOpen db (openCashSessionId db shop payMethod) = Inr ()"
proof (cases "openCashSessionId db shop payMethod")
  case (Some i)
  then obtain s where s: "openSession db shop = Some s" "i = cs_id s" by (auto simp: openCashSessionId_def split: if_splits)
  from find_first_Some [OF s(1) [unfolded openSession_def]] have "s \<in> set (rows (cashSessions db))" "cs_status s = ''OPEN''" by simp_all
  with session_tab.find_by_key [OF assms] have "find_first (\<lambda>x. cs_id x = i) (cashSessions db) = Some s" by (simp add: s(2))
  with \<open>cs_status s = ''OPEN''\<close> show ?thesis by (simp add: ensureCashStillOpen_def Some)
qed (simp add: ensureCashStillOpen_def truthy_def)

lemma carry_found:
  assumes ok: "payroll_ok db" and "ya_total y < 0"
  shows "\<exists>e. find_first (\<lambda>e. pe_id e = seq (payEntries db)) (payEntries (pay_rows I now u shop d r y db)) = Some e \<and> pe_payoutId e = None"
proof -
  define t where "t = update_many (\<lambda>e. pe_id e \<in> set (map pe_id (ya_entries y)) \<and> pe_payoutId e = None)
    (\<lambda>e. e\<lparr>pe_payoutId := Some (seq (payouts db))\<rparr>) (payEntries db)"
  have "\<forall>e \<in> set (rows t). pe_id e \<noteq> seq t"
    using ok below_seq [of pe_id "payEntries db"] by (auto simp: t_def payroll_ok_def)
  then have "find_first (\<lambda>e. pe_id e = seq (payEntries db)) (create_row (carry_entry I u shop d r (ya_total y)) t)
    = Some (carry_entry I u shop d r (ya_total y) (seq t))"
    by (intro find_created) (simp_all add: t_def carry_entry_def)
  moreover have "payEntries (pay_rows I now u shop d r y db) = create_row (carry_entry I u shop d r (ya_total y)) t"
    using assms(2) by (simp add: pay_rows_def Let_def t_def)
  ultimately show ?thesis by (simp add: carry_entry_def)
qed

lemma slip_found:
  assumes "payroll_ok db"
  shows "find_first (\<lambda>p. po_id p = seq (payouts db) \<and> po_barbershopId p = shop) (payouts (pay_rows I now u shop d r y db))
    = Some (new_payout now u shop d r y (if max (ya_total y) 0 > 0 then Some (seq (expenses db)) else None)
        (if ya_total y < 0 then Some (seq (payEntries db)) else None) (seq (payouts db)))"
proof -
  have "payouts (pay_rows I now u shop d r y db) = create_row (new_payout now u shop d r y (if max (ya_total y) 0 > 0 then Some (seq (expenses db)) else None)
    (if ya_total y < 0 then Some (seq (payEntries db)) else None)) (payouts db)" by (simp add: pay_rows_def Let_def)
  moreover have "\<forall>p \<in> set (rows (payouts db)). po_id p \<noteq> seq (payouts db)"
    using assms below_seq [of po_id "payouts db"] by (simp add: payroll_ok_def)
  ultimately show ?thesis by (simp add: find_created new_payout_def)
qed

text \<open>
  C39. A payment of the team that is undone right away, by the same person, leaves no trace: the undo is never refused, and afterwards
  the expenses, the entries and the payments are the rows there were before, with every entry open again.
\<close>

theorem payment_undone:
  assumes "payroll_ok db" and "table_ok cs_id (cashSessions db)" and "table_ok ex_id (expenses db)"
    and "0 < seq (expenses db)" and "0 < seq (payEntries db)" and "pay I now u shop d db = Inr db1"
  shows "\<exists>db2. undoPayout now u shop (seq (payouts db)) db1 = Inr db2 \<and> rows (expenses db2) = rows (expenses db)
    \<and> rows (payEntries db2) = rows (payEntries db) \<and> rows (payouts db2) = rows (payouts db)"
proof -
  obtain r where r: "pay_read I now u shop d db = Inr r" and w: "pay_write I now u shop d r db = Inr db1"
    using assms(6) by (auto simp: pay_def bindE_eq_Inr)
  define y where "y = pay_compute db shop (yi_barberId d) (yo_start r) (yo_end r)"
  define p where "p = new_payout now u shop d r y (if max (ya_total y) 0 > 0 then Some (seq (expenses db)) else None)
    (if ya_total y < 0 then Some (seq (payEntries db)) else None) (seq (payouts db))"
  have db1: "db1 = pay_rows I now u shop d r y db" using w by (simp add: pay_write_def y_def split: option.splits)
  note found = slip_found [OF assms(1), of shop I now u d r y, folded p_def db1]
  from r obtain a b where access: "ensureBarbershopAccess db now u shop Manager = Inr a" "barberOf db shop (yi_barberId d) = Inr b"
    "ensureNotOwnPay a u b = Inr ()" "yo_cashSessionId r = openCashSessionId db shop (Some (yi_method d))"
    by (auto simp: pay_read_def bindE_eq_Inr)
  have "ensureCashStillOpen db1 (po_cashSessionId p) = Inr ()"
    using open_cash_kept [OF assms(2), of shop "Some (yi_method d)"]
    by (simp add: p_def new_payout_def access(4) db1 ensureCashStillOpen_def pay_rows_staff truthy_def)
  moreover have "\<not> (truthy (po_carryOverEntryId p) \<and> (case find_first (\<lambda>e. Some (pe_id e) = po_carryOverEntryId p) (payEntries db1) of
      None \<Rightarrow> False | Some e \<Rightarrow> truthy (pe_payoutId e)))"
    using carry_found [OF assms(1), of y I now u shop d r] by (auto simp: p_def new_payout_def truthy_def db1)
  moreover have "ensureBarbershopAccess db1 now u shop Manager = Inr a" "barberOf db1 shop (po_barberId p) = Inr b"
    using access(1,2) access_frame [of db1 db] by (simp_all add: db1 pay_rows_staff barberOf_def p_def new_payout_def)
  ultimately have "undo_pay_read now u shop (seq (payouts db)) db1 = Inr p"
    using access(3) by (simp add: undo_pay_read_def found bindE_throwIf)
  moreover have "find_first (\<lambda>x. po_id x = po_id p) (payouts db1) \<noteq> None"
    using find_first_Some [OF found] by (auto simp: find_first_None)
  then obtain db2 where db2: "undo_pay_write p db1 = Inr db2" by (auto simp: undo_pay_write_def Let_def)
  ultimately show ?thesis
    using undo_of_rows [OF assms(1,3,4,5) y_def db2 [unfolded db1] p_def] by (auto simp: undoPayout_def)
qed

section \<open>The pay at concrete inputs\<close>

text \<open>Barber 11 earns 3000 a month; on the first of April the owner pays March, after an advance of 200.\<close>

definition april_1 :: int where "april_1 = 1775044800000"

definition sample_team :: payroll_db where
  "sample_team = sale_db.extend sample_till (payroll_db.fields \<lparr>rows = [\<lparr>py_id = 1, py_barberId = 11, py_barbershopId = 7,
     py_payType = ''FIXED'', py_fixedAmount = Some 3000, py_payPeriod = ''MONTHLY''\<rparr>], seq = 2\<rparr>)"

definition advance_200 :: entry_input where
  "advance_200 = \<lparr>ei_barberId = 11, ei_type = ''ADVANCE'', ei_amount = 200, ei_method = Some ''PIX'', ei_date = None, ei_notes = None\<rparr>"

definition march :: pay_input where
  "march = \<lparr>yi_barberId = 11, yi_from = ''2026-03-01'', yi_to = ''2026-03-31'', yi_method = ''PIX'', yi_notes = None\<rparr>"

definition march_9 :: int where "march_9 = 1773057600000"

definition advanced :: payroll_db where
  "advanced = state_or (addEntry fixed_zone march_9 1 7 advance_200 sample_team) sample_team"

definition march_paid :: payroll_db where "march_paid = state_or (pay fixed_zone april_1 1 7 march advanced) advanced"

lemma advance_made: "is_ok (addEntry fixed_zone march_9 1 7 advance_200 sample_team)"
  by code_simp

text \<open>The payment, and the deletion of the advance that was read before it.\<close>

lemma march_evaluated:
  "(case pay fixed_zone april_1 1 7 march advanced of Inl _ \<Rightarrow> False | Inr db \<Rightarrow>
     map (\<lambda>p. (po_advances p, po_total p)) (rows (payouts db)) = [(200, 2800)]
     \<and> (case entry_delete_read april_1 1 7 1 advanced of Inl _ \<Rightarrow> False | Inr e \<Rightarrow>
          case entry_delete_write e db of Inl _ \<Rightarrow> False | Inr db' \<Rightarrow>
            map po_advances (rows (payouts db')) = [200] \<and> rows (payEntries db') = [] \<and> map ex_amount (rows (expenses db')) = [2800]))"
  by code_simp

lemma march_pays: "is_ok (pay fixed_zone april_1 1 7 march advanced)"
  using march_evaluated by (simp add: is_ok_def split: sum.splits)

lemma march_slip: "map (\<lambda>p. (po_advances p, po_total p)) (rows (payouts march_paid)) = [(200, 2800)]"
  using march_evaluated by (simp add: march_paid_def state_or_def split: sum.splits)

lemma team_empty: "payouts sample_team = empty_table" "payEntries sample_team = empty_table"
  by code_simp+

lemma advance_step: "pay_step sample_team advanced"
  unfolding advanced_def by (rule add [OF state_or_ok [OF advance_made]])

lemma march_step: "pay fixed_zone april_1 1 7 march advanced = Inr march_paid"
  unfolding march_paid_def by (rule state_or_ok [OF march_pays])

lemma march_run: "pay_step\<^sup>*\<^sup>* sample_team march_paid"
proof -
  obtain r where "pay_read fixed_zone april_1 1 7 march advanced = Inr r" "pay_write fixed_zone april_1 1 7 march r advanced = Inr march_paid"
    using march_step by (auto simp: pay_def bindE_eq_Inr)
  then have "pay_step advanced march_paid" by (rule pay)
  with advance_step show ?thesis by (meson rtranclp.rtrancl_into_rtrancl r_into_rtranclp)
qed


lemma advanced_ok: "payroll_ok advanced"
  using pay_step_ok [OF advance_step] by (simp add: team_empty payroll_ok_def entry_tab.ok_empty payout_tab.ok_empty)

lemma advanced_tables: "table_ok cs_id (cashSessions advanced)" "table_ok ex_id (expenses advanced)"
  "0 < seq (expenses advanced)" "0 < seq (payEntries advanced)" "seq (payouts advanced) = 1"
  by code_simp+

lemma payment_undone_witness:
  "\<exists>db2. undoPayout april_1 1 7 1 march_paid = Inr db2 \<and> rows (expenses db2) = rows (expenses advanced)
    \<and> rows (payEntries db2) = rows (payEntries advanced) \<and> rows (payouts db2) = rows (payouts advanced)"
  using payment_undone [OF advanced_ok advanced_tables(1-4) march_step] by (simp add: advanced_tables(5))

definition sample_access :: shop_access where
  "sample_access = (case ensureBarbershopAccess sample_team april_1 1 7 Manager of Inl _ \<Rightarrow> undefined | Inr shop \<Rightarrow> shop)"

lemma march_days: "iso_date 20513 = ''2026-03-01''" "iso_date 20543 = ''2026-03-31''" "inner_day 20513" "inner_day 20544"
  by code_simp+

lemma march_range: "pay_range fixed_zone sample_access ''2026-03-01'' ''2026-03-31'' = Inr (20513 * day_ms + 10800000, 20544 * day_ms + 10799999)"
  by code_simp

lemma fixed_offset: "settled_offset fixed_zone z t = - 10800000"
  by (simp add: settled_offset_def fixed_zone_def)

lemma monthly_share_by_day_witness:
  "periodShare (20513 * day_ms + 10800000) (20544 * day_ms + 10799999) ''MONTHLY''
      = (\<Sum>n = 20513..20543. case civil_of_day n of (y, m, d) \<Rightarrow> 1 / of_int (month_len y m))
    \<and> periodShare (20513 * day_ms + 10800000) (20544 * day_ms + 10799999) ''MONTHLY'' = 1"
proof
  have near: "zone_near fixed_zone (shop_zone fixed_zone sample_access)" by (simp add: zone_near_def zone_ok_def fixed_zone_def)
  have dates: "pay_range fixed_zone sample_access (iso_date 20513) (iso_date 20543)
    = Inr (20513 * day_ms + 10800000, 20544 * day_ms + 10799999)" by (simp only: march_days march_range)
  have off: "\<bar>settled_offset fixed_zone z t\<bar> < day_ms div 2" for z t by (subst fixed_offset) simp
  have next_day: "inner_day (20543 + 1)" using march_days(4) by simp
  show "periodShare (20513 * day_ms + 10800000) (20544 * day_ms + 10799999) ''MONTHLY''
      = (\<Sum>n = 20513..20543. case civil_of_day n of (y, m, d) \<Rightarrow> 1 / of_int (month_len y m))"
    by (rule monthly_share_by_day [OF dates near march_days(3) next_day off off])
  show "periodShare (20513 * day_ms + 10800000) (20544 * day_ms + 10799999) ''MONTHLY'' = 1" by code_simp
qed

section \<open>Two defects\<close>

text \<open>
  Twelve hours ahead of universal time, noon before the end of a day is the end of the day before: the whole of March is worth thirty of
  its thirty-one days, and a single day nothing.
\<close>

definition far_zone :: intl where
  "far_zone = \<lparr>zoneKnown = (\<lambda>z. True), zoneOffset = (\<lambda>z t. 43200000)\<rparr>"

theorem day_lost_far_east:
  "pay_range far_zone sample_access ''2026-03-01'' ''2026-03-31'' = Inr (20513 * day_ms - 43200000, 20544 * day_ms - 43200001)
    \<and> periodShare (20513 * day_ms - 43200000) (20544 * day_ms - 43200001) ''MONTHLY'' = 30 / 31
    \<and> periodShare (20513 * day_ms - 43200000) (20514 * day_ms - 43200001) ''MONTHLY'' = 0"
  by (intro conjI; code_simp)

text \<open>
  The deletion of an entry looks whether a payment counted it before its transaction, which does not look again: a payment in between
  takes the advance off the pay, and then the advance and its expense are gone.
\<close>

theorem deleted_entry_stays_counted:
  "(case entry_delete_read april_1 1 7 1 advanced of Inl _ \<Rightarrow> False | Inr e \<Rightarrow>
     case pay fixed_zone april_1 1 7 march advanced of Inl _ \<Rightarrow> False | Inr db \<Rightarrow>
     case entry_delete_write e db of Inl _ \<Rightarrow> False | Inr db' \<Rightarrow>
       map po_advances (rows (payouts db')) = [200] \<and> rows (payEntries db') = [] \<and> map ex_amount (rows (expenses db')) = [2800])"
  using march_evaluated by (auto split: sum.splits)

end
