(* ===== verification/Spec2Isabelle.thy ===== *)
theory Spec2Isabelle
  imports Schedules Money Solo Shop_Data Refunds Deposits Booking Walk_Ins Cash_Desk Approvals Sale_Laws Payroll_Laws
begin

text \<open>
  Verification development of the back end of a product that manages barbershops: a NestJS service over a PostgreSQL
  database (Prisma), most of it in \<open>src/src/barbershop/barbershop.service.ts\<close>.

  \<^bold>\<open>The program.\<close> A shop belongs to a network of one owner. Its people have a level of access and a plan limits
  modules and seats. Customers book on a public page or are booked by the team; an appointment has a professional, maybe a room,
  and maybe a deposit paid online. The counter charges: a sale is paid with money, a deposit, a payment in the app, a gift
  card, points, a session of a package or of the club, and moves stock, commissions and the cash desk. Almost every operation
  is a check of access, a sequence of reads, and one transaction.

  \<^bold>\<open>How it is modelled.\<close> The database is a record of tables (\<open>Base.table\<close>: rows with the next id). Each component
  extends the record of the one below, so an operation is polymorphic in what comes above: \<open>staff_db\<close> (users, networks, shops,
  team), \<open>agenda_db\<close> (services, shifts, closures, days off, appointments), \<open>solo_db\<close> (sales, referrals of months), \<open>shop_db\<close>
  (rooms, products, cash, expenses, fees, tips, pay), \<open>approval_db\<close>, \<open>session_db\<close> (packages and club), \<open>stock_db\<close>, \<open>gift_db\<close>,
  \<open>commission_db\<close>, \<open>sale_db\<close>, \<open>payroll_db\<close>. An operation takes the clock, the ids of the caller and its arguments and gives
  \<open>http_error + result\<close>; every exception of the source is an \<open>Inl\<close> with its kind and message, without accents. A transaction that
  throws leaves the database as it was. What an operation reads before its transaction is a definition of its own where
  another request can come in between (\<open>update_request\<close>, \<open>walk_in_read\<close>, \<open>prepay_read\<close>, \<open>undo_checks\<close>, \<open>sale_prepare\<close>,
  \<open>sale_delete_read\<close>, \<open>pay_read\<close>), and the step relations let it.

  Parameters: the offset of a time zone (\<open>intl\<close>), the payment provider (\<open>providers\<close>, \<open>retrieve\<close>, \<open>cancel\<close>, the prices
  of Stripe), the table of countries, random draws, the three actions of the back office. What the theorems need of them is a
  hypothesis of the theorem, shown to hold at a concrete instance by its witness. Amounts are exact rationals where the code
  has binary floating point numbers or decimals; rounding is written out (\<open>round2\<close>, \<open>roundMoney\<close>, \<open>cents\<close>).

  \<^bold>\<open>Theories.\<close>
  \<^item> \<open>Base\<close>: errors, text and number functions of JavaScript, tables with their queries, the locale \<open>row_table\<close> (a table
    whose keys are distinct and below its sequence), interpreted for each table the invariants speak about.
  \<^item> \<open>Civil_Time\<close> (\<open>common/timezone.util.ts\<close>), \<open>Working_Hours\<close> (\<open>working-hours.ts\<close>, \<open>professional.ts\<close>), \<open>Money\<close>
    (\<open>money-units.ts\<close>), \<open>Places\<close> and \<open>Phones\<close> (\<open>place-locale.ts\<close>, \<open>phone.util.ts\<close>): conversions, with their round trips.
  \<^item> \<open>Staff_Access\<close> (\<open>barbershop-plan.constants.ts\<close>, \<open>staff-roles.ts\<close>, the checks of \<open>barbershop.service.ts\<close>): who may do
    what; exactly which links of a person open a shop; the limit of seats. Levels are an instance of \<open>linorder\<close>; the locale
    \<open>gatekeeper\<close> states what a check of access promises to its callers.
  \<^item> \<open>Agenda\<close>, \<open>Schedules\<close> (\<open>schedule.service.ts\<close>): working windows, free slots and the nearest one, shifts, days off
    and weekly hours: the offered slots are exactly the free ones, an offered slot is accepted, shifts of one person stay apart.
  \<^item> \<open>Solo\<close> (\<open>solo.ts\<close>, \<open>pro.ts\<close>, \<open>pro-referral-release.ts\<close>): the monthly quota and the months a referral gives, once.
  \<^item> \<open>Shop_Data\<close>: the remaining tables and the checks of ids of another shop.
  \<^item> \<open>Refunds\<close>, \<open>Deposits\<close> (\<open>deposit-payment.service.ts\<close>): never more is given back than was paid, applying a payment twice
    is applying it once, every overdue hold is settled.
  \<^item> \<open>Booking\<close>: \<open>createAppointment\<close>, \<open>updateAppointment\<close> and their fees; two live appointments never share a person or a room.
  \<^item> \<open>Walk_Ins\<close>, \<open>Cash_Desk\<close>: the queue of the day, and the expected balance of every closed desk.
  \<^item> \<open>Approvals\<close> (\<open>backoffice/approval.service.ts\<close>): an action confirmed by a second person runs at most once.
  \<^item> \<open>Sessions\<close>, \<open>Club\<close> (\<open>stripe.controller.ts\<close> for the invoices): sessions used never exceed what was sold, or the cycle.
  \<^item> \<open>Stock\<close>, \<open>Gift_Cards\<close>, \<open>Commissions\<close>, \<open>Sales\<close>: the till. \<open>Sale_Laws\<close> states the locale \<open>till_laws\<close>, what a property of the
    database must bear (a new sale with its debit, an edit, a removal with what it gives back, a change of cards or of stock),
    proves once that every operation keeps such a property, and interprets it for the balance of gift cards and for the ledger
    of the stock.
  \<^item> \<open>Payroll\<close>, \<open>Payroll_Laws\<close> (\<open>payroll.service.ts\<close>): the pay of the team. The periods paid to one professional never meet,
    every payment is what its entries add up to, an undone payment leaves no trace, and the share of a period counts each day once.

  \<^bold>\<open>What the lemmas show.\<close> Each component has the effect of its operations branch by branch, frame lemmas (what an operation
  leaves alone: \<open>only_frees\<close>, \<open>tills_kept\<close>, \<open>claims_kept\<close>, \<open>till_same\<close>), an invariant, and the preservation by each operation. The
  invariants over any sequence of operations are proved by rule induction on step relations: \<open>shift_step\<close>, \<open>refund_step\<close>,
  \<open>agenda_step\<close>, \<open>queue_step\<close>, \<open>cash_step\<close>, \<open>approval_step\<close>, \<open>email_step\<close>, \<open>package_step\<close>, \<open>club_step\<close>, \<open>sale_step\<close>,
  \<open>pay_step\<close>.
  Lemmas at concrete inputs show the defects the model found (a nearest slot outside the opening hours, a refund lost, an edit
  that books twice, a session given back twice, a deleted gift card that pays again, negative points,
  a day of pay lost far east, an advance deleted under a payment).

  \<^bold>\<open>Bounds and fuel.\<close> \<open>expireHolds\<close> looks at 200 holds per run, as the code; its theorem is for at most 200. The nearest slot
  looks 60 days ahead within the 90 days of the public page. The paging loop \<open>all_pages\<close> has as fuel the number of pages
  and ends whenever the fuel exceeds the number of rows (\<open>all_pages_complete\<close>). \<open>free_code\<close> consumes a list of random draws and
  gives \<open>None\<close> when they run out. The loop over the months of a pay period (\<open>month_shares\<close>) ends because the days
  left after the first of the month get fewer. The other loops are structural.

  \<^bold>\<open>Not modelled.\<close> Accounts and login of the team and of customers, payment of the plans with coupons and invitations, chair
  rent, waiting list, series of appointments, closing a shop and retention of data, reviews, chat, media, job openings, search,
  import of sheets, calendars and the screens of the back office: not reached. Delivery of messages, queues, realtime, object
  store, metrics, backups and the GraphQL layer: input and output around the services. Photos, names of related rows and other
  fields an answer carries only for display are left out of the records.
\<close>

end
